(* ===== verification/Prelude.thy ===== *)
theory Prelude
  imports Main "HOL-Library.Word" "HOL-Library.Finite_Map" "HOL-Library.State_Monad"
    "HOL-Library.List_Lexorder" "HOL-Library.Char_ord"
begin

text \<open>
  What every component of the development shares: the type of a Go string and of a Go map,
  the errors the code inspects, the pieces of \<open>fmt.Sprintf\<close> it uses, Go's signed machine
  integers and durations, and a calculus of weakest preconditions for procedures that thread a
  world through calls.

  A procedure of the program is a value of \<open>('w, 'a) state\<close> (HOL-Library.State_Monad):
  \<open>'w\<close> is the world outside the process (the API server, the metrics registry, the event
  recorder, the clock) and is never inspected by the code, only passed to the calls that act
  on it. \<open>wp m Q w\<close> says that running \<open>m\<close> in world \<open>w\<close> ends with a value and a world that
  satisfy \<open>Q\<close>; since the model is total, every \<open>wp\<close> fact is a total-correctness fact.
\<close>

named_theorems upo_consts \<open>the string constants of the program\<close>
named_theorems wp_simps \<open>weakest preconditions of the control structures\<close>

section \<open>Strings, maps, errors\<close>

text \<open>
  A Go map \<open>map[string]T\<close> is a finite map. A nil map and an empty map are both
  \<^term>\<open>fmempty\<close>: the code only reads, ranges over, measures and overwrites maps, where Go
  gives the two the same meaning.
\<close>

type_synonym labels = "(string, string) fmap"

text \<open>\<open>for k, v := range src { dst[k] = v }\<close>: the keys of a map are distinct, so the order
  of the iteration does not matter and the loop is the right-biased union.\<close>

definition range_set :: "('k, 'v) fmap \<Rightarrow> ('k, 'v) fmap \<Rightarrow> ('k, 'v) fmap" where
  "range_set dst src = dst ++\<^sub>f src"

lemma range_set_lookup [simp]:
  "fmlookup (range_set dst src) k =
     (case fmlookup src k of Some v \<Rightarrow> Some v | None \<Rightarrow> fmlookup dst k)"
  by (auto simp: range_set_def split: option.splits)

lemma range_set_idem [simp]: "range_set (range_set dst src) src = range_set dst src"
  by (rule fmap_ext) (simp split: option.split)

lemma range_set_empty [simp]: "range_set dst fmempty = dst" "range_set fmempty src = src"
  by (simp_all add: range_set_def)

text \<open>\<open>len(m) == 0\<close> of a map that holds an entry.\<close>

lemma fmupd_nonempty [simp]: "fmupd k v m \<noteq> fmempty" "fmempty \<noteq> fmupd k v m"
  by (metis fmempty_lookup fmupd_lookup option.distinct(1))+

text \<open>The entries of a map as a list. Go ranges over a map in an unspecified order; where the code
  does so the model takes the order of the keys, and what it computes does not depend on it.\<close>

definition fm_items :: "(string, 'v) fmap \<Rightarrow> (string \<times> 'v) list" where
  "fm_items m = map (\<lambda>k. (k, the (fmlookup m k))) (sorted_list_of_fset (fmdom m))"

lemma fm_items_set [simp]: "(k, v) \<in> set (fm_items m) \<longleftrightarrow> fmlookup m k = Some v"
  by (force simp: fm_items_def fmlookup_dom_iff image_iff)

lemma fm_items_distinct [simp]: "distinct (map fst (fm_items m))"
  by (simp add: fm_items_def comp_def sorted_list_of_fset.rep_eq)

lemma map_of_fm_items [simp]: "map_of (fm_items m) = fmlookup m"
proof
  fix k
  show "map_of (fm_items m) k = fmlookup m k"
  proof (cases "fmlookup m k")
    case None
    then have "k \<notin> fst ` set (fm_items m)" by (auto simp: image_iff)
    with None show ?thesis by (simp add: map_of_eq_None_iff)
  next
    case (Some v)
    then show ?thesis by (simp add: map_of_eq_Some_iff)
  qed
qed

text \<open>The code asks three things of an error: whether \<open>apierrors.IsNotFound\<close> holds of it,
  whether \<open>meta.IsNoMatchError\<close> does, and its text.\<close>

record go_err =
  IsNotFound :: bool
  IsNoMatch :: bool
  Error :: string

definition plain_err :: "string \<Rightarrow> go_err" where
  "plain_err msg = \<lparr>IsNotFound = False, IsNoMatch = False, Error = msg\<rparr>"

text \<open>\<open>fmt.Errorf("...%w", err)\<close>: \<open>IsNotFound\<close> looks through the wrapping.\<close>

definition wrap_err :: "string \<Rightarrow> go_err \<Rightarrow> go_err" where
  "wrap_err prefix e = e\<lparr>Error := prefix @ Error e\<rparr>"

section \<open>The verbs of fmt.Sprintf\<close>

text \<open>The decimal digits of a number that is not negative.\<close>

function digits :: "int \<Rightarrow> string" where
  "digits n = (if n < 10 then [char_of (48 + n)] else digits (n div 10) @ [char_of (48 + n mod 10)])"
  by auto
termination by (relation "measure nat") auto

declare digits.simps [simp del]

text \<open>\<open>%d\<close>.\<close>

definition fmt_d :: "int \<Rightarrow> string" where
  "fmt_d i = (if i < 0 then CHR ''-'' # digits (- i) else digits i)"

text \<open>\<open>%q\<close> (\<open>strconv.Quote\<close>). The escapes of the ASCII range are exact; a byte above it is
  kept, which is what Go does for the bytes of a printable code point.\<close>

definition hex_digit :: "nat \<Rightarrow> char" where
  "hex_digit n = char_of (if n < 10 then 48 + n else 87 + n)"

definition quote_char :: "char \<Rightarrow> string" where
  "quote_char c = (let n = (of_char c :: nat) in
     if n = 34 \<or> n = 92 then [char_of (92::nat), c]
     else if n = 7 then [char_of (92::nat), CHR ''a'']
     else if n = 8 then [char_of (92::nat), CHR ''b'']
     else if n = 12 then [char_of (92::nat), CHR ''f'']
     else if n = 10 then [char_of (92::nat), CHR ''n'']
     else if n = 13 then [char_of (92::nat), CHR ''r'']
     else if n = 9 then [char_of (92::nat), CHR ''t'']
     else if n = 11 then [char_of (92::nat), CHR ''v'']
     else if n < 32 \<or> n = 127 then
       [char_of (92::nat), CHR ''x'', hex_digit (n div 16), hex_digit (n mod 16)]
     else [c])"

definition fmt_q :: "string \<Rightarrow> string" where
  "fmt_q s = [CHR 0x22] @ concat (map quote_char s) @ [CHR 0x22]"

section \<open>Machine integers and durations\<close>

type_synonym int32 = "32 word"
type_synonym int64 = "64 word"

text \<open>\<open>time.Duration\<close> is an int64 number of nanoseconds; its comparisons are signed and its
  product wraps. A \<open>time.Time\<close> is an unbounded number of nanoseconds since the epoch, and
  \<open>Time.Sub\<close> saturates at the bounds of a duration.\<close>

type_synonym Duration = int64
type_synonym Time = int

definition Second :: Duration where "Second = 1000000000"
definition Minute :: Duration where "Minute = 60 * Second"

definition to_dur :: "int \<Rightarrow> Duration" where
  "to_dur i = word_of_int (max (- (2 ^ 63)) (min (2 ^ 63 - 1) i))"

definition time_add :: "Time \<Rightarrow> Duration \<Rightarrow> Time" where
  "time_add t d = t + sint d"

definition time_sub :: "Time \<Rightarrow> Time \<Rightarrow> Duration" where
  "time_sub t u = to_dur (t - u)"

lemma sint_to_dur: "sint (to_dur i) = max (- (2 ^ 63)) (min (2 ^ 63 - 1) i)"
  by (simp add: to_dur_def signed_of_int signed_take_bit_int_eq_self)

lemma sint_time_sub [simp]:
  "- (2 ^ 63) \<le> t - u \<Longrightarrow> t - u < 2 ^ 63 \<Longrightarrow> sint (time_sub t u) = t - u"
  by (simp add: time_sub_def sint_to_dur)

text \<open>\<open>Duration.String\<close>: \<open>fmtFrac\<close> drops the trailing zeros of the fraction.\<close>

fun strip_zeros :: "string \<Rightarrow> string" where
  "strip_zeros [] = []"
| "strip_zeros (c # cs) = (if c = CHR ''0'' then strip_zeros cs else c # cs)"

definition pad_left :: "nat \<Rightarrow> string \<Rightarrow> string" where
  "pad_left n s = replicate (n - length s) (CHR ''0'') @ s"

definition fmt_frac :: "int \<Rightarrow> nat \<Rightarrow> string" where
  "fmt_frac u prec =
     (let f = rev (strip_zeros (rev (pad_left prec (digits (u mod 10 ^ prec)))))
      in digits (u div 10 ^ prec) @ (if f = [] then [] else CHR ''.'' # f))"

definition dur_body :: "int \<Rightarrow> string" where
  "dur_body u =
     (if u = 0 then ''0s''
      else if u < 1000 then digits u @ ''ns''
      else if u < 1000000 then fmt_frac u 3 @ [CHR 0xC2, CHR 0xB5, CHR ''s'']
      else if u < 1000000000 then fmt_frac u 6 @ ''ms''
      else let s = u div 1000000000; m = s div 60; h = m div 60;
               secs = fmt_frac (u mod 60000000000) 9 @ ''s''
           in if m = 0 then secs
              else if h = 0 then digits m @ ''m'' @ secs
              else digits h @ ''h'' @ digits (m mod 60) @ ''m'' @ secs)"

definition dur_string :: "Duration \<Rightarrow> string" where
  "dur_string d =
     (if sint d < 0 then CHR ''-'' # dur_body (- sint d) else dur_body (sint d))"

section \<open>Weakest preconditions\<close>

definition wp :: "('w, 'a) state \<Rightarrow> ('a \<Rightarrow> 'w \<Rightarrow> bool) \<Rightarrow> 'w \<Rightarrow> bool" where
  "wp m Q w = (case run_state m w of (a, w') \<Rightarrow> Q a w')"

lemma wp_run: "run_state m w = (a, w') \<Longrightarrow> wp m Q w = Q a w'"
  by (simp add: wp_def)

text \<open>The equations leave out the world, since a postcondition is a function of it.\<close>

lemma wp_bind [simp, wp_simps]: "wp (m \<bind> f) Q = wp m (\<lambda>a. wp (f a) Q)"
  by (rule ext) (simp add: wp_def State_Monad.bind_def split: prod.split)

lemma wp_return [simp, wp_simps]: "wp (State_Monad.return a) Q = Q a"
  by (rule ext) (simp add: wp_def)

lemma wp_let [simp, wp_simps]: "wp (Let x f) Q = wp (f x) Q"
  by (simp add: Let_def)

lemma wp_if [simp, wp_simps]: "wp (if b then m else n) Q = (if b then wp m Q else wp n Q)"
  by simp

lemma wp_sum [simp, wp_simps]:
  "wp (case r of Inl e \<Rightarrow> m e | Inr x \<Rightarrow> n x) Q =
     (case r of Inl e \<Rightarrow> wp (m e) Q | Inr x \<Rightarrow> wp (n x) Q)"
  by (simp split: sum.split)

lemma wp_option [simp, wp_simps]:
  "wp (case r of None \<Rightarrow> m | Some x \<Rightarrow> n x) Q =
     (case r of None \<Rightarrow> wp m Q | Some x \<Rightarrow> wp (n x) Q)"
  by (simp split: option.split)

lemma wp_prod [simp, wp_simps]:
  "wp (case p of (a, b) \<Rightarrow> m a b) Q = (case p of (a, b) \<Rightarrow> wp (m a b) Q)"
  by (simp split: prod.split)

lemma wp_mono: "wp m Q w \<Longrightarrow> (\<And>a w'. Q a w' \<Longrightarrow> Q' a w') \<Longrightarrow> wp m Q' w"
  by (auto simp: wp_def split: prod.splits)

text \<open>Consequence with one premise per outcome of a fallible call.\<close>

lemma wp_mono_sum:
  assumes "wp m P w" "\<And>x w'. P (Inr x) w' \<Longrightarrow> Q (Inr x) w'" "\<And>e w'. P (Inl e) w' \<Longrightarrow> Q (Inl e) w'"
  shows "wp m Q w"
proof (rule wp_mono [OF assms(1)])
  show "P a w' \<Longrightarrow> Q a w'" for a w' by (cases a) (auto intro: assms(2,3))
qed

lemma wp_mono_sum_pair:
  assumes "wp m P w" "\<And>x y w'. P (Inr x, y) w' \<Longrightarrow> Q (Inr x, y) w'"
    "\<And>e y w'. P (Inl e, y) w' \<Longrightarrow> Q (Inl e, y) w'"
  shows "wp m Q w"
proof (rule wp_mono [OF assms(1)])
  show "P a w' \<Longrightarrow> Q a w'" for a w' by (cases a; cases "fst a") (auto intro: assms(2,3))
qed

lemma wp_mono_option:
  assumes "wp m P w" "\<And>w'. P None w' \<Longrightarrow> Q None w'" "\<And>e w'. P (Some e) w' \<Longrightarrow> Q (Some e) w'"
  shows "wp m Q w"
proof (rule wp_mono [OF assms(1)])
  show "P a w' \<Longrightarrow> Q a w'" for a w' by (cases a) (auto intro: assms(2,3))
qed

lemma wp_mono_option_pair:
  assumes "wp m P w" "\<And>y w'. P (None, y) w' \<Longrightarrow> Q (None, y) w'"
    "\<And>e y w'. P (Some e, y) w' \<Longrightarrow> Q (Some e, y) w'"
  shows "wp m Q w"
proof (rule wp_mono [OF assms(1)])
  show "P a w' \<Longrightarrow> Q a w'" for a w' by (cases a; cases "fst a") (auto intro: assms(2,3))
qed

lemma wp_conj: "wp m Q w \<Longrightarrow> wp m Q' w \<Longrightarrow> wp m (\<lambda>a w'. Q a w' \<and> Q' a w') w"
  by (auto simp: wp_def split: prod.splits)

lemma wp_any: "(\<And>a w'. Q a w') \<Longrightarrow> wp m Q w"
  by (auto simp: wp_def split: prod.splits)

lemma wp_runI: "(\<And>a w'. run_state m w = (a, w') \<Longrightarrow> Q a w') \<Longrightarrow> wp m Q w"
  by (auto simp: wp_def split: prod.splits)

lemma wpD: "wp m Q w \<Longrightarrow> run_state m w = (a, w') \<Longrightarrow> Q a w'"
  by (simp add: wp_def)

end
