(* ===== verification/Labels.thy ===== *)
theory Labels
  imports Prelude
begin

text \<open>
  \<open>internal/platform/labels.go\<close>: the labels stamped onto every resource the operator manages.
\<close>

definition ManagedByLabel :: string where
  [upo_consts]: "ManagedByLabel = ''app.kubernetes.io/managed-by''"
definition ManagedByValue :: string where
  [upo_consts]: "ManagedByValue = ''unified-platform-operator''"
definition TenantLabel :: string where
  [upo_consts]: "TenantLabel = ''platform.upo.io/tenant''"
definition EnvironmentLabel :: string where
  [upo_consts]: "EnvironmentLabel = ''platform.upo.io/environment''"
definition IntegrationLabel :: string where
  [upo_consts]: "IntegrationLabel = ''platform.upo.io/integration''"
definition ComponentLabel :: string where
  [upo_consts]: "ComponentLabel = ''platform.upo.io/component''"
definition PartOfLabel :: string where
  [upo_consts]: "PartOfLabel = ''app.kubernetes.io/part-of''"
definition PartOfValue :: string where
  [upo_consts]: "PartOfValue = ''upo-platform''"

lemmas label_keys = ManagedByLabel_def TenantLabel_def EnvironmentLabel_def IntegrationLabel_def
  ComponentLabel_def PartOfLabel_def

definition BaseLabels :: labels where
  "BaseLabels = fmap_of_list [(ManagedByLabel, ManagedByValue), (PartOfLabel, PartOfValue)]"

definition TenantLabels :: "string \<Rightarrow> string \<Rightarrow> labels \<Rightarrow> labels" where
  "TenantLabels tenant component extra =
     (let out = range_set BaseLabels extra;
          out = fmupd TenantLabel tenant out
      in if component \<noteq> [] then fmupd ComponentLabel component out else out)"

definition MergeLabels :: "labels \<Rightarrow> labels \<Rightarrow> labels" where
  "MergeLabels dst src = range_set (range_set fmempty dst) src"

lemma BaseLabels_lookup:
  "fmlookup BaseLabels k =
     (if k = ManagedByLabel then Some ManagedByValue
      else if k = PartOfLabel then Some PartOfValue else None)"
  by (auto simp: BaseLabels_def fmlookup_of_list)

lemma MergeLabels_lookup [simp]:
  "fmlookup (MergeLabels dst src) k =
     (case fmlookup src k of Some v \<Rightarrow> Some v | None \<Rightarrow> fmlookup dst k)"
  by (simp add: MergeLabels_def)

lemma MergeLabels_eq: "MergeLabels dst src = range_set dst src"
  by (simp add: MergeLabels_def)

lemma MergeLabels_idem [simp]: "MergeLabels (MergeLabels dst src) src = MergeLabels dst src"
  by (simp add: MergeLabels_def)

end
