(* ===== verification/ApiTypes.thy ===== *)
theory ApiTypes
  imports Prelude
begin

text \<open>
  The data of the program: the API types of \<open>api/v1alpha1\<close> (Tenant, Environment, Integration,
  their specs, statuses and constants), and the part of the Kubernetes objects that
  \<open>internal/platform\<close> reads or writes. A Go struct is a record with one field per field of the
  struct, a pointer field is an option, a string-typed enumeration is a string (the code has to
  work on any value, the empty one included) with one constant per declared value.
\<close>

section \<open>Object metadata\<close>

text \<open>The key of a namespaced object is (namespace, name); the namespace of a cluster-scoped
  object is empty. A deletion timestamp that \<open>IsZero\<close> is \<open>None\<close>.\<close>

type_synonym objkey = "string \<times> string"

record OwnerReference =
  or_Kind :: string
  or_Namespace :: string
  or_Name :: string
  or_Controller :: bool

record ObjectMeta =
  om_Name :: string
  om_Namespace :: string
  om_Generation :: int64
  om_CreationTimestamp :: Time
  om_DeletionTimestamp :: "Time option"
  om_Finalizers :: "string list"
  om_Labels :: labels
  om_OwnerReferences :: "OwnerReference list"

definition new_meta :: "string \<Rightarrow> string \<Rightarrow> ObjectMeta" where
  "new_meta ns name = \<lparr>om_Name = name, om_Namespace = ns, om_Generation = 0,
     om_CreationTimestamp = 0, om_DeletionTimestamp = None, om_Finalizers = [],
     om_Labels = fmempty, om_OwnerReferences = []\<rparr>"

definition meta_key :: "ObjectMeta \<Rightarrow> objkey" where
  "meta_key m = (om_Namespace m, om_Name m)"

lemma new_meta_simps [simp]:
  "om_Name (new_meta ns n) = n" "om_Namespace (new_meta ns n) = ns"
  "om_Labels (new_meta ns n) = fmempty" "om_DeletionTimestamp (new_meta ns n) = None"
  "om_Finalizers (new_meta ns n) = []" "om_OwnerReferences (new_meta ns n) = []"
  "meta_key (new_meta ns n) = (ns, n)"
  by (simp_all add: new_meta_def meta_key_def)

lemma meta_key_upd [simp]:
  "meta_key (m\<lparr>om_Labels := l\<rparr>) = meta_key m"
  "meta_key (m\<lparr>om_OwnerReferences := os\<rparr>) = meta_key m"
  "meta_key (m\<lparr>om_Finalizers := fs\<rparr>) = meta_key m"
  "meta_key (m\<lparr>om_DeletionTimestamp := d\<rparr>) = meta_key m"
  by (simp_all add: meta_key_def)

text \<open>A condition of a status (\<open>metav1.Condition\<close>); an unset transition time is \<open>None\<close>.\<close>

datatype ConditionStatus = ConditionTrue | ConditionFalse | ConditionUnknown

record Condition =
  c_Type :: string
  c_Status :: ConditionStatus
  c_ObservedGeneration :: int64
  c_LastTransitionTime :: "Time option"
  c_Reason :: string
  c_Message :: string

text \<open>A resource quantity is a fixed-point number, here its value in units of 1/1000; a resource
  list maps resource names to quantities.\<close>

type_synonym quantity = int
type_synonym ResourceList = "(string, quantity) fmap"

definition ResourcePods :: string where [upo_consts]: "ResourcePods = ''pods''"
definition ResourceRequestsCPU :: string where [upo_consts]: "ResourceRequestsCPU = ''requests.cpu''"
definition ResourceLimitsCPU :: string where [upo_consts]: "ResourceLimitsCPU = ''limits.cpu''"
definition ResourceRequestsMemory :: string where
  [upo_consts]: "ResourceRequestsMemory = ''requests.memory''"
definition ResourceLimitsMemory :: string where
  [upo_consts]: "ResourceLimitsMemory = ''limits.memory''"

section \<open>Shared API types (shared\_types.go)\<close>

definition TenantFinalizer :: string where
  [upo_consts]: "TenantFinalizer = ''platform.upo.io/tenant-protection''"
definition EnvironmentFinalizer :: string where
  [upo_consts]: "EnvironmentFinalizer = ''platform.upo.io/environment-protection''"
definition IntegrationFinalizer :: string where
  [upo_consts]: "IntegrationFinalizer = ''platform.upo.io/integration-protection''"

definition ConditionReady :: string where [upo_consts]: "ConditionReady = ''Ready''"
definition ConditionProgressing :: string where
  [upo_consts]: "ConditionProgressing = ''Progressing''"
definition ConditionDegraded :: string where [upo_consts]: "ConditionDegraded = ''Degraded''"

definition ReasonReconciling :: string where [upo_consts]: "ReasonReconciling = ''Reconciling''"
definition ReasonProvisioned :: string where [upo_consts]: "ReasonProvisioned = ''Provisioned''"
definition ReasonProvisionFailed :: string where
  [upo_consts]: "ReasonProvisionFailed = ''ProvisionFailed''"
definition ReasonDependencyNotMet :: string where
  [upo_consts]: "ReasonDependencyNotMet = ''DependencyNotMet''"
definition ReasonSuspended :: string where [upo_consts]: "ReasonSuspended = ''Suspended''"
definition ReasonTerminating :: string where [upo_consts]: "ReasonTerminating = ''Terminating''"

type_synonym DeletionPolicy = string
definition DeletionPolicyDelete :: DeletionPolicy where
  [upo_consts]: "DeletionPolicyDelete = ''Delete''"
definition DeletionPolicyOrphan :: DeletionPolicy where
  [upo_consts]: "DeletionPolicyOrphan = ''Orphan''"

type_synonym ResourceProfile = string
definition ResourceProfileSmall :: ResourceProfile where
  [upo_consts]: "ResourceProfileSmall = ''small''"
definition ResourceProfileMedium :: ResourceProfile where
  [upo_consts]: "ResourceProfileMedium = ''medium''"
definition ResourceProfileLarge :: ResourceProfile where
  [upo_consts]: "ResourceProfileLarge = ''large''"
definition ResourceProfileXLarge :: ResourceProfile where
  [upo_consts]: "ResourceProfileXLarge = ''xlarge''"

record TenantReference = tr_Name :: string
record SecretReference = sr_Name :: string

record SecretKeySelector =
  sks_Name :: string
  sks_Key :: string
  sks_Optional :: bool

record SubjectReference =
  sub_Kind :: string
  sub_Name :: string
  sub_Namespace :: string

section \<open>Tenant (tenant\_types.go)\<close>

type_synonym TenantTier = string
definition TenantTierFree :: TenantTier where [upo_consts]: "TenantTierFree = ''free''"
definition TenantTierStandard :: TenantTier where [upo_consts]: "TenantTierStandard = ''standard''"
definition TenantTierEnterprise :: TenantTier where
  [upo_consts]: "TenantTierEnterprise = ''enterprise''"

type_synonym NetworkIsolation = string
definition NetworkIsolationNone :: NetworkIsolation where
  [upo_consts]: "NetworkIsolationNone = ''None''"
definition NetworkIsolationBaseline :: NetworkIsolation where
  [upo_consts]: "NetworkIsolationBaseline = ''Baseline''"
definition NetworkIsolationStrict :: NetworkIsolation where
  [upo_consts]: "NetworkIsolationStrict = ''Strict''"

type_synonym TenantPhase = string
definition TenantPhasePending :: TenantPhase where [upo_consts]: "TenantPhasePending = ''Pending''"
definition TenantPhaseProvisioning :: TenantPhase where
  [upo_consts]: "TenantPhaseProvisioning = ''Provisioning''"
definition TenantPhaseActive :: TenantPhase where [upo_consts]: "TenantPhaseActive = ''Active''"
definition TenantPhaseSuspended :: TenantPhase where
  [upo_consts]: "TenantPhaseSuspended = ''Suspended''"
definition TenantPhaseTerminating :: TenantPhase where
  [upo_consts]: "TenantPhaseTerminating = ''Terminating''"
definition TenantPhaseFailed :: TenantPhase where [upo_consts]: "TenantPhaseFailed = ''Failed''"

record TenantQuota = tq_Hard :: ResourceList

record TenantLimits =
  tl_Default :: ResourceList
  tl_DefaultRequest :: ResourceList
  tl_Max :: ResourceList

record LifecyclePolicy =
  lp_Suspended :: bool
  lp_DeletionPolicy :: DeletionPolicy

record TenantSpec =
  ts_DisplayName :: string
  ts_Tier :: TenantTier
  ts_NamespacePrefix :: string
  ts_Quota :: "TenantQuota option"
  ts_Limits :: "TenantLimits option"
  ts_NetworkIsolation :: NetworkIsolation
  ts_Admins :: "SubjectReference list"
  ts_ExtraLabels :: labels
  ts_Lifecycle :: LifecyclePolicy

record TenantStatus =
  tst_Phase :: TenantPhase
  tst_Conditions :: "Condition list"
  tst_ObservedGeneration :: int64
  tst_Namespace :: string
  tst_EnvironmentCount :: int32
  tst_IntegrationCount :: int32
  tst_LastReconcileTime :: "Time option"

record Tenant =
  t_meta :: ObjectMeta
  t_Spec :: TenantSpec
  t_Status :: TenantStatus

section \<open>Environment (environment\_types.go)\<close>

type_synonym EnvironmentType = string
definition EnvironmentTypeDevelopment :: EnvironmentType where
  [upo_consts]: "EnvironmentTypeDevelopment = ''development''"
definition EnvironmentTypeStaging :: EnvironmentType where
  [upo_consts]: "EnvironmentTypeStaging = ''staging''"
definition EnvironmentTypeProduction :: EnvironmentType where
  [upo_consts]: "EnvironmentTypeProduction = ''production''"
definition EnvironmentTypePreview :: EnvironmentType where
  [upo_consts]: "EnvironmentTypePreview = ''preview''"
definition EnvironmentTypeEphemeral :: EnvironmentType where
  [upo_consts]: "EnvironmentTypeEphemeral = ''ephemeral''"

type_synonym GitOpsProvider = string
definition GitOpsProviderNone :: GitOpsProvider where [upo_consts]: "GitOpsProviderNone = ''none''"
definition GitOpsProviderArgoCD :: GitOpsProvider where
  [upo_consts]: "GitOpsProviderArgoCD = ''argocd''"
definition GitOpsProviderFlux :: GitOpsProvider where [upo_consts]: "GitOpsProviderFlux = ''flux''"

type_synonym EnvironmentPhase = string
definition EnvironmentPhasePending :: EnvironmentPhase where
  [upo_consts]: "EnvironmentPhasePending = ''Pending''"
definition EnvironmentPhaseProvisioning :: EnvironmentPhase where
  [upo_consts]: "EnvironmentPhaseProvisioning = ''Provisioning''"
definition EnvironmentPhaseSyncing :: EnvironmentPhase where
  [upo_consts]: "EnvironmentPhaseSyncing = ''Syncing''"
definition EnvironmentPhaseHealthy :: EnvironmentPhase where
  [upo_consts]: "EnvironmentPhaseHealthy = ''Healthy''"
definition EnvironmentPhaseDegraded :: EnvironmentPhase where
  [upo_consts]: "EnvironmentPhaseDegraded = ''Degraded''"
definition EnvironmentPhaseSuspended :: EnvironmentPhase where
  [upo_consts]: "EnvironmentPhaseSuspended = ''Suspended''"
definition EnvironmentPhaseTerminating :: EnvironmentPhase where
  [upo_consts]: "EnvironmentPhaseTerminating = ''Terminating''"
definition EnvironmentPhaseFailed :: EnvironmentPhase where
  [upo_consts]: "EnvironmentPhaseFailed = ''Failed''"

record GitSource =
  gs_RepoURL :: string
  gs_Revision :: string
  gs_Path :: string

record GitOpsConfig =
  go_Provider :: GitOpsProvider
  go_AutoSync :: bool
  go_Prune :: bool

record EnvironmentSpec =
  es_TenantRef :: TenantReference
  es_Type :: EnvironmentType
  es_Profile :: ResourceProfile
  es_Source :: "GitSource option"
  es_GitOps :: GitOpsConfig
  es_TTL :: "Duration option"
  es_Domain :: string
  es_Variables :: "(string, string) fmap"
  es_SecretRefs :: "SecretKeySelector list"
  es_Suspend :: bool

record SyncStatus =
  ss_Revision :: string
  ss_Phase :: string
  ss_LastSyncTime :: "Time option"
  ss_Message :: string

record EnvironmentStatus =
  est_Phase :: EnvironmentPhase
  est_Conditions :: "Condition list"
  est_ObservedGeneration :: int64
  est_TargetNamespace :: string
  est_Sync :: "SyncStatus option"
  est_URL :: string
  est_ExpiresAt :: "Time option"
  est_LastReconcileTime :: "Time option"

record Environment =
  e_meta :: ObjectMeta
  e_Spec :: EnvironmentSpec
  e_Status :: EnvironmentStatus

section \<open>Integration (integration\_types.go)\<close>

type_synonym IntegrationType = string
definition IntegrationTypeWebhook :: IntegrationType where
  [upo_consts]: "IntegrationTypeWebhook = ''webhook''"
definition IntegrationTypeRESTAPI :: IntegrationType where
  [upo_consts]: "IntegrationTypeRESTAPI = ''restapi''"
definition IntegrationTypeOAuth2 :: IntegrationType where
  [upo_consts]: "IntegrationTypeOAuth2 = ''oauth2''"
definition IntegrationTypeDatabase :: IntegrationType where
  [upo_consts]: "IntegrationTypeDatabase = ''database''"
definition IntegrationTypeMessaging :: IntegrationType where
  [upo_consts]: "IntegrationTypeMessaging = ''messaging''"
definition IntegrationTypeObjectStore :: IntegrationType where
  [upo_consts]: "IntegrationTypeObjectStore = ''objectstore''"

type_synonym BackoffStrategy = string
definition BackoffStrategyFixed :: BackoffStrategy where
  [upo_consts]: "BackoffStrategyFixed = ''fixed''"
definition BackoffStrategyExponential :: BackoffStrategy where
  [upo_consts]: "BackoffStrategyExponential = ''exponential''"

type_synonym IntegrationPhase = string
definition IntegrationPhasePending :: IntegrationPhase where
  [upo_consts]: "IntegrationPhasePending = ''Pending''"
definition IntegrationPhaseConnecting :: IntegrationPhase where
  [upo_consts]: "IntegrationPhaseConnecting = ''Connecting''"
definition IntegrationPhaseConnected :: IntegrationPhase where
  [upo_consts]: "IntegrationPhaseConnected = ''Connected''"
definition IntegrationPhaseDegraded :: IntegrationPhase where
  [upo_consts]: "IntegrationPhaseDegraded = ''Degraded''"
definition IntegrationPhaseFailed :: IntegrationPhase where
  [upo_consts]: "IntegrationPhaseFailed = ''Failed''"
definition IntegrationPhaseDisabled :: IntegrationPhase where
  [upo_consts]: "IntegrationPhaseDisabled = ''Disabled''"

record RetryPolicy =
  rp_MaxRetries :: int32
  rp_Backoff :: BackoffStrategy
  rp_InitialDelay :: "Duration option"
  rp_MaxDelay :: "Duration option"

record RateLimit =
  rl_RequestsPerSecond :: int32
  rl_Burst :: int32

record HealthCheck =
  hc_Path :: string
  hc_IntervalSeconds :: int32
  hc_TimeoutSeconds :: int32

record TLSConfig =
  tls_InsecureSkipVerify :: bool
  tls_CASecretRef :: "SecretReference option"

record IntegrationSpec =
  is_TenantRef :: TenantReference
  is_Type :: IntegrationType
  is_Endpoint :: string
  is_AuthSecretRef :: "SecretReference option"
  is_Headers :: "(string, string) fmap"
  is_Events :: "string list"
  is_RetryPolicy :: "RetryPolicy option"
  is_RateLimit :: "RateLimit option"
  is_HealthCheck :: "HealthCheck option"
  is_TLS :: "TLSConfig option"
  is_Suspend :: bool

record IntegrationStatus =
  ist_Phase :: IntegrationPhase
  ist_Conditions :: "Condition list"
  ist_ObservedGeneration :: int64
  ist_ConnectionSecretName :: string
  ist_ObservedEndpoint :: string
  ist_Retries :: int32
  ist_DeliveredEvents :: int64
  ist_FailedEvents :: int64
  ist_LastEventTime :: "Time option"
  ist_LastProbeTime :: "Time option"
  ist_LastError :: string
  ist_LastReconcileTime :: "Time option"

record Integration =
  i_meta :: ObjectMeta
  i_Spec :: IntegrationSpec
  i_Status :: IntegrationStatus

section \<open>Objects of any kind\<close>

text \<open>\<open>runtime.Object\<close> and \<open>client.Object\<close>: the types the code distinguishes by a type assertion
  or a type switch. The argument of \<open>OtherObject\<close> is the type name that \<open>%T\<close> prints.\<close>

datatype RuntimeObject =
    TenantObject Tenant
  | EnvironmentObject Environment
  | IntegrationObject Integration
  | OtherObject string

end
