(* ===== verification/KubeTypes.thy ===== *)
theory KubeTypes
  imports ApiTypes
begin

text \<open>
  The Kubernetes objects that \<open>internal/platform\<close> provisions, with the fields it reads or
  writes. They are types of \<open>k8s.io/api\<close>, so only their shape is modelled here; what the API
  server does with them is a parameter (theory ClusterApi).
\<close>

section \<open>Core objects\<close>

record Namespace = ns_meta :: ObjectMeta

record ResourceQuota =
  rq_meta :: ObjectMeta
  rq_Hard :: ResourceList

record LimitRangeItem =
  lri_Type :: string
  lri_Default :: ResourceList
  lri_DefaultRequest :: ResourceList
  lri_Max :: ResourceList

record LimitRange =
  lr_meta :: ObjectMeta
  lr_Limits :: "LimitRangeItem list"

record ConfigMap =
  cm_meta :: ObjectMeta
  cm_Data :: "(string, string) fmap"

text \<open>The bytes of a secret value are a string of 8-bit characters.\<close>

record Secret =
  sec_meta :: ObjectMeta
  sec_Type :: string
  sec_Data :: "(string, string) fmap"

section \<open>Network policies and role bindings\<close>

record LabelSelector = sel_MatchLabels :: labels

record NetworkPolicyPeer =
  peer_PodSelector :: "LabelSelector option"
  peer_NamespaceSelector :: "LabelSelector option"
  peer_IPBlock :: "string option"

record NetworkPolicyPort =
  npp_Protocol :: "string option"
  npp_Port :: "int option"

record NetworkPolicyIngressRule =
  ir_From :: "NetworkPolicyPeer list"
  ir_Ports :: "NetworkPolicyPort list"

record NetworkPolicyEgressRule =
  er_To :: "NetworkPolicyPeer list"
  er_Ports :: "NetworkPolicyPort list"

record NetworkPolicy =
  np_meta :: ObjectMeta
  np_PodSelector :: LabelSelector
  np_PolicyTypes :: "string list"
  np_Ingress :: "NetworkPolicyIngressRule list"
  np_Egress :: "NetworkPolicyEgressRule list"

record RoleRef =
  rr_APIGroup :: string
  rr_Kind :: string
  rr_Name :: string

record Subject =
  sj_Kind :: string
  sj_APIGroup :: string
  sj_Name :: string
  sj_Namespace :: string

record RoleBinding =
  rb_meta :: ObjectMeta
  rb_RoleRef :: RoleRef
  rb_Subjects :: "Subject list"

section \<open>Unstructured objects\<close>

text \<open>\<open>map[string]interface{}\<close> trees.\<close>

datatype json =
    JNull
  | JBool bool
  | JInt int
  | JStr string
  | JMap "(string \<times> json) list"
  | JList "json list"

record GroupVersionKind =
  gvk_Group :: string
  gvk_Version :: string
  gvk_Kind :: string

text \<open>The name, namespace and labels of an unstructured object live in its metadata; the rest
  of its content, the sections spec and status, is \<open>un_Object\<close>.\<close>

record Unstructured =
  un_GVK :: GroupVersionKind
  un_meta :: ObjectMeta
  un_Object :: json

section \<open>Fresh objects\<close>

text \<open>The composite literals that the provisioning functions start from.\<close>

definition new_Namespace :: "string \<Rightarrow> Namespace" where
  "new_Namespace name = \<lparr>ns_meta = new_meta [] name\<rparr>"

definition new_ResourceQuota :: "string \<Rightarrow> string \<Rightarrow> ResourceQuota" where
  "new_ResourceQuota ns name = \<lparr>rq_meta = new_meta ns name, rq_Hard = fmempty\<rparr>"

definition new_LimitRange :: "string \<Rightarrow> string \<Rightarrow> LimitRange" where
  "new_LimitRange ns name = \<lparr>lr_meta = new_meta ns name, lr_Limits = []\<rparr>"

definition new_ConfigMap :: "string \<Rightarrow> string \<Rightarrow> ConfigMap" where
  "new_ConfigMap ns name = \<lparr>cm_meta = new_meta ns name, cm_Data = fmempty\<rparr>"

definition new_Secret :: "string \<Rightarrow> string \<Rightarrow> Secret" where
  "new_Secret ns name = \<lparr>sec_meta = new_meta ns name, sec_Type = [], sec_Data = fmempty\<rparr>"

definition new_NetworkPolicy :: "string \<Rightarrow> string \<Rightarrow> NetworkPolicy" where
  "new_NetworkPolicy ns name =
     \<lparr>np_meta = new_meta ns name, np_PodSelector = \<lparr>sel_MatchLabels = fmempty\<rparr>,
      np_PolicyTypes = [], np_Ingress = [], np_Egress = []\<rparr>"

definition new_RoleBinding :: "string \<Rightarrow> string \<Rightarrow> RoleBinding" where
  "new_RoleBinding ns name =
     \<lparr>rb_meta = new_meta ns name, rb_RoleRef = \<lparr>rr_APIGroup = [], rr_Kind = [], rr_Name = []\<rparr>,
      rb_Subjects = []\<rparr>"

definition new_Unstructured :: "GroupVersionKind \<Rightarrow> string \<Rightarrow> string \<Rightarrow> Unstructured" where
  "new_Unstructured gvk ns name =
     \<lparr>un_GVK = gvk, un_meta = new_meta ns name, un_Object = JMap []\<rparr>"

lemma new_obj_meta [simp]:
  "ns_meta (new_Namespace n) = new_meta [] n"
  "rq_meta (new_ResourceQuota ns n) = new_meta ns n"
  "lr_meta (new_LimitRange ns n) = new_meta ns n"
  "cm_meta (new_ConfigMap ns n) = new_meta ns n"
  "sec_meta (new_Secret ns n) = new_meta ns n"
  "np_meta (new_NetworkPolicy ns n) = new_meta ns n"
  "rb_meta (new_RoleBinding ns n) = new_meta ns n"
  "un_meta (new_Unstructured g ns n) = new_meta ns n"
  by (simp_all add: new_Namespace_def new_ResourceQuota_def new_LimitRange_def new_ConfigMap_def
      new_Secret_def new_NetworkPolicy_def new_RoleBinding_def new_Unstructured_def)

end
