(* ===== verification/ClusterApi.thy ===== *)
theory ClusterApi
  imports KubeTypes
begin

text \<open>
  Everything the program calls that is not under \<open>src/\<close>: the Kubernetes client and
  \<open>controllerutil\<close> of controller-runtime, \<open>meta\<close>, \<open>resource\<close> and \<open>unstructured\<close> of
  apimachinery, the event recorder, the Prometheus vectors, the clock and the HTTP transport.
  They are the fields of one record \<open>'w api\<close>, an argument of every definition that uses
  them, over an arbitrary type \<open>'w\<close> of worlds: nothing is assumed of them in the definitions.

  The second half states, as named predicates, the documented behaviour that some theorems
  rely on. The predicates speak of a view \<open>V :: 'w \<Rightarrow> obs\<close>, what an observer with read access
  sees of the world: the stored objects, the recorded events and the exported metrics. They
  describe a cluster with no other writer during a reconcile.
\<close>

section \<open>The calls\<close>

datatype OperationResult = ResultNone | ResultCreated | ResultUpdated

text \<open>
  The generic operations of \<open>client.Client\<close> at one kind of object. \<open>CreateOrUpdate\<close>
  (controllerutil) gets the object, applies the mutate closure and creates or updates it;
  like \<open>Update\<close> and \<open>Status().Update\<close> it overwrites the object it is given with the
  server's answer, so these return the object as well. \<open>ListByTenantRef\<close> is \<open>List\<close> with
  \<open>MatchingFields{tenantRefIndexKey: name}\<close>.
\<close>

record ('w, 'x) kclient =
  kc_Get :: "objkey \<Rightarrow> ('w, go_err + 'x) state"
  kc_CreateOrUpdate :: "'x \<Rightarrow> ('x \<Rightarrow> go_err + 'x) \<Rightarrow> ('w, (go_err + OperationResult) \<times> 'x) state"
  kc_Update :: "'x \<Rightarrow> ('w, go_err option \<times> 'x) state"
  kc_StatusUpdate :: "'x \<Rightarrow> ('w, go_err option \<times> 'x) state"
  kc_Delete :: "'x \<Rightarrow> ('w, go_err option) state"
  kc_ListByTenantRef :: "string \<Rightarrow> ('w, go_err + 'x list) state"

text \<open>The object an owner reference or an event is about.\<close>

record ObjectRef =
  ref_Kind :: string
  ref_meta :: ObjectMeta

record HttpRequest =
  hr_Target :: string
  hr_Headers :: "(string, string) fmap"
  hr_Timeout :: Duration
  hr_InsecureSkipVerify :: bool

record 'w api =
  api_Tenants :: "('w, Tenant) kclient"
  api_Environments :: "('w, Environment) kclient"
  api_Integrations :: "('w, Integration) kclient"
  api_Namespaces :: "('w, Namespace) kclient"
  api_ResourceQuotas :: "('w, ResourceQuota) kclient"
  api_LimitRanges :: "('w, LimitRange) kclient"
  api_NetworkPolicies :: "('w, NetworkPolicy) kclient"
  api_RoleBindings :: "('w, RoleBinding) kclient"
  api_ConfigMaps :: "('w, ConfigMap) kclient"
  api_Secrets :: "('w, Secret) kclient"
  api_Unstructured :: "GroupVersionKind \<Rightarrow> ('w, Unstructured) kclient"
  \<comment> \<open>controllerutil\<close>
  SetControllerReference :: "ObjectRef \<Rightarrow> ObjectMeta \<Rightarrow> go_err + ObjectMeta"
  ContainsFinalizer :: "string list \<Rightarrow> string \<Rightarrow> bool"
  AddFinalizer :: "string list \<Rightarrow> string \<Rightarrow> string list"
  RemoveFinalizer :: "string list \<Rightarrow> string \<Rightarrow> string list"
  \<comment> \<open>apimachinery: meta, resource, unstructured\<close>
  SetStatusCondition :: "Condition list \<Rightarrow> Condition \<Rightarrow> ('w, Condition list) state"
  FindStatusCondition :: "Condition list \<Rightarrow> string \<Rightarrow> Condition option"
  IsStatusConditionTrue :: "Condition list \<Rightarrow> string \<Rightarrow> bool"
  IsStatusConditionFalse :: "Condition list \<Rightarrow> string \<Rightarrow> bool"
  RemoveStatusCondition :: "Condition list \<Rightarrow> string \<Rightarrow> Condition list"
  MustParse :: "string \<Rightarrow> quantity"
  SetNestedMap :: "json \<Rightarrow> json \<Rightarrow> string list \<Rightarrow> go_err + json"
  NestedString :: "json \<Rightarrow> string list \<Rightarrow> string \<times> bool \<times> go_err option"
  NestedSlice :: "json \<Rightarrow> string list \<Rightarrow> json list \<times> bool \<times> go_err option"
  \<comment> \<open>record.EventRecorder, prometheus vectors\<close>
  Eventf :: "ObjectRef \<Rightarrow> string \<Rightarrow> string \<Rightarrow> string \<Rightarrow> ('w, unit) state"
  PhaseDeletePartialMatch :: "(string \<times> string) list \<Rightarrow> ('w, nat) state"
  PhaseSet :: "string list \<Rightarrow> int \<Rightarrow> ('w, unit) state"
  ReconcileTotalInc :: "string list \<Rightarrow> ('w, unit) state"
  ReconcileDurationObserve :: "string list \<Rightarrow> Duration \<Rightarrow> ('w, unit) state"
  \<comment> \<open>the clock and the network\<close>
  Now :: "('w, Time) state"
  HttpNewRequest :: "string \<Rightarrow> go_err option"
  HttpDo :: "HttpRequest \<Rightarrow> ('w, go_err + nat) state"

section \<open>What an observer sees\<close>

record Event =
  ev_Object :: "string \<times> objkey"
  ev_Type :: string
  ev_Reason :: string
  ev_Message :: string

record obs =
  ob_Tenants :: "objkey \<rightharpoonup> Tenant"
  ob_Environments :: "objkey \<rightharpoonup> Environment"
  ob_Integrations :: "objkey \<rightharpoonup> Integration"
  ob_Namespaces :: "objkey \<rightharpoonup> Namespace"
  ob_ResourceQuotas :: "objkey \<rightharpoonup> ResourceQuota"
  ob_LimitRanges :: "objkey \<rightharpoonup> LimitRange"
  ob_NetworkPolicies :: "objkey \<rightharpoonup> NetworkPolicy"
  ob_RoleBindings :: "objkey \<rightharpoonup> RoleBinding"
  ob_ConfigMaps :: "objkey \<rightharpoonup> ConfigMap"
  ob_Secrets :: "objkey \<rightharpoonup> Secret"
  ob_Unstructured :: "GroupVersionKind \<Rightarrow> objkey \<rightharpoonup> Unstructured"
  ob_Events :: "Event list"
  ob_Phase :: "string list \<rightharpoonup> int"
  ob_ReconcileTotal :: "string list \<Rightarrow> nat"

text \<open>The store of unstructured objects, one kind at a time.\<close>

definition unst_sel :: "GroupVersionKind \<Rightarrow> obs \<Rightarrow> (objkey \<rightharpoonup> Unstructured)" where
  "unst_sel g v = ob_Unstructured v g"

definition unst_upd ::
  "GroupVersionKind \<Rightarrow> ((objkey \<rightharpoonup> Unstructured) \<Rightarrow> (objkey \<rightharpoonup> Unstructured)) \<Rightarrow> obs \<Rightarrow> obs" where
  "unst_upd g f v = v\<lparr>ob_Unstructured := (ob_Unstructured v)(g := f (ob_Unstructured v g))\<rparr>"

end
