(* ===== verification/ApiLaws.thy ===== *)
theory ApiLaws
  imports ClusterApi
begin

text \<open>
  The documented behaviour of the calls of theory ClusterApi, as predicates on the parameter
  record and a view of the world, and the weakest-precondition rules that proofs use instead of
  the predicates. Each predicate speaks of what a call guarantees when it succeeds, and of how
  little it changes when it fails. A no-match error says that the cluster does not know the kind, so
  that it stores no object of it.
\<close>

section \<open>One kind of object\<close>

text \<open>
  \<open>sel\<close> and \<open>upd\<close> are the store of the kind within the view and its update, \<open>mt\<close> the metadata
  of an object. A failed write may or may not have reached its object, and touches no other.
\<close>

definition base_object :: "'x option \<Rightarrow> 'x \<Rightarrow> 'x" where
  "base_object stored x = (case stored of Some s \<Rightarrow> s | None \<Rightarrow> x)"

definition get_ok where
  "get_ok V sel mt kc \<longleftrightarrow>
     (\<forall>k w. wp (kc_Get kc k)
        (\<lambda>r w'. V w' = V w \<and>
           (case r of
              Inr x \<Rightarrow> sel (V w) k = Some x \<and> meta_key (mt x) = k
            | Inl e \<Rightarrow> IsNotFound e \<longrightarrow> sel (V w) k = None)) w)"

definition cou_ok where
  "cou_ok V sel upd mt kc \<longleftrightarrow>
     (\<forall>x f w. wp (kc_CreateOrUpdate kc x f)
        (\<lambda>(r, x') w'.
           (case r of
              Inr _ \<Rightarrow> f (base_object (sel (V w) (meta_key (mt x))) x) = Inr x' \<and>
                V w' = upd (\<lambda>m. m(meta_key (mt x) \<mapsto> x')) (V w)
            | Inl e \<Rightarrow> \<exists>m'. V w' = upd (\<lambda>m. m(meta_key (mt x) := m')) (V w))) w)"

definition delete_ok where
  "delete_ok V sel upd mt kc \<longleftrightarrow>
     (\<forall>x w. wp (kc_Delete kc x)
        (\<lambda>r w'. \<exists>m'. V w' = upd (\<lambda>m. m(meta_key (mt x) := m')) (V w) \<and>
           (case r of
              None \<Rightarrow> (\<forall>y. m' = Some y \<longrightarrow> om_DeletionTimestamp (mt y) \<noteq> None)
            | Some e \<Rightarrow> IsNotFound e \<or> IsNoMatch e \<longrightarrow>
                m' = None \<and> sel (V w) (meta_key (mt x)) = None)) w)"

text \<open>Objects whose deletion is not deferred (no finalizers, no graceful period): a successful
  delete removes them.\<close>

definition delete_now where
  "delete_now V upd mt kc \<longleftrightarrow>
     (\<forall>x w. wp (kc_Delete kc x)
        (\<lambda>r w'. r = None \<longrightarrow> V w' = upd (\<lambda>m. m(meta_key (mt x) := None)) (V w)) w)"

text \<open>The timestamps that the API server sets and an update does not change.\<close>

definition stamps :: "ObjectMeta \<Rightarrow> Time \<times> Time option" where
  "stamps m = (om_CreationTimestamp m, om_DeletionTimestamp m)"

text \<open>Writes to the custom resources. The status subresource and the object are written
  separately: \<open>Update\<close> keeps the stored status, \<open>Status().Update\<close> everything else. An update of
  what was read keeps the timestamps of the server. An update
  that leaves an object under deletion without finalizers removes it. A failed write either did not
  reach its object or was carried out and only its answer lost.\<close>

definition update_ok where
  "update_ok V sel upd mt spec kc \<longleftrightarrow>
     (\<forall>x w. wp (kc_Update kc x)
        (\<lambda>(r, x') w'.
           (case r of
              None \<Rightarrow> sel (V w) (meta_key (mt x)) \<noteq> None \<and> om_Finalizers (mt x') = om_Finalizers (mt x) \<and>
                meta_key (mt x') = meta_key (mt x) \<and> spec x' = spec x \<and>
                (\<forall>s. sel (V w) (meta_key (mt x)) = Some s \<longrightarrow> stamps (mt s) = stamps (mt x) \<longrightarrow>
                   stamps (mt x') = stamps (mt s)) \<and>
                V w' = upd (\<lambda>m. m(meta_key (mt x) :=
                  (if om_DeletionTimestamp (mt x) \<noteq> None \<and> om_Finalizers (mt x) = []
                   then None else Some x'))) (V w)
            | Some e \<Rightarrow> (\<exists>m'. V w' = upd (\<lambda>m. m(meta_key (mt x) := m')) (V w) \<and>
                (m' = sel (V w) (meta_key (mt x)) \<or>
                 om_DeletionTimestamp (mt x) \<noteq> None \<and> om_Finalizers (mt x) = [] \<and> m' = None \<or>
                 (\<exists>y. m' = Some y \<and> sel (V w) (meta_key (mt x)) \<noteq> None \<and> om_Finalizers (mt y) = om_Finalizers (mt x) \<and>
                    meta_key (mt y) = meta_key (mt x) \<and> spec y = spec x \<and>
                    (\<forall>s. sel (V w) (meta_key (mt x)) = Some s \<longrightarrow> stamps (mt s) = stamps (mt x) \<longrightarrow>
                       stamps (mt y) = stamps (mt s))))))) w)"

definition status_ok where
  "status_ok V sel upd mt st_upd kc \<longleftrightarrow>
     (\<forall>x w. wp (kc_StatusUpdate kc x)
        (\<lambda>(r, x') w'.
           (case r of
              None \<Rightarrow> (\<exists>s. sel (V w) (meta_key (mt x)) = Some s \<and> x' = st_upd x s) \<and>
                V w' = upd (\<lambda>m. m(meta_key (mt x) \<mapsto> x')) (V w)
            | Some e \<Rightarrow> x' = x \<and> (\<exists>m'. V w' = upd (\<lambda>m. m(meta_key (mt x) := m')) (V w) \<and>
                (m' = sel (V w) (meta_key (mt x)) \<or>
                 (\<exists>s. sel (V w) (meta_key (mt x)) = Some s \<and> m' = Some (st_upd x s)))))) w)"

definition list_ok where
  "list_ok V sel ref kc \<longleftrightarrow>
     (\<forall>n w. wp (kc_ListByTenantRef kc n)
        (\<lambda>r w'. V w' = V w \<and>
           (case r of
              Inl e \<Rightarrow> True
            | Inr xs \<Rightarrow> (\<exists>ks. distinct ks \<and> map (sel (V w)) ks = map Some xs \<and>
                set ks = {k. \<exists>x. sel (V w) k = Some x \<and> ref x = n}))) w)"

definition managed_ok where
  "managed_ok V sel upd mt kc \<longleftrightarrow> cou_ok V sel upd mt kc \<and> delete_ok V sel upd mt kc"

section \<open>The whole API\<close>

definition tenant_ref_of_env :: "Environment \<Rightarrow> string" where
  "tenant_ref_of_env e = tr_Name (es_TenantRef (e_Spec e))"

definition tenant_ref_of_intg :: "Integration \<Rightarrow> string" where
  "tenant_ref_of_intg i = tr_Name (is_TenantRef (i_Spec i))"

definition objects_ok :: "'w api \<Rightarrow> ('w \<Rightarrow> obs) \<Rightarrow> bool" where
  "objects_ok A V \<longleftrightarrow>
     managed_ok V ob_Namespaces ob_Namespaces_update ns_meta (api_Namespaces A) \<and>
     managed_ok V ob_ResourceQuotas ob_ResourceQuotas_update rq_meta (api_ResourceQuotas A) \<and>
     managed_ok V ob_LimitRanges ob_LimitRanges_update lr_meta (api_LimitRanges A) \<and>
     managed_ok V ob_NetworkPolicies ob_NetworkPolicies_update np_meta (api_NetworkPolicies A) \<and>
     managed_ok V ob_RoleBindings ob_RoleBindings_update rb_meta (api_RoleBindings A) \<and>
     managed_ok V ob_ConfigMaps ob_ConfigMaps_update cm_meta (api_ConfigMaps A) \<and>
     managed_ok V ob_Secrets ob_Secrets_update sec_meta (api_Secrets A) \<and>
     (\<forall>g. managed_ok V (unst_sel g) (unst_upd g) un_meta (api_Unstructured A g))"

definition prompt_deletes :: "'w api \<Rightarrow> ('w \<Rightarrow> obs) \<Rightarrow> bool" where
  "prompt_deletes A V \<longleftrightarrow>
     delete_now V ob_ResourceQuotas_update rq_meta (api_ResourceQuotas A) \<and>
     delete_now V ob_LimitRanges_update lr_meta (api_LimitRanges A) \<and>
     delete_now V ob_NetworkPolicies_update np_meta (api_NetworkPolicies A) \<and>
     delete_now V ob_RoleBindings_update rb_meta (api_RoleBindings A) \<and>
     delete_now V ob_ConfigMaps_update cm_meta (api_ConfigMaps A) \<and>
     delete_now V ob_Secrets_update sec_meta (api_Secrets A) \<and>
     (\<forall>g. delete_now V (unst_upd g) un_meta (api_Unstructured A g))"

definition reads_ok :: "'w api \<Rightarrow> ('w \<Rightarrow> obs) \<Rightarrow> bool" where
  "reads_ok A V \<longleftrightarrow>
     get_ok V ob_Tenants t_meta (api_Tenants A) \<and>
     get_ok V ob_Environments e_meta (api_Environments A) \<and>
     get_ok V ob_Integrations i_meta (api_Integrations A) \<and>
     get_ok V ob_Namespaces ns_meta (api_Namespaces A) \<and>
     get_ok V ob_Secrets sec_meta (api_Secrets A) \<and>
     list_ok V ob_Environments tenant_ref_of_env (api_Environments A) \<and>
     list_ok V ob_Integrations tenant_ref_of_intg (api_Integrations A)"

definition resources_ok :: "'w api \<Rightarrow> ('w \<Rightarrow> obs) \<Rightarrow> bool" where
  "resources_ok A V \<longleftrightarrow>
     update_ok V ob_Tenants ob_Tenants_update t_meta t_Spec (api_Tenants A) \<and>
     status_ok V ob_Tenants ob_Tenants_update t_meta (\<lambda>x s. s\<lparr>t_Status := t_Status x\<rparr>) (api_Tenants A) \<and>
     update_ok V ob_Environments ob_Environments_update e_meta e_Spec (api_Environments A) \<and>
     delete_ok V ob_Environments ob_Environments_update e_meta (api_Environments A) \<and>
     status_ok V ob_Environments ob_Environments_update e_meta (\<lambda>x s. s\<lparr>e_Status := e_Status x\<rparr>) (api_Environments A) \<and>
     update_ok V ob_Integrations ob_Integrations_update i_meta i_Spec (api_Integrations A) \<and>
     status_ok V ob_Integrations ob_Integrations_update i_meta (\<lambda>x s. s\<lparr>i_Status := i_Status x\<rparr>) (api_Integrations A)"

text \<open>\<open>SetControllerReference\<close> writes the owner references only, makes the owner one of them, and
  setting the same owner again changes nothing. The finalizer helpers are set operations on a
  list.\<close>

definition owner_ref :: "ObjectRef \<Rightarrow> OwnerReference" where
  "owner_ref r = \<lparr>or_Kind = ref_Kind r, or_Namespace = om_Namespace (ref_meta r),
     or_Name = om_Name (ref_meta r), or_Controller = True\<rparr>"

definition owners_ok :: "'w api \<Rightarrow> bool" where
  "owners_ok A \<longleftrightarrow>
     (\<forall>r m m'. SetControllerReference A r m = Inr m' \<longrightarrow>
        (\<exists>os. m' = m\<lparr>om_OwnerReferences := os\<rparr> \<and> owner_ref r \<in> set os) \<and>
        SetControllerReference A r m' = Inr m')"

definition finalizers_ok :: "'w api \<Rightarrow> bool" where
  "finalizers_ok A \<longleftrightarrow>
     (\<forall>fs f. ContainsFinalizer A fs f \<longleftrightarrow> f \<in> set fs) \<and>
     (\<forall>fs f. AddFinalizer A fs f = (if f \<in> set fs then fs else fs @ [f])) \<and>
     (\<forall>fs f. RemoveFinalizer A fs f = removeAll f fs)"

text \<open>The \<open>meta\<close> helpers on status conditions (k8s.io/apimachinery/pkg/api/meta): a condition
  is found under its type; setting one replaces or adds the entry of its type and moves
  \<open>LastTransitionTime\<close> only when the status differs from the stored one.\<close>

definition conditions_ok :: "'w api \<Rightarrow> ('w \<Rightarrow> obs) \<Rightarrow> bool" where
  "conditions_ok A V \<longleftrightarrow>
     (\<forall>cs c w. wp (SetStatusCondition A cs c)
        (\<lambda>cs' w'. V w' = V w \<and>
           (\<forall>t. t \<noteq> c_Type c \<longrightarrow> FindStatusCondition A cs' t = FindStatusCondition A cs t) \<and>
           (\<exists>ts. FindStatusCondition A cs' (c_Type c) = Some (c\<lparr>c_LastTransitionTime := ts\<rparr>) \<and>
              (\<forall>c0. FindStatusCondition A cs (c_Type c) = Some c0 \<longrightarrow> c_Status c0 = c_Status c \<longrightarrow>
                 ts = c_LastTransitionTime c0)) \<and>
           (distinct (map c_Type cs) \<longrightarrow> distinct (map c_Type cs')) \<and>
           set (map c_Type cs') = insert (c_Type c) (set (map c_Type cs))) w) \<and>
     (\<forall>cs t u. FindStatusCondition A (RemoveStatusCondition A cs t) u =
        (if u = t then None else FindStatusCondition A cs u)) \<and>
     (\<forall>cs t. distinct (map c_Type cs) \<longrightarrow> distinct (map c_Type (RemoveStatusCondition A cs t))) \<and>
     (\<forall>cs t. IsStatusConditionTrue A cs t \<longleftrightarrow>
        (case FindStatusCondition A cs t of Some c \<Rightarrow> c_Status c = ConditionTrue | None \<Rightarrow> False)) \<and>
     (\<forall>cs t. IsStatusConditionFalse A cs t \<longleftrightarrow>
        (case FindStatusCondition A cs t of Some c \<Rightarrow> c_Status c = ConditionFalse | None \<Rightarrow> False))"

text \<open>The Prometheus gauge vector of phases has the labels controller, namespace, name, phase:
  \<open>DeletePartialMatch\<close> deletes the series that carry all the given labels. The recorder appends
  an event, the counters count, and reading the clock changes nothing that is observed.\<close>

definition phase_labels :: "string list" where
  "phase_labels = [''controller'', ''namespace'', ''name'', ''phase'']"

definition series_matches :: "(string \<times> string) list \<Rightarrow> string list \<Rightarrow> bool" where
  "series_matches sel vals \<longleftrightarrow> (\<forall>(l, v) \<in> set sel. (l, v) \<in> set (zip phase_labels vals))"

definition metrics_ok :: "'w api \<Rightarrow> ('w \<Rightarrow> obs) \<Rightarrow> bool" where
  "metrics_ok A V \<longleftrightarrow>
     (\<forall>ls w. wp (PhaseDeletePartialMatch A ls)
        (\<lambda>_ w'. V w' = (V w)\<lparr>ob_Phase := (\<lambda>vs. if series_matches ls vs then None else ob_Phase (V w) vs)\<rparr>) w) \<and>
     (\<forall>vs x w. wp (PhaseSet A vs x) (\<lambda>_ w'. V w' = (V w)\<lparr>ob_Phase := (ob_Phase (V w))(vs \<mapsto> x)\<rparr>) w) \<and>
     (\<forall>vs w. wp (ReconcileTotalInc A vs)
        (\<lambda>_ w'. V w' = (V w)\<lparr>ob_ReconcileTotal :=
           (ob_ReconcileTotal (V w))(vs := Suc (ob_ReconcileTotal (V w) vs))\<rparr>) w) \<and>
     (\<forall>vs d w. wp (ReconcileDurationObserve A vs d) (\<lambda>_ w'. V w' = V w) w)"

definition mk_event :: "ObjectRef \<Rightarrow> string \<Rightarrow> string \<Rightarrow> string \<Rightarrow> Event" where
  "mk_event r ty reason msg = \<lparr>ev_Object = (ref_Kind r, meta_key (ref_meta r)), ev_Type = ty,
     ev_Reason = reason, ev_Message = msg\<rparr>"

definition effects_ok :: "'w api \<Rightarrow> ('w \<Rightarrow> obs) \<Rightarrow> bool" where
  "effects_ok A V \<longleftrightarrow>
     (\<forall>r ty reason msg w. wp (Eventf A r ty reason msg)
        (\<lambda>_ w'. V w' = (V w)\<lparr>ob_Events := ob_Events (V w) @ [mk_event r ty reason msg]\<rparr>) w) \<and>
     (\<forall>w. wp (Now A) (\<lambda>_ w'. V w' = V w) w) \<and>
     (\<forall>q w. wp (HttpDo A q) (\<lambda>_ w'. V w' = V w) w)"

text \<open>The \<open>unstructured\<close> helpers: \<open>jpath\<close> follows field names through maps. Setting a nested map
  at a top-level field changes that field only, and setting it again changes nothing; the readers
  return what is at the path, and the zero value when it is absent or of another type.\<close>

fun jpath :: "json \<Rightarrow> string list \<Rightarrow> json option" where
  "jpath j [] = Some j"
| "jpath (JMap kvs) (f # fs) = (case map_of kvs f of Some j \<Rightarrow> jpath j fs | None \<Rightarrow> None)"
| "jpath j (f # fs) = None"

definition json_ok :: "'w api \<Rightarrow> bool" where
  "json_ok A \<longleftrightarrow>
     (\<forall>j m f j'. SetNestedMap A j m [f] = Inr j' \<longrightarrow>
        jpath j' [f] = Some m \<and> (\<forall>g fs. g \<noteq> f \<longrightarrow> jpath j' (g # fs) = jpath j (g # fs)) \<and>
        SetNestedMap A j' m [f] = Inr j') \<and>
     (\<forall>j fs. fst (NestedString A j fs) = (case jpath j fs of Some (JStr s) \<Rightarrow> s | _ \<Rightarrow> [])) \<and>
     (\<forall>j fs. case jpath j fs of
        Some (JList js) \<Rightarrow> NestedSlice A j fs = (js, True, None)
      | _ \<Rightarrow> (\<exists>e. NestedSlice A j fs = ([], False, e)))"

definition api_ok :: "'w api \<Rightarrow> ('w \<Rightarrow> obs) \<Rightarrow> bool" where
  "api_ok A V \<longleftrightarrow> objects_ok A V \<and> prompt_deletes A V \<and> reads_ok A V \<and> resources_ok A V \<and>
     owners_ok A \<and> finalizers_ok A \<and> conditions_ok A V \<and> metrics_ok A V \<and> effects_ok A V \<and> json_ok A"

end
