(* ===== verification/ApiRules.thy ===== *)
theory ApiRules
  imports ApiLaws
begin

text \<open>
  The predicates of theory ApiLaws as rules of the weakest-precondition calculus: one rule per
  call, with one premise per outcome. Proofs about a component apply these to the calls in the
  order the code makes them.
\<close>

lemma wp_get:
  assumes "get_ok V sel mt kc"
    and "\<And>x w'. V w' = V w \<Longrightarrow> sel (V w) k = Some x \<Longrightarrow> meta_key (mt x) = k \<Longrightarrow> Q (Inr x) w'"
    and "\<And>e w'. V w' = V w \<Longrightarrow> (IsNotFound e \<Longrightarrow> sel (V w) k = None) \<Longrightarrow> Q (Inl e) w'"
  shows "wp (kc_Get kc k) Q w"
proof -
  from assms(1) have "wp (kc_Get kc k)
      (\<lambda>r w'. V w' = V w \<and>
         (case r of
            Inr x \<Rightarrow> sel (V w) k = Some x \<and> meta_key (mt x) = k
          | Inl e \<Rightarrow> IsNotFound e \<longrightarrow> sel (V w) k = None)) w"
    unfolding get_ok_def by blast
  then show ?thesis
    by (rule wp_mono_sum) (auto intro: assms(2,3))
qed

lemma wp_cou:
  assumes "cou_ok V sel upd mt kc"
    and "\<And>r x' w'. f (base_object (sel (V w) (meta_key (mt x))) x) = Inr x' \<Longrightarrow>
       V w' = upd (\<lambda>m. m(meta_key (mt x) \<mapsto> x')) (V w) \<Longrightarrow> Q (Inr r, x') w'"
    and "\<And>e x' m' w'. V w' = upd (\<lambda>m. m(meta_key (mt x) := m')) (V w) \<Longrightarrow> Q (Inl e, x') w'"
  shows "wp (kc_CreateOrUpdate kc x f) Q w"
proof -
  from assms(1) have "wp (kc_CreateOrUpdate kc x f)
        (\<lambda>(r, x') w'.
           (case r of
              Inr _ \<Rightarrow> f (base_object (sel (V w) (meta_key (mt x))) x) = Inr x' \<and>
                V w' = upd (\<lambda>m. m(meta_key (mt x) \<mapsto> x')) (V w)
            | Inl e \<Rightarrow> \<exists>m'. V w' = upd (\<lambda>m. m(meta_key (mt x) := m')) (V w))) w"
    unfolding cou_ok_def by blast
  then show ?thesis
    by (rule wp_mono_sum_pair) (auto intro: assms(2,3))
qed

lemma wp_delete:
  assumes "delete_ok V sel upd mt kc"
    and "\<And>m' w'. V w' = upd (\<lambda>m. m(meta_key (mt x) := m')) (V w) \<Longrightarrow>
       (\<And>y. m' = Some y \<Longrightarrow> om_DeletionTimestamp (mt y) \<noteq> None) \<Longrightarrow> Q None w'"
    and "\<And>e m' w'. V w' = upd (\<lambda>m. m(meta_key (mt x) := m')) (V w) \<Longrightarrow>
       (IsNotFound e \<or> IsNoMatch e \<Longrightarrow> m' = None \<and> sel (V w) (meta_key (mt x)) = None) \<Longrightarrow> Q (Some e) w'"
  shows "wp (kc_Delete kc x) Q w"
proof -
  from assms(1) have "wp (kc_Delete kc x)
        (\<lambda>r w'. \<exists>m'. V w' = upd (\<lambda>m. m(meta_key (mt x) := m')) (V w) \<and>
           (case r of
              None \<Rightarrow> (\<forall>y. m' = Some y \<longrightarrow> om_DeletionTimestamp (mt y) \<noteq> None)
            | Some e \<Rightarrow> IsNotFound e \<or> IsNoMatch e \<longrightarrow>
                m' = None \<and> sel (V w) (meta_key (mt x)) = None)) w"
    unfolding delete_ok_def by blast
  then show ?thesis
    by (rule wp_mono_option) (auto intro: assms(2,3))
qed

text \<open>Deleting a prompt kind, where an absent object counts as success.\<close>

lemma wp_delete_now:
  assumes "delete_ok V sel upd mt kc" "delete_now V upd mt kc"
    and "\<And>w'. V w' = upd (\<lambda>m. m(meta_key (mt x) := None)) (V w) \<Longrightarrow> Q None w'"
    and "\<And>e w'. IsNotFound e \<or> IsNoMatch e \<Longrightarrow> V w' = upd (\<lambda>m. m(meta_key (mt x) := None)) (V w) \<Longrightarrow> Q (Some e) w'"
    and "\<And>e m' w'. \<not> IsNotFound e \<Longrightarrow> \<not> IsNoMatch e \<Longrightarrow> V w' = upd (\<lambda>m. m(meta_key (mt x) := m')) (V w) \<Longrightarrow> Q (Some e) w'"
  shows "wp (kc_Delete kc x) Q w"
proof -
  from assms(2) have now: "wp (kc_Delete kc x)
      (\<lambda>r w'. r = None \<longrightarrow> V w' = upd (\<lambda>m. m(meta_key (mt x) := None)) (V w)) w"
    unfolding delete_now_def by blast
  show ?thesis
  proof (rule wp_runI)
    fix r w'
    assume run: "run_state (kc_Delete kc x) w = (r, w')"
    have "wp (kc_Delete kc x) (\<lambda>r w'. case r of None \<Rightarrow> True | Some e \<Rightarrow>
        (\<exists>m'. V w' = upd (\<lambda>m. m(meta_key (mt x) := m')) (V w) \<and> (IsNotFound e \<or> IsNoMatch e \<longrightarrow> m' = None))) w"
      by (rule wp_delete [OF assms(1)]) auto
    with wpD [OF this run] wpD [OF now run] show "Q r w'"
      by (cases r) (auto intro: assms(3-5))
  qed
qed

lemma wp_update:
  assumes "update_ok V sel upd mt spec kc"
    and "\<And>x' w'. sel (V w) (meta_key (mt x)) \<noteq> None \<Longrightarrow>
       om_Finalizers (mt x') = om_Finalizers (mt x) \<Longrightarrow> meta_key (mt x') = meta_key (mt x) \<Longrightarrow>
       spec x' = spec x \<Longrightarrow>
       V w' = upd (\<lambda>m. m(meta_key (mt x) :=
          (if om_DeletionTimestamp (mt x) \<noteq> None \<and> om_Finalizers (mt x) = []
           then None else Some x'))) (V w) \<Longrightarrow>
       (\<And>s. sel (V w) (meta_key (mt x)) = Some s \<Longrightarrow> stamps (mt s) = stamps (mt x) \<Longrightarrow>
          stamps (mt x') = stamps (mt s)) \<Longrightarrow> Q (None, x') w'"
    and "\<And>e x' m' w'. V w' = upd (\<lambda>m. m(meta_key (mt x) := m')) (V w) \<Longrightarrow>
       m' = sel (V w) (meta_key (mt x)) \<or>
       om_DeletionTimestamp (mt x) \<noteq> None \<and> om_Finalizers (mt x) = [] \<and> m' = None \<or>
       (\<exists>y. m' = Some y \<and> sel (V w) (meta_key (mt x)) \<noteq> None \<and> om_Finalizers (mt y) = om_Finalizers (mt x) \<and>
          meta_key (mt y) = meta_key (mt x) \<and> spec y = spec x \<and>
          (\<forall>s. sel (V w) (meta_key (mt x)) = Some s \<longrightarrow> stamps (mt s) = stamps (mt x) \<longrightarrow>
             stamps (mt y) = stamps (mt s))) \<Longrightarrow>
       Q (Some e, x') w'"
  shows "wp (kc_Update kc x) Q w"
proof -
  from assms(1) have "wp (kc_Update kc x)
        (\<lambda>(r, x') w'.
           (case r of
              None \<Rightarrow> sel (V w) (meta_key (mt x)) \<noteq> None \<and> om_Finalizers (mt x') = om_Finalizers (mt x) \<and>
                meta_key (mt x') = meta_key (mt x) \<and> spec x' = spec x \<and>
                (\<forall>s. sel (V w) (meta_key (mt x)) = Some s \<longrightarrow> stamps (mt s) = stamps (mt x) \<longrightarrow>
                   stamps (mt x') = stamps (mt s)) \<and>
                V w' = upd (\<lambda>m. m(meta_key (mt x) :=
                  (if om_DeletionTimestamp (mt x) \<noteq> None \<and> om_Finalizers (mt x) = []
                   then None else Some x'))) (V w)
            | Some e \<Rightarrow> (\<exists>m'. V w' = upd (\<lambda>m. m(meta_key (mt x) := m')) (V w) \<and>
                (m' = sel (V w) (meta_key (mt x)) \<or>
                 om_DeletionTimestamp (mt x) \<noteq> None \<and> om_Finalizers (mt x) = [] \<and> m' = None \<or>
                 (\<exists>y. m' = Some y \<and> sel (V w) (meta_key (mt x)) \<noteq> None \<and> om_Finalizers (mt y) = om_Finalizers (mt x) \<and>
                    meta_key (mt y) = meta_key (mt x) \<and> spec y = spec x \<and>
                    (\<forall>s. sel (V w) (meta_key (mt x)) = Some s \<longrightarrow> stamps (mt s) = stamps (mt x) \<longrightarrow>
                       stamps (mt y) = stamps (mt s))))))) w"
    unfolding update_ok_def by blast
  then show ?thesis
  proof (rule wp_mono_option_pair, goal_cases)
    case (1 x' w')
    then show ?case by (intro assms(2)) simp_all
  next
    case (2 e x' w')
    then show ?case unfolding prod.case option.case using assms(3) by blast
  qed
qed

lemma wp_status:
  assumes "status_ok V sel upd mt st_upd kc"
    and "\<And>s w'. sel (V w) (meta_key (mt x)) = Some s \<Longrightarrow>
       V w' = upd (\<lambda>m. m(meta_key (mt x) \<mapsto> st_upd x s)) (V w) \<Longrightarrow> Q (None, st_upd x s) w'"
    and "\<And>e m' w'. V w' = upd (\<lambda>m. m(meta_key (mt x) := m')) (V w) \<Longrightarrow>
       m' = sel (V w) (meta_key (mt x)) \<or>
       (\<exists>s. sel (V w) (meta_key (mt x)) = Some s \<and> m' = Some (st_upd x s)) \<Longrightarrow> Q (Some e, x) w'"
  shows "wp (kc_StatusUpdate kc x) Q w"
proof -
  from assms(1) have "wp (kc_StatusUpdate kc x)
        (\<lambda>(r, x') w'.
           (case r of
              None \<Rightarrow> (\<exists>s. sel (V w) (meta_key (mt x)) = Some s \<and> x' = st_upd x s) \<and>
                V w' = upd (\<lambda>m. m(meta_key (mt x) \<mapsto> x')) (V w)
            | Some e \<Rightarrow> x' = x \<and> (\<exists>m'. V w' = upd (\<lambda>m. m(meta_key (mt x) := m')) (V w) \<and>
                (m' = sel (V w) (meta_key (mt x)) \<or>
                 (\<exists>s. sel (V w) (meta_key (mt x)) = Some s \<and> m' = Some (st_upd x s)))))) w"
    unfolding status_ok_def by blast
  then show ?thesis
  proof (rule wp_mono_option_pair, goal_cases)
    case (1 x' w')
    then show ?case by (auto intro: assms(2))
  next
    case (2 e x' w')
    then show ?case unfolding prod.case option.case using assms(3) by blast
  qed
qed

lemma wp_list:
  assumes "list_ok V sel ref kc"
    and "\<And>xs ks w'. V w' = V w \<Longrightarrow> distinct ks \<Longrightarrow> map (sel (V w)) ks = map Some xs \<Longrightarrow>
       set ks = {k. \<exists>x. sel (V w) k = Some x \<and> ref x = n} \<Longrightarrow> Q (Inr xs) w'"
    and "\<And>e w'. V w' = V w \<Longrightarrow> Q (Inl e) w'"
  shows "wp (kc_ListByTenantRef kc n) Q w"
proof -
  from assms(1) have "wp (kc_ListByTenantRef kc n)
        (\<lambda>r w'. V w' = V w \<and>
           (case r of
              Inl e \<Rightarrow> True
            | Inr xs \<Rightarrow> (\<exists>ks. distinct ks \<and> map (sel (V w)) ks = map Some xs \<and>
                set ks = {k. \<exists>x. sel (V w) k = Some x \<and> ref x = n}))) w"
    unfolding list_ok_def by blast
  then show ?thesis
    by (rule wp_mono_sum) (auto intro: assms(2,3))
qed

lemma wp_Eventf:
  assumes "effects_ok A V"
    and "\<And>w'. V w' = (V w)\<lparr>ob_Events := ob_Events (V w) @ [mk_event r ty reason msg]\<rparr> \<Longrightarrow> Q () w'"
  shows "wp (Eventf A r ty reason msg) Q w"
proof -
  from assms(1) have "wp (Eventf A r ty reason msg)
        (\<lambda>_ w'. V w' = (V w)\<lparr>ob_Events := ob_Events (V w) @ [mk_event r ty reason msg]\<rparr>) w"
    unfolding effects_ok_def by blast
  then show ?thesis by (rule wp_mono) (simp add: assms(2))
qed

lemma wp_Now:
  assumes "effects_ok A V" and "\<And>t w'. V w' = V w \<Longrightarrow> Q t w'"
  shows "wp (Now A) Q w"
  using assms unfolding effects_ok_def by (blast intro: wp_mono)

lemma wp_HttpDo:
  assumes "effects_ok A V" and "\<And>r w'. V w' = V w \<Longrightarrow> Q r w'"
  shows "wp (HttpDo A q) Q w"
  using assms unfolding effects_ok_def by (blast intro: wp_mono)

text \<open>The parts of \<open>api_ok\<close>.\<close>

lemma api_okD:
  assumes "api_ok A V"
  shows "objects_ok A V" "prompt_deletes A V" "reads_ok A V" "resources_ok A V" "owners_ok A"
    "finalizers_ok A" "conditions_ok A V" "metrics_ok A V" "effects_ok A V" "json_ok A"
  using assms by (simp_all add: api_ok_def)

lemma finalizers_okD:
  assumes "finalizers_ok A"
  shows "ContainsFinalizer A fs f \<longleftrightarrow> f \<in> set fs"
    "AddFinalizer A fs f = (if f \<in> set fs then fs else fs @ [f])"
    "RemoveFinalizer A fs f = removeAll f fs"
  using assms by (auto simp: finalizers_ok_def)

lemma SetControllerReferenceD:
  assumes "owners_ok A" "SetControllerReference A r m = Inr m'"
  shows "\<exists>os. m' = m\<lparr>om_OwnerReferences := os\<rparr> \<and> owner_ref r \<in> set os"
    "SetControllerReference A r m' = Inr m'"
  using assms by (auto simp: owners_ok_def)

end
