(* ===== verification/Converge.thy ===== *)
theory Converge
  imports ApiRules
begin

text \<open>
  The contract of a provisioning primitive: a function that converges one object of the cluster
  towards what its arguments describe, or removes the object when they describe nothing. The
  locale \<open>provisioner\<close> states the laws; theories Provision and Connector interpret it on the
  functions of \<open>internal/platform\<close>. Its lemmas are what the controllers rely on: after a
  success the object is as described, a second call changes nothing, and no other object is
  touched.
\<close>

section \<open>One converging step\<close>

text \<open>What a call may do to the store of its kind at key \<open>k\<close>: \<open>on\<close> tells whether the object is
  wanted, \<open>res\<close> what the mutate closure makes of the stored (or fresh) object.\<close>

definition step_post where
  "step_post V upd k on res r w w' \<longleftrightarrow>
     (case r of
        Inl (e :: go_err) \<Rightarrow> \<exists>m'. V w' = upd (\<lambda>m. m(k := m')) (V w)
      | Inr (_ :: OperationResult) \<Rightarrow>
          if on then \<exists>x. res = Inr x \<and> V w' = upd (\<lambda>m. m(k \<mapsto> x)) (V w)
          else V w' = upd (\<lambda>m. m(k := None)) (V w))"

text \<open>The shape the primitives share; theory Provision shows that each of them is an instance.\<close>

definition converge where
  "converge off kc x f =
     (if off then do {
        err \<leftarrow> kc_Delete kc x;
        (case err of
           Some e \<Rightarrow>
             if \<not> IsNotFound e then State_Monad.return (Inl e)
             else State_Monad.return (Inr ResultNone)
         | None \<Rightarrow> State_Monad.return (Inr ResultNone))
      }
      else do { (r, _) \<leftarrow> kc_CreateOrUpdate kc x f; State_Monad.return r })"

lemma wp_converge:
  assumes "managed_ok V sel upd mt kc" "delete_now V upd mt kc"
  shows "wp (converge off kc x f)
     (\<lambda>r w'. step_post V upd (meta_key (mt x)) (\<not> off)
        (f (base_object (sel (V w) (meta_key (mt x))) x)) r w w') w"
proof -
  from assms(1) have cou: "cou_ok V sel upd mt kc" and del: "delete_ok V sel upd mt kc"
    by (simp_all add: managed_ok_def)
  show ?thesis
  proof (cases off)
    case True
    then show ?thesis
      by (simp add: converge_def) (rule wp_delete_now [OF del assms(2)], auto simp: step_post_def)
  next
    case False
    then show ?thesis
      by (simp add: converge_def) (rule wp_cou [OF cou], auto simp: step_post_def)
  qed
qed

lemma converge_never:
  "managed_ok V sel upd mt kc \<Longrightarrow>
   wp (converge False kc x f)
     (\<lambda>r w'. step_post V upd (meta_key (mt x)) True
        (f (base_object (sel (V w) (meta_key (mt x))) x)) r w w') w"
  by (simp add: converge_def managed_ok_def) (rule wp_cou, blast, auto simp: step_post_def)

section \<open>The contract\<close>

text \<open>The cluster agrees with the arguments: the object is there and as desired, or, when it is
  not wanted, absent.\<close>

definition provisioned where
  "provisioned sel key enabled desired d a v \<longleftrightarrow>
     (case sel v (key a) of None \<Rightarrow> \<not> enabled a | Some x \<Rightarrow> enabled a \<and> desired d a x)"

locale provisioner =
  fixes ok :: "'d \<Rightarrow> ('w \<Rightarrow> obs) \<Rightarrow> bool"
    and sel :: "obs \<Rightarrow> (objkey \<rightharpoonup> 'x)"
    and upd :: "((objkey \<rightharpoonup> 'x) \<Rightarrow> (objkey \<rightharpoonup> 'x)) \<Rightarrow> obs \<Rightarrow> obs"
    and key :: "'a \<Rightarrow> objkey"
    and enabled :: "'a \<Rightarrow> bool"
    and fresh :: "'a \<Rightarrow> 'x"
    and mutate :: "'d \<Rightarrow> 'a \<Rightarrow> 'x \<Rightarrow> go_err + 'x"
    and desired :: "'d \<Rightarrow> 'a \<Rightarrow> 'x \<Rightarrow> bool"
    and reconcile :: "'d \<Rightarrow> 'a \<Rightarrow> ('w, go_err + OperationResult) state"
  assumes sel_upd: "sel (upd f v) = f (sel v)"
    and upd_upd: "upd g (upd f v) = upd (\<lambda>m. g (f m)) v"
    and upd_id: "upd (\<lambda>m. m) v = v"
    and mutate_stable: "ok d V \<Longrightarrow> mutate d a x = Inr y \<Longrightarrow> mutate d a y = Inr y"
    and mutate_desired: "ok d V \<Longrightarrow> mutate d a x = Inr y \<Longrightarrow> desired d a y"
    and reconcile_spec: "ok d V \<Longrightarrow>
      wp (reconcile d a) (\<lambda>r w'. step_post V upd (key a) (enabled a)
        (mutate d a (base_object (sel (V w) (key a)) (fresh a))) r w w') w"
begin

text \<open>Success leaves the object as desired; whatever happens, only the object's key is written.\<close>

lemma reconcile_rule:
  assumes ok: "ok d V"
    and Inr: "\<And>r w' m'. provisioned sel key enabled desired d a (V w') \<Longrightarrow>
       V w' = upd (\<lambda>m. m(key a := m')) (V w) \<Longrightarrow> Q (Inr r) w'"
    and Inl: "\<And>e w' m'. V w' = upd (\<lambda>m. m(key a := m')) (V w) \<Longrightarrow> Q (Inl e) w'"
  shows "wp (reconcile d a) Q w"
proof (rule wp_mono_sum [OF reconcile_spec [OF ok]], goal_cases)
  case (1 r w')
  show ?case
  proof (cases "enabled a")
    case True
    with 1 obtain x where x: "mutate d a (base_object (sel (V w) (key a)) (fresh a)) = Inr x"
      and V: "V w' = upd (\<lambda>m. m(key a \<mapsto> x)) (V w)" by (auto simp: step_post_def)
    from mutate_desired [OF ok x] True V show ?thesis
      by (intro Inr [where m' = "Some x"]) (auto simp: provisioned_def sel_upd)
  next
    case False
    with 1 have V: "V w' = upd (\<lambda>m. m(key a := None)) (V w)" by (simp add: step_post_def)
    with False show ?thesis
      by (intro Inr [where m' = None]) (auto simp: provisioned_def sel_upd)
  qed
next
  case (2 e w')
  then show ?case by (auto simp: step_post_def intro: Inl)
qed

text \<open>Idempotence: two successful calls in a row end in the same cluster as one.\<close>

lemma reconcile_twice:
  assumes ok: "ok d V"
  shows "wp (reconcile d a) (\<lambda>r w'. \<forall>x. r = Inr x \<longrightarrow>
     wp (reconcile d a) (\<lambda>r' w''. \<forall>y. r' = Inr y \<longrightarrow> V w'' = V w') w') w"
proof (rule wp_mono_sum [OF reconcile_spec [OF ok]], goal_cases)
  case (1 r w')
  have "wp (reconcile d a) (\<lambda>r' w''. \<forall>y. r' = Inr y \<longrightarrow> V w'' = V w') w'"
  proof (rule wp_mono_sum [OF reconcile_spec [OF ok]], goal_cases)
    case (1 r' w'')
    show ?case
    proof (cases "enabled a")
      case True
      with \<open>step_post V upd (key a) (enabled a) _ (Inr r) w w'\<close> obtain x
        where x: "mutate d a (base_object (sel (V w) (key a)) (fresh a)) = Inr x"
          and V': "V w' = upd (\<lambda>m. m(key a \<mapsto> x)) (V w)" by (auto simp: step_post_def)
      then have "base_object (sel (V w') (key a)) (fresh a) = x"
        by (simp add: base_object_def sel_upd)
      with 1 True mutate_stable [OF ok x] have "V w'' = upd (\<lambda>m. m(key a \<mapsto> x)) (V w')"
        by (simp add: step_post_def)
      with V' show ?thesis by (simp add: upd_upd)
    next
      case False
      with 1 \<open>step_post V upd (key a) (enabled a) _ (Inr r) w w'\<close> show ?thesis
        by (simp add: step_post_def upd_upd)
    qed
  qed simp
  then show ?case by simp
qed simp

end

text \<open>A primitive of the common shape meets the contract once its closure is stable and
  establishes the desired state.\<close>

locale converging =
  fixes ok :: "'d \<Rightarrow> ('w \<Rightarrow> obs) \<Rightarrow> bool"
    and sel :: "obs \<Rightarrow> (objkey \<rightharpoonup> 'x)"
    and upd :: "((objkey \<rightharpoonup> 'x) \<Rightarrow> (objkey \<rightharpoonup> 'x)) \<Rightarrow> obs \<Rightarrow> obs"
    and mt :: "'x \<Rightarrow> ObjectMeta"
    and kc :: "'d \<Rightarrow> ('w, 'x) kclient"
    and enabled :: "'a \<Rightarrow> bool"
    and fresh :: "'a \<Rightarrow> 'x"
    and mutate :: "'d \<Rightarrow> 'a \<Rightarrow> 'x \<Rightarrow> go_err + 'x"
    and desired :: "'d \<Rightarrow> 'a \<Rightarrow> 'x \<Rightarrow> bool"
    and reconcile :: "'d \<Rightarrow> 'a \<Rightarrow> ('w, go_err + OperationResult) state"
  assumes store: "sel (upd f v) = f (sel v)" "upd g (upd f v) = upd (\<lambda>m. g (f m)) v" "upd (\<lambda>m. m) v = v"
    and managed: "ok d V \<Longrightarrow> managed_ok V sel upd mt (kc d)"
    and prompt: "ok d V \<Longrightarrow> \<not> enabled a \<Longrightarrow> delete_now V upd mt (kc d)"
    and closure: "ok d V \<Longrightarrow> mutate d a x = Inr y \<Longrightarrow> mutate d a y = Inr y \<and> desired d a y"
    and shape: "reconcile d a = converge (\<not> enabled a) (kc d) (fresh a) (mutate d a)"

sublocale converging \<subseteq> provisioner ok sel upd "\<lambda>a. meta_key (mt (fresh a))" enabled fresh mutate desired reconcile
proof (unfold_locales, goal_cases)
  case (6 d V a w)
  show ?case
  proof (cases "enabled a")
    case True
    with converge_never [OF managed [OF 6]] show ?thesis by (simp add: shape)
  next
    case False
    with wp_converge [OF managed [OF 6] prompt [OF 6 False], of True "fresh a" "mutate d a" w]
    show ?thesis by (simp add: shape)
  qed
qed (simp_all add: store closure)

section \<open>Vocabulary of the desired states\<close>

definition labelled :: "labels \<Rightarrow> ObjectMeta \<Rightarrow> bool" where
  "labelled labels m \<longleftrightarrow> (\<forall>k v. fmlookup labels k = Some v \<longrightarrow> fmlookup (om_Labels m) k = Some v)"

definition owned :: "bool \<Rightarrow> ObjectRef \<Rightarrow> ObjectMeta \<Rightarrow> bool" where
  "owned setController owner m \<longleftrightarrow> (setController \<longrightarrow> owner_ref owner \<in> set (om_OwnerReferences m))"

end
