(* ===== verification/MemApi.thy ===== *)
theory MemApi
  imports ApiRules
begin

text \<open>
  An in-memory API server that meets every law of theory ApiLaws, with a clock and a list of
  faults to inject: each call to the client takes one entry of the list and fails, without
  effect, when it is set. It shows that the hypotheses \<open>api_ok\<close> of the development can hold, and
  the concrete runs of the program in the other theories are runs on it.
\<close>

section \<open>The world\<close>

type_synonym 'x store = "(objkey \<times> 'x) list"

record mworld =
  mw_Tenants :: "Tenant store"
  mw_Environments :: "Environment store"
  mw_Integrations :: "Integration store"
  mw_Namespaces :: "Namespace store"
  mw_ResourceQuotas :: "ResourceQuota store"
  mw_LimitRanges :: "LimitRange store"
  mw_NetworkPolicies :: "NetworkPolicy store"
  mw_RoleBindings :: "RoleBinding store"
  mw_ConfigMaps :: "ConfigMap store"
  mw_Secrets :: "Secret store"
  mw_Unstructured :: "GroupVersionKind \<Rightarrow> Unstructured store"
  mw_Events :: "Event list"
  mw_Phase :: "string list \<rightharpoonup> int"
  mw_ReconcileTotal :: "string list \<Rightarrow> nat"
  mw_Clock :: Time
  mw_Faults :: "bool list"
  mw_HttpStatus :: "nat option"

definition m_obs :: "mworld \<Rightarrow> obs" where
  "m_obs w =
     \<lparr>ob_Tenants = map_of (mw_Tenants w), ob_Environments = map_of (mw_Environments w),
      ob_Integrations = map_of (mw_Integrations w), ob_Namespaces = map_of (mw_Namespaces w),
      ob_ResourceQuotas = map_of (mw_ResourceQuotas w), ob_LimitRanges = map_of (mw_LimitRanges w),
      ob_NetworkPolicies = map_of (mw_NetworkPolicies w), ob_RoleBindings = map_of (mw_RoleBindings w),
      ob_ConfigMaps = map_of (mw_ConfigMaps w), ob_Secrets = map_of (mw_Secrets w),
      ob_Unstructured = (\<lambda>g. map_of (mw_Unstructured w g)), ob_Events = mw_Events w,
      ob_Phase = mw_Phase w, ob_ReconcileTotal = mw_ReconcileTotal w\<rparr>"

definition mw_empty :: mworld where
  "mw_empty =
     \<lparr>mw_Tenants = [], mw_Environments = [], mw_Integrations = [], mw_Namespaces = [],
      mw_ResourceQuotas = [], mw_LimitRanges = [], mw_NetworkPolicies = [], mw_RoleBindings = [],
      mw_ConfigMaps = [], mw_Secrets = [], mw_Unstructured = (\<lambda>_. []), mw_Events = [],
      mw_Phase = (\<lambda>_. None), mw_ReconcileTotal = (\<lambda>_. 0), mw_Clock = 1000, mw_Faults = [],
      mw_HttpStatus = Some 200\<rparr>"

definition not_found :: go_err where
  "not_found = \<lparr>IsNotFound = True, IsNoMatch = False, Error = ''not found''\<rparr>"

section \<open>One kind of object\<close>

text \<open>Association lists without duplicate keys.\<close>

definition st_put :: "objkey \<Rightarrow> 'x \<Rightarrow> 'x store \<Rightarrow> 'x store" where
  "st_put k x s = (k, x) # filter (\<lambda>e. fst e \<noteq> k) s"

definition st_del :: "objkey \<Rightarrow> 'x store \<Rightarrow> 'x store" where
  "st_del k s = filter (\<lambda>e. fst e \<noteq> k) s"

fun st_dedup :: "'x store \<Rightarrow> 'x store" where
  "st_dedup [] = []"
| "st_dedup (e # s) = e # filter (\<lambda>e'. fst e' \<noteq> fst e) (st_dedup s)"

lemma map_of_filter_key: "map_of (filter (\<lambda>e. fst e \<noteq> k) s) = (map_of s)(k := None)"
  by (induction s) (auto simp: fun_eq_iff)

lemma st_put [simp]: "map_of (st_put k x s) = (map_of s)(k \<mapsto> x)"
  by (simp add: st_put_def map_of_filter_key)

lemma st_del [simp]: "map_of (st_del k s) = (map_of s)(k := None)"
  by (simp add: st_del_def map_of_filter_key)

lemma st_dedup [simp]: "map_of (st_dedup s) = map_of s"
  by (induction s) (auto simp: map_of_filter_key)

lemma st_dedup_distinct: "distinct (map fst (st_dedup s))"
proof (induction s)
  case (Cons e s)
  have "distinct (map fst (filter P xs))" if "distinct (map fst xs)" for P and xs :: "'a store"
    using that by (induction xs) auto
  with Cons show ?case by auto
qed simp

text \<open>\<open>call\<close> takes the next fault: \<open>bad\<close> is the answer of a failing call.\<close>

definition call :: "'a \<Rightarrow> (mworld \<Rightarrow> 'a \<times> mworld) \<Rightarrow> (mworld, 'a) state" where
  "call bad f = State (\<lambda>w. case mw_Faults w of
     [] \<Rightarrow> f w
   | b # bs \<Rightarrow> (let w = w\<lparr>mw_Faults := bs\<rparr> in if b then (bad, w) else f w))"

lemma wp_call:
  assumes "\<And>w'. m_obs w' = m_obs w \<Longrightarrow> Q bad w'"
    and "\<And>w'. m_obs w' = m_obs w \<Longrightarrow> (case f w' of (a, w'') \<Rightarrow> Q a w'')"
  shows "wp (call bad f) Q w"
proof -
  have "m_obs (w\<lparr>mw_Faults := bs\<rparr>) = m_obs w" for bs by (simp add: m_obs_def)
  with assms show ?thesis by (auto simp: wp_def call_def Let_def split: list.split prod.splits)
qed

definition mem_client ::
  "(mworld \<Rightarrow> 'x store) \<Rightarrow> (('x store \<Rightarrow> 'x store) \<Rightarrow> mworld \<Rightarrow> mworld) \<Rightarrow> ('x \<Rightarrow> ObjectMeta) \<Rightarrow>
   (ObjectMeta \<Rightarrow> 'x \<Rightarrow> 'x) \<Rightarrow> ('x \<Rightarrow> 'x \<Rightarrow> 'x) \<Rightarrow> ('x \<Rightarrow> string) \<Rightarrow> bool \<Rightarrow> (mworld, 'x) kclient" where
  "mem_client get put mt set_mt st_upd ref prompt =
     \<lparr>kc_Get = (\<lambda>k. call (Inl (plain_err ''unavailable'')) (\<lambda>w.
        case map_of (get w) k of
          None \<Rightarrow> (Inl not_found, w)
        | Some x \<Rightarrow> if meta_key (mt x) = k then (Inr x, w) else (Inl (plain_err ''corrupt''), w))),
      kc_CreateOrUpdate = (\<lambda>x f. call (Inl (plain_err ''unavailable''), x) (\<lambda>w.
        let k = meta_key (mt x); stored = map_of (get w) k in
        case f (base_object stored x) of
          Inl e \<Rightarrow> ((Inl e, base_object stored x), w)
        | Inr y \<Rightarrow> ((Inr (case stored of None \<Rightarrow> ResultCreated | Some _ \<Rightarrow> ResultUpdated), y),
                    put (st_put k y) w))),
      kc_Update = (\<lambda>x. call (Some (plain_err ''conflict''), x) (\<lambda>w.
        let k = meta_key (mt x) in
        case map_of (get w) k of
          None \<Rightarrow> ((Some not_found, x), w)
        | Some s \<Rightarrow> let y = st_upd s x in
            ((None, y), put (if om_DeletionTimestamp (mt x) \<noteq> None \<and> om_Finalizers (mt x) = []
               then st_del k else st_put k y) w))),
      kc_StatusUpdate = (\<lambda>x. call (Some (plain_err ''conflict''), x) (\<lambda>w.
        let k = meta_key (mt x) in
        case map_of (get w) k of
          None \<Rightarrow> ((Some not_found, x), w)
        | Some s \<Rightarrow> ((None, st_upd x s), put (st_put k (st_upd x s)) w))),
      kc_Delete = (\<lambda>x. call (Some (plain_err ''unavailable'')) (\<lambda>w.
        let k = meta_key (mt x) in
        case map_of (get w) k of
          None \<Rightarrow> (Some not_found, w)
        | Some s \<Rightarrow> if prompt \<or> om_Finalizers (mt s) = [] then (None, put (st_del k) w)
            else (None, put (st_put k (set_mt ((mt s)\<lparr>om_DeletionTimestamp := Some (mw_Clock w)\<rparr>) s)) w))),
      kc_ListByTenantRef = (\<lambda>n. call (Inl (plain_err ''unavailable'')) (\<lambda>w.
        (Inr (map snd (filter (\<lambda>e. ref (snd e) = n) (st_dedup (get w)))), w)))\<rparr>"

text \<open>The laws of one kind, from the laws of its store.\<close>

definition mem_store where
  "mem_store sel upd get put \<longleftrightarrow>
     (\<forall>w. sel (m_obs w) = map_of (get w)) \<and>
     (\<forall>w. upd (\<lambda>m. m) (m_obs w) = m_obs w) \<and>
     (\<forall>g f w. map_of (g (get w)) = f (map_of (get w)) \<longrightarrow> m_obs (put g w) = upd f (m_obs w))"

lemma mem_store_rules:
  assumes "mem_store sel upd get put"
  shows "sel (m_obs w) = map_of (get w)"
    "\<exists>m'. m_obs w = upd (\<lambda>m. m(k := m')) (m_obs w) \<and> m' = sel (m_obs w) k"
    "m_obs (put (st_put k y) w) = upd (\<lambda>m. m(k \<mapsto> y)) (m_obs w)"
    "m_obs (put (st_del k) w) = upd (\<lambda>m. m(k := None)) (m_obs w)"
    "map_of (get w) k = None \<Longrightarrow> upd (\<lambda>m. m(k := None)) (m_obs w) = m_obs w"
proof -
  have put: "map_of (g (get w)) = f (map_of (get w)) \<Longrightarrow> m_obs (put g w) = upd f (m_obs w)" for g f w
    using assms by (simp add: mem_store_def)
  have same: "m_obs w = upd (\<lambda>m. m(k := map_of (get w) k)) (m_obs w)" for w k
  proof -
    have "m_obs (put (\<lambda>s. s) w) = upd (\<lambda>m. m(k := map_of (get w) k)) (m_obs w)" by (rule put) simp
    moreover have "m_obs (put (\<lambda>s. s) w) = upd (\<lambda>m. m) (m_obs w)" by (rule put) simp
    ultimately show ?thesis using assms by (simp add: mem_store_def)
  qed
  show "sel (m_obs w) = map_of (get w)" using assms by (simp add: mem_store_def)
  show "\<exists>m'. m_obs w = upd (\<lambda>m. m(k := m')) (m_obs w) \<and> m' = sel (m_obs w) k"
    using same [of w k] assms by (auto simp: mem_store_def)
  show "m_obs (put (st_put k y) w) = upd (\<lambda>m. m(k \<mapsto> y)) (m_obs w)" by (rule put) simp
  show "m_obs (put (st_del k) w) = upd (\<lambda>m. m(k := None)) (m_obs w)" by (rule put) simp
  show "map_of (get w) k = None \<Longrightarrow> upd (\<lambda>m. m(k := None)) (m_obs w) = m_obs w"
    using same [of w k] by simp
qed

lemma mem_get:
  assumes S: "mem_store sel upd get put"
  shows "get_ok m_obs sel mt (mem_client get put mt set_mt st_upd ref prompt)"
  unfolding get_ok_def
proof (intro allI, simp only: mem_client_def kclient.simps, rule wp_call, goal_cases)
  case (1 k w w')
  then show ?case by (simp add: plain_err_def)
next
  case (2 k w w')
  with mem_store_rules(1) [OF S, of w'] show ?case
    by (auto simp: plain_err_def not_found_def split: option.split)
qed

lemma mem_cou:
  assumes S: "mem_store sel upd get put"
  shows "cou_ok m_obs sel upd mt (mem_client get put mt set_mt st_upd ref prompt)"
  unfolding cou_ok_def
proof (intro allI, simp add: mem_client_def, rule wp_call, goal_cases)
  case (1 x f w w')
  with mem_store_rules(2) [OF S, of w "meta_key (mt x)"] show ?case by simp blast
next
  case (2 x f w w')
  with mem_store_rules(1) [OF S, of w'] mem_store_rules(3) [OF S, of _ _ w']
    mem_store_rules(2) [OF S, of w' "meta_key (mt x)"]
  show ?case by (auto simp: Let_def split: sum.split)
qed

lemma mem_delete:
  assumes S: "mem_store sel upd get put" and set_mt: "\<And>m x. mt (set_mt m x) = m"
  shows "delete_ok m_obs sel upd mt (mem_client get put mt set_mt st_upd ref prompt)"
  unfolding delete_ok_def
proof (intro allI, simp add: mem_client_def, rule wp_call, goal_cases)
  case (1 x w w')
  with mem_store_rules(2) [OF S, of w "meta_key (mt x)"] show ?case
    by (auto simp: plain_err_def)
next
  case (2 x w w')
  let ?k = "meta_key (mt x)"
  show ?case
  proof (cases "map_of (get w') ?k")
    case None
    from mem_store_rules(5) [OF S None] 2 None mem_store_rules(1) [OF S, of w'] show ?thesis
      by (auto simp: Let_def intro!: exI [of _ None])
  next
    case (Some s)
    let ?y = "set_mt ((mt s)\<lparr>om_DeletionTimestamp := Some (mw_Clock w')\<rparr>) s"
    from Some 2 mem_store_rules(3) [OF S, of ?k ?y w'] mem_store_rules(4) [OF S, of ?k w'] show ?thesis
      by (auto simp: Let_def set_mt intro: exI [of _ None] exI [of _ "Some ?y"])
  qed
qed

lemma mem_delete_now:
  assumes S: "mem_store sel upd get put"
  shows "delete_now m_obs upd mt (mem_client get put mt set_mt st_upd ref True)"
  unfolding delete_now_def
  by (intro allI, simp add: mem_client_def, rule wp_call)
    (auto simp: Let_def mem_store_rules(4) [OF S] split: option.split)

lemma mem_update:
  assumes S: "mem_store sel upd get put" and st: "\<And>x s. mt (st_upd s x) = mt x" "\<And>x s. spec (st_upd s x) = spec x"
  shows "update_ok m_obs sel upd mt spec (mem_client get put mt set_mt st_upd ref prompt)"
  unfolding update_ok_def
proof (intro allI, simp add: mem_client_def, rule wp_call, goal_cases)
  case (1 x w w')
  with mem_store_rules(2) [OF S, of w "meta_key (mt x)"] show ?case by simp blast
next
  case (2 x w w')
  let ?k = "meta_key (mt x)"
  from 2 mem_store_rules(1) [OF S, of w'] mem_store_rules(2) [OF S, of w' ?k]
    mem_store_rules(3) [OF S, of ?k _ w'] mem_store_rules(4) [OF S, of ?k w']
  show ?case by (auto simp: Let_def st split: option.split)
qed

lemma mem_status:
  assumes S: "mem_store sel upd get put"
  shows "status_ok m_obs sel upd mt st_upd (mem_client get put mt set_mt st_upd ref prompt)"
  unfolding status_ok_def
proof (intro allI, simp add: mem_client_def, rule wp_call, goal_cases)
  case (1 x w w')
  with mem_store_rules(2) [OF S, of w "meta_key (mt x)"] show ?case by simp blast
next
  case (2 x w w')
  let ?k = "meta_key (mt x)"
  from 2 mem_store_rules(1) [OF S, of w'] mem_store_rules(2) [OF S, of w' ?k]
    mem_store_rules(3) [OF S, of ?k _ w']
  show ?case by (auto simp: Let_def split: option.split)
qed

lemma map_of_distinct_filter:
  assumes "distinct (map fst s)"
  shows "map (map_of s) (map fst (filter (P \<circ> snd) s)) = map Some (map snd (filter (P \<circ> snd) s))"
  using assms by (auto simp: comp_def)

lemma mem_list:
  assumes S: "mem_store sel upd get put"
  shows "list_ok m_obs sel ref (mem_client get put mt set_mt st_upd ref prompt)"
  unfolding list_ok_def
proof (intro allI, simp add: mem_client_def, rule wp_call, goal_cases)
  case (1 n w w')
  then show ?case by simp
next
  case (2 n w w')
  let ?s = "st_dedup (get w')" and ?P = "\<lambda>e. ref (snd e) = n"
  note d = st_dedup_distinct [of "get w'"]
  have "\<exists>ks. distinct ks \<and> map (map_of (get w')) ks = map Some (map snd (filter ?P ?s)) \<and>
      set ks = {k. \<exists>x. map_of (get w') k = Some x \<and> ref x = n}"
  proof (intro exI [of _ "map fst (filter ?P ?s)"] conjI)
    show "distinct (map fst (filter ?P ?s))" using d by (rule distinct_map_filter)
    show "map (map_of (get w')) (map fst (filter ?P ?s)) = map Some (map snd (filter ?P ?s))"
      using map_of_distinct_filter [OF d, of "\<lambda>x. ref x = n"] by (simp add: comp_def)
    show "set (map fst (filter ?P ?s)) = {k. \<exists>x. map_of (get w') k = Some x \<and> ref x = n}"
      using map_of_eq_Some_iff [OF d] by (auto simp: image_iff Bex_def)
  qed
  with 2 mem_store_rules(1) [OF S, of w'] show ?case by simp
qed

section \<open>The helpers of the libraries\<close>

definition mem_owner :: "ObjectRef \<Rightarrow> ObjectMeta \<Rightarrow> go_err + ObjectMeta" where
  "mem_owner r m =
     (if list_ex (\<lambda>x. or_Controller x \<and> x \<noteq> owner_ref r) (om_OwnerReferences m)
      then Inl (plain_err ''already owned'')
      else Inr (m\<lparr>om_OwnerReferences := List.insert (owner_ref r) (om_OwnerReferences m)\<rparr>))"

definition mem_find :: "Condition list \<Rightarrow> string \<Rightarrow> Condition option" where
  "mem_find cs t = List.find (\<lambda>c. c_Type c = t) cs"

primrec mem_replace :: "Condition \<Rightarrow> Condition list \<Rightarrow> Condition list" where
  "mem_replace c [] = [c]"
| "mem_replace c (d # cs) = (if c_Type d = c_Type c then c # cs else d # mem_replace c cs)"

definition mem_set_condition :: "Condition list \<Rightarrow> Condition \<Rightarrow> (mworld, Condition list) state" where
  "mem_set_condition cs c = State (\<lambda>w.
     let now = (case mem_find cs (c_Type c) of
         Some d \<Rightarrow> if c_Status d = c_Status c then c_LastTransitionTime d else Some (mw_Clock w)
       | None \<Rightarrow> Some (mw_Clock w))
     in (mem_replace (c\<lparr>c_LastTransitionTime := now\<rparr>) cs, w))"

definition mem_has_status :: "ConditionStatus \<Rightarrow> Condition list \<Rightarrow> string \<Rightarrow> bool" where
  "mem_has_status s cs t = (case mem_find cs t of Some c \<Rightarrow> c_Status c = s | None \<Rightarrow> False)"

text \<open>A decimal number and an optional suffix Gi, in units of 1/1000.\<close>

fun mem_parse :: "string \<Rightarrow> int \<Rightarrow> quantity" where
  "mem_parse [] n = n * 1000"
| "mem_parse (c # cs) n =
     (if c = CHR ''G'' then n * 1000 * 1073741824 else mem_parse cs (10 * n + (of_char c - 48)))"

primrec alist_set :: "string \<Rightarrow> json \<Rightarrow> (string \<times> json) list \<Rightarrow> (string \<times> json) list" where
  "alist_set f m [] = [(f, m)]"
| "alist_set f m (e # kvs) = (if fst e = f then (f, m) # kvs else e # alist_set f m kvs)"

fun mem_set_map :: "json \<Rightarrow> json \<Rightarrow> string list \<Rightarrow> go_err + json" where
  "mem_set_map (JMap kvs) m [f] = Inr (JMap (alist_set f m kvs))"
| "mem_set_map _ _ _ = Inl (plain_err ''value is not a map'')"

definition mem_string :: "json \<Rightarrow> string list \<Rightarrow> string \<times> bool \<times> go_err option" where
  "mem_string j fs = (case jpath j fs of
     Some (JStr s) \<Rightarrow> (s, True, None)
   | Some _ \<Rightarrow> ([], False, Some (plain_err ''not a string''))
   | None \<Rightarrow> ([], False, None))"

definition mem_slice :: "json \<Rightarrow> string list \<Rightarrow> json list \<times> bool \<times> go_err option" where
  "mem_slice j fs = (case jpath j fs of
     Some (JList js) \<Rightarrow> (js, True, None)
   | Some _ \<Rightarrow> ([], False, Some (plain_err ''not a slice''))
   | None \<Rightarrow> ([], False, None))"

lemma alist_set_lookup: "map_of (alist_set f m kvs) = (map_of kvs)(f \<mapsto> m)"
  by (induction kvs) (auto simp: fun_eq_iff)

lemma alist_set_idem: "alist_set f m (alist_set f m kvs) = alist_set f m kvs"
  by (induction kvs) auto

lemma mem_replace_find: "mem_find (mem_replace c cs) t = (if t = c_Type c then Some c else mem_find cs t)"
  by (induction cs) (auto simp: mem_find_def)

lemma mem_replace_types: "set (map c_Type (mem_replace c cs)) = insert (c_Type c) (set (map c_Type cs))"
  by (induction cs) auto

lemma mem_replace_distinct:
  "distinct (map c_Type cs) \<Longrightarrow> distinct (map c_Type (mem_replace c cs))"
proof (induction cs)
  case (Cons d cs)
  then show ?case using mem_replace_types [of c cs] by auto
qed simp

lemma find_filter_other:
  "List.find P (filter Q cs) = List.find (\<lambda>c. P c \<and> Q c) cs"
  by (induction cs) auto

section \<open>The API and its laws\<close>

definition mem_effect :: "(mworld \<Rightarrow> mworld) \<Rightarrow> (mworld, unit) state" where
  "mem_effect f = State (\<lambda>w. ((), f w))"

abbreviation (input) no_ref :: "'x \<Rightarrow> string" where
  "no_ref \<equiv> (\<lambda>_. [])"

definition mem_api :: "mworld api" where
  "mem_api =
     \<lparr>api_Tenants = mem_client mw_Tenants mw_Tenants_update t_meta (\<lambda>m x. x\<lparr>t_meta := m\<rparr>)
        (\<lambda>x s. s\<lparr>t_Status := t_Status x\<rparr>) no_ref False,
      api_Environments = mem_client mw_Environments mw_Environments_update e_meta (\<lambda>m x. x\<lparr>e_meta := m\<rparr>)
        (\<lambda>x s. s\<lparr>e_Status := e_Status x\<rparr>) tenant_ref_of_env False,
      api_Integrations = mem_client mw_Integrations mw_Integrations_update i_meta (\<lambda>m x. x\<lparr>i_meta := m\<rparr>)
        (\<lambda>x s. s\<lparr>i_Status := i_Status x\<rparr>) tenant_ref_of_intg False,
      api_Namespaces = mem_client mw_Namespaces mw_Namespaces_update ns_meta (\<lambda>m x. x\<lparr>ns_meta := m\<rparr>)
        (\<lambda>x s. s) no_ref False,
      api_ResourceQuotas = mem_client mw_ResourceQuotas mw_ResourceQuotas_update rq_meta
        (\<lambda>m x. x\<lparr>rq_meta := m\<rparr>) (\<lambda>x s. s) no_ref True,
      api_LimitRanges = mem_client mw_LimitRanges mw_LimitRanges_update lr_meta
        (\<lambda>m x. x\<lparr>lr_meta := m\<rparr>) (\<lambda>x s. s) no_ref True,
      api_NetworkPolicies = mem_client mw_NetworkPolicies mw_NetworkPolicies_update np_meta
        (\<lambda>m x. x\<lparr>np_meta := m\<rparr>) (\<lambda>x s. s) no_ref True,
      api_RoleBindings = mem_client mw_RoleBindings mw_RoleBindings_update rb_meta
        (\<lambda>m x. x\<lparr>rb_meta := m\<rparr>) (\<lambda>x s. s) no_ref True,
      api_ConfigMaps = mem_client mw_ConfigMaps mw_ConfigMaps_update cm_meta
        (\<lambda>m x. x\<lparr>cm_meta := m\<rparr>) (\<lambda>x s. s) no_ref True,
      api_Secrets = mem_client mw_Secrets mw_Secrets_update sec_meta
        (\<lambda>m x. x\<lparr>sec_meta := m\<rparr>) (\<lambda>x s. s) no_ref True,
      api_Unstructured = (\<lambda>g. mem_client (\<lambda>w. mw_Unstructured w g)
        (\<lambda>f w. w\<lparr>mw_Unstructured := (mw_Unstructured w)(g := f (mw_Unstructured w g))\<rparr>) un_meta
        (\<lambda>m x. x\<lparr>un_meta := m\<rparr>) (\<lambda>x s. s) no_ref True),
      SetControllerReference = mem_owner,
      ContainsFinalizer = (\<lambda>fs f. f \<in> set fs),
      AddFinalizer = (\<lambda>fs f. if f \<in> set fs then fs else fs @ [f]),
      RemoveFinalizer = (\<lambda>fs f. removeAll f fs),
      SetStatusCondition = mem_set_condition,
      FindStatusCondition = mem_find,
      IsStatusConditionTrue = mem_has_status ConditionTrue,
      IsStatusConditionFalse = mem_has_status ConditionFalse,
      RemoveStatusCondition = (\<lambda>cs t. filter (\<lambda>c. c_Type c \<noteq> t) cs),
      MustParse = (\<lambda>s. mem_parse s 0),
      SetNestedMap = mem_set_map,
      NestedString = mem_string,
      NestedSlice = mem_slice,
      Eventf = (\<lambda>r ty reason msg. mem_effect (mw_Events_update (\<lambda>es. es @ [mk_event r ty reason msg]))),
      PhaseDeletePartialMatch = (\<lambda>ls. State (\<lambda>w. (0, w\<lparr>mw_Phase :=
        (\<lambda>vs. if series_matches ls vs then None else mw_Phase w vs)\<rparr>))),
      PhaseSet = (\<lambda>vs x. mem_effect (mw_Phase_update (\<lambda>m. m(vs \<mapsto> x)))),
      ReconcileTotalInc = (\<lambda>vs. mem_effect (mw_ReconcileTotal_update (\<lambda>m. m(vs := Suc (m vs))))),
      ReconcileDurationObserve = (\<lambda>vs d. mem_effect (\<lambda>w. w)),
      Now = State (\<lambda>w. (mw_Clock w, w\<lparr>mw_Clock := mw_Clock w + 1000000000\<rparr>)),
      HttpNewRequest = (\<lambda>t. if t = [] then Some (plain_err ''empty url'') else None),
      HttpDo = (\<lambda>q. State (\<lambda>w. (case mw_HttpStatus w of
          Some n \<Rightarrow> Inr n | None \<Rightarrow> Inl (plain_err ''connection refused''), w)))\<rparr>"

lemma mem_api_simps [simp]:
  "SetControllerReference mem_api = mem_owner"
  "SetStatusCondition mem_api = mem_set_condition"
  "FindStatusCondition mem_api = mem_find"
  "IsStatusConditionTrue mem_api = mem_has_status ConditionTrue"
  "IsStatusConditionFalse mem_api = mem_has_status ConditionFalse"
  "RemoveStatusCondition mem_api = (\<lambda>cs t. filter (\<lambda>c. c_Type c \<noteq> t) cs)"
  "MustParse mem_api = (\<lambda>s. mem_parse s 0)"
  "SetNestedMap mem_api = mem_set_map"
  "NestedString mem_api = mem_string"
  "NestedSlice mem_api = mem_slice"
  by (simp_all add: mem_api_def)

lemma mem_stores:
  "mem_store ob_Tenants ob_Tenants_update mw_Tenants mw_Tenants_update"
  "mem_store ob_Environments ob_Environments_update mw_Environments mw_Environments_update"
  "mem_store ob_Integrations ob_Integrations_update mw_Integrations mw_Integrations_update"
  "mem_store ob_Namespaces ob_Namespaces_update mw_Namespaces mw_Namespaces_update"
  "mem_store ob_ResourceQuotas ob_ResourceQuotas_update mw_ResourceQuotas mw_ResourceQuotas_update"
  "mem_store ob_LimitRanges ob_LimitRanges_update mw_LimitRanges mw_LimitRanges_update"
  "mem_store ob_NetworkPolicies ob_NetworkPolicies_update mw_NetworkPolicies mw_NetworkPolicies_update"
  "mem_store ob_RoleBindings ob_RoleBindings_update mw_RoleBindings mw_RoleBindings_update"
  "mem_store ob_ConfigMaps ob_ConfigMaps_update mw_ConfigMaps mw_ConfigMaps_update"
  "mem_store ob_Secrets ob_Secrets_update mw_Secrets mw_Secrets_update"
  "mem_store (unst_sel g) (unst_upd g) (\<lambda>w. mw_Unstructured w g)
     (\<lambda>f w. w\<lparr>mw_Unstructured := (mw_Unstructured w)(g := f (mw_Unstructured w g))\<rparr>)"
  by (auto simp: mem_store_def m_obs_def unst_sel_def unst_upd_def fun_eq_iff)

lemma mem_objects: "objects_ok mem_api m_obs"
  unfolding objects_ok_def managed_ok_def mem_api_def api.simps
  by (intro conjI allI; (rule mem_cou mem_delete, rule mem_stores, simp_all?))

lemma mem_prompt: "prompt_deletes mem_api m_obs"
  unfolding prompt_deletes_def mem_api_def api.simps
  by (intro conjI allI; (rule mem_delete_now, rule mem_stores, simp_all?))

lemma mem_reads: "reads_ok mem_api m_obs"
  unfolding reads_ok_def mem_api_def api.simps
  by (intro conjI allI; (rule mem_get mem_list, rule mem_stores, simp_all?))

lemma mem_resources: "resources_ok mem_api m_obs"
  unfolding resources_ok_def mem_api_def api.simps
  by (intro conjI allI; (rule mem_update mem_delete mem_status, rule mem_stores, simp_all?))

lemma mem_owners: "owners_ok mem_api"
  by (auto simp: owners_ok_def mem_api_def mem_owner_def list_ex_iff split: if_splits)

lemma mem_conditions: "conditions_ok mem_api m_obs"
proof -
  have "wp (mem_set_condition cs c)
      (\<lambda>cs' w'. m_obs w' = m_obs w \<and> (\<forall>t. t \<noteq> c_Type c \<longrightarrow> mem_find cs' t = mem_find cs t) \<and>
         (\<exists>ts. mem_find cs' (c_Type c) = Some (c\<lparr>c_LastTransitionTime := ts\<rparr>) \<and>
            (\<forall>c0. mem_find cs (c_Type c) = Some c0 \<longrightarrow> c_Status c0 = c_Status c \<longrightarrow>
               ts = c_LastTransitionTime c0)) \<and>
         (distinct (map c_Type cs) \<longrightarrow> distinct (map c_Type cs')) \<and>
         set (map c_Type cs') = insert (c_Type c) (set (map c_Type cs))) w" for cs c w
    unfolding wp_def mem_set_condition_def Let_def state.sel prod.case mem_replace_find
      mem_replace_types
    by (auto intro!: mem_replace_distinct split: option.split)
  moreover have "mem_find (filter (\<lambda>c. c_Type c \<noteq> t) cs) u = (if u = t then None else mem_find cs u)" for cs t u
    by (induction cs) (auto simp: mem_find_def)
  ultimately show ?thesis
    by (simp add: conditions_ok_def mem_has_status_def distinct_map_filter)
qed

lemma mem_metrics: "metrics_ok mem_api m_obs"
  by (simp add: metrics_ok_def mem_api_def wp_def mem_effect_def m_obs_def cong: if_cong)

lemma mem_effects: "effects_ok mem_api m_obs"
  by (simp add: effects_ok_def mem_api_def wp_def mem_effect_def m_obs_def)

lemma mem_json: "json_ok mem_api"
proof -
  have "mem_set_map j m [f] = Inr j' \<Longrightarrow>
      jpath j' [f] = Some m \<and> (\<forall>g fs. g \<noteq> f \<longrightarrow> jpath j' (g # fs) = jpath j (g # fs)) \<and>
      mem_set_map j' m [f] = Inr j'" for j m f j'
    by (cases j) (auto simp: alist_set_lookup alist_set_idem)
  moreover have "fst (mem_string j fs) = (case jpath j fs of Some (JStr s) \<Rightarrow> s | _ \<Rightarrow> [])" for j fs
    by (simp add: mem_string_def split: option.split json.split)
  moreover have "case jpath j fs of
      Some (JList js) \<Rightarrow> mem_slice j fs = (js, True, None)
    | _ \<Rightarrow> (\<exists>e. mem_slice j fs = ([], False, e))" for j fs
    by (simp add: mem_slice_def split: option.split json.split)
  ultimately show ?thesis unfolding json_ok_def mem_api_simps by blast
qed

theorem mem_api_ok: "api_ok mem_api m_obs"
  by (simp add: api_ok_def mem_objects mem_prompt mem_reads mem_resources mem_owners mem_conditions
      mem_metrics mem_effects mem_json) (simp add: finalizers_ok_def mem_api_def)

text \<open>For evaluating concrete runs.\<close>

lemmas mem_run = mem_api_def mem_client_def call_def mw_empty_def base_object_def mem_owner_def
  mem_effect_def mem_set_condition_def st_put_def st_del_def State_Monad.bind_def Let_def

end
