(* ===== verification/Provision.thy ===== *)
theory Provision
  imports Labels Converge MemApi
begin

text \<open>
  The provisioning primitives of \<open>internal/platform\<close>: \<open>util.go\<close>, \<open>namespace.go\<close>, \<open>quota.go\<close>,
  \<open>networkpolicy.go\<close>, \<open>rbac.go\<close> and \<open>config.go\<close>. Each function that converges one object is
  split as in the code into the closure passed to \<open>CreateOrUpdate\<close> (the \<open>\<dots>_mutate\<close>
  definitions) and the function around it.
\<close>

section \<open>util.go\<close>

definition mustQuantity :: "'w api \<Rightarrow> string \<Rightarrow> quantity" where
  "mustQuantity A s = MustParse A s"

definition ignoreNotFound :: "go_err \<Rightarrow> bool" where
  "ignoreNotFound err = IsNotFound err"

definition applyOwner :: "'w api \<Rightarrow> bool \<Rightarrow> ObjectRef \<Rightarrow> ObjectMeta \<Rightarrow> go_err + ObjectMeta" where
  "applyOwner A setController owner controlled =
     (if \<not> setController then Inr controlled else SetControllerReference A owner controlled)"

section \<open>namespace.go\<close>

definition namespace_mutate ::
  "'w api \<Rightarrow> ObjectRef \<Rightarrow> bool \<Rightarrow> labels \<Rightarrow> Namespace \<Rightarrow> go_err + Namespace" where
  "namespace_mutate A owner setController labels ns =
     (let m = (ns_meta ns)\<lparr>om_Labels := range_set (om_Labels (ns_meta ns)) labels\<rparr>
      in if setController then
           (case SetControllerReference A owner m of
              Inl err \<Rightarrow> Inl err
            | Inr m \<Rightarrow> Inr (ns\<lparr>ns_meta := m\<rparr>))
         else Inr (ns\<lparr>ns_meta := m\<rparr>))"

definition ReconcileNamespace ::
  "'w api \<Rightarrow> ObjectRef \<Rightarrow> bool \<Rightarrow> string \<Rightarrow> labels \<Rightarrow> ('w, go_err + OperationResult) state" where
  "ReconcileNamespace A owner setController name labels = do {
     (r, _) \<leftarrow> kc_CreateOrUpdate (api_Namespaces A) (new_Namespace name)
                 (namespace_mutate A owner setController labels);
     State_Monad.return r
   }"

definition EnsureNamespaceDeleted :: "'w api \<Rightarrow> string \<Rightarrow> ('w, bool \<times> go_err option) state" where
  "EnsureNamespaceDeleted A name = do {
     got \<leftarrow> kc_Get (api_Namespaces A) ([], name);
     (case got of
        Inl err \<Rightarrow>
          if IsNotFound err then State_Monad.return (True, None)
          else State_Monad.return (False, Some err)
      | Inr ns \<Rightarrow>
          if om_DeletionTimestamp (ns_meta ns) = None then do {
            err \<leftarrow> kc_Delete (api_Namespaces A) ns;
            (case err of
               Some e \<Rightarrow>
                 if \<not> IsNotFound e then State_Monad.return (False, Some e)
                 else State_Monad.return (True, None)
             | None \<Rightarrow> State_Monad.return (True, None))
          }
          else State_Monad.return (True, None))
   }"

section \<open>quota.go\<close>

definition QuotaName :: string where [upo_consts]: "QuotaName = ''upo-tenant-quota''"
definition LimitRangeName :: string where [upo_consts]: "LimitRangeName = ''upo-tenant-limits''"
definition LimitTypeContainer :: string where [upo_consts]: "LimitTypeContainer = ''Container''"

definition quota_mutate ::
  "'w api \<Rightarrow> ObjectRef \<Rightarrow> bool \<Rightarrow> ResourceList \<Rightarrow> bool \<Rightarrow> labels \<Rightarrow> ResourceQuota \<Rightarrow>
   go_err + ResourceQuota" where
  "quota_mutate A owner setController hard suspended labels rq =
     (let m = (rq_meta rq)\<lparr>om_Labels := MergeLabels (om_Labels (rq_meta rq)) labels\<rparr>;
          desired = range_set fmempty hard;
          desired = (if suspended then fmupd ResourcePods (mustQuantity A ''0'') desired else desired)
      in (case applyOwner A setController owner m of
            Inl err \<Rightarrow> Inl err
          | Inr m \<Rightarrow> Inr (rq\<lparr>rq_meta := m, rq_Hard := desired\<rparr>)))"

definition ReconcileResourceQuota ::
  "'w api \<Rightarrow> ObjectRef \<Rightarrow> bool \<Rightarrow> string \<Rightarrow> ResourceList \<Rightarrow> bool \<Rightarrow> labels \<Rightarrow>
   ('w, go_err + OperationResult) state" where
  "ReconcileResourceQuota A owner setController namespace hard suspended labels =
     (let rq = new_ResourceQuota namespace QuotaName
      in if hard = fmempty \<and> \<not> suspended then do {
           err \<leftarrow> kc_Delete (api_ResourceQuotas A) rq;
           (case err of
              Some e \<Rightarrow>
                if \<not> ignoreNotFound e then State_Monad.return (Inl e)
                else State_Monad.return (Inr ResultNone)
            | None \<Rightarrow> State_Monad.return (Inr ResultNone))
         }
         else do {
           (r, _) \<leftarrow> kc_CreateOrUpdate (api_ResourceQuotas A) rq
                       (quota_mutate A owner setController hard suspended labels);
           State_Monad.return r
         })"

definition nonEmpty :: "ResourceList \<Rightarrow> ResourceList" where
  "nonEmpty rl = (if rl = fmempty then fmempty else rl)"

definition limits_mutate ::
  "'w api \<Rightarrow> ObjectRef \<Rightarrow> bool \<Rightarrow> ResourceList \<Rightarrow> ResourceList \<Rightarrow> ResourceList \<Rightarrow> labels \<Rightarrow>
   LimitRange \<Rightarrow> go_err + LimitRange" where
  "limits_mutate A owner setController def defReq mx labels lr =
     (let m = (lr_meta lr)\<lparr>om_Labels := MergeLabels (om_Labels (lr_meta lr)) labels\<rparr>;
          items = [\<lparr>lri_Type = LimitTypeContainer, lri_Default = nonEmpty def,
                    lri_DefaultRequest = nonEmpty defReq, lri_Max = nonEmpty mx\<rparr>]
      in (case applyOwner A setController owner m of
            Inl err \<Rightarrow> Inl err
          | Inr m \<Rightarrow> Inr (lr\<lparr>lr_meta := m, lr_Limits := items\<rparr>)))"

definition ReconcileLimitRange ::
  "'w api \<Rightarrow> ObjectRef \<Rightarrow> bool \<Rightarrow> string \<Rightarrow> ResourceList \<Rightarrow> ResourceList \<Rightarrow> ResourceList \<Rightarrow> labels \<Rightarrow>
   ('w, go_err + OperationResult) state" where
  "ReconcileLimitRange A owner setController namespace def defReq mx labels =
     (let lr = new_LimitRange namespace LimitRangeName
      in if def = fmempty \<and> defReq = fmempty \<and> mx = fmempty then do {
           err \<leftarrow> kc_Delete (api_LimitRanges A) lr;
           (case err of
              Some e \<Rightarrow>
                if \<not> ignoreNotFound e then State_Monad.return (Inl e)
                else State_Monad.return (Inr ResultNone)
            | None \<Rightarrow> State_Monad.return (Inr ResultNone))
         }
         else do {
           (r, _) \<leftarrow> kc_CreateOrUpdate (api_LimitRanges A) lr
                       (limits_mutate A owner setController def defReq mx labels);
           State_Monad.return r
         })"

section \<open>networkpolicy.go\<close>

definition DefaultNetworkPolicyName :: string where
  [upo_consts]: "DefaultNetworkPolicyName = ''upo-tenant-default''"
definition dnsPort :: int where "dnsPort = 53"
definition PolicyTypeIngress :: string where [upo_consts]: "PolicyTypeIngress = ''Ingress''"
definition PolicyTypeEgress :: string where [upo_consts]: "PolicyTypeEgress = ''Egress''"

definition networkpolicy_mutate ::
  "'w api \<Rightarrow> ObjectRef \<Rightarrow> NetworkIsolation \<Rightarrow> labels \<Rightarrow> NetworkPolicy \<Rightarrow> go_err + NetworkPolicy" where
  "networkpolicy_mutate A owner isolation labels np =
     (let m = (np_meta np)\<lparr>om_Labels := MergeLabels (om_Labels (np_meta np)) labels\<rparr>;
          np = np\<lparr>np_PodSelector := \<lparr>sel_MatchLabels = fmempty\<rparr>,
                  np_PolicyTypes := [PolicyTypeIngress, PolicyTypeEgress]\<rparr>;
          sameNamespace = [\<lparr>peer_PodSelector = Some \<lparr>sel_MatchLabels = fmempty\<rparr>,
                            peer_NamespaceSelector = None, peer_IPBlock = None\<rparr>];
          np = (if isolation = NetworkIsolationStrict then np\<lparr>np_Ingress := [], np_Egress := []\<rparr>
                else if isolation = NetworkIsolationBaseline then
                  np\<lparr>np_Ingress := [\<lparr>ir_From = sameNamespace, ir_Ports = []\<rparr>],
                     np_Egress :=
                       [\<lparr>er_To = sameNamespace, er_Ports = []\<rparr>,
                        \<lparr>er_To = [],
                         er_Ports = [\<lparr>npp_Protocol = Some ''UDP'', npp_Port = Some dnsPort\<rparr>,
                                     \<lparr>npp_Protocol = Some ''TCP'', npp_Port = Some dnsPort\<rparr>]\<rparr>]\<rparr>
                else np)
      in (case SetControllerReference A owner m of
            Inl err \<Rightarrow> Inl err
          | Inr m \<Rightarrow> Inr (np\<lparr>np_meta := m\<rparr>)))"

definition ReconcileNetworkPolicy ::
  "'w api \<Rightarrow> ObjectRef \<Rightarrow> string \<Rightarrow> NetworkIsolation \<Rightarrow> labels \<Rightarrow>
   ('w, go_err + OperationResult) state" where
  "ReconcileNetworkPolicy A owner namespace isolation labels =
     (let np = new_NetworkPolicy namespace DefaultNetworkPolicyName
      in if isolation = NetworkIsolationNone then do {
           err \<leftarrow> kc_Delete (api_NetworkPolicies A) np;
           (case err of
              Some e \<Rightarrow>
                if \<not> ignoreNotFound e then State_Monad.return (Inl e)
                else State_Monad.return (Inr ResultNone)
            | None \<Rightarrow> State_Monad.return (Inr ResultNone))
         }
         else do {
           (r, _) \<leftarrow> kc_CreateOrUpdate (api_NetworkPolicies A) np
                       (networkpolicy_mutate A owner isolation labels);
           State_Monad.return r
         })"

section \<open>rbac.go\<close>

definition TenantAdminBindingName :: string where
  [upo_consts]: "TenantAdminBindingName = ''upo-tenant-admins''"
definition RbacGroupName :: string where [upo_consts]: "RbacGroupName = ''rbac.authorization.k8s.io''"
definition ServiceAccountKind :: string where [upo_consts]: "ServiceAccountKind = ''ServiceAccount''"

definition toSubject :: "SubjectReference \<Rightarrow> Subject" where
  "toSubject a =
     (let s = \<lparr>sj_Kind = sub_Kind a, sj_APIGroup = [], sj_Name = sub_Name a, sj_Namespace = []\<rparr>
      in if sub_Kind a = ServiceAccountKind
         then s\<lparr>sj_Namespace := sub_Namespace a, sj_APIGroup := []\<rparr>
         else s\<lparr>sj_APIGroup := RbacGroupName\<rparr>)"

primrec toSubjects :: "SubjectReference list \<Rightarrow> Subject list" where
  "toSubjects [] = []"
| "toSubjects (a # admins) = toSubject a # toSubjects admins"

definition binding_mutate ::
  "'w api \<Rightarrow> ObjectRef \<Rightarrow> SubjectReference list \<Rightarrow> labels \<Rightarrow> RoleBinding \<Rightarrow> go_err + RoleBinding" where
  "binding_mutate A owner admins labels rb =
     (let m = (rb_meta rb)\<lparr>om_Labels := MergeLabels (om_Labels (rb_meta rb)) labels\<rparr>;
          rb = rb\<lparr>rb_RoleRef := \<lparr>rr_APIGroup = RbacGroupName, rr_Kind = ''ClusterRole'', rr_Name = ''admin''\<rparr>,
                  rb_Subjects := toSubjects admins\<rparr>
      in (case SetControllerReference A owner m of
            Inl err \<Rightarrow> Inl err
          | Inr m \<Rightarrow> Inr (rb\<lparr>rb_meta := m\<rparr>)))"

definition ReconcileTenantAdminBinding ::
  "'w api \<Rightarrow> ObjectRef \<Rightarrow> string \<Rightarrow> SubjectReference list \<Rightarrow> labels \<Rightarrow>
   ('w, go_err + OperationResult) state" where
  "ReconcileTenantAdminBinding A owner namespace admins labels =
     (let rb = new_RoleBinding namespace TenantAdminBindingName
      in if admins = [] then do {
           err \<leftarrow> kc_Delete (api_RoleBindings A) rb;
           (case err of
              Some e \<Rightarrow>
                if \<not> ignoreNotFound e then State_Monad.return (Inl e)
                else State_Monad.return (Inr ResultNone)
            | None \<Rightarrow> State_Monad.return (Inr ResultNone))
         }
         else do {
           (r, _) \<leftarrow> kc_CreateOrUpdate (api_RoleBindings A) rb
                       (binding_mutate A owner admins labels);
           State_Monad.return r
         })"

section \<open>config.go\<close>

definition EnvConfigMapName :: string where [upo_consts]: "EnvConfigMapName = ''upo-env-config''"
definition EnvSecretName :: string where [upo_consts]: "EnvSecretName = ''upo-env-secrets''"
definition SecretTypeOpaque :: string where [upo_consts]: "SecretTypeOpaque = ''Opaque''"

definition configmap_mutate ::
  "'w api \<Rightarrow> ObjectRef \<Rightarrow> bool \<Rightarrow> (string, string) fmap \<Rightarrow> labels \<Rightarrow> ConfigMap \<Rightarrow>
   go_err + ConfigMap" where
  "configmap_mutate A owner setController data labels cm =
     (let m = (cm_meta cm)\<lparr>om_Labels := MergeLabels (om_Labels (cm_meta cm)) labels\<rparr>
      in (case applyOwner A setController owner m of
            Inl err \<Rightarrow> Inl err
          | Inr m \<Rightarrow> Inr (cm\<lparr>cm_meta := m, cm_Data := data\<rparr>)))"

definition ReconcileConfigMap ::
  "'w api \<Rightarrow> ObjectRef \<Rightarrow> bool \<Rightarrow> string \<Rightarrow> string \<Rightarrow> (string, string) fmap \<Rightarrow> labels \<Rightarrow>
   ('w, go_err + OperationResult) state" where
  "ReconcileConfigMap A owner setController namespace name data labels =
     (let cm = new_ConfigMap namespace name
      in if data = fmempty then do {
           err \<leftarrow> kc_Delete (api_ConfigMaps A) cm;
           (case err of
              Some e \<Rightarrow>
                if \<not> IsNotFound e then State_Monad.return (Inl e)
                else State_Monad.return (Inr ResultNone)
            | None \<Rightarrow> State_Monad.return (Inr ResultNone))
         }
         else do {
           (r, _) \<leftarrow> kc_CreateOrUpdate (api_ConfigMaps A) cm
                       (configmap_mutate A owner setController data labels);
           State_Monad.return r
         })"

text \<open>The loop of \<open>ProjectSecrets\<close> over the selectors, with \<open>collected\<close> as accumulator.\<close>

fun collect_secrets ::
  "'w api \<Rightarrow> string \<Rightarrow> SecretKeySelector list \<Rightarrow> (string, string) fmap \<Rightarrow>
   ('w, go_err + (string, string) fmap) state" where
  "collect_secrets A srcNamespace [] collected = State_Monad.return (Inr collected)"
| "collect_secrets A srcNamespace (sel # selectors) collected = do {
     got \<leftarrow> kc_Get (api_Secrets A) (srcNamespace, sks_Name sel);
     (case got of
        Inl err \<Rightarrow>
          if IsNotFound err \<and> sks_Optional sel then collect_secrets A srcNamespace selectors collected
          else State_Monad.return (Inl (wrap_err
                 (''resolve secret '' @ srcNamespace @ ''/'' @ sks_Name sel @ '': '') err))
      | Inr src \<Rightarrow>
          (case fmlookup (sec_Data src) (sks_Key sel) of
             None \<Rightarrow>
               if sks_Optional sel then collect_secrets A srcNamespace selectors collected
               else State_Monad.return (Inl (plain_err
                      (''key '' @ fmt_q (sks_Key sel) @ '' absent from secret '' @ srcNamespace @
                       ''/'' @ sks_Name sel)))
           | Some val \<Rightarrow>
               collect_secrets A srcNamespace selectors (fmupd (sks_Key sel) val collected)))
   }"

definition secret_mutate ::
  "'w api \<Rightarrow> ObjectRef \<Rightarrow> bool \<Rightarrow> (string, string) fmap \<Rightarrow> labels \<Rightarrow> Secret \<Rightarrow> go_err + Secret" where
  "secret_mutate A owner setController data labels secret =
     (let m = (sec_meta secret)\<lparr>om_Labels := MergeLabels (om_Labels (sec_meta secret)) labels\<rparr>
      in (case applyOwner A setController owner m of
            Inl err \<Rightarrow> Inl err
          | Inr m \<Rightarrow> Inr (secret\<lparr>sec_meta := m, sec_Type := SecretTypeOpaque, sec_Data := data\<rparr>)))"

definition ProjectSecrets ::
  "'w api \<Rightarrow> ObjectRef \<Rightarrow> bool \<Rightarrow> string \<Rightarrow> string \<Rightarrow> string \<Rightarrow> SecretKeySelector list \<Rightarrow> labels \<Rightarrow>
   ('w, go_err + OperationResult) state" where
  "ProjectSecrets A owner setController srcNamespace dstNamespace name selectors labels =
     (let secret = new_Secret dstNamespace name
      in if selectors = [] then do {
           err \<leftarrow> kc_Delete (api_Secrets A) secret;
           (case err of
              Some e \<Rightarrow>
                if \<not> IsNotFound e then State_Monad.return (Inl e)
                else State_Monad.return (Inr ResultNone)
            | None \<Rightarrow> State_Monad.return (Inr ResultNone))
         }
         else do {
           collected \<leftarrow> collect_secrets A srcNamespace selectors fmempty;
           (case collected of
              Inl err \<Rightarrow> State_Monad.return (Inl err)
            | Inr data \<Rightarrow> do {
                (r, _) \<leftarrow> kc_CreateOrUpdate (api_Secrets A) secret
                            (secret_mutate A owner setController data labels);
                State_Monad.return r
              })
         })"

section \<open>Every primitive meets the contract\<close>

text \<open>Labels and owner are written the same way everywhere.\<close>

lemma applyOwner_labels:
  assumes "owners_ok A"
    and "applyOwner A sc owner (m\<lparr>om_Labels := range_set (om_Labels m) ls\<rparr>) = Inr m'"
  shows "om_Labels m' = range_set (om_Labels m) ls"
    and "applyOwner A sc owner (m'\<lparr>om_Labels := range_set (om_Labels m') ls\<rparr>) = Inr m'"
    and "labelled ls m'" and "owned sc owner m'"
proof -
  from assms(2) show *: "om_Labels m' = range_set (om_Labels m) ls"
    by (auto simp: applyOwner_def split: if_splits dest!: SetControllerReferenceD(1) [OF assms(1)])
  have same: "m'\<lparr>om_Labels := range_set (om_Labels m) ls\<rparr> = m'"
    by (simp flip: *)
  with assms(2) show "applyOwner A sc owner (m'\<lparr>om_Labels := range_set (om_Labels m') ls\<rparr>) = Inr m'"
    by (auto simp: * same applyOwner_def split: if_splits dest: SetControllerReferenceD(2) [OF assms(1)])
  from * show "labelled ls m'" by (simp add: labelled_def)
  from assms(2) show "owned sc owner m'"
    by (auto simp: owned_def applyOwner_def dest!: SetControllerReferenceD(1) [OF assms(1)])
qed

lemmas applyOwner_labels_True = applyOwner_labels [where sc = True, unfolded applyOwner_def, simplified]

lemmas mutate_defs = namespace_mutate_def quota_mutate_def limits_mutate_def networkpolicy_mutate_def
  binding_mutate_def configmap_mutate_def secret_mutate_def MergeLabels_eq Let_def

text \<open>The desired states, with the arguments of the functions as tuples.\<close>

definition namespace_desired ::
  "'w api \<Rightarrow> ObjectRef \<times> bool \<times> string \<times> labels \<Rightarrow> Namespace \<Rightarrow> bool" where
  "namespace_desired A = (\<lambda>(owner, sc, name, labels) x.
     labelled labels (ns_meta x) \<and> owned sc owner (ns_meta x))"

definition suspended_hard :: "'w api \<Rightarrow> ResourceList \<Rightarrow> bool \<Rightarrow> ResourceList" where
  "suspended_hard A hard suspended =
     (if suspended then fmupd ResourcePods (MustParse A ''0'') hard else hard)"

definition quota_desired ::
  "'w api \<Rightarrow> ObjectRef \<times> bool \<times> string \<times> ResourceList \<times> bool \<times> labels \<Rightarrow> ResourceQuota \<Rightarrow> bool" where
  "quota_desired A = (\<lambda>(owner, sc, ns, hard, suspended, labels) x.
     rq_Hard x = suspended_hard A hard suspended \<and> labelled labels (rq_meta x) \<and> owned sc owner (rq_meta x))"

definition limits_desired ::
  "'w api \<Rightarrow> ObjectRef \<times> bool \<times> string \<times> ResourceList \<times> ResourceList \<times> ResourceList \<times> labels \<Rightarrow>
   LimitRange \<Rightarrow> bool" where
  "limits_desired A = (\<lambda>(owner, sc, ns, def, defReq, mx, labels) x.
     lr_Limits x = [\<lparr>lri_Type = LimitTypeContainer, lri_Default = def, lri_DefaultRequest = defReq, lri_Max = mx\<rparr>] \<and>
     labelled labels (lr_meta x) \<and> owned sc owner (lr_meta x))"

definition configmap_desired ::
  "'w api \<Rightarrow> ObjectRef \<times> bool \<times> string \<times> string \<times> (string, string) fmap \<times> labels \<Rightarrow> ConfigMap \<Rightarrow> bool" where
  "configmap_desired A = (\<lambda>(owner, sc, ns, name, data, labels) x.
     cm_Data x = data \<and> labelled labels (cm_meta x) \<and> owned sc owner (cm_meta x))"

definition binding_desired ::
  "'w api \<Rightarrow> ObjectRef \<times> string \<times> SubjectReference list \<times> labels \<Rightarrow> RoleBinding \<Rightarrow> bool" where
  "binding_desired A = (\<lambda>(owner, ns, admins, labels) x.
     rb_RoleRef x = \<lparr>rr_APIGroup = RbacGroupName, rr_Kind = ''ClusterRole'', rr_Name = ''admin''\<rparr> \<and>
     rb_Subjects x = map toSubject admins \<and> labelled labels (rb_meta x) \<and> owned True owner (rb_meta x))"

text \<open>What a network policy lets through, by the documented reading of the API: a policy of type
  Ingress (Egress) over all pods admits a connection when one of its rules does; a rule without
  peers admits any peer, one without ports any port; a peer with an empty pod selector and no
  namespace selector is any pod of the policy's own namespace.\<close>

datatype endpoint = SameNamespace | OtherNamespace | External

definition peer_admits :: "endpoint \<Rightarrow> NetworkPolicyPeer \<Rightarrow> bool" where
  "peer_admits e p \<longleftrightarrow> e = SameNamespace \<and> peer_PodSelector p = Some \<lparr>sel_MatchLabels = fmempty\<rparr> \<and>
     peer_NamespaceSelector p = None \<and> peer_IPBlock p = None"

definition port_admits :: "string \<Rightarrow> int \<Rightarrow> NetworkPolicyPort \<Rightarrow> bool" where
  "port_admits proto port p \<longleftrightarrow> npp_Protocol p = Some proto \<and> npp_Port p = Some port"

definition ingress_admitted :: "NetworkPolicy \<Rightarrow> endpoint \<Rightarrow> string \<Rightarrow> int \<Rightarrow> bool" where
  "ingress_admitted np e proto port \<longleftrightarrow> PolicyTypeIngress \<notin> set (np_PolicyTypes np) \<or>
     list_ex (\<lambda>r. (ir_From r = [] \<or> list_ex (peer_admits e) (ir_From r)) \<and>
                  (ir_Ports r = [] \<or> list_ex (port_admits proto port) (ir_Ports r))) (np_Ingress np)"

definition egress_admitted :: "NetworkPolicy \<Rightarrow> endpoint \<Rightarrow> string \<Rightarrow> int \<Rightarrow> bool" where
  "egress_admitted np e proto port \<longleftrightarrow> PolicyTypeEgress \<notin> set (np_PolicyTypes np) \<or>
     list_ex (\<lambda>r. (er_To r = [] \<or> list_ex (peer_admits e) (er_To r)) \<and>
                  (er_Ports r = [] \<or> list_ex (port_admits proto port) (er_Ports r))) (np_Egress np)"

text \<open>The posture an isolation level promises. Only the two levels with a rule set of their own
  are constrained.\<close>

definition posture :: "NetworkIsolation \<Rightarrow> NetworkPolicy \<Rightarrow> bool" where
  "posture isolation np \<longleftrightarrow>
     np_PodSelector np = \<lparr>sel_MatchLabels = fmempty\<rparr> \<and>
     (isolation = NetworkIsolationStrict \<longrightarrow>
        (\<forall>e proto port. \<not> ingress_admitted np e proto port \<and> \<not> egress_admitted np e proto port)) \<and>
     (isolation = NetworkIsolationBaseline \<longrightarrow>
        (\<forall>e proto port. ingress_admitted np e proto port \<longleftrightarrow> e = SameNamespace) \<and>
        (\<forall>e proto port. egress_admitted np e proto port \<longleftrightarrow>
           e = SameNamespace \<or> port = 53 \<and> (proto = ''UDP'' \<or> proto = ''TCP'')))"

definition networkpolicy_desired ::
  "'w api \<Rightarrow> ObjectRef \<times> string \<times> NetworkIsolation \<times> labels \<Rightarrow> NetworkPolicy \<Rightarrow> bool" where
  "networkpolicy_desired A = (\<lambda>(owner, ns, isolation, labels) x.
     posture isolation x \<and> labelled labels (np_meta x) \<and> owned True owner (np_meta x))"

lemma toSubjects_map: "toSubjects admins = map toSubject admins"
  by (induction admins) simp_all

lemma nonEmpty_id [simp]: "nonEmpty rl = rl"
  by (simp add: nonEmpty_def)

lemma networkpolicy_mutate_posture:
  "networkpolicy_mutate A owner isolation labels x = Inr y \<Longrightarrow> posture isolation y"
  by (auto simp: networkpolicy_mutate_def posture_def ingress_admitted_def egress_admitted_def
      peer_admits_def port_admits_def upo_consts dnsPort_def Let_def split: sum.splits if_splits)

text \<open>The interpretations. \<open>upd_id\<close> and its kin are facts about record updates; what each proof
  adds is that its closure is stable and that the function is a converging step.\<close>

lemma converge_instances:
  "ReconcileNamespace A owner sc name labels =
     converge False (api_Namespaces A) (new_Namespace name) (namespace_mutate A owner sc labels)"
  "ReconcileResourceQuota A owner sc ns hard suspended labels =
     converge (hard = fmempty \<and> \<not> suspended) (api_ResourceQuotas A) (new_ResourceQuota ns QuotaName)
       (quota_mutate A owner sc hard suspended labels)"
  "ReconcileLimitRange A owner sc ns def defReq mx labels =
     converge (def = fmempty \<and> defReq = fmempty \<and> mx = fmempty) (api_LimitRanges A)
       (new_LimitRange ns LimitRangeName) (limits_mutate A owner sc def defReq mx labels)"
  "ReconcileNetworkPolicy A owner ns isolation labels =
     converge (isolation = NetworkIsolationNone) (api_NetworkPolicies A)
       (new_NetworkPolicy ns DefaultNetworkPolicyName) (networkpolicy_mutate A owner isolation labels)"
  "ReconcileTenantAdminBinding A owner ns admins labels =
     converge (admins = []) (api_RoleBindings A) (new_RoleBinding ns TenantAdminBindingName)
       (binding_mutate A owner admins labels)"
  "ReconcileConfigMap A owner sc ns name data labels =
     converge (data = fmempty) (api_ConfigMaps A) (new_ConfigMap ns name)
       (configmap_mutate A owner sc data labels)"
  by (simp_all add: converge_def ReconcileNamespace_def ReconcileResourceQuota_def
      ReconcileLimitRange_def ReconcileNetworkPolicy_def ReconcileTenantAdminBinding_def
      ReconcileConfigMap_def ignoreNotFound_def Let_def)

text \<open>The interpretations. Each adds that its closure is stable and establishes the desired
  state; the step itself is \<open>wp_converge\<close>.\<close>

lemma managed_parts:
  assumes "api_ok A V"
  shows "managed_ok V ob_Namespaces ob_Namespaces_update ns_meta (api_Namespaces A)"
    "managed_ok V ob_ResourceQuotas ob_ResourceQuotas_update rq_meta (api_ResourceQuotas A)"
    "managed_ok V ob_LimitRanges ob_LimitRanges_update lr_meta (api_LimitRanges A)"
    "managed_ok V ob_NetworkPolicies ob_NetworkPolicies_update np_meta (api_NetworkPolicies A)"
    "managed_ok V ob_RoleBindings ob_RoleBindings_update rb_meta (api_RoleBindings A)"
    "managed_ok V ob_ConfigMaps ob_ConfigMaps_update cm_meta (api_ConfigMaps A)"
    "managed_ok V ob_Secrets ob_Secrets_update sec_meta (api_Secrets A)"
    "delete_now V ob_ResourceQuotas_update rq_meta (api_ResourceQuotas A)"
    "delete_now V ob_LimitRanges_update lr_meta (api_LimitRanges A)"
    "delete_now V ob_NetworkPolicies_update np_meta (api_NetworkPolicies A)"
    "delete_now V ob_RoleBindings_update rb_meta (api_RoleBindings A)"
    "delete_now V ob_ConfigMaps_update cm_meta (api_ConfigMaps A)"
    "delete_now V ob_Secrets_update sec_meta (api_Secrets A)"
  using assms by (simp_all add: api_ok_def objects_ok_def prompt_deletes_def)

text \<open>What the closures have in common: labels merged, the owner applied, the rest overwritten
  (\<open>put\<close>). Such a closure is stable, and its result carries the labels and the owner.\<close>

lemma labelled_closure:
  assumes own: "owners_ok A"
    and f: "\<And>x. f x = (case applyOwner A sc owner ((mt x)\<lparr>om_Labels := range_set (om_Labels (mt x)) ls\<rparr>) of
        Inl err \<Rightarrow> Inl err | Inr m \<Rightarrow> Inr (put m x))"
    and mt_put: "\<And>m x. mt (put m x) = m" and put_put: "\<And>m m' x. put m (put m' x) = put m x"
    and y: "f x = Inr y"
  shows "f y = Inr y \<and> labelled ls (mt y) \<and> owned sc owner (mt y) \<and> (\<exists>m. y = put m x)"
proof -
  from y obtain m where m: "applyOwner A sc owner ((mt x)\<lparr>om_Labels := range_set (om_Labels (mt x)) ls\<rparr>) = Inr m"
    and y': "y = put m x" by (auto simp: f split: sum.splits)
  note * = applyOwner_labels [OF own m]
  from *(2) have "f y = Inr y" by (simp add: f y' mt_put put_put)
  with *(3,4) y' show ?thesis by (auto simp: mt_put)
qed

lemma namespace_closure:
  "owners_ok A \<Longrightarrow> namespace_mutate A owner sc labels x = Inr y \<Longrightarrow>
   namespace_mutate A owner sc labels y = Inr y \<and> namespace_desired A (owner, sc, name, labels) y"
  by (drule labelled_closure [where f = "namespace_mutate A owner sc labels" and mt = ns_meta
        and put = "\<lambda>m x. x\<lparr>ns_meta := m\<rparr>" and x = x and y = y and sc = sc and owner = owner and ls = labels])
    (auto simp: mutate_defs applyOwner_def namespace_desired_def)

lemma quota_closure:
  "owners_ok A \<Longrightarrow> quota_mutate A owner sc hard suspended labels x = Inr y \<Longrightarrow>
   quota_mutate A owner sc hard suspended labels y = Inr y \<and>
   quota_desired A (owner, sc, ns, hard, suspended, labels) y"
  by (drule labelled_closure [where f = "quota_mutate A owner sc hard suspended labels" and mt = rq_meta
        and put = "\<lambda>m x. x\<lparr>rq_meta := m, rq_Hard := suspended_hard A hard suspended\<rparr>"
        and x = x and y = y and sc = sc and owner = owner and ls = labels])
    (auto simp: mutate_defs suspended_hard_def mustQuantity_def quota_desired_def split: sum.splits)

lemma limits_closure:
  "owners_ok A \<Longrightarrow> limits_mutate A owner sc def defReq mx labels x = Inr y \<Longrightarrow>
   limits_mutate A owner sc def defReq mx labels y = Inr y \<and>
   limits_desired A (owner, sc, ns, def, defReq, mx, labels) y"
  by (drule labelled_closure [where f = "limits_mutate A owner sc def defReq mx labels" and mt = lr_meta
        and put = "\<lambda>m x. x\<lparr>lr_meta := m, lr_Limits := [\<lparr>lri_Type = LimitTypeContainer, lri_Default = def,
            lri_DefaultRequest = defReq, lri_Max = mx\<rparr>]\<rparr>"
        and x = x and y = y and sc = sc and owner = owner and ls = labels])
    (auto simp: mutate_defs limits_desired_def split: sum.splits)

lemma configmap_closure:
  "owners_ok A \<Longrightarrow> configmap_mutate A owner sc data labels x = Inr y \<Longrightarrow>
   configmap_mutate A owner sc data labels y = Inr y \<and>
   configmap_desired A (owner, sc, ns, name, data, labels) y"
  by (drule labelled_closure [where f = "configmap_mutate A owner sc data labels" and mt = cm_meta
        and put = "\<lambda>m x. x\<lparr>cm_meta := m, cm_Data := data\<rparr>"
        and x = x and y = y and sc = sc and owner = owner and ls = labels])
    (auto simp: mutate_defs configmap_desired_def split: sum.splits)

definition secret_desired ::
  "'w api \<Rightarrow> ObjectRef \<times> bool \<times> string \<times> string \<times> (string, string) fmap \<times> labels \<Rightarrow> Secret \<Rightarrow> bool" where
  "secret_desired A = (\<lambda>(owner, sc, ns, name, data, labels) x.
     sec_Data x = data \<and> sec_Type x = SecretTypeOpaque \<and> labelled labels (sec_meta x) \<and>
     owned sc owner (sec_meta x))"

lemma secret_closure:
  "owners_ok A \<Longrightarrow> secret_mutate A owner sc data labels x = Inr y \<Longrightarrow>
   secret_mutate A owner sc data labels y = Inr y \<and>
   secret_desired A (owner, sc, ns, name, data, labels) y"
  by (drule labelled_closure [where f = "secret_mutate A owner sc data labels" and mt = sec_meta
        and put = "\<lambda>m x. x\<lparr>sec_meta := m, sec_Type := SecretTypeOpaque, sec_Data := data\<rparr>"
        and x = x and y = y and sc = sc and owner = owner and ls = labels])
    (auto simp: mutate_defs secret_desired_def split: sum.splits)

lemma binding_closure:
  "owners_ok A \<Longrightarrow> binding_mutate A owner admins labels x = Inr y \<Longrightarrow>
   binding_mutate A owner admins labels y = Inr y \<and> binding_desired A (owner, ns, admins, labels) y"
  by (drule labelled_closure [where f = "binding_mutate A owner admins labels" and mt = rb_meta
        and put = "\<lambda>m x. x\<lparr>rb_meta := m, rb_RoleRef := \<lparr>rr_APIGroup = RbacGroupName,
            rr_Kind = ''ClusterRole'', rr_Name = ''admin''\<rparr>, rb_Subjects := map toSubject admins\<rparr>"
        and x = x and y = y and sc = True and owner = owner and ls = labels])
    (auto simp: mutate_defs applyOwner_def toSubjects_map binding_desired_def split: sum.splits)

definition with_posture :: "NetworkIsolation \<Rightarrow> NetworkPolicy \<Rightarrow> NetworkPolicy" where
  "with_posture isolation np =
     (let sameNamespace = [\<lparr>peer_PodSelector = Some \<lparr>sel_MatchLabels = fmempty\<rparr>,
                            peer_NamespaceSelector = None, peer_IPBlock = None\<rparr>];
          np = np\<lparr>np_PodSelector := \<lparr>sel_MatchLabels = fmempty\<rparr>,
                  np_PolicyTypes := [PolicyTypeIngress, PolicyTypeEgress]\<rparr>
      in if isolation = NetworkIsolationStrict then np\<lparr>np_Ingress := [], np_Egress := []\<rparr>
         else if isolation = NetworkIsolationBaseline then
           np\<lparr>np_Ingress := [\<lparr>ir_From = sameNamespace, ir_Ports = []\<rparr>],
              np_Egress :=
                [\<lparr>er_To = sameNamespace, er_Ports = []\<rparr>,
                 \<lparr>er_To = [],
                  er_Ports = [\<lparr>npp_Protocol = Some ''UDP'', npp_Port = Some dnsPort\<rparr>,
                              \<lparr>npp_Protocol = Some ''TCP'', npp_Port = Some dnsPort\<rparr>]\<rparr>]\<rparr>
         else np)"

lemma networkpolicy_mutate_eq:
  "networkpolicy_mutate A owner isolation labels x =
     (case applyOwner A True owner ((np_meta x)\<lparr>om_Labels := range_set (om_Labels (np_meta x)) labels\<rparr>) of
        Inl err \<Rightarrow> Inl err | Inr m \<Rightarrow> Inr ((with_posture isolation x)\<lparr>np_meta := m\<rparr>))"
  by (simp add: mutate_defs applyOwner_def with_posture_def split: sum.split)

lemma with_posture_put:
  "(with_posture isolation ((with_posture isolation x)\<lparr>np_meta := m'\<rparr>))\<lparr>np_meta := m\<rparr> =
     (with_posture isolation x)\<lparr>np_meta := m\<rparr>"
  by (simp add: with_posture_def Let_def)

lemma networkpolicy_closure:
  assumes "owners_ok A" and y: "networkpolicy_mutate A owner isolation labels x = Inr y"
  shows "networkpolicy_mutate A owner isolation labels y = Inr y \<and>
    networkpolicy_desired A (owner, ns, isolation, labels) y"
  using labelled_closure [where put = "\<lambda>m x. (with_posture isolation x)\<lparr>np_meta := m\<rparr>" and mt = np_meta,
      OF assms(1) networkpolicy_mutate_eq _ with_posture_put y]
    networkpolicy_mutate_posture [OF y]
  by (simp add: networkpolicy_desired_def)

text \<open>The arguments of each function as a tuple.\<close>

interpretation nsp: converging api_ok ob_Namespaces ob_Namespaces_update ns_meta api_Namespaces
    "\<lambda>(owner, sc, name, labels). True"
    "\<lambda>(owner, sc, name, labels). new_Namespace name"
    "\<lambda>A (owner, sc, name, labels). namespace_mutate A owner sc labels" namespace_desired
    "\<lambda>A (owner, sc, name, labels). ReconcileNamespace A owner sc name labels"
  by unfold_locales
    (auto simp: comp_def converge_instances managed_parts dest: namespace_closure [OF api_okD(5)] split: prod.splits)

interpretation quotas: converging api_ok ob_ResourceQuotas ob_ResourceQuotas_update rq_meta api_ResourceQuotas
    "\<lambda>(owner, sc, ns, hard, suspended, labels). \<not> (hard = fmempty \<and> \<not> suspended)"
    "\<lambda>(owner, sc, ns, hard, suspended, labels). new_ResourceQuota ns QuotaName"
    "\<lambda>A (owner, sc, ns, hard, suspended, labels). quota_mutate A owner sc hard suspended labels" quota_desired
    "\<lambda>A (owner, sc, ns, hard, suspended, labels). ReconcileResourceQuota A owner sc ns hard suspended labels"
  by unfold_locales
    (auto simp: comp_def converge_instances managed_parts dest: quota_closure [OF api_okD(5)] split: prod.splits)

interpretation limits: converging api_ok ob_LimitRanges ob_LimitRanges_update lr_meta api_LimitRanges
    "\<lambda>(owner, sc, ns, def, defReq, mx, labels). \<not> (def = fmempty \<and> defReq = fmempty \<and> mx = fmempty)"
    "\<lambda>(owner, sc, ns, def, defReq, mx, labels). new_LimitRange ns LimitRangeName"
    "\<lambda>A (owner, sc, ns, def, defReq, mx, labels). limits_mutate A owner sc def defReq mx labels" limits_desired
    "\<lambda>A (owner, sc, ns, def, defReq, mx, labels). ReconcileLimitRange A owner sc ns def defReq mx labels"
  by unfold_locales
    (auto simp: comp_def converge_instances managed_parts conj_ac dest: limits_closure [OF api_okD(5)] split: prod.splits)

interpretation netpols: converging api_ok ob_NetworkPolicies ob_NetworkPolicies_update np_meta api_NetworkPolicies
    "\<lambda>(owner, ns, isolation, labels). isolation \<noteq> NetworkIsolationNone"
    "\<lambda>(owner, ns, isolation, labels). new_NetworkPolicy ns DefaultNetworkPolicyName"
    "\<lambda>A (owner, ns, isolation, labels). networkpolicy_mutate A owner isolation labels" networkpolicy_desired
    "\<lambda>A (owner, ns, isolation, labels). ReconcileNetworkPolicy A owner ns isolation labels"
  by unfold_locales
    (auto simp: comp_def converge_instances managed_parts dest: networkpolicy_closure [OF api_okD(5)] split: prod.splits)

interpretation bindings: converging api_ok ob_RoleBindings ob_RoleBindings_update rb_meta api_RoleBindings
    "\<lambda>(owner, ns, admins, labels). admins \<noteq> []"
    "\<lambda>(owner, ns, admins, labels). new_RoleBinding ns TenantAdminBindingName"
    "\<lambda>A (owner, ns, admins, labels). binding_mutate A owner admins labels" binding_desired
    "\<lambda>A (owner, ns, admins, labels). ReconcileTenantAdminBinding A owner ns admins labels"
  by unfold_locales
    (auto simp: comp_def converge_instances managed_parts dest: binding_closure [OF api_okD(5)] split: prod.splits)

interpretation configmaps: converging api_ok ob_ConfigMaps ob_ConfigMaps_update cm_meta api_ConfigMaps
    "\<lambda>(owner, sc, ns, name, data, labels). data \<noteq> fmempty"
    "\<lambda>(owner, sc, ns, name, data, labels). new_ConfigMap ns name"
    "\<lambda>A (owner, sc, ns, name, data, labels). configmap_mutate A owner sc data labels" configmap_desired
    "\<lambda>A (owner, sc, ns, name, data, labels). ReconcileConfigMap A owner sc ns name data labels"
  by unfold_locales
    (auto simp: comp_def converge_instances managed_parts dest: configmap_closure [OF api_okD(5)] split: prod.splits)

text \<open>The contract of each primitive as one rule.\<close>

lemma ReconcileNamespace_rule:
  assumes ok: "api_ok A V"
    and Inr: "\<And>r x w'. V w' = ob_Namespaces_update (\<lambda>m. m(([], name) \<mapsto> x)) (V w) \<Longrightarrow>
       namespace_desired A (owner, sc, name, labels) x \<Longrightarrow> Q (Inr r) w'"
    and Inl: "\<And>e x w'. V w' = ob_Namespaces_update (\<lambda>m. m(([], name) := x)) (V w) \<Longrightarrow> Q (Inl e) w'"
  shows "wp (ReconcileNamespace A owner sc name labels) Q w"
  by (rule nsp.reconcile_rule [OF ok, where a = "(owner, sc, name, labels)", simplified])
    (auto simp: provisioned_def intro: Inl intro!: Inr split: option.splits)

lemma ReconcileResourceQuota_rule:
  assumes ok: "api_ok A V"
    and Inr: "\<And>r x w'. V w' = ob_ResourceQuotas_update (\<lambda>m. m((ns, QuotaName) := x)) (V w) \<Longrightarrow>
       (case x of None \<Rightarrow> \<not> (hard \<noteq> fmempty \<or> suspended) | Some y \<Rightarrow> (hard \<noteq> fmempty \<or> suspended) \<and> quota_desired A (owner, sc, ns, hard, suspended, labels) y) \<Longrightarrow> Q (Inr r) w'"
    and Inl: "\<And>e x w'. V w' = ob_ResourceQuotas_update (\<lambda>m. m((ns, QuotaName) := x)) (V w) \<Longrightarrow> Q (Inl e) w'"
  shows "wp (ReconcileResourceQuota A owner sc ns hard suspended labels) Q w"
  by (rule quotas.reconcile_rule [OF ok, where a = "(owner, sc, ns, hard, suspended, labels)", simplified])
    (auto simp: provisioned_def intro: Inl intro!: Inr split: option.splits)

lemma ReconcileLimitRange_rule:
  assumes ok: "api_ok A V"
    and Inr: "\<And>r x w'. V w' = ob_LimitRanges_update (\<lambda>m. m((ns, LimitRangeName) := x)) (V w) \<Longrightarrow>
       (case x of None \<Rightarrow> \<not> (def \<noteq> fmempty \<or> defReq \<noteq> fmempty \<or> mx \<noteq> fmempty) | Some y \<Rightarrow> (def \<noteq> fmempty \<or> defReq \<noteq> fmempty \<or> mx \<noteq> fmempty) \<and> limits_desired A (owner, sc, ns, def, defReq, mx, labels) y) \<Longrightarrow> Q (Inr r) w'"
    and Inl: "\<And>e x w'. V w' = ob_LimitRanges_update (\<lambda>m. m((ns, LimitRangeName) := x)) (V w) \<Longrightarrow> Q (Inl e) w'"
  shows "wp (ReconcileLimitRange A owner sc ns def defReq mx labels) Q w"
  by (rule limits.reconcile_rule [OF ok, where a = "(owner, sc, ns, def, defReq, mx, labels)", simplified])
    (auto simp: provisioned_def intro: Inl intro!: Inr split: option.splits)

lemma ReconcileNetworkPolicy_rule:
  assumes ok: "api_ok A V"
    and Inr: "\<And>r x w'. V w' = ob_NetworkPolicies_update (\<lambda>m. m((ns, DefaultNetworkPolicyName) := x)) (V w) \<Longrightarrow>
       (case x of None \<Rightarrow> \<not> (isolation \<noteq> NetworkIsolationNone) | Some y \<Rightarrow> (isolation \<noteq> NetworkIsolationNone) \<and> networkpolicy_desired A (owner, ns, isolation, labels) y) \<Longrightarrow> Q (Inr r) w'"
    and Inl: "\<And>e x w'. V w' = ob_NetworkPolicies_update (\<lambda>m. m((ns, DefaultNetworkPolicyName) := x)) (V w) \<Longrightarrow> Q (Inl e) w'"
  shows "wp (ReconcileNetworkPolicy A owner ns isolation labels) Q w"
  by (rule netpols.reconcile_rule [OF ok, where a = "(owner, ns, isolation, labels)", simplified])
    (auto simp: provisioned_def intro: Inl intro!: Inr split: option.splits)

lemma ReconcileTenantAdminBinding_rule:
  assumes ok: "api_ok A V"
    and Inr: "\<And>r x w'. V w' = ob_RoleBindings_update (\<lambda>m. m((ns, TenantAdminBindingName) := x)) (V w) \<Longrightarrow>
       (case x of None \<Rightarrow> \<not> (admins \<noteq> []) | Some y \<Rightarrow> (admins \<noteq> []) \<and> binding_desired A (owner, ns, admins, labels) y) \<Longrightarrow> Q (Inr r) w'"
    and Inl: "\<And>e x w'. V w' = ob_RoleBindings_update (\<lambda>m. m((ns, TenantAdminBindingName) := x)) (V w) \<Longrightarrow> Q (Inl e) w'"
  shows "wp (ReconcileTenantAdminBinding A owner ns admins labels) Q w"
  by (rule bindings.reconcile_rule [OF ok, where a = "(owner, ns, admins, labels)", simplified])
    (auto simp: provisioned_def intro: Inl intro!: Inr split: option.splits)

lemma ReconcileConfigMap_rule:
  assumes ok: "api_ok A V"
    and Inr: "\<And>r x w'. V w' = ob_ConfigMaps_update (\<lambda>m. m((ns, name) := x)) (V w) \<Longrightarrow>
       (case x of None \<Rightarrow> \<not> (data \<noteq> fmempty) | Some y \<Rightarrow> (data \<noteq> fmempty) \<and> configmap_desired A (owner, sc, ns, name, data, labels) y) \<Longrightarrow> Q (Inr r) w'"
    and Inl: "\<And>e x w'. V w' = ob_ConfigMaps_update (\<lambda>m. m((ns, name) := x)) (V w) \<Longrightarrow> Q (Inl e) w'"
  shows "wp (ReconcileConfigMap A owner sc ns name data labels) Q w"
  by (rule configmaps.reconcile_rule [OF ok, where a = "(owner, sc, ns, name, data, labels)", simplified])
    (auto simp: provisioned_def intro: Inl intro!: Inr split: option.splits)

section \<open>Secrets and namespaces\<close>

lemma ob_put_same [simp]:
  "ob_Namespaces v k = n \<Longrightarrow> ob_Namespaces_update (\<lambda>m. m(k := n)) v = v"
  "ob_Secrets v k = s \<Longrightarrow> ob_Secrets_update (\<lambda>m. m(k := s)) v = v"
proof -
  have "(ob_Namespaces v)(k := ob_Namespaces v k) = ob_Namespaces v" by (rule fun_upd_triv)
  then show "ob_Namespaces v k = n \<Longrightarrow> ob_Namespaces_update (\<lambda>m. m(k := n)) v = v" by (cases v) auto
  have "(ob_Secrets v)(k := ob_Secrets v k) = ob_Secrets v" by (rule fun_upd_triv)
  then show "ob_Secrets v k = s \<Longrightarrow> ob_Secrets_update (\<lambda>m. m(k := s)) v = v" by (cases v) auto
qed

text \<open>What a selector list resolves to, as a relation between selectors, source secrets and the
  projected map: each required selector has a value, and a key holds the value of the last
  selector that asks for it and resolves.\<close>

definition resolved :: "(objkey \<rightharpoonup> Secret) \<Rightarrow> string \<Rightarrow> SecretKeySelector \<Rightarrow> string option" where
  "resolved secs ns sel =
     Option.bind (secs (ns, sks_Name sel)) (\<lambda>src. fmlookup (sec_Data src) (sks_Key sel))"

definition resolvable :: "(objkey \<rightharpoonup> Secret) \<Rightarrow> string \<Rightarrow> SecretKeySelector list \<Rightarrow> bool" where
  "resolvable secs ns sels \<longleftrightarrow> (\<forall>sel \<in> set sels. sks_Optional sel \<or> resolved secs ns sel \<noteq> None)"

definition projection ::
  "(objkey \<rightharpoonup> Secret) \<Rightarrow> string \<Rightarrow> SecretKeySelector list \<Rightarrow> string \<Rightarrow> string option" where
  "projection secs ns sels k =
     (let hits = filter (\<lambda>sel. sks_Key sel = k \<and> resolved secs ns sel \<noteq> None) sels
      in if hits = [] then None else resolved secs ns (last hits))"

lemma projection_Nil [simp]: "projection secs ns [] k = None"
  by (simp add: projection_def)

lemma projection_Cons:
  "projection secs ns (sel # sels) k =
     (case projection secs ns sels k of
        Some v \<Rightarrow> Some v
      | None \<Rightarrow> if sks_Key sel = k then resolved secs ns sel else None)"
proof (cases "filter (\<lambda>sel. sks_Key sel = k \<and> resolved secs ns sel \<noteq> None) sels = []")
  case False
  let ?hits = "filter (\<lambda>sel. sks_Key sel = k \<and> resolved secs ns sel \<noteq> None) sels"
  from last_in_set [OF False] have "resolved secs ns (last ?hits) \<noteq> None" by auto
  with False show ?thesis by (auto simp: projection_def Let_def)
qed (auto simp: projection_def Let_def)

lemma collect_secrets_rule:
  assumes ok: "reads_ok A V"
    and Inr: "\<And>data w'. V w' = V w \<Longrightarrow> resolvable (ob_Secrets (V w)) ns sels \<Longrightarrow>
       fmlookup data = (\<lambda>k. case projection (ob_Secrets (V w)) ns sels k of
          Some v \<Rightarrow> Some v | None \<Rightarrow> fmlookup acc k) \<Longrightarrow> Q (Inr data) w'"
    and Inl: "\<And>e w'. V w' = V w \<Longrightarrow> Q (Inl e) w'"
  shows "wp (collect_secrets A ns sels acc) Q w"
  using Inr Inl
proof (induction sels arbitrary: acc w)
  case Nil
  then show ?case by (auto simp: resolvable_def)
next
  case (Cons sel sels)
  from ok have get: "get_ok V ob_Secrets sec_meta (api_Secrets A)" by (simp add: reads_ok_def)
  have skip: "wp (collect_secrets A ns sels acc) Q w'"
    if "V w' = V w" "sks_Optional sel" "resolved (ob_Secrets (V w)) ns sel = None" for w'
    by (rule Cons.IH) (use that Cons.prems in \<open>auto simp: resolvable_def projection_Cons fun_eq_iff split: option.split\<close>)
  have take: "wp (collect_secrets A ns sels (fmupd (sks_Key sel) v acc)) Q w'"
    if "V w' = V w" "resolved (ob_Secrets (V w)) ns sel = Some v" for w' v
    by (rule Cons.IH) (use that Cons.prems in \<open>auto simp: resolvable_def projection_Cons fun_eq_iff split: option.split\<close>)
  show ?case
    by (simp only: collect_secrets.simps wp_simps, rule wp_get [OF get])
           (auto simp: resolved_def intro: skip take Cons.prems(2) split: option.split)
qed

text \<open>The outcome of \<open>ProjectSecrets\<close>. An error before the write leaves the cluster as it was; in
  every case at most the destination secret changes.\<close>

definition secrets_projected ::
  "'w api \<Rightarrow> (objkey \<rightharpoonup> Secret) \<Rightarrow> ObjectRef \<Rightarrow> bool \<Rightarrow> string \<Rightarrow> SecretKeySelector list \<Rightarrow>
   labels \<Rightarrow> Secret option \<Rightarrow> bool" where
  "secrets_projected A secs owner sc src sels labels x \<longleftrightarrow>
     (if sels = [] then x = None
      else resolvable secs src sels \<and>
        (\<exists>y. x = Some y \<and> fmlookup (sec_Data y) = projection secs src sels \<and>
           sec_Type y = SecretTypeOpaque \<and> labelled labels (sec_meta y) \<and> owned sc owner (sec_meta y)))"

lemma ProjectSecrets_rule:
  assumes ok: "api_ok A V"
    and Inr: "\<And>r w' x. V w' = ob_Secrets_update (\<lambda>m. m((dst, name) := x)) (V w) \<Longrightarrow>
       secrets_projected A (ob_Secrets (V w)) owner sc src sels labels x \<Longrightarrow> Q (Inr r) w'"
    and Inl: "\<And>e w' x. V w' = ob_Secrets_update (\<lambda>m. m((dst, name) := x)) (V w) \<Longrightarrow>
       (sels \<noteq> [] \<Longrightarrow> \<not> resolvable (ob_Secrets (V w)) src sels \<Longrightarrow> V w' = V w) \<Longrightarrow> Q (Inl e) w'"
  shows "wp (ProjectSecrets A owner sc src dst name sels labels) Q w"
proof -
  note cou = managed_parts(7) [OF ok, unfolded managed_ok_def, THEN conjunct1]
    and del = managed_parts(7) [OF ok, unfolded managed_ok_def, THEN conjunct2]
  show ?thesis
  proof (cases "sels = []")
    case True
    then show ?thesis
      by (simp add: ProjectSecrets_def Let_def, intro wp_delete_now [OF del managed_parts(13) [OF ok]])
        (auto simp: secrets_projected_def intro: Inr Inl)
  next
    case False
    then show ?thesis
    proof (simp only: ProjectSecrets_def Let_def if_False wp_simps, intro collect_secrets_rule [OF api_okD(3) [OF ok]],
        goal_cases)
      case (1 data w')
      then have data: "fmlookup data = projection (ob_Secrets (V w)) src sels"
        by (simp add: fun_eq_iff split: option.split)
      show ?case
      proof (simp, rule wp_cou [OF cou], goal_cases)
        case (1 r x' w'')
        from secret_closure [OF api_okD(5) [OF ok] this(1), of dst name] \<open>V w' = V w\<close> data
          \<open>resolvable (ob_Secrets (V w)) src sels\<close> False 1(2)
        show ?case by (auto simp: secrets_projected_def secret_desired_def intro!: Inr)
      next
        case (2 e x' m' w'')
        then have "V w'' = ob_Secrets_update (\<lambda>m. m((dst, name) := m')) (V w)"
          by (simp add: \<open>V w' = V w\<close>)
        then have "Q (Inl e) w''"
          by (rule Inl) (simp add: \<open>resolvable (ob_Secrets (V w)) src sels\<close>)
        then show ?case by simp
      qed
    next
      case (2 e w')
      then have "Q (Inl e) w'" by (intro Inl [of w' "ob_Secrets (V w) (dst, name)"]) simp_all
      then show ?case by simp
    qed
  qed
qed

text \<open>\<open>EnsureNamespaceDeleted\<close> answers true exactly when it has no error to report; the namespace
  is then gone or on its way out.\<close>

definition gone_or_terminating :: "obs \<Rightarrow> string \<Rightarrow> bool" where
  "gone_or_terminating v name \<longleftrightarrow>
     (\<forall>ns. ob_Namespaces v ([], name) = Some ns \<longrightarrow> om_DeletionTimestamp (ns_meta ns) \<noteq> None)"

lemma EnsureNamespaceDeleted_rule:
  assumes ok: "api_ok A V"
    and gone: "\<And>w' x. V w' = ob_Namespaces_update (\<lambda>m. m(([], name) := x)) (V w) \<Longrightarrow>
       gone_or_terminating (V w') name \<Longrightarrow> Q (True, None) w'"
    and err: "\<And>e w' x. V w' = ob_Namespaces_update (\<lambda>m. m(([], name) := x)) (V w) \<Longrightarrow> Q (False, Some e) w'"
  shows "wp (EnsureNamespaceDeleted A name) Q w"
proof -
  from ok have get: "get_ok V ob_Namespaces ns_meta (api_Namespaces A)"
    by (simp add: api_ok_def reads_ok_def)
  note del = managed_parts(1) [OF ok, unfolded managed_ok_def, THEN conjunct2]
  show ?thesis
    unfolding EnsureNamespaceDeleted_def wp_simps
  proof (rule wp_get [OF get], goal_cases)
    case (1 ns w')
    show ?case
    proof (cases "om_DeletionTimestamp (ns_meta ns) = None")
      case True
      with 1 show ?thesis
        by (simp, intro wp_delete [OF del]) (auto simp: gone_or_terminating_def intro!: gone err)
    next
      case False
      with 1 show ?thesis
        by (auto simp: gone_or_terminating_def intro!: gone [of w' "Some ns"])
    qed
  next
    case (2 e w')
    then show ?case
      by (auto simp: gone_or_terminating_def intro!: gone [of w' "ob_Namespaces (V w) ([], name)"]
          err [of w' "ob_Namespaces (V w) ([], name)"])
  qed
qed

section \<open>Properties\<close>

definition some_owner :: ObjectRef where
  "some_owner = \<lparr>ref_Kind = ''Tenant'', ref_meta = new_meta [] ''acme''\<rparr>"

text \<open>C23: \<open>ReconcileNetworkPolicy\<close> enforces the isolation level. After a success the namespace
  either has no default policy (level None), or one that lets through exactly what the level
  promises: nothing for Strict, traffic inside the namespace and DNS for Baseline. The policy
  carries the labels and the owner, and nothing but this policy has changed, even on an error.\<close>

theorem ReconcileNetworkPolicy_isolates:
  assumes "api_ok A V"
  shows "wp (ReconcileNetworkPolicy A owner ns isolation labels) (\<lambda>r w'.
     (\<exists>x. V w' = ob_NetworkPolicies_update (\<lambda>m. m((ns, DefaultNetworkPolicyName) := x)) (V w)) \<and>
     (case r of
        Inl e \<Rightarrow> True
      | Inr _ \<Rightarrow>
          (case ob_NetworkPolicies (V w') (ns, DefaultNetworkPolicyName) of
             None \<Rightarrow> isolation = NetworkIsolationNone
           | Some np \<Rightarrow> isolation \<noteq> NetworkIsolationNone \<and> posture isolation np \<and>
               labelled labels (np_meta np) \<and> owned True owner (np_meta np)))) w"
  by (rule netpols.reconcile_rule [OF assms, where a = "(owner, ns, isolation, labels)", simplified])
    (auto simp: provisioned_def networkpolicy_desired_def split: option.splits)

lemma ReconcileNetworkPolicy_isolates_witness:
  "wp (ReconcileNetworkPolicy mem_api some_owner ''tenant-acme'' NetworkIsolationBaseline BaseLabels) (\<lambda>r w'.
     (\<exists>x. m_obs w' = ob_NetworkPolicies_update
        (\<lambda>m. m((''tenant-acme'', DefaultNetworkPolicyName) := x)) (m_obs mw_empty)) \<and>
     (case r of
        Inl e \<Rightarrow> True
      | Inr _ \<Rightarrow>
          (case ob_NetworkPolicies (m_obs w') (''tenant-acme'', DefaultNetworkPolicyName) of
             None \<Rightarrow> NetworkIsolationBaseline = NetworkIsolationNone
           | Some np \<Rightarrow> NetworkIsolationBaseline \<noteq> NetworkIsolationNone \<and>
               posture NetworkIsolationBaseline np \<and>
               labelled BaseLabels (np_meta np) \<and> owned True some_owner (np_meta np)))) mw_empty \<and>
   fst (run_state (ReconcileNetworkPolicy mem_api some_owner ''tenant-acme'' NetworkIsolationBaseline
     BaseLabels) mw_empty) = Inr ResultCreated"
proof (rule conjI [OF ReconcileNetworkPolicy_isolates [OF mem_api_ok]])
  show "fst (run_state (ReconcileNetworkPolicy mem_api some_owner ''tenant-acme'' NetworkIsolationBaseline
     BaseLabels) mw_empty) = Inr ResultCreated"
    by (simp add: ReconcileNetworkPolicy_def networkpolicy_mutate_def mem_run upo_consts new_meta_def
        new_NetworkPolicy_def)
qed

text \<open>\<open>ReconcileResourceQuota\<close> enforces the budget. After a success the namespace has no quota
  exactly when the budget is empty and the owner is not suspended; otherwise the quota is the
  budget, with the pod count forced to zero while suspended, so that a suspended namespace can
  run nothing.\<close>

lemma ReconcileResourceQuota_enforces:
  assumes "api_ok A V"
  shows "wp (ReconcileResourceQuota A owner sc ns hard suspended labels) (\<lambda>r w'.
     (\<exists>x. V w' = ob_ResourceQuotas_update (\<lambda>m. m((ns, QuotaName) := x)) (V w)) \<and>
     (case r of
        Inl e \<Rightarrow> True
      | Inr _ \<Rightarrow>
          (case ob_ResourceQuotas (V w') (ns, QuotaName) of
             None \<Rightarrow> hard = fmempty \<and> \<not> suspended
           | Some rq \<Rightarrow> labelled labels (rq_meta rq) \<and> owned sc owner (rq_meta rq) \<and>
               (\<forall>k. fmlookup (rq_Hard rq) k =
                  (if suspended \<and> k = ResourcePods then Some (MustParse A ''0'') else fmlookup hard k))))) w"
  by (rule quotas.reconcile_rule [OF assms, where a = "(owner, sc, ns, hard, suspended, labels)", simplified])
    (auto simp: provisioned_def quota_desired_def suspended_hard_def split: option.splits)

lemma ReconcileResourceQuota_enforces_witness:
  "wp (ReconcileResourceQuota mem_api some_owner True ''tenant-acme'' fmempty True BaseLabels) (\<lambda>r w'.
     (\<exists>x. m_obs w' = ob_ResourceQuotas_update (\<lambda>m. m((''tenant-acme'', QuotaName) := x)) (m_obs mw_empty)) \<and>
     (case r of
        Inl e \<Rightarrow> True
      | Inr _ \<Rightarrow>
          (case ob_ResourceQuotas (m_obs w') (''tenant-acme'', QuotaName) of
             None \<Rightarrow> fmempty = (fmempty :: ResourceList) \<and> \<not> True
           | Some rq \<Rightarrow> labelled BaseLabels (rq_meta rq) \<and> owned True some_owner (rq_meta rq) \<and>
               (\<forall>k. fmlookup (rq_Hard rq) k =
                  (if True \<and> k = ResourcePods then Some (MustParse mem_api ''0'')
                   else fmlookup fmempty k))))) mw_empty \<and>
   fst (run_state (ReconcileResourceQuota mem_api some_owner True ''tenant-acme'' fmempty True BaseLabels)
     mw_empty) = Inr ResultCreated \<and> MustParse mem_api ''0'' = 0"
proof (rule conjI [OF ReconcileResourceQuota_enforces [OF mem_api_ok]])
  show "fst (run_state (ReconcileResourceQuota mem_api some_owner True ''tenant-acme'' fmempty True BaseLabels)
     mw_empty) = Inr ResultCreated \<and> MustParse mem_api ''0'' = 0"
    by (simp add: ReconcileResourceQuota_def quota_mutate_def applyOwner_def mem_run new_meta_def
        new_ResourceQuota_def)
qed

text \<open>C24: \<open>ProjectSecrets\<close> copies exactly what the selectors resolve to. On success with selectors,
  every required one resolved, and the projected secret holds under each key the value of the last
  selector of that key that resolves, and nothing else; without selectors the projection is gone.
  When a required selector does not resolve, nothing is written.\<close>

theorem ProjectSecrets_exact:
  assumes "api_ok A V"
  shows "wp (ProjectSecrets A owner sc src dst name sels labels) (\<lambda>r w'.
     (\<exists>x. V w' = ob_Secrets_update (\<lambda>m. m((dst, name) := x)) (V w)) \<and>
     (case r of
        Inr _ \<Rightarrow> secrets_projected A (ob_Secrets (V w)) owner sc src sels labels (ob_Secrets (V w') (dst, name))
      | Inl _ \<Rightarrow> sels = [] \<or> resolvable (ob_Secrets (V w)) src sels \<or> V w' = V w)) w"
  by (rule ProjectSecrets_rule [OF assms]) auto

definition secret_world :: mworld where
  "secret_world = mw_empty\<lparr>mw_Secrets :=
     [((''team'', ''db''), \<lparr>sec_meta = new_meta ''team'' ''db'', sec_Type = SecretTypeOpaque,
        sec_Data = fmap_of_list [(''password'', ''hunter2'')]\<rparr>)]\<rparr>"

definition db_selectors :: "SecretKeySelector list" where
  "db_selectors = [\<lparr>sks_Name = ''db'', sks_Key = ''password'', sks_Optional = False\<rparr>,
     \<lparr>sks_Name = ''absent'', sks_Key = ''token'', sks_Optional = True\<rparr>]"

lemma ProjectSecrets_exact_witness:
  "wp (ProjectSecrets mem_api some_owner False ''team'' ''tenant-acme-dev'' EnvSecretName db_selectors BaseLabels)
     (\<lambda>r w'. (\<exists>x. m_obs w' = ob_Secrets_update (\<lambda>m. m((''tenant-acme-dev'', EnvSecretName) := x)) (m_obs secret_world)) \<and>
     (case r of
        Inr _ \<Rightarrow> secrets_projected mem_api (ob_Secrets (m_obs secret_world)) some_owner False ''team'' db_selectors
          BaseLabels (ob_Secrets (m_obs w') (''tenant-acme-dev'', EnvSecretName))
      | Inl _ \<Rightarrow> db_selectors = [] \<or> resolvable (ob_Secrets (m_obs secret_world)) ''team'' db_selectors \<or>
          m_obs w' = m_obs secret_world)) secret_world \<and>
   (case run_state (ProjectSecrets mem_api some_owner False ''team'' ''tenant-acme-dev'' EnvSecretName
       db_selectors BaseLabels) secret_world of
      (r, w') \<Rightarrow> r = Inr ResultCreated \<and>
        map_option sec_Data (map_of (mw_Secrets w') (''tenant-acme-dev'', EnvSecretName)) =
          Some (fmap_of_list [(''password'', ''hunter2'')]))"
proof (rule conjI [OF ProjectSecrets_exact [OF mem_api_ok]])
  show "case run_state (ProjectSecrets mem_api some_owner False ''team'' ''tenant-acme-dev'' EnvSecretName
       db_selectors BaseLabels) secret_world of
      (r, w') \<Rightarrow> r = Inr ResultCreated \<and>
        map_option sec_Data (map_of (mw_Secrets w') (''tenant-acme-dev'', EnvSecretName)) =
          Some (fmap_of_list [(''password'', ''hunter2'')])"
    by (simp add: ProjectSecrets_def secret_world_def db_selectors_def secret_mutate_def applyOwner_def
        mem_run new_meta_def new_Secret_def meta_key_def not_found_def upo_consts)
qed

text \<open>\<open>EnsureNamespaceDeleted\<close> reports true exactly when it has no error, and then the namespace
  is gone or terminating; it writes no other object. In particular it never answers "not yet
  deleted, try again": the pair (false, nil) that its callers wait on does not occur.\<close>

lemma EnsureNamespaceDeleted_never_waits:
  assumes "api_ok A V"
  shows "wp (EnsureNamespaceDeleted A name) (\<lambda>(deleted, err) w'.
     (\<exists>x. V w' = ob_Namespaces_update (\<lambda>m. m(([], name) := x)) (V w)) \<and>
     (deleted \<longleftrightarrow> err = None) \<and> (if deleted then gone_or_terminating (V w') name else True)) w"
  by (rule EnsureNamespaceDeleted_rule [OF assms]) auto

definition namespace_world :: mworld where
  "namespace_world = mw_empty\<lparr>mw_Namespaces := [(([], ''tenant-acme''),
     \<lparr>ns_meta = (new_meta [] ''tenant-acme'')\<lparr>om_Finalizers := [''kubernetes'']\<rparr>\<rparr>)]\<rparr>"

lemma EnsureNamespaceDeleted_never_waits_witness:
  "wp (EnsureNamespaceDeleted mem_api ''tenant-acme'') (\<lambda>(deleted, err) w'.
     (\<exists>x. m_obs w' = ob_Namespaces_update (\<lambda>m. m(([], ''tenant-acme'') := x)) (m_obs namespace_world)) \<and>
     (deleted \<longleftrightarrow> err = None) \<and>
     (if deleted then gone_or_terminating (m_obs w') ''tenant-acme'' else True)) namespace_world \<and>
   (case run_state (EnsureNamespaceDeleted mem_api ''tenant-acme'') namespace_world of
      (r, w') \<Rightarrow> r = (True, None) \<and> map_of (mw_Namespaces w') ([], ''tenant-acme'') \<noteq> None)"
proof (rule conjI [OF EnsureNamespaceDeleted_never_waits [OF mem_api_ok]])
  show "case run_state (EnsureNamespaceDeleted mem_api ''tenant-acme'') namespace_world of
      (r, w') \<Rightarrow> r = (True, None) \<and> map_of (mw_Namespaces w') ([], ''tenant-acme'') \<noteq> None"
    by (simp add: EnsureNamespaceDeleted_def namespace_world_def mem_run new_meta_def meta_key_def)
qed

text \<open>\<open>ReconcileTenantAdminBinding\<close> grants the admin role to the listed subjects and to nobody
  else. After a success the binding refers to the ClusterRole admin and has one subject per
  admin, in order: a service account keeps its namespace and has no API group, any other subject
  gets the RBAC group and no namespace. Without admins the binding is gone.\<close>

lemma ReconcileTenantAdminBinding_grants:
  assumes "api_ok A V"
  shows "wp (ReconcileTenantAdminBinding A owner ns admins labels) (\<lambda>r w'.
     (\<exists>x. V w' = ob_RoleBindings_update (\<lambda>m. m((ns, TenantAdminBindingName) := x)) (V w)) \<and>
     (case r of
        Inl e \<Rightarrow> True
      | Inr _ \<Rightarrow>
          (case ob_RoleBindings (V w') (ns, TenantAdminBindingName) of
             None \<Rightarrow> admins = []
           | Some rb \<Rightarrow> admins \<noteq> [] \<and> rr_Kind (rb_RoleRef rb) = ''ClusterRole'' \<and>
               rr_Name (rb_RoleRef rb) = ''admin'' \<and>
               list_all2 (\<lambda>a s. sj_Kind s = sub_Kind a \<and> sj_Name s = sub_Name a \<and>
                  (if sub_Kind a = ServiceAccountKind
                   then sj_Namespace s = sub_Namespace a \<and> sj_APIGroup s = []
                   else sj_Namespace s = [] \<and> sj_APIGroup s = RbacGroupName)) admins (rb_Subjects rb)))) w"
  by (rule bindings.reconcile_rule [OF assms, where a = "(owner, ns, admins, labels)", simplified])
    (auto simp: provisioned_def binding_desired_def toSubject_def list.rel_map Let_def
      intro!: list.rel_refl_strong split: option.splits)

definition some_admins :: "SubjectReference list" where
  "some_admins = [\<lparr>sub_Kind = ''User'', sub_Name = ''ann'', sub_Namespace = []\<rparr>,
     \<lparr>sub_Kind = ServiceAccountKind, sub_Name = ''ci'', sub_Namespace = ''build''\<rparr>]"

lemma ReconcileTenantAdminBinding_grants_witness:
  "wp (ReconcileTenantAdminBinding mem_api some_owner ''tenant-acme'' some_admins BaseLabels) (\<lambda>r w'.
     (\<exists>x. m_obs w' = ob_RoleBindings_update (\<lambda>m. m((''tenant-acme'', TenantAdminBindingName) := x)) (m_obs mw_empty)) \<and>
     (case r of
        Inl e \<Rightarrow> True
      | Inr _ \<Rightarrow>
          (case ob_RoleBindings (m_obs w') (''tenant-acme'', TenantAdminBindingName) of
             None \<Rightarrow> some_admins = []
           | Some rb \<Rightarrow> some_admins \<noteq> [] \<and> rr_Kind (rb_RoleRef rb) = ''ClusterRole'' \<and>
               rr_Name (rb_RoleRef rb) = ''admin'' \<and>
               list_all2 (\<lambda>a s. sj_Kind s = sub_Kind a \<and> sj_Name s = sub_Name a \<and>
                  (if sub_Kind a = ServiceAccountKind
                   then sj_Namespace s = sub_Namespace a \<and> sj_APIGroup s = []
                   else sj_Namespace s = [] \<and> sj_APIGroup s = RbacGroupName)) some_admins (rb_Subjects rb)))) mw_empty \<and>
   fst (run_state (ReconcileTenantAdminBinding mem_api some_owner ''tenant-acme'' some_admins BaseLabels)
     mw_empty) = Inr ResultCreated"
proof (rule conjI [OF ReconcileTenantAdminBinding_grants [OF mem_api_ok]])
  show "fst (run_state (ReconcileTenantAdminBinding mem_api some_owner ''tenant-acme'' some_admins BaseLabels)
     mw_empty) = Inr ResultCreated"
    by (simp add: ReconcileTenantAdminBinding_def binding_mutate_def some_admins_def mem_run new_meta_def
        new_RoleBinding_def)
qed

definition idempotent_on :: "('w \<Rightarrow> obs) \<Rightarrow> ('w, go_err + OperationResult) state \<Rightarrow> 'w \<Rightarrow> bool" where
  "idempotent_on V m w \<longleftrightarrow> wp m (\<lambda>r w'. \<forall>x. r = Inr x \<longrightarrow>
     wp m (\<lambda>r' w''. \<forall>y. r' = Inr y \<longrightarrow> V w'' = V w') w') w"

text \<open>C30: The primitives are idempotent. When a call of one of them succeeds and the same call
  succeeds again, the cluster after the second call is the cluster after the first.\<close>

theorem provisioning_idempotent:
  assumes "api_ok A V"
  shows "idempotent_on V (ReconcileNamespace A owner sc name labels) w \<and>
    idempotent_on V (ReconcileResourceQuota A owner sc ns hard suspended labels) w \<and>
    idempotent_on V (ReconcileLimitRange A owner sc ns def defReq mx labels) w \<and>
    idempotent_on V (ReconcileNetworkPolicy A owner ns isolation labels) w \<and>
    idempotent_on V (ReconcileTenantAdminBinding A owner ns admins labels) w \<and>
    idempotent_on V (ReconcileConfigMap A owner sc ns cm data labels) w"
  using nsp.reconcile_twice [OF assms, of "(owner, sc, name, labels)" w]
    quotas.reconcile_twice [OF assms, of "(owner, sc, ns, hard, suspended, labels)" w]
    limits.reconcile_twice [OF assms, of "(owner, sc, ns, def, defReq, mx, labels)" w]
    netpols.reconcile_twice [OF assms, of "(owner, ns, isolation, labels)" w]
    bindings.reconcile_twice [OF assms, of "(owner, ns, admins, labels)" w]
    configmaps.reconcile_twice [OF assms, of "(owner, sc, ns, cm, data, labels)" w]
  by (simp_all add: idempotent_on_def)

lemma provisioning_idempotent_witness:
  "idempotent_on m_obs (ReconcileNamespace mem_api some_owner True ''tenant-acme'' BaseLabels) namespace_world \<and>
   idempotent_on m_obs (ReconcileResourceQuota mem_api some_owner True ''tenant-acme'' fmempty True BaseLabels)
     namespace_world \<and>
   idempotent_on m_obs (ReconcileLimitRange mem_api some_owner True ''tenant-acme'' fmempty fmempty fmempty
     BaseLabels) namespace_world \<and>
   idempotent_on m_obs (ReconcileNetworkPolicy mem_api some_owner ''tenant-acme'' NetworkIsolationStrict BaseLabels)
     namespace_world \<and>
   idempotent_on m_obs (ReconcileTenantAdminBinding mem_api some_owner ''tenant-acme'' some_admins BaseLabels)
     namespace_world \<and>
   idempotent_on m_obs (ReconcileConfigMap mem_api some_owner True ''tenant-acme'' EnvConfigMapName fmempty BaseLabels)
     namespace_world"
  by (rule provisioning_idempotent [OF mem_api_ok])

end
