(* ===== verification/Connector.thy ===== *)
theory Connector
  imports Provision
begin

text \<open>
  \<open>internal/platform/profiles.go\<close> and \<open>internal/platform/connector.go\<close>: the quota profiles of the
  environments, the connection secret of an integration and the HTTP health probe.
\<close>

section \<open>profiles.go\<close>

definition quota :: "'w api \<Rightarrow> string \<Rightarrow> string \<Rightarrow> string \<Rightarrow> ResourceList" where
  "quota A cpu mem pods = fmap_of_list
     [(ResourceRequestsCPU, mustQuantity A cpu),
      (ResourceLimitsCPU, mustQuantity A cpu),
      (ResourceRequestsMemory, mustQuantity A mem),
      (ResourceLimitsMemory, mustQuantity A mem),
      (ResourcePods, mustQuantity A pods)]"

definition ProfileQuota :: "'w api \<Rightarrow> ResourceProfile \<Rightarrow> ResourceList" where
  "ProfileQuota A p =
     (if p = ResourceProfileSmall then quota A ''2'' ''4Gi'' ''20''
      else if p = ResourceProfileLarge then quota A ''8'' ''16Gi'' ''80''
      else if p = ResourceProfileXLarge then quota A ''16'' ''32Gi'' ''160''
      else quota A ''4'' ''8Gi'' ''40'')"

lemma quota_lookup:
  "fmlookup (quota A cpu mem pods) k =
     (if k = ResourceRequestsCPU \<or> k = ResourceLimitsCPU then Some (MustParse A cpu)
      else if k = ResourceRequestsMemory \<or> k = ResourceLimitsMemory then Some (MustParse A mem)
      else if k = ResourcePods then Some (MustParse A pods) else None)"
  by (auto simp: quota_def fmlookup_of_list mustQuantity_def)

lemma ProfileQuota_nonempty [simp]: "ProfileQuota A p \<noteq> fmempty"
proof
  assume *: "ProfileQuota A p = fmempty"
  have "fmlookup (ProfileQuota A p) ResourcePods \<noteq> None"
    by (simp add: ProfileQuota_def quota_lookup)
  with * show False by simp
qed

section \<open>connector.go: names and types\<close>

definition ConnectionSecretSuffix :: string where
  [upo_consts]: "ConnectionSecretSuffix = ''-connection''"

definition ConnectionSecretName :: "string \<Rightarrow> string" where
  "ConnectionSecretName integrationName = integrationName @ ConnectionSecretSuffix"

definition IsHTTPType :: "IntegrationType \<Rightarrow> bool" where
  "IsHTTPType t \<longleftrightarrow> t = IntegrationTypeWebhook \<or> t = IntegrationTypeRESTAPI \<or>
     t = IntegrationTypeOAuth2 \<or> t = IntegrationTypeObjectStore"

section \<open>connector.go: the HTTP prober\<close>

record ProbeRequest =
  pr_Endpoint :: string
  pr_HealthPath :: string
  pr_Timeout :: Duration
  pr_InsecureSkipVerify :: bool
  pr_Headers :: "(string, string) fmap"

text \<open>\<open>strings.TrimRight(s, "/")\<close>.\<close>

definition trim_right_slash :: "string \<Rightarrow> string" where
  "trim_right_slash s = rev (dropWhile (\<lambda>c. c = CHR ''/'') (rev s))"

definition probe_target :: "ProbeRequest \<Rightarrow> string" where
  "probe_target req =
     (let target = trim_right_slash (pr_Endpoint req);
          path = pr_HealthPath req;
          path = (if path \<noteq> [] \<and> hd path \<noteq> CHR ''/'' then CHR ''/'' # path else path)
      in target @ path)"

definition StatusInternalServerError :: nat where "StatusInternalServerError = 500"

definition HTTPProber_Probe :: "'w api \<Rightarrow> ProbeRequest \<Rightarrow> ('w, go_err option) state" where
  "HTTPProber_Probe A req =
     (let target = probe_target req
      in (case HttpNewRequest A target of
            Some err \<Rightarrow> State_Monad.return (Some (wrap_err ''build probe request: '' err))
          | None \<Rightarrow> do {
              resp \<leftarrow> HttpDo A \<lparr>hr_Target = target, hr_Headers = range_set fmempty (pr_Headers req),
                         hr_Timeout = pr_Timeout req,
                         hr_InsecureSkipVerify = pr_InsecureSkipVerify req\<rparr>;
              (case resp of
                 Inl err \<Rightarrow> State_Monad.return (Some (wrap_err (''probe '' @ target @ '': '') err))
               | Inr statusCode \<Rightarrow>
                   if StatusInternalServerError \<le> statusCode then
                     State_Monad.return (Some (plain_err
                       (''probe '' @ target @ '' returned '' @ fmt_d (int statusCode))))
                   else State_Monad.return None)
            }))"

section \<open>connector.go: credentials and the connection secret\<close>

definition ResolveAuthSecret ::
  "'w api \<Rightarrow> string \<Rightarrow> SecretReference option \<Rightarrow> ('w, go_err + (string, string) fmap) state" where
  "ResolveAuthSecret A ns ref =
     (case ref of
        None \<Rightarrow> State_Monad.return (Inr fmempty)
      | Some ref \<Rightarrow> do {
          got \<leftarrow> kc_Get (api_Secrets A) (ns, sr_Name ref);
          (case got of
             Inl err \<Rightarrow> State_Monad.return (Inl err)
           | Inr secret \<Rightarrow> State_Monad.return (Inr (sec_Data secret)))
        })"

definition BuildConnectionData ::
  "IntegrationSpec \<Rightarrow> (string, string) fmap \<Rightarrow> (string, string) fmap" where
  "BuildConnectionData spec creds =
     fold (\<lambda>(k, v) data. fmupd (''credential.'' @ k) v data) (fm_items creds)
       (fmap_of_list [(''endpoint'', is_Endpoint spec), (''type'', is_Type spec)])"

definition connection_mutate ::
  "'w api \<Rightarrow> ObjectRef \<Rightarrow> (string, string) fmap \<Rightarrow> labels \<Rightarrow> Secret \<Rightarrow> go_err + Secret" where
  "connection_mutate A owner data labels secret =
     (let m = (sec_meta secret)\<lparr>om_Labels := MergeLabels (om_Labels (sec_meta secret)) labels\<rparr>;
          secret = secret\<lparr>sec_Type := SecretTypeOpaque, sec_Data := data\<rparr>
      in (case SetControllerReference A owner m of
            Inl err \<Rightarrow> Inl err
          | Inr m \<Rightarrow> Inr (secret\<lparr>sec_meta := m\<rparr>)))"

definition ReconcileConnectionSecret ::
  "'w api \<Rightarrow> ObjectRef \<Rightarrow> string \<Rightarrow> string \<Rightarrow> (string, string) fmap \<Rightarrow> labels \<Rightarrow>
   ('w, go_err + OperationResult) state" where
  "ReconcileConnectionSecret A owner namespace name data labels = do {
     (r, _) \<leftarrow> kc_CreateOrUpdate (api_Secrets A) (new_Secret namespace name)
                 (connection_mutate A owner data labels);
     State_Monad.return r
   }"

definition DeleteConnectionSecret :: "'w api \<Rightarrow> string \<Rightarrow> string \<Rightarrow> ('w, go_err option) state" where
  "DeleteConnectionSecret A namespace name = do {
     err \<leftarrow> kc_Delete (api_Secrets A) (new_Secret namespace name);
     (case err of
        Some e \<Rightarrow>
          if \<not> IsNotFound e then State_Monad.return (Some e) else State_Monad.return None
      | None \<Rightarrow> State_Monad.return None)
   }"

section \<open>The connection secret meets the contract\<close>

definition connection_desired ::
  "'w api \<Rightarrow> ObjectRef \<times> string \<times> string \<times> (string, string) fmap \<times> labels \<Rightarrow> Secret \<Rightarrow> bool" where
  "connection_desired A = (\<lambda>(owner, ns, name, data, labels) x.
     sec_Data x = data \<and> sec_Type x = SecretTypeOpaque \<and> labelled labels (sec_meta x) \<and>
     owned True owner (sec_meta x))"

lemma connection_mutate_eq: "connection_mutate A owner data labels = secret_mutate A owner True data labels"
  by (rule ext) (simp add: connection_mutate_def secret_mutate_def applyOwner_def Let_def split: sum.split)

interpretation connections: converging api_ok ob_Secrets ob_Secrets_update sec_meta api_Secrets
    "\<lambda>(owner, ns, name, data, labels). True"
    "\<lambda>(owner, ns, name, data, labels). new_Secret ns name"
    "\<lambda>A (owner, ns, name, data, labels). connection_mutate A owner data labels" connection_desired
    "\<lambda>A (owner, ns, name, data, labels). ReconcileConnectionSecret A owner ns name data labels"
  by unfold_locales
    (auto simp: comp_def converge_def ReconcileConnectionSecret_def managed_parts connection_mutate_eq
      secret_desired_def connection_desired_def dest: secret_closure [OF api_okD(5)] split: prod.splits)

lemma ReconcileConnectionSecret_rule:
  assumes ok: "api_ok A V"
    and Inr: "\<And>r x w'. V w' = ob_Secrets_update (\<lambda>m. m((ns, name) \<mapsto> x)) (V w) \<Longrightarrow>
       connection_desired A (owner, ns, name, data, labels) x \<Longrightarrow> Q (Inr r) w'"
    and Inl: "\<And>e x w'. V w' = ob_Secrets_update (\<lambda>m. m((ns, name) := x)) (V w) \<Longrightarrow> Q (Inl e) w'"
  shows "wp (ReconcileConnectionSecret A owner ns name data labels) Q w"
  by (rule connections.reconcile_rule [OF ok, where a = "(owner, ns, name, data, labels)", simplified])
    (auto simp: provisioned_def intro: Inl intro!: Inr split: option.splits)

lemma DeleteConnectionSecret_rule:
  assumes ok: "api_ok A V"
    and "\<And>w'. V w' = ob_Secrets_update (\<lambda>m. m((ns, name) := None)) (V w) \<Longrightarrow> Q None w'"
    and "\<And>e w' x. V w' = ob_Secrets_update (\<lambda>m. m((ns, name) := x)) (V w) \<Longrightarrow> Q (Some e) w'"
  shows "wp (DeleteConnectionSecret A ns name) Q w"
  unfolding DeleteConnectionSecret_def wp_simps
  by (rule wp_delete_now [OF managed_parts(7) [OF ok, unfolded managed_ok_def, THEN conjunct2]
        managed_parts(13) [OF ok]]) (auto intro: assms)

lemma ResolveAuthSecret_rule:
  assumes ok: "api_ok A V"
    and "\<And>creds w'. V w' = V w \<Longrightarrow>
       (case ref of None \<Rightarrow> creds = fmempty
        | Some s \<Rightarrow> \<exists>x. ob_Secrets (V w) (ns, sr_Name s) = Some x \<and> creds = sec_Data x) \<Longrightarrow> Q (Inr creds) w'"
    and "\<And>e w' s. V w' = V w \<Longrightarrow> ref = Some s \<Longrightarrow>
       (IsNotFound e \<Longrightarrow> ob_Secrets (V w) (ns, sr_Name s) = None) \<Longrightarrow> Q (Inl e) w'"
  shows "wp (ResolveAuthSecret A ns ref) Q w"
proof -
  from ok have get: "get_ok V ob_Secrets sec_meta (api_Secrets A)"
    by (simp add: api_ok_def reads_ok_def)
  show ?thesis
    by (cases ref) (auto simp: ResolveAuthSecret_def intro!: wp_get [OF get] assms(2,3))
qed

section \<open>Properties\<close>

lemma fold_credentials:
  "distinct (map fst kvs) \<Longrightarrow>
   fmlookup (fold (\<lambda>(k, v) data. fmupd (p @ k) v data) kvs data) (p @ k) =
     (case map_of kvs k of Some v \<Rightarrow> Some v | None \<Rightarrow> fmlookup data (p @ k))"
  by (induction kvs arbitrary: data) (auto simp: map_of_eq_None_iff image_iff split: option.split dest: map_of_SomeD)

lemma fold_credentials_other:
  "take (length p) q \<noteq> p \<Longrightarrow>
   fmlookup (fold (\<lambda>(k, v) data. fmupd (p @ k) v data) kvs data) q = fmlookup data q"
  by (induction kvs arbitrary: data) auto

text \<open>\<open>BuildConnectionData\<close> publishes the endpoint and the type under their reserved keys, every
  credential under its own name prefixed with "credential.", and nothing else: no credential, however
  named, can shadow a reserved key or another credential.\<close>

lemma BuildConnectionData_exact:
  "fmlookup (BuildConnectionData spec creds) k =
     (if k = ''endpoint'' then Some (is_Endpoint spec)
      else if k = ''type'' then Some (is_Type spec)
      else if take 11 k = ''credential.'' then fmlookup creds (drop 11 k)
      else None)"
proof -
  let ?reserved = "fmap_of_list [(''endpoint'', is_Endpoint spec), (''type'', is_Type spec)]"
  show ?thesis
  proof (cases "\<exists>k'. k = ''credential.'' @ k'")
    case True
    then obtain k' where k: "k = ''credential.'' @ k'" ..
    have "fmlookup (BuildConnectionData spec creds) k =
        (case fmlookup creds k' of Some v \<Rightarrow> Some v | None \<Rightarrow> fmlookup ?reserved k)"
      unfolding BuildConnectionData_def k by (simp only: fold_credentials fm_items_distinct map_of_fm_items)
    then show ?thesis by (simp add: k fmlookup_of_list split: option.split)
  next
    case False
    then have no: "take 11 k \<noteq> ''credential.''"
      using append_take_drop_id [of 11 k] by metis
    then have "fmlookup (BuildConnectionData spec creds) k = fmlookup ?reserved k"
      unfolding BuildConnectionData_def by (intro fold_credentials_other) (simp add: eval_nat_numeral)
    with no show ?thesis by (simp add: fmlookup_of_list)
  qed
qed

text \<open>The URL a probe requests does not depend on how the slash between endpoint and path is
  written: trailing slashes of the endpoint and the leading slash of the path make no difference.\<close>

lemma probe_target_slashes:
  "probe_target (req\<lparr>pr_Endpoint := e @ replicate n CHR ''/'', pr_HealthPath := CHR ''/'' # p\<rparr>) =
     trim_right_slash e @ CHR ''/'' # p \<and>
   probe_target (req\<lparr>pr_Endpoint := e @ replicate n CHR ''/'', pr_HealthPath := []\<rparr>) = trim_right_slash e \<and>
   (c = CHR ''/'' \<or> probe_target (req\<lparr>pr_Endpoint := e, pr_HealthPath := c # p\<rparr>) =
      probe_target (req\<lparr>pr_Endpoint := e, pr_HealthPath := CHR ''/'' # c # p\<rparr>))"
proof -
  have "trim_right_slash (e @ replicate n CHR ''/'') = trim_right_slash e"
  proof -
    have "dropWhile (\<lambda>c. c = CHR ''/'') (replicate n CHR ''/'' @ xs) = dropWhile (\<lambda>c. c = CHR ''/'') xs" for xs
      by (induction n) auto
    then show ?thesis by (simp add: trim_right_slash_def)
  qed
  then show ?thesis by (auto simp: probe_target_def Let_def)
qed

text \<open>A probe reports a healthy endpoint exactly when the request could be built, the server
  answered, and the status is below 500: a client error still shows that the endpoint is reachable.\<close>

lemma HTTPProber_Probe_healthy:
  "fst (run_state (HTTPProber_Probe A req) w) = None \<longleftrightarrow>
     HttpNewRequest A (probe_target req) = None \<and>
     (\<exists>code < 500. fst (run_state (HttpDo A \<lparr>hr_Target = probe_target req, hr_Headers = pr_Headers req,
        hr_Timeout = pr_Timeout req, hr_InsecureSkipVerify = pr_InsecureSkipVerify req\<rparr>) w) = Inr code)"
  by (auto simp: HTTPProber_Probe_def Let_def State_Monad.bind_def StatusInternalServerError_def
      split: option.split sum.split prod.split)

text \<open>Every resource profile bounds the same five resources with its requests equal to its
  limits, and a profile that is unset or unknown is the medium one.\<close>

lemma ProfileQuota_shape:
  "fmdom (ProfileQuota A p) = {|ResourceRequestsCPU, ResourceLimitsCPU, ResourceRequestsMemory,
      ResourceLimitsMemory, ResourcePods|} \<and>
   fmlookup (ProfileQuota A p) ResourceRequestsCPU = fmlookup (ProfileQuota A p) ResourceLimitsCPU \<and>
   fmlookup (ProfileQuota A p) ResourceRequestsMemory = fmlookup (ProfileQuota A p) ResourceLimitsMemory \<and>
   (p \<in> {ResourceProfileSmall, ResourceProfileLarge, ResourceProfileXLarge} \<or>
      ProfileQuota A p = ProfileQuota A ResourceProfileMedium)"
  by (auto simp: ProfileQuota_def quota_lookup quota_def upo_consts)

end
