(* ===== verification/GitOps.thy ===== *)
theory GitOps
  imports Provision
begin

text \<open>
  \<open>internal/platform/gitops.go\<close>: delegating an environment's delivery to Argo CD or Flux through
  unstructured objects, and reading the synchronization status back.
\<close>

section \<open>The delivery objects\<close>

definition argoApplicationGVK :: GroupVersionKind where
  "argoApplicationGVK = \<lparr>gvk_Group = ''argoproj.io'', gvk_Version = ''v1alpha1'', gvk_Kind = ''Application''\<rparr>"
definition fluxGitRepoGVK :: GroupVersionKind where
  "fluxGitRepoGVK = \<lparr>gvk_Group = ''source.toolkit.fluxcd.io'', gvk_Version = ''v1'', gvk_Kind = ''GitRepository''\<rparr>"
definition fluxKustomizeGVK :: GroupVersionKind where
  "fluxKustomizeGVK = \<lparr>gvk_Group = ''kustomize.toolkit.fluxcd.io'', gvk_Version = ''v1'', gvk_Kind = ''Kustomization''\<rparr>"

definition GitOpsResourceName :: "string \<Rightarrow> string" where
  "GitOpsResourceName envName = ''upo-'' @ envName"

definition gitopsLabels :: "Environment \<Rightarrow> labels" where
  "gitopsLabels env =
     fmupd ComponentLabel ''gitops''
       (fmupd EnvironmentLabel (om_Name (e_meta env))
         (fmupd TenantLabel (tr_Name (es_TenantRef (e_Spec env))) BaseLabels))"

definition env_ref :: "Environment \<Rightarrow> ObjectRef" where
  "env_ref env = \<lparr>ref_Kind = ''Environment'', ref_meta = e_meta env\<rparr>"

section \<open>Reading the status\<close>

definition normalizeArgoSync :: "string \<Rightarrow> string" where
  "normalizeArgoSync s =
     (if s = ''Synced'' then ''Synced''
      else if s = ''OutOfSync'' then ''OutOfSync''
      else if s = [] then ''Unknown''
      else ''Error'')"

definition normalizeFluxReady :: "string \<Rightarrow> string" where
  "normalizeFluxReady s =
     (if s = ''True'' then ''Synced'' else if s = ''False'' then ''Error'' else ''Unknown'')"

definition emptyToUnknown :: "string \<Rightarrow> string" where
  "emptyToUnknown s = (if s = [] then ''Unknown'' else s)"

text \<open>\<open>s, _ := m[k].(string)\<close>.\<close>

definition str_field :: "(string \<times> json) list \<Rightarrow> string \<Rightarrow> string" where
  "str_field m k = (case map_of m k of Some (JStr s) \<Rightarrow> s | _ \<Rightarrow> [])"

fun ready_loop :: "json list \<Rightarrow> string" where
  "ready_loop [] = []"
| "ready_loop (JMap cond # conds) =
     (if str_field cond ''type'' = ''Ready'' then str_field cond ''status'' else ready_loop conds)"
| "ready_loop (_ # conds) = ready_loop conds"

definition readyConditionStatus :: "'w api \<Rightarrow> json \<Rightarrow> string" where
  "readyConditionStatus A obj =
     (case NestedSlice A obj [''status'', ''conditions''] of
        (conds, found, err) \<Rightarrow> if err \<noteq> None \<or> \<not> found then [] else ready_loop conds)"

section \<open>Converging the delivery objects\<close>

text \<open>The closures share their frame: labels, \<open>spec\<close>, owner.\<close>

definition gitops_mutate :: "'w api \<Rightarrow> Environment \<Rightarrow> json \<Rightarrow> Unstructured \<Rightarrow> go_err + Unstructured" where
  "gitops_mutate A env spec obj =
     (let m = (un_meta obj)\<lparr>om_Labels := MergeLabels (om_Labels (un_meta obj)) (gitopsLabels env)\<rparr>
      in (case SetNestedMap A (un_Object obj) spec [''spec''] of
            Inl err \<Rightarrow> Inl err
          | Inr object \<Rightarrow>
              (case SetControllerReference A (env_ref env) m of
                 Inl err \<Rightarrow> Inl err
               | Inr m \<Rightarrow> Inr (obj\<lparr>un_meta := m, un_Object := object\<rparr>))))"

definition argo_spec :: "Environment \<Rightarrow> GitSource \<Rightarrow> string \<Rightarrow> json" where
  "argo_spec env source targetNamespace = JMap (
     [(''project'', JStr ''default''),
      (''source'', JMap
         [(''repoURL'', JStr (gs_RepoURL source)),
          (''targetRevision'', JStr (gs_Revision source)),
          (''path'', JStr (gs_Path source))]),
      (''destination'', JMap
         [(''server'', JStr ''https://kubernetes.default.svc''),
          (''namespace'', JStr targetNamespace)])] @
     (if go_AutoSync (es_GitOps (e_Spec env)) then
        [(''syncPolicy'', JMap
            [(''automated'', JMap
                [(''prune'', JBool (go_Prune (es_GitOps (e_Spec env)))),
                 (''selfHeal'', JBool True)])])]
      else []))"

definition reconcileArgo ::
  "'w api \<Rightarrow> Environment \<Rightarrow> string \<Rightarrow> ('w, go_err + SyncStatus option) state" where
  "reconcileArgo A env targetNamespace =
     (case es_Source (e_Spec env) of
        None \<Rightarrow> State_Monad.return (Inl (plain_err ''spec.source is required when gitops.provider=argocd''))
      | Some source \<Rightarrow> do {
          (r, app) \<leftarrow> kc_CreateOrUpdate (api_Unstructured A argoApplicationGVK)
            (new_Unstructured argoApplicationGVK (om_Namespace (e_meta env))
               (GitOpsResourceName (om_Name (e_meta env))))
            (gitops_mutate A env (argo_spec env source targetNamespace));
          (case r of
             Inl err \<Rightarrow> State_Monad.return (Inl err)
           | Inr _ \<Rightarrow>
               let syncPhase = fst (NestedString A (un_Object app) [''status'', ''sync'', ''status'']);
                   revision = fst (NestedString A (un_Object app) [''status'', ''sync'', ''revision'']);
                   health = fst (NestedString A (un_Object app) [''status'', ''health'', ''status''])
               in State_Monad.return (Inr (Some
                    \<lparr>ss_Revision = revision, ss_Phase = normalizeArgoSync syncPhase,
                     ss_LastSyncTime = None,
                     ss_Message = ''argocd health='' @ emptyToUnknown health @ '' sync='' @
                       emptyToUnknown syncPhase\<rparr>)))
        })"

definition flux_repo_spec :: "GitSource \<Rightarrow> json" where
  "flux_repo_spec source = JMap
     [(''interval'', JStr ''1m0s''),
      (''url'', JStr (gs_RepoURL source)),
      (''ref'', JMap [(''name'', JStr (gs_Revision source))])]"

definition flux_ks_spec :: "Environment \<Rightarrow> GitSource \<Rightarrow> string \<Rightarrow> string \<Rightarrow> json" where
  "flux_ks_spec env source name targetNamespace = JMap
     [(''interval'', JStr ''1m0s''),
      (''path'', JStr (gs_Path source)),
      (''prune'', JBool (go_Prune (es_GitOps (e_Spec env)))),
      (''targetNamespace'', JStr targetNamespace),
      (''sourceRef'', JMap [(''kind'', JStr ''GitRepository''), (''name'', JStr name)])]"

definition reconcileFlux ::
  "'w api \<Rightarrow> Environment \<Rightarrow> string \<Rightarrow> ('w, go_err + SyncStatus option) state" where
  "reconcileFlux A env targetNamespace =
     (case es_Source (e_Spec env) of
        None \<Rightarrow> State_Monad.return (Inl (plain_err ''spec.source is required when gitops.provider=flux''))
      | Some source \<Rightarrow> do {
          let name = GitOpsResourceName (om_Name (e_meta env));
          (r, _) \<leftarrow> kc_CreateOrUpdate (api_Unstructured A fluxGitRepoGVK)
            (new_Unstructured fluxGitRepoGVK (om_Namespace (e_meta env)) name)
            (gitops_mutate A env (flux_repo_spec source));
          (case r of
             Inl err \<Rightarrow> State_Monad.return (Inl err)
           | Inr _ \<Rightarrow> do {
               (r, ks) \<leftarrow> kc_CreateOrUpdate (api_Unstructured A fluxKustomizeGVK)
                 (new_Unstructured fluxKustomizeGVK (om_Namespace (e_meta env)) name)
                 (gitops_mutate A env (flux_ks_spec env source name targetNamespace));
               (case r of
                  Inl err \<Rightarrow> State_Monad.return (Inl err)
                | Inr _ \<Rightarrow>
                    let revision = fst (NestedString A (un_Object ks) [''status'', ''lastAppliedRevision'']);
                        ready = readyConditionStatus A (un_Object ks)
                    in State_Monad.return (Inr (Some
                         \<lparr>ss_Revision = revision, ss_Phase = normalizeFluxReady ready,
                          ss_LastSyncTime = None,
                          ss_Message = ''flux kustomization ready='' @ emptyToUnknown ready\<rparr>)))
             })
        })"

definition ReconcileGitOps ::
  "'w api \<Rightarrow> Environment \<Rightarrow> string \<Rightarrow> ('w, go_err + SyncStatus option) state" where
  "ReconcileGitOps A env targetNamespace =
     (let provider = go_Provider (es_GitOps (e_Spec env))
      in if provider = GitOpsProviderArgoCD then reconcileArgo A env targetNamespace
         else if provider = GitOpsProviderFlux then reconcileFlux A env targetNamespace
         else State_Monad.return (Inr None))"

section \<open>Removing them\<close>

fun delete_gvks ::
  "'w api \<Rightarrow> string \<Rightarrow> string \<Rightarrow> GroupVersionKind list \<Rightarrow> ('w, go_err option) state" where
  "delete_gvks A namespace name [] = State_Monad.return None"
| "delete_gvks A namespace name (gvk # gvks) = do {
     err \<leftarrow> kc_Delete (api_Unstructured A gvk) (new_Unstructured gvk namespace name);
     (case err of
        Some e \<Rightarrow>
          if \<not> IsNotFound e \<and> \<not> IsNoMatch e then State_Monad.return (Some e)
          else delete_gvks A namespace name gvks
      | None \<Rightarrow> delete_gvks A namespace name gvks)
   }"

definition DeleteGitOps :: "'w api \<Rightarrow> Environment \<Rightarrow> ('w, go_err option) state" where
  "DeleteGitOps A env =
     delete_gvks A (om_Namespace (e_meta env)) (GitOpsResourceName (om_Name (e_meta env)))
       [argoApplicationGVK, fluxKustomizeGVK, fluxGitRepoGVK]"

section \<open>What the functions achieve\<close>

definition gitops_key :: "Environment \<Rightarrow> objkey" where
  "gitops_key env = (om_Namespace (e_meta env), GitOpsResourceName (om_Name (e_meta env)))"

text \<open>At most the delivery objects of the environment changed.\<close>

definition only_gitops :: "Environment \<Rightarrow> obs \<Rightarrow> obs \<Rightarrow> bool" where
  "only_gitops env v v' \<longleftrightarrow> v'\<lparr>ob_Unstructured := ob_Unstructured v\<rparr> = v \<and>
     (\<forall>g k. ob_Unstructured v' g k \<noteq> ob_Unstructured v g k \<longrightarrow>
        k = gitops_key env \<and> g \<in> {argoApplicationGVK, fluxKustomizeGVK, fluxGitRepoGVK})"

lemma only_gitops_refl [simp]: "only_gitops env v v"
  by (simp add: only_gitops_def)

lemma only_gitops_trans [trans]:
  "only_gitops env u v \<Longrightarrow> only_gitops env v w \<Longrightarrow> only_gitops env u w"
  unfolding only_gitops_def
  by (cases u; cases v; cases w) (simp, metis)

lemma only_gitops_upd:
  "g \<in> {argoApplicationGVK, fluxKustomizeGVK, fluxGitRepoGVK} \<Longrightarrow>
   only_gitops env v (unst_upd g (\<lambda>m. m(gitops_key env := x)) v)"
  by (cases v) (auto simp: only_gitops_def unst_upd_def split: if_splits)

text \<open>A delivery object as the environment describes it.\<close>

definition delivered :: "obs \<Rightarrow> Environment \<Rightarrow> GroupVersionKind \<Rightarrow> json \<Rightarrow> Unstructured \<Rightarrow> bool" where
  "delivered v env g spec x \<longleftrightarrow> unst_sel g v (gitops_key env) = Some x \<and>
     jpath (un_Object x) [''spec''] = Some spec \<and> labelled (gitopsLabels env) (un_meta x) \<and>
     owned True (env_ref env) (un_meta x)"

lemma gitops_closure:
  assumes own: "owners_ok A" and json: "json_ok A" and y: "gitops_mutate A env spec x = Inr y"
  shows "jpath (un_Object y) [''spec''] = Some spec" "labelled (gitopsLabels env) (un_meta y)"
    "owned True (env_ref env) (un_meta y)"
    "f \<noteq> ''spec'' \<Longrightarrow> jpath (un_Object y) (f # fs) = jpath (un_Object x) (f # fs)"
    "gitops_mutate A env spec y = Inr y"
proof -
  let ?ls = "gitopsLabels env"
  from y obtain ob m where ob: "SetNestedMap A (un_Object x) spec [''spec''] = Inr ob"
    and m: "applyOwner A True (env_ref env) ((un_meta x)\<lparr>om_Labels := range_set (om_Labels (un_meta x)) ?ls\<rparr>) = Inr m"
    and y': "y = x\<lparr>un_meta := m, un_Object := ob\<rparr>"
    by (auto simp: gitops_mutate_def MergeLabels_eq applyOwner_def Let_def split: sum.splits)
  from json ob have j: "jpath ob [''spec''] = Some spec"
    "\<And>g fs. g \<noteq> ''spec'' \<Longrightarrow> jpath ob (g # fs) = jpath (un_Object x) (g # fs)"
    "SetNestedMap A ob spec [''spec''] = Inr ob"
    unfolding json_ok_def by blast+
  note l = applyOwner_labels [OF own m]
  from j(1) y' show "jpath (un_Object y) [''spec''] = Some spec" by simp
  from l(3) y' show "labelled ?ls (un_meta y)" by simp
  from l(4) y' show "owned True (env_ref env) (un_meta y)" by simp
  from j(2) y' show "f \<noteq> ''spec'' \<Longrightarrow> jpath (un_Object y) (f # fs) = jpath (un_Object x) (f # fs)" by simp
  from l(2) j(3) y' show "gitops_mutate A env spec y = Inr y"
    by (simp add: gitops_mutate_def MergeLabels_eq applyOwner_def)
qed

text \<open>One delivery object: what \<open>CreateOrUpdate\<close> with the closure achieves.\<close>

lemma gitops_cou_rule:
  assumes ok: "api_ok A V" and g: "g \<in> {argoApplicationGVK, fluxKustomizeGVK, fluxGitRepoGVK}"
    and Inr: "\<And>r x w'. delivered (V w') env g spec x \<Longrightarrow> only_gitops env (V w) (V w') \<Longrightarrow>
       (\<And>h. h \<noteq> g \<Longrightarrow> ob_Unstructured (V w') h = ob_Unstructured (V w) h) \<Longrightarrow> Q (Inr r, x) w'"
    and Inl: "\<And>e x w'. only_gitops env (V w) (V w') \<Longrightarrow> Q (Inl e, x) w'"
  shows "wp (kc_CreateOrUpdate (api_Unstructured A g)
     (new_Unstructured g (om_Namespace (e_meta env)) (GitOpsResourceName (om_Name (e_meta env))))
     (gitops_mutate A env spec)) Q w"
proof -
  from ok have cou: "cou_ok V (unst_sel g) (unst_upd g) un_meta (api_Unstructured A g)"
    by (simp add: api_ok_def objects_ok_def managed_ok_def)
  show ?thesis
  proof (rule wp_cou [OF cou], goal_cases)
    case (1 r x w')
    note x = gitops_closure [OF api_okD(5) [OF ok] api_okD(10) [OF ok] 1(1)]
    from 1(2) have V: "V w' = unst_upd g (\<lambda>m. m(gitops_key env \<mapsto> x)) (V w)" by (simp add: gitops_key_def)
    then have "delivered (V w') env g spec x"
      using x(1-3) by (simp add: delivered_def unst_sel_def unst_upd_def)
    moreover from V have "h \<noteq> g \<Longrightarrow> ob_Unstructured (V w') h = ob_Unstructured (V w) h" for h
      by (simp add: unst_upd_def)
    ultimately show ?case using V only_gitops_upd [OF g] by (intro Inr) simp_all
  next
    case (2 e x m' w')
    then show ?case using only_gitops_upd [OF g, of env "V w" m'] by (intro Inl) (simp add: gitops_key_def)
  qed
qed

text \<open>The result of \<open>ReconcileGitOps\<close>: the delivery objects of the provider are as described, and
  the status returned is what they report.\<close>

definition gitops_result :: "'w api \<Rightarrow> obs \<Rightarrow> Environment \<Rightarrow> string \<Rightarrow> SyncStatus option \<Rightarrow> bool" where
  "gitops_result A v env tn s \<longleftrightarrow>
     (let provider = go_Provider (es_GitOps (e_Spec env)) in
      if provider = GitOpsProviderArgoCD then
        (\<exists>source app sync. es_Source (e_Spec env) = Some source \<and> s = Some sync \<and>
           delivered v env argoApplicationGVK (argo_spec env source tn) app \<and>
           ss_Phase sync = normalizeArgoSync (fst (NestedString A (un_Object app) [''status'', ''sync'', ''status''])) \<and>
           ss_Revision sync = fst (NestedString A (un_Object app) [''status'', ''sync'', ''revision'']))
      else if provider = GitOpsProviderFlux then
        (\<exists>source repo ks sync. es_Source (e_Spec env) = Some source \<and> s = Some sync \<and>
           delivered v env fluxGitRepoGVK (flux_repo_spec source) repo \<and>
           delivered v env fluxKustomizeGVK
             (flux_ks_spec env source (GitOpsResourceName (om_Name (e_meta env))) tn) ks \<and>
           ss_Phase sync = normalizeFluxReady (readyConditionStatus A (un_Object ks)) \<and>
           ss_Revision sync = fst (NestedString A (un_Object ks) [''status'', ''lastAppliedRevision'']))
      else s = None)"

lemma ReconcileGitOps_rule:
  assumes ok: "api_ok A V"
    and Inr: "\<And>s w'. gitops_result A (V w') env tn s \<Longrightarrow> only_gitops env (V w) (V w') \<Longrightarrow> Q (Inr s) w'"
    and Inl: "\<And>e w'. only_gitops env (V w) (V w') \<Longrightarrow> Q (Inl e) w'"
  shows "wp (ReconcileGitOps A env tn) Q w"
proof -
  have ne: "fluxKustomizeGVK \<noteq> fluxGitRepoGVK" by (simp add: fluxKustomizeGVK_def fluxGitRepoGVK_def)
  have "wp (reconcileArgo A env tn) Q w" if "go_Provider (es_GitOps (e_Spec env)) = GitOpsProviderArgoCD"
  proof (cases "es_Source (e_Spec env)")
    case (Some source)
    show ?thesis
      unfolding reconcileArgo_def Some option.case wp_simps
      by (rule gitops_cou_rule [OF ok]) (auto simp: gitops_result_def that Some Let_def intro!: Inr Inl)
  qed (simp add: reconcileArgo_def Inl)
  moreover have "wp (reconcileFlux A env tn) Q w"
    if "go_Provider (es_GitOps (e_Spec env)) = GitOpsProviderFlux"
  proof (cases "es_Source (e_Spec env)")
    case (Some source)
    show ?thesis
      unfolding reconcileFlux_def Some option.case wp_simps
    proof (rule gitops_cou_rule [OF ok], goal_cases)
      case (2 r repo w')
      show ?case
        unfolding prod.case sum.case wp_simps
      proof (rule gitops_cou_rule [OF ok], goal_cases)
        case (2 r ks w'')
        with \<open>delivered (V w') env fluxGitRepoGVK _ repo\<close> ne
        have "delivered (V w'') env fluxGitRepoGVK (flux_repo_spec source) repo"
          by (simp add: delivered_def unst_sel_def)
        with 2 that \<open>only_gitops env (V w) (V w')\<close> show ?case
          by (auto simp: gitops_result_def Some Let_def upo_consts intro!: Inr intro: only_gitops_trans)
      next
        case (3 e x w'')
        with \<open>only_gitops env (V w) (V w')\<close> show ?case by (auto intro: Inl only_gitops_trans)
      qed simp
    qed (auto intro: Inl)
  qed (simp add: reconcileFlux_def Inl)
  moreover have "Q (Inr None) w"
    if "go_Provider (es_GitOps (e_Spec env)) \<notin> {GitOpsProviderArgoCD, GitOpsProviderFlux}"
    using that by (intro Inr) (simp_all add: gitops_result_def Let_def)
  ultimately show ?thesis by (simp add: ReconcileGitOps_def Let_def)
qed

lemma delete_gvks_rule:
  assumes ok: "api_ok A V"
    and gs: "set gs \<subseteq> {argoApplicationGVK, fluxKustomizeGVK, fluxGitRepoGVK}"
    and None: "\<And>w'. only_gitops env (V w) (V w') \<Longrightarrow>
       (\<And>g. g \<in> set gs \<Longrightarrow> ob_Unstructured (V w') g (gitops_key env) = None) \<Longrightarrow>
       (\<And>g. ob_Unstructured (V w) g (gitops_key env) = None \<Longrightarrow>
          ob_Unstructured (V w') g (gitops_key env) = None) \<Longrightarrow> Q None w'"
    and Some: "\<And>e w'. only_gitops env (V w) (V w') \<Longrightarrow> Q (Some e) w'"
  shows "wp (delete_gvks A (om_Namespace (e_meta env)) (GitOpsResourceName (om_Name (e_meta env))) gs) Q w"
  using gs None Some
proof (induction gs arbitrary: w)
  case Nil
  then show ?case by simp
next
  case (Cons g gs)
  from ok have del: "delete_ok V (unst_sel g) (unst_upd g) un_meta (api_Unstructured A g)"
      "delete_now V (unst_upd g) un_meta (api_Unstructured A g)"
    by (simp_all add: api_ok_def objects_ok_def prompt_deletes_def managed_ok_def)
  have step: "wp (delete_gvks A (om_Namespace (e_meta env)) (GitOpsResourceName (om_Name (e_meta env))) gs) Q w'"
    if V: "V w' = unst_upd g (\<lambda>m. m(gitops_key env := None)) (V w)" for w'
  proof (rule Cons.IH)
    have o: "only_gitops env (V w) (V w')" using Cons.prems(1) by (simp add: V only_gitops_upd)
    fix w''
    assume o': "only_gitops env (V w') (V w'')"
    from o o' have o'': "only_gitops env (V w) (V w'')" by (rule only_gitops_trans)
    then show "Q (Some e) w''" for e by (rule Cons.prems(3))
    assume "\<And>h. h \<in> set gs \<Longrightarrow> ob_Unstructured (V w'') h (gitops_key env) = None"
      and "\<And>h. ob_Unstructured (V w') h (gitops_key env) = None \<Longrightarrow>
        ob_Unstructured (V w'') h (gitops_key env) = None"
    with o'' show "Q None w''" by (intro Cons.prems(2)) (auto simp: V unst_upd_def)
  qed (use Cons.prems(1) in auto)
  show ?case
    unfolding delete_gvks.simps wp_simps
    by (rule wp_delete_now [OF del])
      (use Cons.prems(1) in \<open>auto simp: gitops_key_def [symmetric] intro!: step Cons.prems(3)
        simp: only_gitops_upd\<close>)
qed

lemma DeleteGitOps_rule:
  assumes ok: "api_ok A V"
    and None: "\<And>w'. only_gitops env (V w) (V w') \<Longrightarrow>
       (\<And>g. g \<in> {argoApplicationGVK, fluxKustomizeGVK, fluxGitRepoGVK} \<Longrightarrow>
          ob_Unstructured (V w') g (gitops_key env) = None) \<Longrightarrow> Q None w'"
    and Some: "\<And>e w'. only_gitops env (V w) (V w') \<Longrightarrow> Q (Some e) w'"
  shows "wp (DeleteGitOps A env) Q w"
  unfolding DeleteGitOps_def by (rule delete_gvks_rule [OF ok]) (auto intro: None Some)

section \<open>Properties\<close>

definition argo_env :: Environment where
  "argo_env =
     \<lparr>e_meta = new_meta ''team'' ''dev'',
      e_Spec = \<lparr>es_TenantRef = \<lparr>tr_Name = ''acme''\<rparr>, es_Type = EnvironmentTypeDevelopment,
        es_Profile = ResourceProfileSmall,
        es_Source = Some \<lparr>gs_RepoURL = ''https://git.example/app'', gs_Revision = ''main'', gs_Path = ''.''\<rparr>,
        es_GitOps = \<lparr>go_Provider = GitOpsProviderArgoCD, go_AutoSync = True, go_Prune = False\<rparr>,
        es_TTL = None, es_Domain = ''dev.example'', es_Variables = fmempty, es_SecretRefs = [],
        es_Suspend = False\<rparr>,
      e_Status = \<lparr>est_Phase = [], est_Conditions = [], est_ObservedGeneration = 0,
        est_TargetNamespace = [], est_Sync = None, est_URL = [], est_ExpiresAt = None,
        est_LastReconcileTime = None\<rparr>\<rparr>"

text \<open>\<open>ReconcileGitOps\<close> delivers what the environment describes. After a success the delivery
  objects of the chosen provider exist with exactly the specified source and destination, the
  environment's labels and the environment as owner, and the returned status is what the engine
  reports (none for other providers). Nothing but the delivery objects of this environment changes,
  even on an error.\<close>

lemma ReconcileGitOps_delivers:
  assumes "api_ok A V"
  shows "wp (ReconcileGitOps A env tn) (\<lambda>r w'. only_gitops env (V w) (V w') \<and>
     (case r of Inl e \<Rightarrow> True | Inr s \<Rightarrow> gitops_result A (V w') env tn s)) w"
  by (rule ReconcileGitOps_rule [OF assms]) simp_all

lemma ReconcileGitOps_delivers_witness:
  "wp (ReconcileGitOps mem_api argo_env ''tenant-acme-dev'') (\<lambda>r w'.
     only_gitops argo_env (m_obs mw_empty) (m_obs w') \<and>
     (case r of Inl e \<Rightarrow> True | Inr s \<Rightarrow> gitops_result mem_api (m_obs w') argo_env ''tenant-acme-dev'' s)) mw_empty \<and>
   fst (run_state (ReconcileGitOps mem_api argo_env ''tenant-acme-dev'') mw_empty) =
     Inr (Some \<lparr>ss_Revision = [], ss_Phase = ''Unknown'', ss_LastSyncTime = None,
       ss_Message = ''argocd health=Unknown sync=Unknown''\<rparr>)"
proof (rule conjI [OF ReconcileGitOps_delivers [OF mem_api_ok]])
  show "fst (run_state (ReconcileGitOps mem_api argo_env ''tenant-acme-dev'') mw_empty) =
     Inr (Some \<lparr>ss_Revision = [], ss_Phase = ''Unknown'', ss_LastSyncTime = None,
       ss_Message = ''argocd health=Unknown sync=Unknown''\<rparr>)"
    by (simp add: ReconcileGitOps_def reconcileArgo_def argo_env_def gitops_mutate_def mem_run
        new_Unstructured_def new_meta_def mem_string_def normalizeArgoSync_def emptyToUnknown_def)
qed

text \<open>\<open>DeleteGitOps\<close> removes every delivery object of the environment, whichever provider is
  selected now: after a success neither an Application nor a Kustomization nor a GitRepository is
  left. Objects that are absent, and engines that are not installed, do not make it fail, and it
  touches nothing else.\<close>

lemma DeleteGitOps_removes:
  assumes "api_ok A V"
  shows "wp (DeleteGitOps A env) (\<lambda>err w'. only_gitops env (V w) (V w') \<and>
     (err = None \<longrightarrow>
        ob_Unstructured (V w') argoApplicationGVK (gitops_key env) = None \<and>
        ob_Unstructured (V w') fluxKustomizeGVK (gitops_key env) = None \<and>
        ob_Unstructured (V w') fluxGitRepoGVK (gitops_key env) = None)) w"
  by (rule DeleteGitOps_rule [OF assms]) simp_all

lemma DeleteGitOps_removes_witness:
  "wp (DeleteGitOps mem_api argo_env) (\<lambda>err w'. only_gitops argo_env (m_obs mw_empty) (m_obs w') \<and>
     (err = None \<longrightarrow>
        ob_Unstructured (m_obs w') argoApplicationGVK (gitops_key argo_env) = None \<and>
        ob_Unstructured (m_obs w') fluxKustomizeGVK (gitops_key argo_env) = None \<and>
        ob_Unstructured (m_obs w') fluxGitRepoGVK (gitops_key argo_env) = None)) mw_empty \<and>
   fst (run_state (DeleteGitOps mem_api argo_env) mw_empty) = None"
proof (rule conjI [OF DeleteGitOps_removes [OF mem_api_ok]])
  show "fst (run_state (DeleteGitOps mem_api argo_env) mw_empty) = None"
    by (simp add: DeleteGitOps_def argo_env_def mem_run new_Unstructured_def new_meta_def not_found_def)
qed

end
