(* ===== verification/Calm.thy ===== *)
theory Calm
  imports Connector GitOps
begin

text \<open>
  Progress. The rules of the other theories say what a call leaves behind when it returns no error;
  this theory says when it returns none. \<open>calm\<close> describes a cluster in which no call is refused, and
  the rules below follow the calls through the primitives: in a calm cluster they fail only where the
  code itself gives up. The last section has an instance.
\<close>

section \<open>A cluster that refuses nothing\<close>

text \<open>One kind of object: reading what is there, writing and listing succeed, and a delete has no other
  complaint than that there is nothing to delete.\<close>

definition calm_reads where
  "calm_reads V sel mt kc \<longleftrightarrow>
     (\<forall>k x w. sel (V w) k = Some x \<longrightarrow> meta_key (mt x) = k \<longrightarrow> wp (kc_Get kc k) (\<lambda>r _. \<exists>y. r = Inr y) w) \<and>
     (\<forall>k w. sel (V w) k = None \<longrightarrow> wp (kc_Get kc k) (\<lambda>r _. \<exists>e. r = Inl e \<and> IsNotFound e) w)"

definition calm_puts where
  "calm_puts V sel mt kc \<longleftrightarrow>
     (\<forall>x f y w. f (base_object (sel (V w) (meta_key (mt x))) x) = Inr y \<longrightarrow>
        wp (kc_CreateOrUpdate kc x f) (\<lambda>(r, _) _. \<exists>o'. r = Inr o') w)"

definition calm_deletes where
  "calm_deletes absent kc \<longleftrightarrow> (\<forall>x w. wp (kc_Delete kc x) (\<lambda>r _. \<forall>e. r = Some e \<longrightarrow> absent e) w)"

definition calm_writes where
  "calm_writes V sel mt kc \<longleftrightarrow> calm_puts V sel mt kc \<and> calm_deletes IsNotFound kc"

definition calm_resource where
  "calm_resource V sel mt kc \<longleftrightarrow> calm_reads V sel mt kc \<and>
     calm_deletes IsNotFound kc \<and>
     (\<forall>x s w. sel (V w) (meta_key (mt x)) = Some s \<longrightarrow> wp (kc_Update kc x) (\<lambda>(r, y) _. r = None \<and>
        (om_DeletionTimestamp (mt s) = om_DeletionTimestamp (mt x) \<longrightarrow>
           om_DeletionTimestamp (mt y) = om_DeletionTimestamp (mt s))) w) \<and>
     (\<forall>x w. sel (V w) (meta_key (mt x)) \<noteq> None \<longrightarrow> wp (kc_StatusUpdate kc x) (\<lambda>(r, _) _. r = None) w)"

definition calm_lists where
  "calm_lists kc \<longleftrightarrow> (\<forall>n w. wp (kc_ListByTenantRef kc n) (\<lambda>r _. \<exists>xs. r = Inr xs) w)"

text \<open>\<open>SetControllerReference\<close> refuses an object that another controller owns, and an owner in another
  namespace. A nested map can be set in a map.\<close>

definition controllable :: "ObjectRef \<Rightarrow> ObjectMeta \<Rightarrow> bool" where
  "controllable r m \<longleftrightarrow> (\<forall>o' \<in> set (om_OwnerReferences m). or_Controller o' \<longrightarrow> o' = owner_ref r) \<and>
     (om_Namespace (ref_meta r) = [] \<or> om_Namespace (ref_meta r) = om_Namespace m)"

definition calm :: "'w api \<Rightarrow> ('w \<Rightarrow> obs) \<Rightarrow> bool" where
  "calm A V \<longleftrightarrow>
     calm_resource V ob_Tenants t_meta (api_Tenants A) \<and>
     calm_resource V ob_Environments e_meta (api_Environments A) \<and>
     calm_resource V ob_Integrations i_meta (api_Integrations A) \<and>
     calm_lists (api_Environments A) \<and> calm_lists (api_Integrations A) \<and>
     calm_reads V ob_Namespaces ns_meta (api_Namespaces A) \<and>
     calm_reads V ob_Secrets sec_meta (api_Secrets A) \<and>
     calm_writes V ob_Namespaces ns_meta (api_Namespaces A) \<and>
     calm_writes V ob_ResourceQuotas rq_meta (api_ResourceQuotas A) \<and>
     calm_writes V ob_LimitRanges lr_meta (api_LimitRanges A) \<and>
     calm_writes V ob_NetworkPolicies np_meta (api_NetworkPolicies A) \<and>
     calm_writes V ob_RoleBindings rb_meta (api_RoleBindings A) \<and>
     calm_writes V ob_ConfigMaps cm_meta (api_ConfigMaps A) \<and>
     calm_writes V ob_Secrets sec_meta (api_Secrets A) \<and>
     (\<forall>g. calm_deletes (\<lambda>e. IsNotFound e \<or> IsNoMatch e) (api_Unstructured A g)) \<and>
     (\<forall>r m. controllable r m \<longrightarrow> (\<exists>m'. SetControllerReference A r m = Inr m')) \<and>
     (\<forall>kvs m f. \<exists>j. SetNestedMap A (JMap kvs) m [f] = Inr (JMap j))"

lemma calmD:
  assumes "calm A V"
  shows "calm_resource V ob_Tenants t_meta (api_Tenants A)"
    "calm_resource V ob_Environments e_meta (api_Environments A)"
    "calm_resource V ob_Integrations i_meta (api_Integrations A)"
    "calm_lists (api_Environments A)" "calm_lists (api_Integrations A)"
    "calm_reads V ob_Namespaces ns_meta (api_Namespaces A)" "calm_reads V ob_Secrets sec_meta (api_Secrets A)"
    "calm_writes V ob_Namespaces ns_meta (api_Namespaces A)"
    "calm_writes V ob_ResourceQuotas rq_meta (api_ResourceQuotas A)"
    "calm_writes V ob_LimitRanges lr_meta (api_LimitRanges A)"
    "calm_writes V ob_NetworkPolicies np_meta (api_NetworkPolicies A)"
    "calm_writes V ob_RoleBindings rb_meta (api_RoleBindings A)"
    "calm_writes V ob_ConfigMaps cm_meta (api_ConfigMaps A)"
    "calm_writes V ob_Secrets sec_meta (api_Secrets A)"
    "calm_deletes (\<lambda>e. IsNotFound e \<or> IsNoMatch e) (api_Unstructured A g)"
    "controllable r m \<Longrightarrow> \<exists>m'. SetControllerReference A r m = Inr m'"
    "\<exists>j. SetNestedMap A (JMap kvs) m' [f] = Inr (JMap j)"
  using assms by (simp_all add: calm_def)

text \<open>What a rule and a law of success say together.\<close>

lemma wp_both: "wp m P w \<Longrightarrow> wp m P' w \<Longrightarrow> (\<And>a w'. P a w' \<Longrightarrow> P' a w' \<Longrightarrow> Q a w') \<Longrightarrow> wp m Q w"
  by (auto simp: wp_def split: prod.splits)

lemma controllable_labels [simp]: "controllable r (m\<lparr>om_Labels := l\<rparr>) = controllable r m"
  by (simp add: controllable_def)

text \<open>The object stored at a key, if any, may get the owner.\<close>

definition uncontested where
  "uncontested r mt stored fresh \<longleftrightarrow> controllable r (mt (base_object stored fresh))"

section \<open>Calls that are not refused\<close>

lemma wp_get_there:
  assumes "get_ok V sel mt kc" "calm_reads V sel mt kc" "sel (V w) k = Some x" "meta_key (mt x) = k"
    and "\<And>w'. V w' = V w \<Longrightarrow> Q (Inr x) w'"
  shows "wp (kc_Get kc k) Q w"
proof (rule wp_both)
  show "wp (kc_Get kc k) (\<lambda>r w'. V w' = V w \<and> (\<forall>y. r = Inr y \<longrightarrow> y = x)) w"
    by (rule wp_get [OF assms(1)]) (use assms(3) in auto)
  show "wp (kc_Get kc k) (\<lambda>r _. \<exists>y. r = Inr y) w"
    using assms(2-4) unfolding calm_reads_def by blast
qed (use assms(5) in blast)

lemma wp_get_absent:
  assumes "get_ok V sel mt kc" "calm_reads V sel mt kc" "sel (V w) k = None"
    and "\<And>e w'. V w' = V w \<Longrightarrow> IsNotFound e \<Longrightarrow> Q (Inl e) w'"
  shows "wp (kc_Get kc k) Q w"
proof (rule wp_both)
  show "wp (kc_Get kc k) (\<lambda>r w'. V w' = V w) w"
    by (rule wp_get [OF assms(1)]) simp_all
  show "wp (kc_Get kc k) (\<lambda>r _. \<exists>e. r = Inl e \<and> IsNotFound e) w"
    using assms(2,3) unfolding calm_reads_def by blast
qed (use assms(4) in blast)

lemma wp_status_calm:
  assumes "status_ok V sel upd mt st_upd kc" "calm_resource V sel mt kc" "sel (V w) (meta_key (mt x)) = Some s"
    and "\<And>w'. V w' = upd (\<lambda>m. m(meta_key (mt x) \<mapsto> st_upd x s)) (V w) \<Longrightarrow> Q (None, st_upd x s) w'"
  shows "wp (kc_StatusUpdate kc x) Q w"
proof (rule wp_both)
  show "wp (kc_StatusUpdate kc x) (\<lambda>(r, y) w'. r = None \<longrightarrow>
      y = st_upd x s \<and> V w' = upd (\<lambda>m. m(meta_key (mt x) \<mapsto> st_upd x s)) (V w)) w"
    by (rule wp_status [OF assms(1)]) (use assms(3) in auto)
  show "wp (kc_StatusUpdate kc x) (\<lambda>(r, _) _. r = None) w"
    using assms(2,3) by (simp add: calm_resource_def)
qed (use assms(4) in auto)

lemma wp_update_calm:
  assumes "update_ok V sel upd mt spec kc" "calm_resource V sel mt kc" "sel (V w) (meta_key (mt x)) = Some s"
    and "\<And>y w'. om_Finalizers (mt y) = om_Finalizers (mt x) \<Longrightarrow> meta_key (mt y) = meta_key (mt x) \<Longrightarrow>
       spec y = spec x \<Longrightarrow>
       (om_DeletionTimestamp (mt s) = om_DeletionTimestamp (mt x) \<Longrightarrow>
          om_DeletionTimestamp (mt y) = om_DeletionTimestamp (mt s)) \<Longrightarrow>
       V w' = upd (\<lambda>m. m(meta_key (mt x) :=
         (if om_DeletionTimestamp (mt x) \<noteq> None \<and> om_Finalizers (mt x) = [] then None else Some y))) (V w) \<Longrightarrow>
       Q (None, y) w'"
  shows "wp (kc_Update kc x) Q w"
proof (rule wp_both)
  show "wp (kc_Update kc x) (\<lambda>(r, y) w'. r = None \<longrightarrow>
      om_Finalizers (mt y) = om_Finalizers (mt x) \<and> meta_key (mt y) = meta_key (mt x) \<and> spec y = spec x \<and>
      V w' = upd (\<lambda>m. m(meta_key (mt x) :=
         (if om_DeletionTimestamp (mt x) \<noteq> None \<and> om_Finalizers (mt x) = [] then None else Some y))) (V w)) w"
    by (rule wp_update [OF assms(1)]) simp_all
  show "wp (kc_Update kc x) (\<lambda>(r, y) _. r = None \<and>
        (om_DeletionTimestamp (mt s) = om_DeletionTimestamp (mt x) \<longrightarrow>
           om_DeletionTimestamp (mt y) = om_DeletionTimestamp (mt s))) w"
    using assms(2,3) by (simp add: calm_resource_def)
qed (use assms(4) in auto)

lemma wp_cou_calm:
  assumes "cou_ok V sel upd mt kc" "calm_puts V sel mt kc"
    and "f (base_object (sel (V w) (meta_key (mt x))) x) = Inr y"
    and "\<And>r w'. V w' = upd (\<lambda>m. m(meta_key (mt x) \<mapsto> y)) (V w) \<Longrightarrow> Q (Inr r, y) w'"
  shows "wp (kc_CreateOrUpdate kc x f) Q w"
proof (rule wp_both)
  show "wp (kc_CreateOrUpdate kc x f) (\<lambda>(r, y') w'. \<forall>o'. r = Inr o' \<longrightarrow>
      y' = y \<and> V w' = upd (\<lambda>m. m(meta_key (mt x) \<mapsto> y)) (V w)) w"
    by (rule wp_cou [OF assms(1)]) (use assms(3) in auto)
  show "wp (kc_CreateOrUpdate kc x f) (\<lambda>(r, _) _. \<exists>o'. r = Inr o') w"
    using assms(2,3) by (simp add: calm_puts_def)
qed (use assms(4) in auto)

section \<open>The primitives\<close>

context converging
begin

lemma settles:
  assumes ok: "ok d V" and calm: "calm_writes V sel mt (kc d)"
    and free: "enabled a \<Longrightarrow> \<exists>y. mutate d a (base_object (sel (V w) (meta_key (mt (fresh a)))) (fresh a)) = Inr y"
    and Q: "\<And>r w' m'. V w' = upd (\<lambda>m. m(meta_key (mt (fresh a)) := m')) (V w) \<Longrightarrow> Q (Inr r) w'"
  shows "wp (reconcile d a) Q w"
proof (rule wp_both)
  show "wp (reconcile d a) (\<lambda>r w'. \<exists>m'. V w' = upd (\<lambda>m. m(meta_key (mt (fresh a)) := m')) (V w)) w"
    by (rule reconcile_rule [OF ok]) blast+
  show "wp (reconcile d a) (\<lambda>r _. \<exists>o'. r = Inr o') w"
  proof (cases "enabled a")
    case True
    with free calm have "wp (kc_CreateOrUpdate (kc d) (fresh a) (mutate d a)) (\<lambda>(r, _) _. \<exists>o'. r = Inr o') w"
      unfolding calm_writes_def calm_puts_def by blast
    with True show ?thesis by (simp add: shape converge_def split_def)
  next
    case False
    from calm have "wp (kc_Delete (kc d) (fresh a)) (\<lambda>r _. \<forall>e. r = Some e \<longrightarrow> IsNotFound e) w"
      by (simp add: calm_writes_def calm_deletes_def)
    with False show ?thesis
      by (simp add: shape converge_def) (erule wp_mono, auto split: option.split)
  qed
qed (auto intro: Q)

end

lemma applyOwner_calm:
  assumes "calm A V" "sc \<Longrightarrow> controllable r m"
  shows "\<exists>m'. applyOwner A sc r m = Inr m'"
  using calmD(16) [OF assms(1)] assms(2) by (auto simp: applyOwner_def)

lemma mutate_calm:
  assumes calm: "calm A V"
  shows "(sc \<Longrightarrow> controllable r (ns_meta ns)) \<Longrightarrow> \<exists>y. namespace_mutate A r sc l ns = Inr y"
    "(sc \<Longrightarrow> controllable r (rq_meta rq)) \<Longrightarrow> \<exists>y. quota_mutate A r sc hard sus l rq = Inr y"
    "(sc \<Longrightarrow> controllable r (lr_meta lr)) \<Longrightarrow> \<exists>y. limits_mutate A r sc def dr mx l lr = Inr y"
    "controllable r (np_meta np) \<Longrightarrow> \<exists>y. networkpolicy_mutate A r level l np = Inr y"
    "controllable r (rb_meta rb) \<Longrightarrow> \<exists>y. binding_mutate A r admins l rb = Inr y"
    "(sc \<Longrightarrow> controllable r (cm_meta cm)) \<Longrightarrow> \<exists>y. configmap_mutate A r sc data l cm = Inr y"
    "(sc \<Longrightarrow> controllable r (sec_meta sec)) \<Longrightarrow> \<exists>y. secret_mutate A r sc data l sec = Inr y"
    "controllable r (sec_meta sec) \<Longrightarrow> \<exists>y. connection_mutate A r data l sec = Inr y"
proof -
  have own: "SetControllerReference A r (m\<lparr>om_Labels := l'\<rparr>) \<noteq> Inl e" if "controllable r m" for m l' e
    using calmD(16) [OF calm, of r "m\<lparr>om_Labels := l'\<rparr>"] that by auto
  have app: "applyOwner A sc r (m\<lparr>om_Labels := l'\<rparr>) \<noteq> Inl e" if "sc \<Longrightarrow> controllable r m" for m l' e
    using applyOwner_calm [OF calm, of sc r "m\<lparr>om_Labels := l'\<rparr>"] that by auto
  show "(sc \<Longrightarrow> controllable r (rq_meta rq)) \<Longrightarrow> \<exists>y. quota_mutate A r sc hard sus l rq = Inr y"
    by (auto simp: quota_mutate_def Let_def app split: sum.split)
  show "(sc \<Longrightarrow> controllable r (lr_meta lr)) \<Longrightarrow> \<exists>y. limits_mutate A r sc def dr mx l lr = Inr y"
    by (auto simp: limits_mutate_def Let_def app split: sum.split)
  show "controllable r (np_meta np) \<Longrightarrow> \<exists>y. networkpolicy_mutate A r level l np = Inr y"
    by (auto simp: networkpolicy_mutate_def Let_def own split: sum.split)
  show "controllable r (rb_meta rb) \<Longrightarrow> \<exists>y. binding_mutate A r admins l rb = Inr y"
    by (auto simp: binding_mutate_def Let_def own split: sum.split)
  show "(sc \<Longrightarrow> controllable r (cm_meta cm)) \<Longrightarrow> \<exists>y. configmap_mutate A r sc data l cm = Inr y"
    by (auto simp: configmap_mutate_def Let_def app split: sum.split)
  show "(sc \<Longrightarrow> controllable r (sec_meta sec)) \<Longrightarrow> \<exists>y. secret_mutate A r sc data l sec = Inr y"
    by (auto simp: secret_mutate_def Let_def app split: sum.split)
  show "controllable r (sec_meta sec) \<Longrightarrow> \<exists>y. connection_mutate A r data l sec = Inr y"
    by (auto simp: connection_mutate_def Let_def own split: sum.split)
  show "(sc \<Longrightarrow> controllable r (ns_meta ns)) \<Longrightarrow> \<exists>y. namespace_mutate A r sc l ns = Inr y"
    by (auto simp: namespace_mutate_def Let_def own split: sum.split)
qed

text \<open>The primitives, one rule each: with no competing owner they succeed.\<close>

lemma ReconcileNamespace_settles:
  assumes "api_ok A V" and calm: "calm A V"
    and "sc \<Longrightarrow> uncontested owner ns_meta (ob_Namespaces (V w) ([], name)) (new_Namespace name)"
    and "\<And>r w' x. V w' = ob_Namespaces_update (\<lambda>m. m(([], name) := x)) (V w) \<Longrightarrow> Q (Inr r) w'"
  shows "wp (ReconcileNamespace A owner sc name labels) Q w"
  by (rule nsp.settles [OF assms(1) calmD(8) [OF calm], where a = "(owner, sc, name, labels)", simplified])
    (use assms in \<open>auto simp: uncontested_def intro: mutate_calm [OF calm]\<close>)

lemma ReconcileResourceQuota_settles:
  assumes "api_ok A V" and calm: "calm A V"
    and "sc \<Longrightarrow> uncontested owner rq_meta (ob_ResourceQuotas (V w) (ns, QuotaName)) (new_ResourceQuota ns QuotaName)"
    and "\<And>r w' x. V w' = ob_ResourceQuotas_update (\<lambda>m. m((ns, QuotaName) := x)) (V w) \<Longrightarrow> Q (Inr r) w'"
  shows "wp (ReconcileResourceQuota A owner sc ns hard suspended labels) Q w"
  by (rule quotas.settles [OF assms(1) calmD(9) [OF calm], where a = "(owner, sc, ns, hard, suspended, labels)", simplified])
    (use assms in \<open>auto simp: uncontested_def intro: mutate_calm [OF calm]\<close>)

lemma ReconcileLimitRange_settles:
  assumes "api_ok A V" and calm: "calm A V"
    and "sc \<Longrightarrow> uncontested owner lr_meta (ob_LimitRanges (V w) (ns, LimitRangeName)) (new_LimitRange ns LimitRangeName)"
    and "\<And>r w' x. V w' = ob_LimitRanges_update (\<lambda>m. m((ns, LimitRangeName) := x)) (V w) \<Longrightarrow> Q (Inr r) w'"
  shows "wp (ReconcileLimitRange A owner sc ns def defReq mx labels) Q w"
  by (rule limits.settles [OF assms(1) calmD(10) [OF calm], where a = "(owner, sc, ns, def, defReq, mx, labels)", simplified])
    (use assms in \<open>auto simp: uncontested_def intro: mutate_calm [OF calm]\<close>)

lemma ReconcileNetworkPolicy_settles:
  assumes "api_ok A V" and calm: "calm A V"
    and "uncontested owner np_meta (ob_NetworkPolicies (V w) (ns, DefaultNetworkPolicyName))
       (new_NetworkPolicy ns DefaultNetworkPolicyName)"
    and "\<And>r w' x. V w' = ob_NetworkPolicies_update (\<lambda>m. m((ns, DefaultNetworkPolicyName) := x)) (V w) \<Longrightarrow> Q (Inr r) w'"
  shows "wp (ReconcileNetworkPolicy A owner ns isolation labels) Q w"
  by (rule netpols.settles [OF assms(1) calmD(11) [OF calm], where a = "(owner, ns, isolation, labels)", simplified])
    (use assms in \<open>auto simp: uncontested_def intro: mutate_calm [OF calm]\<close>)

lemma ReconcileTenantAdminBinding_settles:
  assumes "api_ok A V" and calm: "calm A V"
    and "uncontested owner rb_meta (ob_RoleBindings (V w) (ns, TenantAdminBindingName))
       (new_RoleBinding ns TenantAdminBindingName)"
    and "\<And>r w' x. V w' = ob_RoleBindings_update (\<lambda>m. m((ns, TenantAdminBindingName) := x)) (V w) \<Longrightarrow> Q (Inr r) w'"
  shows "wp (ReconcileTenantAdminBinding A owner ns admins labels) Q w"
  by (rule bindings.settles [OF assms(1) calmD(12) [OF calm], where a = "(owner, ns, admins, labels)", simplified])
    (use assms in \<open>auto simp: uncontested_def intro: mutate_calm [OF calm]\<close>)

lemma ReconcileConfigMap_settles:
  assumes "api_ok A V" and calm: "calm A V"
    and "sc \<Longrightarrow> uncontested owner cm_meta (ob_ConfigMaps (V w) (ns, name)) (new_ConfigMap ns name)"
    and "\<And>r w' x. V w' = ob_ConfigMaps_update (\<lambda>m. m((ns, name) := x)) (V w) \<Longrightarrow> Q (Inr r) w'"
  shows "wp (ReconcileConfigMap A owner sc ns name data labels) Q w"
  by (rule configmaps.settles [OF assms(1) calmD(13) [OF calm], where a = "(owner, sc, ns, name, data, labels)", simplified])
    (use assms in \<open>auto simp: uncontested_def intro: mutate_calm [OF calm]\<close>)

lemma ReconcileConnectionSecret_settles:
  assumes "api_ok A V" and calm: "calm A V"
    and "uncontested owner sec_meta (ob_Secrets (V w) (ns, name)) (new_Secret ns name)"
    and "\<And>r w' x. V w' = ob_Secrets_update (\<lambda>m. m((ns, name) := x)) (V w) \<Longrightarrow> Q (Inr r) w'"
  shows "wp (ReconcileConnectionSecret A owner ns name data labels) Q w"
  by (rule connections.settles [OF assms(1) calmD(14) [OF calm], where a = "(owner, ns, name, data, labels)", simplified])
    (use assms in \<open>auto simp: uncontested_def intro: mutate_calm [OF calm]\<close>)

lemma EnsureNamespaceDeleted_settles:
  assumes ok: "api_ok A V" and calm: "calm A V"
    and key: "\<And>ns. ob_Namespaces (V w) ([], name) = Some ns \<Longrightarrow> meta_key (ns_meta ns) = ([], name)"
    and "\<And>w' x. V w' = ob_Namespaces_update (\<lambda>m. m(([], name) := x)) (V w) \<Longrightarrow>
       gone_or_terminating (V w') name \<Longrightarrow> Q (True, None) w'"
  shows "wp (EnsureNamespaceDeleted A name) Q w"
proof (rule wp_both)
  show "wp (EnsureNamespaceDeleted A name) (\<lambda>r w'. snd r = None \<longrightarrow> fst r \<and>
      (\<exists>x. V w' = ob_Namespaces_update (\<lambda>m. m(([], name) := x)) (V w)) \<and> gone_or_terminating (V w') name) w"
    by (rule EnsureNamespaceDeleted_rule [OF ok]) auto
  have get: "get_ok V ob_Namespaces ns_meta (api_Namespaces A)" using ok by (simp add: api_ok_def reads_ok_def)
  have del: "wp (kc_Delete (api_Namespaces A) x) (\<lambda>r _. \<forall>e. r = Some e \<longrightarrow> IsNotFound e) u" for x u
    using calmD(8) [OF calm] by (simp add: calm_writes_def calm_deletes_def)
  show "wp (EnsureNamespaceDeleted A name) (\<lambda>r _. snd r = None) w"
  proof (cases "ob_Namespaces (V w) ([], name)")
    case None
    show ?thesis
      unfolding EnsureNamespaceDeleted_def wp_simps
      by (rule wp_get_absent [OF get calmD(6) [OF calm] None]) simp
  next
    case (Some ns)
    show ?thesis
      unfolding EnsureNamespaceDeleted_def wp_simps
      by (rule wp_get_there [OF get calmD(6) [OF calm] Some key [OF Some]])
        (auto intro!: wp_mono [OF del] split: option.split)
  qed
qed (auto intro!: assms(4))

lemma DeleteConnectionSecret_settles:
  assumes ok: "api_ok A V" and calm: "calm A V"
    and "\<And>w'. V w' = ob_Secrets_update (\<lambda>m. m((ns, name) := None)) (V w) \<Longrightarrow> Q None w'"
  shows "wp (DeleteConnectionSecret A ns name) Q w"
proof (rule wp_both)
  show "wp (DeleteConnectionSecret A ns name) (\<lambda>r w'. r = None \<longrightarrow>
      V w' = ob_Secrets_update (\<lambda>m. m((ns, name) := None)) (V w)) w"
    by (rule DeleteConnectionSecret_rule [OF ok]) auto
  have del: "wp (kc_Delete (api_Secrets A) x) (\<lambda>r _. \<forall>e. r = Some e \<longrightarrow> IsNotFound e) u" for x u
    using calmD(14) [OF calm] by (simp add: calm_writes_def calm_deletes_def)
  show "wp (DeleteConnectionSecret A ns name) (\<lambda>r _. r = None) w"
    by (auto simp: DeleteConnectionSecret_def intro!: wp_mono [OF del] split: option.split)
qed (use assms(3) in blast)

lemma ResolveAuthSecret_settles:
  assumes ok: "api_ok A V" and calm: "calm A V"
    and key: "\<And>s x. ref = Some s \<Longrightarrow> ob_Secrets (V w) (ns, sr_Name s) = Some x \<Longrightarrow> meta_key (sec_meta x) = (ns, sr_Name s)"
    and "\<And>creds w'. V w' = V w \<Longrightarrow> Q (Inr creds) w'"
    and "\<And>e w'. V w' = V w \<Longrightarrow> IsNotFound e \<Longrightarrow> Q (Inl e) w'"
  shows "wp (ResolveAuthSecret A ns ref) Q w"
proof (cases ref)
  case None
  with assms(4) [of w] show ?thesis by (simp add: ResolveAuthSecret_def)
next
  case (Some s)
  have get: "get_ok V ob_Secrets sec_meta (api_Secrets A)" using ok by (simp add: api_ok_def reads_ok_def)
  show ?thesis
  proof (cases "ob_Secrets (V w) (ns, sr_Name s)")
    case None
    show ?thesis
      by (simp add: ResolveAuthSecret_def Some, rule wp_get_absent [OF get calmD(7) [OF calm] None]) (simp add: assms(5))
  next
    case there: (Some x)
    show ?thesis
      by (simp add: ResolveAuthSecret_def Some,
          rule wp_get_there [OF get calmD(7) [OF calm] there key [OF Some there]]) (simp add: assms(4))
  qed
qed

text \<open>Projecting secrets needs the required ones to be there; a GitOps provider needs a source, its kinds
  to be installed, and its delivery objects to be maps that no other controller owns.\<close>

definition secrets_keyed :: "(objkey \<rightharpoonup> Secret) \<Rightarrow> string \<Rightarrow> bool" where
  "secrets_keyed secs ns \<longleftrightarrow> (\<forall>n x. secs (ns, n) = Some x \<longrightarrow> meta_key (sec_meta x) = (ns, n))"

lemma collect_secrets_settles:
  assumes ok: "api_ok A V" and calm: "calm A V" and keyed: "secrets_keyed (ob_Secrets (V w)) ns"
    and res: "resolvable (ob_Secrets (V w)) ns sels"
  shows "wp (collect_secrets A ns sels acc) (\<lambda>r _. \<exists>data. r = Inr data) w"
  using keyed res
proof (induction sels arbitrary: acc w)
  case (Cons sel sels)
  have get: "get_ok V ob_Secrets sec_meta (api_Secrets A)" using ok by (simp add: api_ok_def reads_ok_def)
  have rest: "wp (collect_secrets A ns sels acc') (\<lambda>r _. \<exists>data. r = Inr data) u" if "V u = V w" for u acc'
    using Cons that by (simp add: resolvable_def)
  show ?case
  proof (cases "ob_Secrets (V w) (ns, sks_Name sel)")
    case None
    then have "sks_Optional sel" using Cons.prems(2) by (simp add: resolvable_def resolved_def)
    then show ?thesis
      by (simp only: collect_secrets.simps wp_simps, intro wp_get_absent [OF get calmD(7) [OF calm] None]) (simp add: rest)
  next
    case (Some x)
    then have key: "meta_key (sec_meta x) = (ns, sks_Name sel)" using Cons.prems(1) by (simp add: secrets_keyed_def)
    have "sks_Optional sel \<or> fmlookup (sec_Data x) (sks_Key sel) \<noteq> None"
      using Cons.prems(2) Some by (simp add: resolvable_def resolved_def)
    then show ?thesis
      by (simp only: collect_secrets.simps wp_simps, intro wp_get_there [OF get calmD(7) [OF calm] Some key])
        (auto simp: rest split: option.split)
  qed
qed simp

lemma ProjectSecrets_settles:
  assumes ok: "api_ok A V" and calm: "calm A V" and keyed: "secrets_keyed (ob_Secrets (V w)) src"
    and res: "resolvable (ob_Secrets (V w)) src sels"
    and Q: "\<And>r w' x. V w' = ob_Secrets_update (\<lambda>m. m((dst, name) := x)) (V w) \<Longrightarrow> Q (Inr r) w'"
  shows "wp (ProjectSecrets A owner False src dst name sels labels) Q w"
proof (rule wp_both)
  show "wp (ProjectSecrets A owner False src dst name sels labels)
      (\<lambda>_ w'. \<exists>x. V w' = ob_Secrets_update (\<lambda>m. m((dst, name) := x)) (V w)) w"
    by (rule ProjectSecrets_rule [OF ok]) blast+
  have writes: "calm_writes V ob_Secrets sec_meta (api_Secrets A)" by (rule calmD(14) [OF calm])
  have put: "wp (kc_CreateOrUpdate (api_Secrets A) x (secret_mutate A owner False data labels))
      (\<lambda>(r, _) _. \<exists>o'. r = Inr o') u" for x data u
  proof -
    obtain y where "secret_mutate A owner False data labels (base_object (ob_Secrets (V u) (meta_key (sec_meta x))) x) = Inr y"
      using mutate_calm(7) [OF calm, of False] by blast
    with writes show ?thesis unfolding calm_writes_def calm_puts_def by blast
  qed
  have del: "wp (kc_Delete (api_Secrets A) x) (\<lambda>r _. \<forall>e. r = Some e \<longrightarrow> IsNotFound e) u" for x u
    using writes by (simp add: calm_writes_def calm_deletes_def)
  show "wp (ProjectSecrets A owner False src dst name sels labels) (\<lambda>r _. \<exists>o'. r = Inr o') w"
  proof (cases "sels = []")
    case True
    then show ?thesis
      by (simp add: ProjectSecrets_def) (rule wp_mono [OF del], auto split: option.split)
  next
    case False
    then show ?thesis
      by (simp only: ProjectSecrets_def Let_def if_False wp_simps)
        (rule wp_mono [OF collect_secrets_settles [OF ok calm keyed res]], auto intro!: wp_mono [OF put])
  qed
qed (use Q in blast)

definition installed :: "'w api \<Rightarrow> ('w \<Rightarrow> obs) \<Rightarrow> GroupVersionKind \<Rightarrow> bool" where
  "installed A V g \<longleftrightarrow> calm_puts V (unst_sel g) un_meta (api_Unstructured A g)"

definition delivery_free :: "Environment \<Rightarrow> obs \<Rightarrow> GroupVersionKind \<Rightarrow> bool" where
  "delivery_free env v g \<longleftrightarrow>
     (let x = base_object (ob_Unstructured v g (gitops_key env))
        (new_Unstructured g (om_Namespace (e_meta env)) (GitOpsResourceName (om_Name (e_meta env)))) in
      controllable (env_ref env) (un_meta x) \<and> (\<exists>kvs. un_Object x = JMap kvs))"

definition gitops_kinds :: "Environment \<Rightarrow> GroupVersionKind set" where
  "gitops_kinds env =
     (if go_Provider (es_GitOps (e_Spec env)) = GitOpsProviderArgoCD then {argoApplicationGVK}
      else if go_Provider (es_GitOps (e_Spec env)) = GitOpsProviderFlux then {fluxGitRepoGVK, fluxKustomizeGVK} else {})"

definition gitops_free :: "'w api \<Rightarrow> ('w \<Rightarrow> obs) \<Rightarrow> Environment \<Rightarrow> obs \<Rightarrow> bool" where
  "gitops_free A V env v \<longleftrightarrow> (gitops_kinds env \<noteq> {} \<longrightarrow> es_Source (e_Spec env) \<noteq> None) \<and>
     (\<forall>g \<in> gitops_kinds env. installed A V g \<and> delivery_free env v g)"

lemma gitops_cou_settles:
  assumes ok: "api_ok A V" and calm: "calm A V" and free: "installed A V g" "delivery_free env (V w) g"
    and Q: "\<And>r x w'. (\<And>h. h \<noteq> g \<Longrightarrow> ob_Unstructured (V w') h = ob_Unstructured (V w) h) \<Longrightarrow> Q (Inr r, x) w'"
  shows "wp (kc_CreateOrUpdate (api_Unstructured A g)
     (new_Unstructured g (om_Namespace (e_meta env)) (GitOpsResourceName (om_Name (e_meta env))))
     (gitops_mutate A env spec)) Q w"
proof -
  let ?new = "new_Unstructured g (om_Namespace (e_meta env)) (GitOpsResourceName (om_Name (e_meta env)))"
  let ?x = "base_object (unst_sel g (V w) (meta_key (un_meta ?new))) ?new"
  have cou: "cou_ok V (unst_sel g) (unst_upd g) un_meta (api_Unstructured A g)"
    using ok by (simp add: api_ok_def objects_ok_def managed_ok_def)
  have x: "controllable (env_ref env) (un_meta ?x)" "\<exists>kvs. un_Object ?x = JMap kvs"
    using free(2) by (simp_all add: delivery_free_def unst_sel_def gitops_key_def Let_def)
  from x(2) calmD(17) [OF calm] obtain j where j: "SetNestedMap A (un_Object ?x) spec [''spec''] = Inr j" by metis
  from calmD(16) [OF calm, of "env_ref env" "(un_meta ?x)\<lparr>om_Labels := MergeLabels (om_Labels (un_meta ?x)) (gitopsLabels env)\<rparr>"]
    x(1) obtain m where "SetControllerReference A (env_ref env)
      ((un_meta ?x)\<lparr>om_Labels := MergeLabels (om_Labels (un_meta ?x)) (gitopsLabels env)\<rparr>) = Inr m" by auto
  with j have "gitops_mutate A env spec ?x = Inr (?x\<lparr>un_meta := m, un_Object := j\<rparr>)"
    by (simp add: gitops_mutate_def)
  then show ?thesis
    by (rule wp_cou_calm [OF cou free(1) [unfolded installed_def]]) (rule Q, simp add: unst_upd_def)
qed

lemma ReconcileGitOps_settles:
  assumes ok: "api_ok A V" and calm: "calm A V" and free: "gitops_free A V env (V w)"
  shows "wp (ReconcileGitOps A env tn) (\<lambda>r _. \<exists>s. r = Inr s) w"
proof -
  have ne: "fluxKustomizeGVK \<noteq> fluxGitRepoGVK" by (simp add: fluxKustomizeGVK_def fluxGitRepoGVK_def)
  have argo: "wp (reconcileArgo A env tn) (\<lambda>r _. \<exists>s. r = Inr s) w"
    if p: "go_Provider (es_GitOps (e_Spec env)) = GitOpsProviderArgoCD"
  proof -
    from free p obtain source where src: "es_Source (e_Spec env) = Some source"
      and f: "installed A V argoApplicationGVK" "delivery_free env (V w) argoApplicationGVK"
      by (auto simp: gitops_free_def gitops_kinds_def)
    show ?thesis
      unfolding reconcileArgo_def src option.case wp_simps
      by (rule gitops_cou_settles [OF ok calm f]) (simp add: Let_def)
  qed
  have flux: "wp (reconcileFlux A env tn) (\<lambda>r _. \<exists>s. r = Inr s) w"
    if p: "go_Provider (es_GitOps (e_Spec env)) = GitOpsProviderFlux"
  proof -
    from free p obtain source where src: "es_Source (e_Spec env) = Some source"
      and f: "installed A V fluxGitRepoGVK" "delivery_free env (V w) fluxGitRepoGVK"
        "installed A V fluxKustomizeGVK" "delivery_free env (V w) fluxKustomizeGVK"
      by (auto simp: gitops_free_def gitops_kinds_def upo_consts)
    show ?thesis
      unfolding reconcileFlux_def src option.case wp_simps
    proof (rule gitops_cou_settles [OF ok calm f(1,2)], goal_cases)
      case (1 r x u)
      with f(4) ne have "delivery_free env (V u) fluxKustomizeGVK" by (simp add: delivery_free_def)
      from gitops_cou_settles [OF ok calm f(3) this] show ?case by (simp add: Let_def)
    qed
  qed
  show ?thesis using argo flux by (simp add: ReconcileGitOps_def Let_def)
qed

lemma delete_gvks_settles:
  assumes calm: "calm A V"
  shows "wp (delete_gvks A ns name gs) (\<lambda>r _. r = None) w"
proof (induction gs arbitrary: w)
  case (Cons g gs)
  have "wp (kc_Delete (api_Unstructured A g) x) (\<lambda>r _. \<forall>e. r = Some e \<longrightarrow> IsNotFound e \<or> IsNoMatch e) u" for x u
    using calmD(15) [OF calm] by (simp add: calm_deletes_def)
  then show ?case
    unfolding delete_gvks.simps wp_simps by (rule wp_mono) (auto simp: Cons split: option.split)
qed simp

lemma DeleteGitOps_settles:
  assumes ok: "api_ok A V" and calm: "calm A V"
    and Q: "\<And>w'. only_gitops env (V w) (V w') \<Longrightarrow>
       (\<And>g. g \<in> {argoApplicationGVK, fluxKustomizeGVK, fluxGitRepoGVK} \<Longrightarrow>
          ob_Unstructured (V w') g (gitops_key env) = None) \<Longrightarrow> Q None w'"
  shows "wp (DeleteGitOps A env) Q w"
proof (rule wp_both)
  show "wp (DeleteGitOps A env) (\<lambda>r w'. r = None \<longrightarrow> only_gitops env (V w) (V w') \<and>
      (\<forall>g \<in> {argoApplicationGVK, fluxKustomizeGVK, fluxGitRepoGVK}. ob_Unstructured (V w') g (gitops_key env) = None)) w"
    by (rule DeleteGitOps_rule [OF ok]) auto
  show "wp (DeleteGitOps A env) (\<lambda>r _. r = None) w"
    unfolding DeleteGitOps_def by (rule delete_gvks_settles [OF calm])
qed (use Q in blast)

section \<open>A cluster of that kind\<close>

text \<open>The API server of theory MemApi with its faults cleared before every call of the client.\<close>

definition fault_free :: "(mworld, 'a) state \<Rightarrow> (mworld, 'a) state" where
  "fault_free m = State (\<lambda>w. run_state m (w\<lparr>mw_Faults := []\<rparr>))"

definition steady_client :: "(mworld, 'x) kclient \<Rightarrow> (mworld, 'x) kclient" where
  "steady_client kc =
     \<lparr>kc_Get = (\<lambda>k. fault_free (kc_Get kc k)),
      kc_CreateOrUpdate = (\<lambda>x f. fault_free (kc_CreateOrUpdate kc x f)),
      kc_Update = (\<lambda>x. fault_free (kc_Update kc x)), kc_StatusUpdate = (\<lambda>x. fault_free (kc_StatusUpdate kc x)),
      kc_Delete = (\<lambda>x. fault_free (kc_Delete kc x)), kc_ListByTenantRef = (\<lambda>n. fault_free (kc_ListByTenantRef kc n))\<rparr>"

definition mem_owner_strict :: "ObjectRef \<Rightarrow> ObjectMeta \<Rightarrow> go_err + ObjectMeta" where
  "mem_owner_strict r m =
     (if om_Namespace (ref_meta r) \<noteq> [] \<and> om_Namespace (ref_meta r) \<noteq> om_Namespace m
      then Inl (plain_err ''cross-namespace owner references are disallowed'') else mem_owner r m)"

definition steady_api :: "mworld api" where
  "steady_api = mem_api
     \<lparr>api_Tenants := steady_client (api_Tenants mem_api), api_Environments := steady_client (api_Environments mem_api),
      api_Integrations := steady_client (api_Integrations mem_api), api_Namespaces := steady_client (api_Namespaces mem_api),
      api_ResourceQuotas := steady_client (api_ResourceQuotas mem_api),
      api_LimitRanges := steady_client (api_LimitRanges mem_api),
      api_NetworkPolicies := steady_client (api_NetworkPolicies mem_api),
      api_RoleBindings := steady_client (api_RoleBindings mem_api), api_ConfigMaps := steady_client (api_ConfigMaps mem_api),
      api_Secrets := steady_client (api_Secrets mem_api), api_Unstructured := \<lambda>g. steady_client (api_Unstructured mem_api g),
      SetControllerReference := mem_owner_strict\<rparr>"

lemma wp_fault_free [simp]: "wp (fault_free m) Q w = wp m Q (w\<lparr>mw_Faults := []\<rparr>)"
  by (simp add: wp_def fault_free_def)

lemma m_obs_faults [simp]: "m_obs (w\<lparr>mw_Faults := bs\<rparr>) = m_obs w"
  by (simp add: m_obs_def)

lemma steady_client_simps [simp]:
  "kc_Get (steady_client kc) k = fault_free (kc_Get kc k)"
  "kc_CreateOrUpdate (steady_client kc) x f = fault_free (kc_CreateOrUpdate kc x f)"
  "kc_Update (steady_client kc) x = fault_free (kc_Update kc x)"
  "kc_StatusUpdate (steady_client kc) x = fault_free (kc_StatusUpdate kc x)"
  "kc_Delete (steady_client kc) x = fault_free (kc_Delete kc x)"
  "kc_ListByTenantRef (steady_client kc) n = fault_free (kc_ListByTenantRef kc n)"
  by (simp_all add: steady_client_def)

text \<open>Clearing the faults keeps every law, since the laws speak of every world.\<close>

lemma steady_laws:
  "get_ok m_obs sel mt kc \<Longrightarrow> get_ok m_obs sel mt (steady_client kc)"
  "cou_ok m_obs sel upd mt kc \<Longrightarrow> cou_ok m_obs sel upd mt (steady_client kc)"
  "delete_ok m_obs sel upd mt kc \<Longrightarrow> delete_ok m_obs sel upd mt (steady_client kc)"
  "delete_now m_obs upd mt kc \<Longrightarrow> delete_now m_obs upd mt (steady_client kc)"
  "update_ok m_obs sel upd mt spec kc \<Longrightarrow> update_ok m_obs sel upd mt spec (steady_client kc)"
  "status_ok m_obs sel upd mt st_upd kc \<Longrightarrow> status_ok m_obs sel upd mt st_upd (steady_client kc)"
  "list_ok m_obs sel ref kc \<Longrightarrow> list_ok m_obs sel ref (steady_client kc)"
proof -
  show "get_ok m_obs sel mt (steady_client kc)" if h: "get_ok m_obs sel mt kc"
    unfolding get_ok_def steady_client_simps wp_fault_free
  proof (intro allI, goal_cases)
    case (1 k w)
    from h [unfolded get_ok_def, THEN spec, THEN spec, of k "w\<lparr>mw_Faults := []\<rparr>"] show ?case by (simp only: m_obs_faults)
  qed
  show "cou_ok m_obs sel upd mt (steady_client kc)" if h: "cou_ok m_obs sel upd mt kc"
    unfolding cou_ok_def steady_client_simps wp_fault_free
  proof (intro allI, goal_cases)
    case (1 x f w)
    from h [unfolded cou_ok_def, THEN spec, THEN spec, THEN spec, of x f "w\<lparr>mw_Faults := []\<rparr>"] show ?case by (simp only: m_obs_faults)
  qed
  show "delete_ok m_obs sel upd mt (steady_client kc)" if h: "delete_ok m_obs sel upd mt kc"
    unfolding delete_ok_def steady_client_simps wp_fault_free
  proof (intro allI, goal_cases)
    case (1 x w)
    from h [unfolded delete_ok_def, THEN spec, THEN spec, of x "w\<lparr>mw_Faults := []\<rparr>"] show ?case by (simp only: m_obs_faults)
  qed
  show "delete_now m_obs upd mt (steady_client kc)" if h: "delete_now m_obs upd mt kc"
    unfolding delete_now_def steady_client_simps wp_fault_free
  proof (intro allI, goal_cases)
    case (1 x w)
    from h [unfolded delete_now_def, THEN spec, THEN spec, of x "w\<lparr>mw_Faults := []\<rparr>"] show ?case by (simp only: m_obs_faults)
  qed
  show "update_ok m_obs sel upd mt spec (steady_client kc)" if h: "update_ok m_obs sel upd mt spec kc"
    unfolding update_ok_def steady_client_simps wp_fault_free
  proof (intro allI, goal_cases)
    case (1 x w)
    from h [unfolded update_ok_def, THEN spec, THEN spec, of x "w\<lparr>mw_Faults := []\<rparr>"] show ?case by (simp only: m_obs_faults)
  qed
  show "status_ok m_obs sel upd mt st_upd (steady_client kc)" if h: "status_ok m_obs sel upd mt st_upd kc"
    unfolding status_ok_def steady_client_simps wp_fault_free
  proof (intro allI, goal_cases)
    case (1 x w)
    from h [unfolded status_ok_def, THEN spec, THEN spec, of x "w\<lparr>mw_Faults := []\<rparr>"] show ?case by (simp only: m_obs_faults)
  qed
  show "list_ok m_obs sel ref (steady_client kc)" if h: "list_ok m_obs sel ref kc"
    unfolding list_ok_def steady_client_simps wp_fault_free
  proof (intro allI, goal_cases)
    case (1 n w)
    from h [unfolded list_ok_def, THEN spec, THEN spec, of n "w\<lparr>mw_Faults := []\<rparr>"] show ?case by (simp only: m_obs_faults)
  qed
qed

lemma steady_managed: "managed_ok m_obs sel upd mt kc \<Longrightarrow> managed_ok m_obs sel upd mt (steady_client kc)"
  by (simp add: managed_ok_def steady_laws)

lemma mem_owner_strict_ok: "owners_ok (A\<lparr>SetControllerReference := mem_owner_strict\<rparr>)"
  by (auto simp: owners_ok_def mem_owner_strict_def mem_owner_def list_ex_iff split: if_splits)

theorem steady_api_ok: "api_ok steady_api m_obs"
proof -
  have mem: "objects_ok mem_api m_obs" "prompt_deletes mem_api m_obs" "reads_ok mem_api m_obs" "resources_ok mem_api m_obs"
    by (fact mem_objects mem_prompt mem_reads mem_resources)+
  have 1: "objects_ok steady_api m_obs"
    using mem(1) by (simp add: objects_ok_def steady_api_def steady_managed)
  have 2: "prompt_deletes steady_api m_obs"
    using mem(2) by (simp add: prompt_deletes_def steady_api_def steady_laws)
  have 3: "reads_ok steady_api m_obs"
    using mem(3) by (simp add: reads_ok_def steady_api_def steady_laws)
  have 4: "resources_ok steady_api m_obs"
    using mem(4) by (simp add: resources_ok_def steady_api_def steady_laws)
  have 5: "owners_ok steady_api" by (simp add: steady_api_def mem_owner_strict_ok)
  have "finalizers_ok steady_api" "conditions_ok steady_api m_obs" "metrics_ok steady_api m_obs"
    "effects_ok steady_api m_obs" "json_ok steady_api"
    using mem_api_ok mem_conditions mem_metrics mem_effects mem_json
    by (simp_all cong: option.case_cong json.case_cong add: api_ok_def steady_api_def finalizers_ok_def conditions_ok_def metrics_ok_def effects_ok_def json_ok_def)
  with 1 2 3 4 5 show ?thesis by (simp add: api_ok_def)
qed

lemma wp_call_calm: "wp (call bad f) Q (w\<lparr>mw_Faults := []\<rparr>) = (case f (w\<lparr>mw_Faults := []\<rparr>) of (a, w') \<Rightarrow> Q a w')"
  by (simp add: wp_def call_def)

lemma steady_calm:
  assumes S: "mem_store sel upd get put" and st_upd: "\<And>x y. mt (st_upd x y) = mt y"
  shows "calm_reads m_obs sel mt (steady_client (mem_client get put mt set_mt st_upd ref prompt))"
    "calm_writes m_obs sel mt (steady_client (mem_client get put mt set_mt st_upd ref prompt))"
    "calm_resource m_obs sel mt (steady_client (mem_client get put mt set_mt st_upd ref prompt))"
    "calm_lists (steady_client (mem_client get put mt set_mt st_upd ref prompt))"
    "calm_deletes (\<lambda>e. IsNotFound e \<or> IsNoMatch e) (steady_client (mem_client get put mt set_mt st_upd ref prompt))"
proof -
  have sel: "map_of (get (w\<lparr>mw_Faults := []\<rparr>)) = sel (m_obs w)" for w
    using mem_store_rules(1) [OF S, of "w\<lparr>mw_Faults := []\<rparr>"] by simp
  note run = mem_client_def wp_call_calm sel Let_def
  show reads: "calm_reads m_obs sel mt (steady_client (mem_client get put mt set_mt st_upd ref prompt))"
    by (simp add: calm_reads_def run not_found_def)
  show "calm_writes m_obs sel mt (steady_client (mem_client get put mt set_mt st_upd ref prompt))"
    by (auto simp: calm_writes_def calm_puts_def calm_deletes_def run not_found_def split: option.split)
  show "calm_resource m_obs sel mt (steady_client (mem_client get put mt set_mt st_upd ref prompt))"
    using reads st_upd by (auto simp: calm_resource_def calm_deletes_def run not_found_def split: option.split)
  show "calm_lists (steady_client (mem_client get put mt set_mt st_upd ref prompt))"
    by (simp add: calm_lists_def run)
  show "calm_deletes (\<lambda>e. IsNotFound e \<or> IsNoMatch e) (steady_client (mem_client get put mt set_mt st_upd ref prompt))"
    by (auto simp: calm_deletes_def run not_found_def split: option.split)
qed

theorem steady_api_calm: "calm steady_api m_obs"
proof -
  have "\<exists>m'. mem_owner_strict r m = Inr m'" if "controllable r m" for r m
    using that by (auto simp: controllable_def mem_owner_strict_def mem_owner_def list_ex_iff)
  then show ?thesis
    by (simp add: calm_def steady_api_def mem_api_def steady_calm [OF mem_stores(1)] steady_calm [OF mem_stores(2)]
        steady_calm [OF mem_stores(3)] steady_calm [OF mem_stores(4)] steady_calm [OF mem_stores(5)]
        steady_calm [OF mem_stores(6)] steady_calm [OF mem_stores(7)] steady_calm [OF mem_stores(8)]
        steady_calm [OF mem_stores(9)] steady_calm [OF mem_stores(10)] steady_calm [OF mem_stores(11)])
qed

lemma steady_api_installed: "installed steady_api m_obs g"
  using steady_calm(2) [OF mem_stores(11), where mt = un_meta]
  by (simp add: installed_def steady_api_def mem_api_def calm_writes_def)

end
