(* ===== verification/Conditions.thy ===== *)
theory Conditions
  imports ApiLaws
begin

text \<open>
  \<open>pkg/conditions/conditions.go\<close>: the only place the controllers write status conditions
  through. The locale \<open>status_conditions\<close> is the contract the controllers rely on; it is
  interpreted on the package's functions, so that its lemmas hold of \<open>MarkTrue\<close>, \<open>MarkFalse\<close>,
  \<open>MarkUnknown\<close> and \<open>Remove\<close>.
\<close>

section \<open>The package\<close>

definition reasonFallback :: string where [upo_consts]: "reasonFallback = ''Unspecified''"

definition cond_set ::
  "'w api \<Rightarrow> Condition list \<Rightarrow> string \<Rightarrow> ConditionStatus \<Rightarrow> string \<Rightarrow> string \<Rightarrow> int64 \<Rightarrow>
   ('w, Condition list) state" where
  "cond_set A conditions condType status reason message observedGeneration =
     (let reason = (if reason = [] then reasonFallback else reason)
      in SetStatusCondition A conditions
           \<lparr>c_Type = condType, c_Status = status, c_ObservedGeneration = observedGeneration,
            c_LastTransitionTime = None, c_Reason = reason, c_Message = message\<rparr>)"

definition MarkTrue ::
  "'w api \<Rightarrow> Condition list \<Rightarrow> string \<Rightarrow> string \<Rightarrow> string \<Rightarrow> int64 \<Rightarrow> ('w, Condition list) state" where
  "MarkTrue A conditions condType reason message observedGeneration =
     cond_set A conditions condType ConditionTrue reason message observedGeneration"

definition MarkFalse ::
  "'w api \<Rightarrow> Condition list \<Rightarrow> string \<Rightarrow> string \<Rightarrow> string \<Rightarrow> int64 \<Rightarrow> ('w, Condition list) state" where
  "MarkFalse A conditions condType reason message observedGeneration =
     cond_set A conditions condType ConditionFalse reason message observedGeneration"

definition MarkUnknown ::
  "'w api \<Rightarrow> Condition list \<Rightarrow> string \<Rightarrow> string \<Rightarrow> string \<Rightarrow> int64 \<Rightarrow> ('w, Condition list) state" where
  "MarkUnknown A conditions condType reason message observedGeneration =
     cond_set A conditions condType ConditionUnknown reason message observedGeneration"

definition cond_IsTrue :: "'w api \<Rightarrow> Condition list \<Rightarrow> string \<Rightarrow> bool" where
  "cond_IsTrue A conditions condType = IsStatusConditionTrue A conditions condType"

definition cond_IsFalse :: "'w api \<Rightarrow> Condition list \<Rightarrow> string \<Rightarrow> bool" where
  "cond_IsFalse A conditions condType = IsStatusConditionFalse A conditions condType"

definition cond_Get :: "'w api \<Rightarrow> Condition list \<Rightarrow> string \<Rightarrow> Condition option" where
  "cond_Get A conditions condType = FindStatusCondition A conditions condType"

definition cond_Remove :: "'w api \<Rightarrow> Condition list \<Rightarrow> string \<Rightarrow> Condition list" where
  "cond_Remove A conditions condType = RemoveStatusCondition A conditions condType"

section \<open>The contract\<close>

text \<open>What a condition says, apart from when it last changed.\<close>

definition says :: "Condition \<Rightarrow> ConditionStatus \<times> string \<times> string \<times> int64" where
  "says c = (c_Status c, c_Reason c, c_Message c, c_ObservedGeneration c)"

definition effective_reason :: "string \<Rightarrow> string" where
  "effective_reason r = (if r = [] then reasonFallback else r)"

lemma effective_reason_nonempty [simp]: "effective_reason r \<noteq> []"
  by (simp add: effective_reason_def reasonFallback_def)

lemma effective_reason_id [simp]: "r \<noteq> [] \<Longrightarrow> effective_reason r = r"
  by (simp add: effective_reason_def)

locale status_conditions =
  fixes ok :: "'d \<Rightarrow> ('w \<Rightarrow> obs) \<Rightarrow> bool"
    and mark :: "'d \<Rightarrow> ConditionStatus \<Rightarrow> Condition list \<Rightarrow> string \<Rightarrow> string \<Rightarrow> string \<Rightarrow> int64 \<Rightarrow>
      ('w, Condition list) state"
    and find :: "'d \<Rightarrow> Condition list \<Rightarrow> string \<Rightarrow> Condition option"
    and drop :: "'d \<Rightarrow> Condition list \<Rightarrow> string \<Rightarrow> Condition list"
  assumes mark_spec: "ok d V \<Longrightarrow>
      wp (mark d s cs t r m g)
        (\<lambda>cs' w'. V w' = V w \<and>
           (\<forall>u. u \<noteq> t \<longrightarrow> find d cs' u = find d cs u) \<and>
           (\<exists>c. find d cs' t = Some c \<and> c_Type c = t \<and> says c = (s, effective_reason r, m, g) \<and>
              (\<forall>c0. find d cs t = Some c0 \<longrightarrow> c_Status c0 = s \<longrightarrow>
                 c_LastTransitionTime c = c_LastTransitionTime c0)) \<and>
           (distinct (map c_Type cs) \<longrightarrow> distinct (map c_Type cs')) \<and>
           set (map c_Type cs') = insert t (set (map c_Type cs))) w"
    and drop_find: "ok d V \<Longrightarrow> find d (drop d cs t) u = (if u = t then None else find d cs u)"
begin

text \<open>The rule the controllers' proofs use: marking leaves the observed world alone, and what
  the new conditions say is known.\<close>

lemma mark_rule:
  assumes "ok d V"
    and "\<And>cs' w' c. V w' = V w \<Longrightarrow> (\<And>u. u \<noteq> t \<Longrightarrow> find d cs' u = find d cs u) \<Longrightarrow>
       find d cs' t = Some c \<Longrightarrow> says c = (s, effective_reason r, m, g) \<Longrightarrow> Q cs' w'"
  shows "wp (mark d s cs t r m g) Q w"
proof (rule wp_mono [OF mark_spec [OF assms(1), of s cs t r m g w]])
  fix cs' w'
  assume *: "V w' = V w \<and> (\<forall>u. u \<noteq> t \<longrightarrow> find d cs' u = find d cs u) \<and>
    (\<exists>c. find d cs' t = Some c \<and> c_Type c = t \<and> says c = (s, effective_reason r, m, g) \<and>
      (\<forall>c0. find d cs t = Some c0 \<longrightarrow> c_Status c0 = s \<longrightarrow>
        c_LastTransitionTime c = c_LastTransitionTime c0)) \<and>
    (distinct (map c_Type cs) \<longrightarrow> distinct (map c_Type cs')) \<and>
    set (map c_Type cs') = insert t (set (map c_Type cs))"
  then obtain c where "find d cs' t = Some c" "says c = (s, effective_reason r, m, g)" by blast
  with * show "Q cs' w'" by (intro assms(2)) auto
qed

text \<open>Two marks of different types do not disturb each other, in either order.\<close>

lemma mark_two:
  assumes ok: "ok d V" and ne: "t \<noteq> t'"
  shows "wp (mark d s cs t r m g \<bind> (\<lambda>cs'. mark d s' cs' t' r' m' g'))
    (\<lambda>cs' w'. V w' = V w \<and>
       map_option says (find d cs' t) = Some (s, effective_reason r, m, g) \<and>
       map_option says (find d cs' t') = Some (s', effective_reason r', m', g') \<and>
       (\<forall>u. u \<noteq> t \<longrightarrow> u \<noteq> t' \<longrightarrow> find d cs' u = find d cs u)) w"
  unfolding wp_bind by (rule mark_rule [OF ok], rule mark_rule [OF ok]) (use ne in auto)

text \<open>Marking again what already holds keeps the transition time: a reconcile that finds nothing
  changed does not make a condition look younger.\<close>

lemma remark_keeps_time:
  assumes ok: "ok d V" and c0: "find d cs t = Some c0" "c_Status c0 = s"
  shows "wp (mark d s cs t r m g)
    (\<lambda>cs' w'. \<exists>c. find d cs' t = Some c \<and> c_LastTransitionTime c = c_LastTransitionTime c0) w"
  by (rule wp_mono [OF mark_spec [OF ok]]) (use c0 in blast)

lemma drop_absent: "ok d V \<Longrightarrow> find d (drop d cs t) t = None"
  by (simp add: drop_find)

end

text \<open>The package meets the contract, given the documented behaviour of the \<open>meta\<close> helpers.\<close>

definition mark :: "'w api \<Rightarrow> ConditionStatus \<Rightarrow> Condition list \<Rightarrow> string \<Rightarrow> string \<Rightarrow> string \<Rightarrow>
    int64 \<Rightarrow> ('w, Condition list) state" where
  "mark A s cs t r m g =
     (case s of ConditionTrue \<Rightarrow> MarkTrue A cs t r m g
      | ConditionFalse \<Rightarrow> MarkFalse A cs t r m g
      | ConditionUnknown \<Rightarrow> MarkUnknown A cs t r m g)"

lemma mark_eq: "mark A s cs t r m g = cond_set A cs t s r m g"
  by (simp add: mark_def MarkTrue_def MarkFalse_def MarkUnknown_def split: ConditionStatus.split)

lemma cond_set_spec:
  assumes "conditions_ok A V"
  shows "wp (cond_set A cs t s r m g)
    (\<lambda>cs' w'. V w' = V w \<and>
       (\<forall>u. u \<noteq> t \<longrightarrow> cond_Get A cs' u = cond_Get A cs u) \<and>
       (\<exists>c. cond_Get A cs' t = Some c \<and> c_Type c = t \<and> says c = (s, effective_reason r, m, g) \<and>
          (\<forall>c0. cond_Get A cs t = Some c0 \<longrightarrow> c_Status c0 = s \<longrightarrow>
             c_LastTransitionTime c = c_LastTransitionTime c0)) \<and>
       (distinct (map c_Type cs) \<longrightarrow> distinct (map c_Type cs')) \<and>
       set (map c_Type cs') = insert t (set (map c_Type cs))) w"
proof -
  let ?c = "\<lparr>c_Type = t, c_Status = s, c_ObservedGeneration = g, c_LastTransitionTime = None,
     c_Reason = effective_reason r, c_Message = m\<rparr>"
  have "cond_set A cs t s r m g = SetStatusCondition A cs ?c"
    by (simp add: cond_set_def effective_reason_def)
  moreover from assms have "wp (SetStatusCondition A cs ?c)
        (\<lambda>cs' w'. V w' = V w \<and>
           (\<forall>u. u \<noteq> c_Type ?c \<longrightarrow> FindStatusCondition A cs' u = FindStatusCondition A cs u) \<and>
           (\<exists>ts. FindStatusCondition A cs' (c_Type ?c) = Some (?c\<lparr>c_LastTransitionTime := ts\<rparr>) \<and>
              (\<forall>c0. FindStatusCondition A cs (c_Type ?c) = Some c0 \<longrightarrow> c_Status c0 = c_Status ?c \<longrightarrow>
                 ts = c_LastTransitionTime c0)) \<and>
           (distinct (map c_Type cs) \<longrightarrow> distinct (map c_Type cs')) \<and>
           set (map c_Type cs') = insert (c_Type ?c) (set (map c_Type cs))) w"
    unfolding conditions_ok_def by blast
  ultimately show ?thesis
    by (auto simp: cond_Get_def says_def elim!: wp_mono)
qed

interpretation conds: status_conditions conditions_ok mark cond_Get cond_Remove
proof
  fix d V s cs t r m g w
  assume "conditions_ok d V"
  from cond_set_spec [OF this] show "wp (mark d s cs t r m g)
        (\<lambda>cs' w'. V w' = V w \<and>
           (\<forall>u. u \<noteq> t \<longrightarrow> cond_Get d cs' u = cond_Get d cs u) \<and>
           (\<exists>c. cond_Get d cs' t = Some c \<and> c_Type c = t \<and> says c = (s, effective_reason r, m, g) \<and>
              (\<forall>c0. cond_Get d cs t = Some c0 \<longrightarrow> c_Status c0 = s \<longrightarrow>
                 c_LastTransitionTime c = c_LastTransitionTime c0)) \<and>
           (distinct (map c_Type cs) \<longrightarrow> distinct (map c_Type cs')) \<and>
           set (map c_Type cs') = insert t (set (map c_Type cs))) w"
    by (simp add: mark_eq)
next
  fix d V cs t u
  show "conditions_ok d V \<Longrightarrow>
      cond_Get d (cond_Remove d cs t) u = (if u = t then None else cond_Get d cs u)"
    by (simp add: conditions_ok_def cond_Get_def cond_Remove_def)
qed

lemmas MarkTrue_rule = conds.mark_rule [where s = ConditionTrue, unfolded mark_def, simplified]
lemmas MarkFalse_rule = conds.mark_rule [where s = ConditionFalse, unfolded mark_def, simplified]
lemmas MarkUnknown_rule = conds.mark_rule [where s = ConditionUnknown, unfolded mark_def, simplified]

lemma cond_IsTrue_iff:
  "conditions_ok A V \<Longrightarrow>
     cond_IsTrue A cs t \<longleftrightarrow> (\<exists>c. cond_Get A cs t = Some c \<and> c_Status c = ConditionTrue)"
  by (auto simp: conditions_ok_def cond_IsTrue_def cond_Get_def split: option.split)

lemma cond_IsFalse_iff:
  "conditions_ok A V \<Longrightarrow>
     cond_IsFalse A cs t \<longleftrightarrow> (\<exists>c. cond_Get A cs t = Some c \<and> c_Status c = ConditionFalse)"
  by (auto simp: conditions_ok_def cond_IsFalse_def cond_Get_def split: option.split)

section \<open>Reading back what was written\<close>

text \<open>A run of marks: each names its type and what it is to say.\<close>

type_synonym mark_args = "ConditionStatus \<times> string \<times> string \<times> int64"

fun mark_all :: "'w api \<Rightarrow> (string \<times> mark_args) list \<Rightarrow> Condition list \<Rightarrow> ('w, Condition list) state" where
  "mark_all A [] cs = State_Monad.return cs"
| "mark_all A ((t, s, r, m, g) # ws) cs = mark A s cs t r m g \<bind> mark_all A ws"

text \<open>What a reader of type \<open>u\<close> gets from \<open>cs'\<close>, given what was last written there, or, if nothing was,
  what the conditions \<open>cs\<close> said before.\<close>

definition reads_back :: "'w api \<Rightarrow> Condition list \<Rightarrow> Condition list \<Rightarrow> string \<Rightarrow> mark_args option \<Rightarrow> bool" where
  "reads_back A cs cs' u x =
     (case x of
        None \<Rightarrow> cond_Get A cs' u = cond_Get A cs u
      | Some (s, r, m, g) \<Rightarrow>
          map_option says (cond_Get A cs' u) = Some (s, effective_reason r, m, g) \<and>
          cond_IsTrue A cs' u = (s = ConditionTrue) \<and> cond_IsFalse A cs' u = (s = ConditionFalse))"

lemma reads_back_mark:
  assumes "conditions_ok A V" and "cond_Get A cs' t = Some c" and "says c = (s, effective_reason r, m, g)"
  shows "reads_back A cs cs' t (Some (s, r, m, g))"
  using assms by (auto simp: reads_back_def cond_IsTrue_iff cond_IsFalse_iff says_def)

lemma reads_back_trans:
  "reads_back A cs cs1 u x \<Longrightarrow> reads_back A cs1 cs' u y \<Longrightarrow> conditions_ok A V \<Longrightarrow>
   reads_back A cs cs' u (case y of None \<Rightarrow> x | Some z \<Rightarrow> Some z)"
  by (cases y; cases x) (auto simp: reads_back_def cond_IsTrue_iff cond_IsFalse_iff)

text \<open>C26: Conditions read back as they were written. After any run of \<open>MarkTrue\<close>, \<open>MarkFalse\<close> and
  \<open>MarkUnknown\<close>, on any types in any order, \<open>Get\<close> returns for each type the status, the message, the
  generation and the reason of the last mark of that type (with the fallback where no reason was given),
  \<open>IsTrue\<close> and \<open>IsFalse\<close> agree with it, a type that was not marked reads as before, no type appears
  twice, and \<open>Remove\<close> makes just its type unreadable. Nothing else of the world changes.\<close>

theorem conditions_roundtrip:
  assumes "conditions_ok A V" and "distinct (map c_Type cs)"
  shows "wp (mark_all A ws cs) (\<lambda>cs' w'. V w' = V w \<and> distinct (map c_Type cs') \<and>
     (\<forall>u. reads_back A cs cs' u (map_of (rev ws) u)) \<and>
     (\<forall>t u. cond_Get A (cond_Remove A cs' t) u = (if u = t then None else cond_Get A cs' u))) w"
  using assms(2)
proof (induction ws arbitrary: cs w)
  case Nil
  then show ?case by (simp add: reads_back_def conds.drop_find [OF assms(1)])
next
  case (Cons x ws)
  obtain t s r m g where x: "x = (t, s, r, m, g)" by (cases x)
  show ?case
    unfolding x mark_all.simps wp_bind
  proof (rule wp_mono [OF conds.mark_spec [OF assms(1)]], elim conjE exE, goal_cases)
    case (1 cs1 w1 c)
    then have first: "reads_back A cs cs1 u (map_of [(t, s, r, m, g)] u)" for u
      using reads_back_mark [OF assms(1) 1(5) 1(7)] by (auto simp: reads_back_def)
    have "map_of (rev ((t, s, r, m, g) # ws)) u =
        (case map_of (rev ws) u of None \<Rightarrow> map_of [(t, s, r, m, g)] u | Some z \<Rightarrow> Some z)" for u
      by (simp add: map_add_def split: option.split)
    with first have "reads_back A cs cs' u (map_of (rev ((t, s, r, m, g) # ws)) u)"
      if "reads_back A cs1 cs' u (map_of (rev ws) u)" for cs' u
      using reads_back_trans [OF _ that assms(1)] by metis
    with 1 Cons.prems show ?case
      by (auto simp del: map_of.simps rev.simps elim!: wp_mono [OF Cons.IH])
  qed
qed

end
