(* ===== verification/Metrics.thy ===== *)
theory Metrics
  imports ApiLaws
begin

text \<open>
  \<open>internal/metrics/metrics.go\<close>: the phase gauge and the reconcile counters. The locale
  \<open>phase_exporter\<close> is the contract of the gauge ("exactly one phase series per resource"); it
  is interpreted on \<open>SetPhase\<close> and \<open>ClearPhase\<close>.
\<close>

section \<open>The collectors\<close>

text \<open>The collectors that the package declares and registers. Bucket bounds are in milliseconds.\<close>

datatype collector_kind = CounterVec | HistogramVec "nat list" | GaugeVec | Gauge

record collector =
  col_Kind :: collector_kind
  col_Name :: string
  col_Labels :: "string list"

definition metrics_namespace :: string where "metrics_namespace = ''upo''"

definition ReconcileTotal :: collector where
  "ReconcileTotal = \<lparr>col_Kind = CounterVec, col_Name = ''reconcile_total'', col_Labels = [''controller'', ''result'']\<rparr>"

definition ReconcileDuration :: collector where
  "ReconcileDuration =
     \<lparr>col_Kind = HistogramVec [5, 10, 25, 50, 100, 250, 500, 1000, 2500, 5000, 10000],
      col_Name = ''reconcile_duration_seconds'', col_Labels = [''controller'']\<rparr>"

definition ResourcePhase :: collector where
  "ResourcePhase = \<lparr>col_Kind = GaugeVec, col_Name = ''resource_phase'',
     col_Labels = [''controller'', ''namespace'', ''name'', ''phase'']\<rparr>"

definition TenantsManaged :: collector where
  "TenantsManaged = \<lparr>col_Kind = Gauge, col_Name = ''tenants_managed'', col_Labels = []\<rparr>"

definition IntegrationEventsDelivered :: collector where
  "IntegrationEventsDelivered = \<lparr>col_Kind = CounterVec, col_Name = ''integration_events_delivered_total'',
     col_Labels = [''namespace'', ''integration'', ''type'']\<rparr>"

definition IntegrationEventsFailed :: collector where
  "IntegrationEventsFailed = \<lparr>col_Kind = CounterVec, col_Name = ''integration_events_failed_total'',
     col_Labels = [''namespace'', ''integration'', ''type'']\<rparr>"

definition registered_collectors :: "collector list" where
  "registered_collectors = [ReconcileTotal, ReconcileDuration, ResourcePhase, TenantsManaged,
     IntegrationEventsDelivered, IntegrationEventsFailed]"

lemmas collector_defs = ReconcileTotal_def ReconcileDuration_def ResourcePhase_def TenantsManaged_def
  IntegrationEventsDelivered_def IntegrationEventsFailed_def registered_collectors_def

section \<open>Recording\<close>

definition ResultSuccess :: string where [upo_consts]: "ResultSuccess = ''success''"
definition ResultError :: string where [upo_consts]: "ResultError = ''error''"
definition ResultRequeue :: string where [upo_consts]: "ResultRequeue = ''requeue''"

definition RecordReconcile :: "'w api \<Rightarrow> string \<Rightarrow> string \<Rightarrow> Duration \<Rightarrow> ('w, unit) state" where
  "RecordReconcile A controller result elapsed = do {
     _ \<leftarrow> ReconcileTotalInc A [controller, result];
     ReconcileDurationObserve A [controller] elapsed
   }"

definition SetPhase :: "'w api \<Rightarrow> string \<Rightarrow> string \<Rightarrow> string \<Rightarrow> string \<Rightarrow> ('w, unit) state" where
  "SetPhase A controller ns name phase = do {
     _ \<leftarrow> PhaseDeletePartialMatch A
            [(''controller'', controller), (''namespace'', ns), (''name'', name)];
     PhaseSet A [controller, ns, name, phase] 1
   }"

definition ClearPhase :: "'w api \<Rightarrow> string \<Rightarrow> string \<Rightarrow> string \<Rightarrow> ('w, unit) state" where
  "ClearPhase A controller ns name = do {
     _ \<leftarrow> PhaseDeletePartialMatch A
            [(''controller'', controller), (''namespace'', ns), (''name'', name)];
     State_Monad.return ()
   }"

section \<open>The calls fit the collectors\<close>

text \<open>A vector panics when the number of label values is not that of its labels, and the registry
  panics on two collectors of the same full name and a histogram on bounds that do not increase.
  \<open>arity_checked\<close> makes the first of these explicit in the API.\<close>

definition fqName :: "collector \<Rightarrow> string" where
  "fqName c = metrics_namespace @ ''_'' @ col_Name c"

definition arity_checked :: "(string \<Rightarrow> ('w, unit) state) \<Rightarrow> 'w api \<Rightarrow> 'w api" where
  "arity_checked panic A =
     (let guard = (\<lambda>c vs call. if length vs = length (col_Labels c) then call else panic (fqName c))
      in A\<lparr>ReconcileTotalInc := \<lambda>vs. guard ReconcileTotal vs (ReconcileTotalInc A vs),
           ReconcileDurationObserve := \<lambda>vs d. guard ReconcileDuration vs (ReconcileDurationObserve A vs d),
           PhaseSet := \<lambda>vs x. guard ResourcePhase vs (PhaseSet A vs x)\<rparr>)"


section \<open>The contract of the phase gauge\<close>

type_synonym resource_id = "string \<times> string \<times> string"

definition series :: "obs \<Rightarrow> resource_id \<Rightarrow> string \<Rightarrow> int option" where
  "series v r p = (case r of (c, ns, n) \<Rightarrow> ob_Phase v [c, ns, n, p])"

text \<open>The gauge of a resource is one-hot: one series, with value 1.\<close>

definition one_hot :: "obs \<Rightarrow> resource_id \<Rightarrow> string \<Rightarrow> bool" where
  "one_hot v r p \<longleftrightarrow> series v r = (\<lambda>q. if q = p then Some 1 else None)"

definition no_series :: "obs \<Rightarrow> resource_id \<Rightarrow> bool" where
  "no_series v r \<longleftrightarrow> series v r = (\<lambda>q. None)"

text \<open>Only the gauge matters.\<close>

lemma series_cong: "ob_Phase v = ob_Phase v' \<Longrightarrow> series v = series v'"
  by (auto simp: series_def fun_eq_iff)

lemma one_hot_cong: "ob_Phase v = ob_Phase v' \<Longrightarrow> one_hot v r p \<longleftrightarrow> one_hot v' r p"
  by (simp add: one_hot_def series_cong [of v v'])

lemma no_series_cong: "ob_Phase v = ob_Phase v' \<Longrightarrow> no_series v r \<longleftrightarrow> no_series v' r"
  by (simp add: no_series_def series_cong [of v v'])

lemma one_hot_unique: "one_hot v r p \<Longrightarrow> one_hot v r q \<Longrightarrow> p = q"
  by (auto simp: one_hot_def fun_eq_iff split: if_splits)

locale phase_exporter =
  fixes ok :: "'d \<Rightarrow> ('w \<Rightarrow> obs) \<Rightarrow> bool"
    and put :: "'d \<Rightarrow> resource_id \<Rightarrow> string \<Rightarrow> ('w, unit) state"
    and clear :: "'d \<Rightarrow> resource_id \<Rightarrow> ('w, unit) state"
  assumes put_spec: "ok d V \<Longrightarrow>
      wp (put d r p) (\<lambda>_ w'. (\<exists>g. V w' = (V w)\<lparr>ob_Phase := g\<rparr>) \<and> one_hot (V w') r p \<and>
        (\<forall>r'. r' \<noteq> r \<longrightarrow> series (V w') r' = series (V w) r')) w"
    and clear_spec: "ok d V \<Longrightarrow>
      wp (clear d r) (\<lambda>_ w'. (\<exists>g. V w' = (V w)\<lparr>ob_Phase := g\<rparr>) \<and> no_series (V w') r \<and>
        (\<forall>r'. r' \<noteq> r \<longrightarrow> series (V w') r' = series (V w) r')) w"
begin

lemma put_rule:
  assumes "ok d V" and "\<And>w' g. V w' = (V w)\<lparr>ob_Phase := g\<rparr> \<Longrightarrow> one_hot (V w') r p \<Longrightarrow> Q () w'"
  shows "wp (put d r p) Q w"
  by (rule wp_mono [OF put_spec [OF assms(1)]]) (auto intro: assms(2))

lemma clear_rule:
  assumes "ok d V" and "\<And>w' g. V w' = (V w)\<lparr>ob_Phase := g\<rparr> \<Longrightarrow> no_series (V w') r \<Longrightarrow> Q () w'"
  shows "wp (clear d r) Q w"
  by (rule wp_mono [OF clear_spec [OF assms(1)]]) (auto intro: assms(2))

text \<open>Any run of phase changes of one resource leaves exactly the last phase exported, whatever
  was exported before.\<close>

primrec put_all :: "'d \<Rightarrow> resource_id \<Rightarrow> string list \<Rightarrow> ('w, unit) state" where
  "put_all d r [] = State_Monad.return ()"
| "put_all d r (p # ps) = put d r p \<bind> (\<lambda>_. put_all d r ps)"

lemma put_all_last:
  assumes "ok d V" and "ps = [] \<Longrightarrow> one_hot (V w) r q"
  shows "wp (put_all d r ps) (\<lambda>_ w'. one_hot (V w') r (last (q # ps))) w"
  using assms(2)
proof (induction ps arbitrary: q w)
  case Nil
  then show ?case by simp
next
  case (Cons p ps)
  show ?case
    by (simp del: last.simps add: last_ConsR) (rule put_rule [OF assms(1)], rule Cons.IH, simp)
qed

end

definition put_phase :: "'w api \<Rightarrow> resource_id \<Rightarrow> string \<Rightarrow> ('w, unit) state" where
  "put_phase A r p = (case r of (c, ns, n) \<Rightarrow> SetPhase A c ns n p)"

definition clear_phase :: "'w api \<Rightarrow> resource_id \<Rightarrow> ('w, unit) state" where
  "clear_phase A r = (case r of (c, ns, n) \<Rightarrow> ClearPhase A c ns n)"

lemma series_matches_resource:
  "series_matches [(''controller'', c), (''namespace'', ns), (''name'', n)] [c', ns', n', p] \<longleftrightarrow>
     c' = c \<and> ns' = ns \<and> n' = n"
  by (auto simp: series_matches_def phase_labels_def)

lemma wp_PhaseDelete:
  assumes "metrics_ok A V"
    and "\<And>k w'. V w' = (V w)\<lparr>ob_Phase := (\<lambda>vs. if series_matches ls vs then None else ob_Phase (V w) vs)\<rparr>
       \<Longrightarrow> Q k w'"
  shows "wp (PhaseDeletePartialMatch A ls) Q w"
  using assms unfolding metrics_ok_def by (blast intro: wp_mono)

lemma wp_PhaseSet:
  assumes "metrics_ok A V"
    and "\<And>k w'. V w' = (V w)\<lparr>ob_Phase := (ob_Phase (V w))(vs \<mapsto> x)\<rparr> \<Longrightarrow> Q k w'"
  shows "wp (PhaseSet A vs x) Q w"
  using assms unfolding metrics_ok_def by (blast intro: wp_mono)

interpretation gauge: phase_exporter metrics_ok put_phase clear_phase
proof
  fix d :: "'w api" and V and r :: resource_id and p w
  assume ok: "metrics_ok d V"
  obtain c ns n where r: "r = (c, ns, n)" by (cases r)
  show "wp (put_phase d r p) (\<lambda>_ w'. (\<exists>g. V w' = (V w)\<lparr>ob_Phase := g\<rparr>) \<and> one_hot (V w') r p \<and>
        (\<forall>r'. r' \<noteq> r \<longrightarrow> series (V w') r' = series (V w) r')) w"
    by (auto simp: r put_phase_def SetPhase_def one_hot_def series_def series_matches_resource
        fun_eq_iff intro!: wp_PhaseDelete [OF ok] wp_PhaseSet [OF ok])
  show "wp (clear_phase d r) (\<lambda>_ w'. (\<exists>g. V w' = (V w)\<lparr>ob_Phase := g\<rparr>) \<and> no_series (V w') r \<and>
        (\<forall>r'. r' \<noteq> r \<longrightarrow> series (V w') r' = series (V w) r')) w"
    by (auto simp: r clear_phase_def ClearPhase_def no_series_def series_def series_matches_resource
        fun_eq_iff intro!: wp_PhaseDelete [OF ok])
qed

lemmas SetPhase_rule = gauge.put_rule [where r = "(c, ns, n)" for c ns n, unfolded put_phase_def, simplified]
lemmas ClearPhase_rule = gauge.clear_rule [where r = "(c, ns, n)" for c ns n, unfolded clear_phase_def, simplified]

end
