(* ===== verification/ControllerBase.thy ===== *)
theory ControllerBase
  imports Conditions Metrics MemApi
begin

text \<open>
  What the three controllers of \<open>internal/controller\<close> share: the result of a reconcile and its
  deferred accounting, the frame of the three \<open>Reconcile\<close> methods, and \<open>index.go\<close>. The locale
  \<open>controller\<close> is the contract of a \<open>Reconcile\<close> method with the work queue; each of the three
  controllers interprets it, and its lemmas (one outcome counted per call, the finalizer before
  anything else, the gauge of a vanished object cleared) hold of all of them.
\<close>

section \<open>Results and their accounting\<close>

text \<open>\<open>ctrl.Result\<close>, of which the code uses \<open>RequeueAfter\<close>.\<close>

record Result = RequeueAfter :: Duration

definition no_requeue :: Result where "no_requeue = \<lparr>RequeueAfter = 0\<rparr>"

definition EventTypeNormal :: string where [upo_consts]: "EventTypeNormal = ''Normal''"
definition EventTypeWarning :: string where [upo_consts]: "EventTypeWarning = ''Warning''"

definition reconcile_outcome :: "Result \<times> go_err option \<Rightarrow> string" where
  "reconcile_outcome = (\<lambda>(result, retErr).
     if retErr \<noteq> None then ResultError
     else if 0 < sint (RequeueAfter result) then ResultRequeue
     else ResultSuccess)"

text \<open>The deferred function of \<open>Reconcile\<close>.\<close>

definition record_outcome :: "'w api \<Rightarrow> string \<Rightarrow> Time \<Rightarrow> Result \<times> go_err option \<Rightarrow> ('w, unit) state" where
  "record_outcome A controllerName start r = do {
     now \<leftarrow> Now A;
     RecordReconcile A controllerName (reconcile_outcome r) (time_sub now start)
   }"

section \<open>index.go\<close>

text \<open>The manager's field indexer, and the package variables \<open>indexOnce\<close> and \<open>indexErr\<close>.\<close>

definition tenantRefIndexKey :: string where
  [upo_consts]: "tenantRefIndexKey = ''.spec.tenantRef.name''"

record 'w indexer =
  IndexEnvironments :: "string \<Rightarrow> (Environment \<Rightarrow> string list) \<Rightarrow> ('w, go_err option) state"
  IndexIntegrations :: "string \<Rightarrow> (Integration \<Rightarrow> string list) \<Rightarrow> ('w, go_err option) state"

record index_vars =
  indexOnce :: bool
  indexErr :: "go_err option"

definition indexTenantRef :: "'w indexer \<Rightarrow> index_vars \<Rightarrow> ('w, go_err option \<times> index_vars) state" where
  "indexTenantRef mgr g =
     (if indexOnce g then State_Monad.return (indexErr g, g)
      else do {
        let g = g\<lparr>indexOnce := True\<rparr>;
        err \<leftarrow> IndexEnvironments mgr tenantRefIndexKey (\<lambda>o'. [tr_Name (es_TenantRef (e_Spec o'))]);
        (case err of
           Some e \<Rightarrow> State_Monad.return (Some e, g\<lparr>indexErr := Some e\<rparr>)
         | None \<Rightarrow> do {
             err \<leftarrow> IndexIntegrations mgr tenantRefIndexKey (\<lambda>o'. [tr_Name (is_TenantRef (i_Spec o'))]);
             (case err of
                Some e \<Rightarrow> State_Monad.return (Some e, g\<lparr>indexErr := Some e\<rparr>)
              | None \<Rightarrow> State_Monad.return (indexErr g, g))
           })
      })"

section \<open>The frame of a Reconcile method\<close>

lemma series_total [simp]: "series (v\<lparr>ob_ReconcileTotal := t\<rparr>) = series v"
  by (rule series_cong) simp

text \<open>Theories TenantController, EnvironmentController and IntegrationController show that their
  \<open>Reconcile\<close> is an instance.\<close>

definition skeleton where
  "skeleton A controllerName kc mt with_finalizers finalizer clear finalize body req = do {
     start \<leftarrow> Now A;
     r \<leftarrow> do {
       got \<leftarrow> kc_Get kc req;
       (case got of
          Inl err \<Rightarrow>
            if IsNotFound err then do {
              _ \<leftarrow> clear;
              State_Monad.return (no_requeue, None)
            }
            else State_Monad.return (no_requeue, Some err)
        | Inr obj \<Rightarrow>
            if om_DeletionTimestamp (mt obj) \<noteq> None then finalize obj
            else if \<not> ContainsFinalizer A (om_Finalizers (mt obj)) finalizer then do {
              (err, _) \<leftarrow> kc_Update kc (with_finalizers (AddFinalizer A (om_Finalizers (mt obj)) finalizer) obj);
              State_Monad.return (no_requeue, err)
            }
            else body obj)
     };
     _ \<leftarrow> record_outcome A controllerName start r;
     State_Monad.return r
   }"

lemma wp_record_outcome:
  assumes "api_ok A V"
    and "\<And>w'. V w' = (V w)\<lparr>ob_ReconcileTotal := (ob_ReconcileTotal (V w))([n, reconcile_outcome r] :=
       Suc (ob_ReconcileTotal (V w) [n, reconcile_outcome r]))\<rparr> \<Longrightarrow> Q () w'"
  shows "wp (record_outcome A n start r) Q w"
proof -
  from assms(1) have eff: "effects_ok A V" and met: "metrics_ok A V" by (simp_all add: api_ok_def)
  have inc: "wp (ReconcileTotalInc A vs)
        (\<lambda>_ w'. V w' = (V w)\<lparr>ob_ReconcileTotal :=
           (ob_ReconcileTotal (V w))(vs := Suc (ob_ReconcileTotal (V w) vs))\<rparr>) w"
    and obs: "wp (ReconcileDurationObserve A vs' d) (\<lambda>_ w'. V w' = V w) w" for vs vs' d w
    using met by (auto simp: metrics_ok_def)
  show ?thesis
    unfolding record_outcome_def RecordReconcile_def wp_simps
    by (rule wp_Now [OF eff], rule wp_mono [OF inc], rule wp_mono [OF obs]) (auto intro: assms(2))
qed

locale controller =
  fixes name :: string
    and sel :: "obs \<Rightarrow> (objkey \<rightharpoonup> 'x)"
    and upd :: "((objkey \<rightharpoonup> 'x) \<Rightarrow> (objkey \<rightharpoonup> 'x)) \<Rightarrow> obs \<Rightarrow> obs"
    and mt :: "'x \<Rightarrow> ObjectMeta"
    and spec :: "'x \<Rightarrow> 's"
    and with_finalizers :: "string list \<Rightarrow> 'x \<Rightarrow> 'x"
    and kc :: "'w api \<Rightarrow> ('w, 'x) kclient"
    and finalizer :: string
    and gauge_id :: "objkey \<Rightarrow> resource_id"
    and finalize :: "'w api \<Rightarrow> 'x \<Rightarrow> ('w, Result \<times> go_err option) state"
    and body :: "'w api \<Rightarrow> 'x \<Rightarrow> ('w, Result \<times> go_err option) state"
    and Reconcile :: "'w api \<Rightarrow> objkey \<Rightarrow> ('w, Result \<times> go_err option) state"
  assumes shape: "Reconcile A req = skeleton A name (kc A) mt with_finalizers finalizer
        (clear_phase A (gauge_id req)) (finalize A) (body A) req"
    and client: "api_ok A V \<Longrightarrow> get_ok V sel mt (kc A) \<and> update_ok V sel upd mt spec (kc A)"
    and finalizers_field: "mt (with_finalizers fs x) = (mt x)\<lparr>om_Finalizers := fs\<rparr>"
      "spec (with_finalizers fs x) = spec x"
    and store: "sel (upd f v) = f (sel v)" "sel (v\<lparr>ob_ReconcileTotal := t\<rparr>) = sel v"
      "sel (v\<lparr>ob_Phase := p\<rparr>) = sel v" "ob_ReconcileTotal (upd f v) = ob_ReconcileTotal v"
      "upd (\<lambda>m. m(k := sel v k)) v = v"
    and quiet: "api_ok A V \<Longrightarrow> sel (V w) (meta_key (mt x)) = Some x \<Longrightarrow>
        wp (finalize A x) (\<lambda>_ w'. ob_ReconcileTotal (V w') = ob_ReconcileTotal (V w)) w"
      "api_ok A V \<Longrightarrow> sel (V w) (meta_key (mt x)) = Some x \<Longrightarrow>
        wp (body A x) (\<lambda>_ w'. ob_ReconcileTotal (V w') = ob_ReconcileTotal (V w)) w"
begin

text \<open>The four ways through the method. \<open>total\<close> is what the deferred accounting does last.\<close>

definition total :: "obs \<Rightarrow> Result \<times> go_err option \<Rightarrow> obs" where
  "total v r = v\<lparr>ob_ReconcileTotal := (ob_ReconcileTotal v)([name, reconcile_outcome r] :=
     Suc (ob_ReconcileTotal v [name, reconcile_outcome r]))\<rparr>"

lemma Reconcile_rule:
  assumes ok: "api_ok A V"
    and gone: "\<And>u w'. sel (V w) req = None \<Longrightarrow> (\<exists>g. V u = (V w)\<lparr>ob_Phase := g\<rparr>) \<Longrightarrow>
       no_series (V u) (gauge_id req) \<Longrightarrow> V w' = total (V u) (no_requeue, None) \<Longrightarrow> Q (no_requeue, None) w'"
    and unread: "\<And>e w'. V w' = total (V w) (no_requeue, Some e) \<Longrightarrow> Q (no_requeue, Some e) w'"
    and final: "\<And>x u. V u = V w \<Longrightarrow> sel (V w) req = Some x \<Longrightarrow> meta_key (mt x) = req \<Longrightarrow>
       om_DeletionTimestamp (mt x) \<noteq> None \<Longrightarrow>
       wp (finalize A x) (\<lambda>r u'. \<forall>w'. V w' = total (V u') r \<longrightarrow> Q r w') u"
    and adopt: "\<And>x x' err u w'. sel (V w) req = Some x \<Longrightarrow> meta_key (mt x) = req \<Longrightarrow>
       om_DeletionTimestamp (mt x) = None \<Longrightarrow> finalizer \<notin> set (om_Finalizers (mt x)) \<Longrightarrow>
       (\<exists>m'. V u = upd (\<lambda>m. m(req := m')) (V w)) \<Longrightarrow>
       (err = None \<Longrightarrow> sel (V u) req = Some x' \<and> om_Finalizers (mt x') = om_Finalizers (mt x) @ [finalizer] \<and>
          spec x' = spec x) \<Longrightarrow>
       V w' = total (V u) (no_requeue, err) \<Longrightarrow>
       (\<exists>y. sel (V u) req = Some y \<and> meta_key (mt y) = req \<and> spec y = spec x \<and> stamps (mt y) = stamps (mt x) \<and>
          set (om_Finalizers (mt x)) \<subseteq> set (om_Finalizers (mt y))) \<Longrightarrow> Q (no_requeue, err) w'"
    and body: "\<And>x u. V u = V w \<Longrightarrow> sel (V w) req = Some x \<Longrightarrow> meta_key (mt x) = req \<Longrightarrow>
       om_DeletionTimestamp (mt x) = None \<Longrightarrow> finalizer \<in> set (om_Finalizers (mt x)) \<Longrightarrow>
       wp (body A x) (\<lambda>r u'. \<forall>w'. V w' = total (V u') r \<longrightarrow> Q r w') u"
  shows "wp (Reconcile A req) Q w"
proof -
  note eff = api_okD(9) [OF ok] and met = api_okD(8) [OF ok]
  from client [OF ok] have get: "get_ok V sel mt (kc A)" and upd_ok: "update_ok V sel upd mt spec (kc A)" by auto
  note fins = finalizers_okD [OF api_okD(6) [OF ok]]
  have acc: "wp (record_outcome A name start r) (\<lambda>_. Q r) u" if "\<And>w'. V w' = total (V u) r \<Longrightarrow> Q r w'" for start r u
    by (rule wp_record_outcome [OF ok]) (simp add: that total_def)
  have inner: "wp (finalize A x) (\<lambda>r. wp (record_outcome A name start r) (\<lambda>_. Q r)) u"
    if "wp (finalize A x) (\<lambda>r u'. \<forall>w'. V w' = total (V u') r \<longrightarrow> Q r w') u" for x start u
    using that by (rule wp_mono) (blast intro: acc)
  have inner': "wp (body A x) (\<lambda>r. wp (record_outcome A name start r) (\<lambda>_. Q r)) u"
    if "wp (body A x) (\<lambda>r u'. \<forall>w'. V w' = total (V u') r \<longrightarrow> Q r w') u" for x start u
    using that by (rule wp_mono) (blast intro: acc)
  show ?thesis
    unfolding shape skeleton_def wp_simps
  proof (rule wp_Now [OF eff], rule wp_get [OF get], goal_cases)
    case (1 start u x u')
    then have V: "V u' = V w" and x: "sel (V w) req = Some x" "meta_key (mt x) = req" by simp_all
    show ?case
    proof (cases "om_DeletionTimestamp (mt x) = None")
      case False
      with inner [OF final [OF V x False]] show ?thesis by simp
    next
      case alive: True
      show ?thesis
      proof (cases "finalizer \<in> set (om_Finalizers (mt x))")
        case True
        with alive inner' [OF body [OF V x alive True]] show ?thesis by (simp add: fins)
      next
        case False
        let ?y = "with_finalizers (om_Finalizers (mt x) @ [finalizer]) x"
        have key: "meta_key (mt ?y) = req" using x(2) by (simp add: finalizers_field)
        have "wp (kc_Update (kc A) ?y) (\<lambda>(err, _). wp (record_outcome A name start (no_requeue, err)) (\<lambda>_. Q (no_requeue, err))) u'"
        proof (rule wp_update [OF upd_ok], goal_cases)
          case (1 y v)
          show ?case
            unfolding prod.case
            by (rule acc, rule adopt [OF x alive False, of v]) (use 1 key alive V x in \<open>auto simp: finalizers_field store stamps_def\<close>)
        next
          case (2 e y m' v)
          show ?case
            unfolding prod.case
            by (rule acc, rule adopt [OF x alive False, of v]) (use 2 key V x alive in \<open>auto simp: finalizers_field store stamps_def\<close>)
        qed
        with alive False show ?thesis by (simp add: fins split_def)
      qed
    qed
  next
    case (2 start u e u')
    show ?case
    proof (cases "IsNotFound e")
      case True
      with 2 have "sel (V w) req = None" by simp
      then have "wp (clear_phase A (gauge_id req)) (\<lambda>_. wp (record_outcome A name start (no_requeue, None)) (\<lambda>_. Q (no_requeue, None))) u'"
        by (intro gauge.clear_rule [OF met] acc gone) (use 2 in auto)
      with True show ?thesis by simp
    next
      case False
      then show ?thesis using 2 by (auto intro!: acc unread)
    qed
  qed
qed

text \<open>Exactly one reconcile is counted per call, under the outcome the caller sees.\<close>

lemma counts_once:
  assumes ok: "api_ok A V"
  shows "wp (Reconcile A req) (\<lambda>r w'. ob_ReconcileTotal (V w') =
     (ob_ReconcileTotal (V w))([name, reconcile_outcome r] :=
        Suc (ob_ReconcileTotal (V w) [name, reconcile_outcome r]))) w"
proof (rule Reconcile_rule [OF ok], goal_cases)
  case (3 x u)
  then have "sel (V u) (meta_key (mt x)) = Some x" by simp
  from quiet(1) [OF ok this] show ?case by (rule wp_mono) (use 3 in \<open>simp add: total_def\<close>)
next
  case (5 x u)
  then have "sel (V u) (meta_key (mt x)) = Some x" by simp
  from quiet(2) [OF ok this] show ?case by (rule wp_mono) (use 5 in \<open>simp add: total_def\<close>)
qed (auto simp: total_def store)

text \<open>An object seen for the first time gets its finalizer and nothing else happens.\<close>

lemma adopts_first:
  assumes ok: "api_ok A V" and x: "sel (V w) req = Some x" "om_DeletionTimestamp (mt x) = None"
    "finalizer \<notin> set (om_Finalizers (mt x))"
  shows "wp (Reconcile A req) (\<lambda>(res, err) w'. res = no_requeue \<and>
     (\<exists>m' t. V w' = (upd (\<lambda>m. m(req := m')) (V w))\<lparr>ob_ReconcileTotal := t\<rparr>) \<and>
     (err = None \<longrightarrow> (\<exists>x'. sel (V w') req = Some x' \<and> finalizer \<in> set (om_Finalizers (mt x')) \<and> spec x' = spec x))) w"
proof (rule Reconcile_rule [OF ok], goal_cases)
  case (4 y y' err u w')
  then obtain m' where "V u = upd (\<lambda>m. m(req := m')) (V w)" by blast
  with 4 have "V w' = (upd (\<lambda>m. m(req := m')) (V w))\<lparr>ob_ReconcileTotal := ob_ReconcileTotal (V w')\<rparr>"
    by (simp add: total_def)
  then have "\<exists>m' t. V w' = (upd (\<lambda>m. m(req := m')) (V w))\<lparr>ob_ReconcileTotal := t\<rparr>" by blast
  moreover have "\<exists>x'. sel (V w') req = Some x' \<and> finalizer \<in> set (om_Finalizers (mt x')) \<and> spec x' = spec x"
    if "err = None" using 4 x that by (auto simp: total_def store)
  ultimately show ?case by auto
next
  case (2 e w')
  then have "V w' = (upd (\<lambda>m. m(req := sel (V w) req)) (V w))\<lparr>ob_ReconcileTotal := ob_ReconcileTotal (V w')\<rparr>"
    by (simp add: total_def store)
  then have "\<exists>m' t. V w' = (upd (\<lambda>m. m(req := m')) (V w))\<lparr>ob_ReconcileTotal := t\<rparr>" by blast
  then show ?case by simp
qed (use x in \<open>auto simp: total_def store\<close>)

text \<open>For an object that is gone nothing happens but that its phase series is dropped.\<close>

lemma forgets_absent:
  assumes ok: "api_ok A V" and x: "sel (V w) req = None"
  shows "wp (Reconcile A req) (\<lambda>(res, err) w'. res = no_requeue \<and>
     (\<exists>p t. V w' = (V w)\<lparr>ob_Phase := p, ob_ReconcileTotal := t\<rparr>) \<and>
     (err = None \<longrightarrow> no_series (V w') (gauge_id req))) w"
proof (rule Reconcile_rule [OF ok], goal_cases)
  case (1 u w')
  then obtain g where "V u = (V w)\<lparr>ob_Phase := g\<rparr>" by blast
  with 1 have "V w' = (V w)\<lparr>ob_Phase := g, ob_ReconcileTotal := ob_ReconcileTotal (V w')\<rparr>"
    by (simp add: total_def)
  then have "\<exists>p t. V w' = (V w)\<lparr>ob_Phase := p, ob_ReconcileTotal := t\<rparr>" by blast
  with 1 show ?case by (simp add: total_def no_series_def)
next
  case (2 e w')
  then have "V w' = (V w)\<lparr>ob_Phase := ob_Phase (V w), ob_ReconcileTotal := ob_ReconcileTotal (V w')\<rparr>"
    by (simp add: total_def)
  then have "\<exists>p t. V w' = (V w)\<lparr>ob_Phase := p, ob_ReconcileTotal := t\<rparr>" by blast
  then show ?case by simp
qed (use x in simp_all)

end

section \<open>Properties\<close>

text \<open>\<open>indexTenantRef\<close> registers the two indexes at most once in the life of the process: after
  the first call, whatever its outcome, every further call registers nothing and reports the same
  error (or none) to its controller.\<close>

lemma indexTenantRef_once:
  "wp (indexTenantRef mgr g) (\<lambda>(err, g') w'. indexOnce g' \<and>
     indexTenantRef mgr g' = State_Monad.return (err, g')) w"
  unfolding indexTenantRef_def
  by (rule wp_runI) (auto simp: State_Monad.bind_def Let_def split: if_splits option.splits prod.splits)

section \<open>Conditions on the in-memory cluster\<close>

definition some_marks :: "(string \<times> mark_args) list" where
  "some_marks = [(''Ready'', ConditionFalse, [], ''waiting'', 1), (''Connected'', ConditionTrue, ''Reachable'', ''up'', 1),
     (''Ready'', ConditionUnknown, ''Probing'', [], 2), (''Degraded'', ConditionTrue, [], ''slow'', 2)]"

lemma conditions_roundtrip_witness:
  "wp (mark_all mem_api some_marks []) (\<lambda>cs' w'. m_obs w' = m_obs mw_empty \<and> distinct (map c_Type cs') \<and>
     (\<forall>u. reads_back mem_api [] cs' u (map_of (rev some_marks) u)) \<and>
     (\<forall>t u. cond_Get mem_api (cond_Remove mem_api cs' t) u = (if u = t then None else cond_Get mem_api cs' u))) mw_empty \<and>
   map (\<lambda>u. map_option says (cond_Get mem_api (fst (run_state (mark_all mem_api some_marks []) mw_empty)) u))
     [''Ready'', ''Connected'', ''Degraded'', ''Progressing''] =
     [Some (ConditionUnknown, ''Probing'', [], 2), Some (ConditionTrue, ''Reachable'', ''up'', 1),
      Some (ConditionTrue, ''Unspecified'', ''slow'', 2), None]"
proof (rule conjI [OF conditions_roundtrip [OF mem_conditions]])
  show "map (\<lambda>u. map_option says (cond_Get mem_api (fst (run_state (mark_all mem_api some_marks []) mw_empty)) u))
     [''Ready'', ''Connected'', ''Degraded'', ''Progressing''] =
     [Some (ConditionUnknown, ''Probing'', [], 2), Some (ConditionTrue, ''Reachable'', ''up'', 1),
      Some (ConditionTrue, ''Unspecified'', ''slow'', 2), None]" by code_simp
qed simp

end
