(* ===== verification/Reporting.thy ===== *)
theory Reporting
  imports ControllerBase
begin

text \<open>
  How a controller speaks about the object it reconciles: \<open>setPhase\<close>, \<open>updateStatus\<close> and \<open>fail\<close>, which
  the three controllers have in the same form, and the last step of their \<open>finalize\<close>. The locales
  \<open>reporter\<close> and \<open>releaser\<close> are the contracts; each controller interprets both on its own methods,
  and its proofs use the rules proved here.
\<close>

section \<open>Clocks\<close>

text \<open>What is known of the clock during a call: every reading satisfies \<open>C\<close>.\<close>

definition clock_in :: "'w api \<Rightarrow> (Time \<Rightarrow> bool) \<Rightarrow> bool" where
  "clock_in A C \<longleftrightarrow> (\<forall>w. wp (Now A) (\<lambda>t _. C t) w)"

lemma clock_any [simp]: "clock_in A (\<lambda>t. True)"
  by (simp add: clock_in_def wp_any)

lemma wp_Now_in:
  assumes "effects_ok A V" "clock_in A C" and "\<And>t w'. V w' = V w \<Longrightarrow> C t \<Longrightarrow> Q t w'"
  shows "wp (Now A) Q w"
proof -
  from assms(2) have "wp (Now A) (\<lambda>t _. C t) w" by (simp add: clock_in_def)
  then have "wp (Now A) (\<lambda>t w'. V w' = V w \<and> C t) w"
    using wp_Now [OF assms(1), of w "\<lambda>_ w'. V w' = V w"] by (auto simp: wp_def split: prod.splits)
  then show ?thesis by (rule wp_mono) (simp add: assms(3))
qed

text \<open>A cluster whose clock stands still.\<close>

definition frozen :: "Time \<Rightarrow> 'w api \<Rightarrow> 'w api" where
  "frozen t A = A\<lparr>Now := State_Monad.return t\<rparr>"

lemma frozen_ok: "api_ok A V \<Longrightarrow> api_ok (frozen t A) V"
  by (simp cong: option.case_cong json.case_cong add: frozen_def api_ok_def objects_ok_def prompt_deletes_def reads_ok_def resources_ok_def
      owners_ok_def finalizers_ok_def conditions_ok_def metrics_ok_def effects_ok_def json_ok_def)

lemma frozen_clock: "clock_in (frozen t A) (\<lambda>u. u = t)"
  by (simp add: clock_in_def frozen_def)

section \<open>Footprints\<close>

text \<open>The two stores agree outside \<open>K\<close>.\<close>

definition only_at :: "'k set \<Rightarrow> ('k \<rightharpoonup> 'x) \<Rightarrow> ('k \<rightharpoonup> 'x) \<Rightarrow> bool" where
  "only_at K m m' \<longleftrightarrow> (\<forall>k. k \<notin> K \<longrightarrow> m' k = m k)"

lemma only_at_simps [simp]: "only_at K m m" "k \<in> K \<Longrightarrow> only_at K m (m'(k := x)) \<longleftrightarrow> only_at K m m'"
  by (auto simp: only_at_def)

lemma cond_IsTrue_says:
  "conditions_ok A V \<Longrightarrow> cond_Get A cs t = Some c \<Longrightarrow> says c = (s, r, m, g) \<Longrightarrow>
   cond_IsTrue A cs t \<longleftrightarrow> s = ConditionTrue"
  by (auto simp: cond_IsTrue_iff says_def)

section \<open>Reporting\<close>

locale reporter =
  fixes kc :: "'w api \<Rightarrow> ('w, 'x) kclient"
    and sel :: "obs \<Rightarrow> (objkey \<rightharpoonup> 'x)"
    and upd :: "((objkey \<rightharpoonup> 'x) \<Rightarrow> (objkey \<rightharpoonup> 'x)) \<Rightarrow> obs \<Rightarrow> obs"
    and mt :: "'x \<Rightarrow> ObjectMeta"
    and ref :: "'x \<Rightarrow> ObjectRef"
    and gauge_id :: "'x \<Rightarrow> resource_id"
    and st :: "'x \<Rightarrow> 's"
    and put_st :: "'s \<Rightarrow> 'x \<Rightarrow> 'x"
    and conds_of :: "'s \<Rightarrow> Condition list"
    and with_conds :: "Condition list \<Rightarrow> 's \<Rightarrow> 's"
    and with_phase :: "string \<Rightarrow> 's \<Rightarrow> 's"
    and with_error :: "string \<Rightarrow> 's \<Rightarrow> 's"
    and stamp :: "int64 \<Rightarrow> Time \<Rightarrow> 's \<Rightarrow> 's"
    and failed :: string
    and setPhase :: "'w api \<Rightarrow> 'x \<Rightarrow> string \<Rightarrow> ('w, 'x) state"
    and updateStatus :: "'w api \<Rightarrow> 'x \<Rightarrow> int64 \<Rightarrow> ('w, go_err option \<times> 'x) state"
    and fail :: "'w api \<Rightarrow> 'x \<Rightarrow> string \<Rightarrow> go_err \<Rightarrow> ('w, Result \<times> go_err option) state"
  assumes setPhase_eq: "setPhase A x p = do {
        _ \<leftarrow> put_phase A (gauge_id x) p;
        State_Monad.return (put_st (with_phase p (st x)) x)
      }"
    and updateStatus_eq: "updateStatus A x gen = do {
        now \<leftarrow> Now A;
        kc_StatusUpdate (kc A) (put_st (stamp gen now (st x)) x)
      }"
    and fail_eq: "fail A x reason cause = do {
        cs \<leftarrow> MarkTrue A (conds_of (st x)) ConditionDegraded reason (Error cause) (om_Generation (mt x));
        cs \<leftarrow> MarkFalse A cs ConditionReady reason (Error cause) (om_Generation (mt x));
        x \<leftarrow> setPhase A (put_st (with_error (Error cause) (with_conds cs (st x))) x) failed;
        _ \<leftarrow> Eventf A (ref x) EventTypeWarning reason (Error cause);
        _ \<leftarrow> updateStatus A x (om_Generation (mt x));
        State_Monad.return (no_requeue, Some cause)
      }"
    and client: "api_ok A V \<Longrightarrow> status_ok V sel upd mt (\<lambda>x s. put_st (st x) s) (kc A)"
    and put_st: "mt (put_st s x) = mt x" "ref (put_st s x) = ref x" "gauge_id (put_st s x) = gauge_id x"
      "st (put_st s x) = s" "put_st s (put_st s' x) = put_st s x"
    and store: "ob_Phase (upd f v) = ob_Phase v" "sel (v\<lparr>ob_Phase := g\<rparr>) = sel v"
begin

lemma setPhase_rule:
  assumes "api_ok A V"
    and "\<And>w' g. V w' = (V w)\<lparr>ob_Phase := g\<rparr> \<Longrightarrow> one_hot (V w') (gauge_id x) p \<Longrightarrow>
       Q (put_st (with_phase p (st x)) x) w'"
  shows "wp (setPhase A x p) Q w"
  unfolding setPhase_eq wp_simps
  by (rule gauge.put_rule [OF api_okD(8) [OF assms(1)]]) (rule assms(2))

lemma updateStatus_rule:
  assumes ok: "api_ok A V"
    and saved: "\<And>s now w'. sel (V w) (meta_key (mt x)) = Some s \<Longrightarrow>
       V w' = upd (\<lambda>m. m(meta_key (mt x) \<mapsto> put_st (stamp gen now (st x)) s)) (V w) \<Longrightarrow>
       Q (None, put_st (stamp gen now (st x)) s) w'"
    and unsaved: "\<And>e y m' w'. V w' = upd (\<lambda>m. m(meta_key (mt x) := m')) (V w) \<Longrightarrow> Q (Some e, y) w'"
  shows "wp (updateStatus A x gen) Q w"
  unfolding updateStatus_eq wp_simps
  by (rule wp_Now [OF api_okD(9) [OF ok]], rule wp_status [OF client [OF ok]])
    (auto simp: put_st intro!: saved intro: unsaved)

lemma updateStatus_any:
  assumes "api_ok A V"
    and "\<And>r m' w'. V w' = upd (\<lambda>m. m(meta_key (mt x) := m')) (V w) \<Longrightarrow> Q r w'"
  shows "wp (updateStatus A x gen) Q w"
  by (rule updateStatus_rule [OF assms(1)]) (erule assms(2))+

text \<open>A failure is never silent: whatever comes of the status write, the cause is returned, a
  Warning event carries its text, and the gauge shows the failed phase.\<close>

lemma fail_rule:
  assumes ok: "api_ok A V"
    and "\<And>w' g m'. V w' = upd (\<lambda>m. m(meta_key (mt x) := m')) ((V w)\<lparr>ob_Phase := g,
         ob_Events := ob_Events (V w) @ [mk_event (ref x) EventTypeWarning reason (Error cause)]\<rparr>) \<Longrightarrow>
       one_hot (V w') (gauge_id x) failed \<Longrightarrow> Q (no_requeue, Some cause) w'"
  shows "wp (fail A x reason cause) Q w"
proof -
  note cond = api_okD(7) [OF ok]
  show ?thesis
    unfolding fail_eq wp_simps
  proof (rule MarkTrue_rule [OF cond], rule MarkFalse_rule [OF cond], rule setPhase_rule [OF ok],
      rule wp_Eventf [OF api_okD(9) [OF ok]], rule updateStatus_any [OF ok], goal_cases)
    case (1 cs w1 c cs' w2 c' w3 g w4 r m' w5)
    then have V: "V w5 = upd (\<lambda>m. m(meta_key (mt x) := m')) ((V w)\<lparr>ob_Phase := g,
         ob_Events := ob_Events (V w) @ [mk_event (ref x) EventTypeWarning reason (Error cause)]\<rparr>)"
      by (simp add: put_st)
    have "one_hot (V w3) (gauge_id x) failed" using 1(10) by (simp add: put_st)
    moreover have "ob_Phase (V w5) = ob_Phase (V w3)" using 1 V by (simp add: store)
    ultimately have "one_hot (V w5) (gauge_id x) failed" using one_hot_cong by blast
    from assms(2) [OF V this] show ?case .
  qed
qed

text \<open>The way a controller says that the object is not ready, with a reason and a phase.\<close>

lemma not_ready_rule:
  assumes ok: "api_ok A V" and gen: "\<And>s. G (put_st s x) = gen"
    and saved: "\<And>w' g s cs c now. V w' = upd (\<lambda>m. m(meta_key (mt x) \<mapsto>
           put_st (stamp gen now (with_phase p (with_conds cs (st x)))) s)) ((V w)\<lparr>ob_Phase := g\<rparr>) \<Longrightarrow>
       cond_Get A cs ConditionReady = Some c \<Longrightarrow> says c = (ConditionFalse, effective_reason reason, msg, gen) \<Longrightarrow>
       one_hot (V w') (gauge_id x) p \<Longrightarrow> sel (V w) (meta_key (mt x)) = Some s \<Longrightarrow>
       Q (None, put_st (stamp gen now (with_phase p (with_conds cs (st x)))) s) w'"
    and unsaved: "\<And>w' g m' e y. V w' = upd (\<lambda>m. m(meta_key (mt x) := m')) ((V w)\<lparr>ob_Phase := g\<rparr>) \<Longrightarrow>
       Q (Some e, y) w'"
  shows "wp (MarkFalse A (conds_of (st x)) ConditionReady reason msg gen)
     (\<lambda>cs. wp (setPhase A (put_st (with_conds cs (st x)) x) p) (\<lambda>x. wp (updateStatus A x (G x)) Q)) w"
proof (rule MarkFalse_rule [OF api_okD(7) [OF ok]], rule setPhase_rule [OF ok], rule updateStatus_rule [OF ok], goal_cases)
  case (1 cs w1 c w2 g s now w3)
  then have V: "V w3 = upd (\<lambda>m. m(meta_key (mt x) \<mapsto>
      put_st (stamp gen now (with_phase p (with_conds cs (st x)))) s)) ((V w)\<lparr>ob_Phase := g\<rparr>)"
    by (simp add: put_st gen)
  have "one_hot (V w2) (gauge_id x) p" using 1(6) by (simp add: put_st)
  moreover have "ob_Phase (V w3) = ob_Phase (V w2)" using 1(1,5) V by (simp add: store)
  ultimately have "one_hot (V w3) (gauge_id x) p" using one_hot_cong by blast
  moreover have "sel (V w) (meta_key (mt x)) = Some s" using 1(1,5,7) by (simp add: put_st store)
  ultimately show ?case using saved [OF V 1(3,4)] by (simp add: put_st gen)
next
  case (2 cs w1 c w2 g e y m' w3)
  then show ?case by (intro unsaved [where g = g and m' = m']) (simp add: put_st)
qed

text \<open>What \<open>fail\<close> leaves behind: the gauge and the last event say so.\<close>

definition warning :: "'x \<Rightarrow> go_err \<Rightarrow> obs \<Rightarrow> bool" where
  "warning x e v \<longleftrightarrow> one_hot v (gauge_id x) failed \<and>
     (\<exists>reason es. ob_Events v = es @ [mk_event (ref x) EventTypeWarning reason (Error e)])"

end

section \<open>Giving the finalizer up\<close>

locale releaser =
  fixes kc :: "'w api \<Rightarrow> ('w, 'x) kclient"
    and sel :: "obs \<Rightarrow> (objkey \<rightharpoonup> 'x)"
    and upd :: "((objkey \<rightharpoonup> 'x) \<Rightarrow> (objkey \<rightharpoonup> 'x)) \<Rightarrow> obs \<Rightarrow> obs"
    and mt :: "'x \<Rightarrow> ObjectMeta"
    and spec :: "'x \<Rightarrow> 'p"
    and with_finalizers :: "string list \<Rightarrow> 'x \<Rightarrow> 'x"
    and finalizer :: string
    and gauge_id :: "'x \<Rightarrow> resource_id"
    and release :: "'w api \<Rightarrow> 'x \<Rightarrow> ('w, Result \<times> go_err option) state"
  assumes release_eq: "release A x = do {
        _ \<leftarrow> clear_phase A (gauge_id x);
        (err, _) \<leftarrow> kc_Update (kc A) (with_finalizers (RemoveFinalizer A (om_Finalizers (mt x)) finalizer) x);
        (case err of
           Some e \<Rightarrow> State_Monad.return (no_requeue, Some e)
         | None \<Rightarrow> State_Monad.return (no_requeue, None))
      }"
    and client: "api_ok A V \<Longrightarrow> update_ok V sel upd mt spec (kc A)"
    and finalizers_field: "mt (with_finalizers fs x) = (mt x)\<lparr>om_Finalizers := fs\<rparr>"
    and store: "sel (upd f v) = f (sel v)" "ob_Phase (upd f v) = ob_Phase v"
begin

definition held :: "'x \<Rightarrow> obs \<Rightarrow> bool" where
  "held x v \<longleftrightarrow> (\<exists>y. sel v (meta_key (mt x)) = Some y \<and> finalizer \<in> set (om_Finalizers (mt y)))"

lemma held_cong: "mt x = mt y \<Longrightarrow> held x = held y"
  by (simp add: held_def fun_eq_iff)

text \<open>Success means that the finalizer is no longer held and the phase series is dropped.\<close>

lemma release_rule:
  assumes ok: "api_ok A V"
    and released: "\<And>w' g m. V w' = upd (\<lambda>s. s(meta_key (mt x) := m)) ((V w)\<lparr>ob_Phase := g\<rparr>) \<Longrightarrow>
       no_series (V w') (gauge_id x) \<Longrightarrow> \<not> held x (V w') \<Longrightarrow> Q (no_requeue, None) w'"
    and failed: "\<And>w' g m e. V w' = upd (\<lambda>s. s(meta_key (mt x) := m)) ((V w)\<lparr>ob_Phase := g\<rparr>) \<Longrightarrow>
       Q (no_requeue, Some e) w'"
  shows "wp (release A x) Q w"
proof -
  note fins = finalizers_okD [OF api_okD(6) [OF ok]]
  show ?thesis
    unfolding release_eq wp_simps
  proof (rule gauge.clear_rule [OF api_okD(8) [OF ok]], rule wp_update [OF client [OF ok]], goal_cases)
    case (1 w1 g y w2)
    let ?m = "if om_DeletionTimestamp (mt x) \<noteq> None \<and> removeAll finalizer (om_Finalizers (mt x)) = [] then None else Some y"
    from 1 have V: "V w2 = upd (\<lambda>s. s(meta_key (mt x) := ?m)) ((V w)\<lparr>ob_Phase := g\<rparr>)"
      by (simp add: finalizers_field fins)
    from 1(4) have nh: "\<not> held x (V w2)" by (simp add: V held_def store finalizers_field fins)
    have "ob_Phase (V w2) = ob_Phase (V w1)" by (simp add: 1(1) V store)
    with 1(2) have "no_series (V w2) (gauge_id x)" using no_series_cong by blast
    with V nh have "Q (no_requeue, None) w2" by (intro released)
    then show ?case by simp
  next
    case (2 w1 g e y m w2)
    then have "Q (no_requeue, Some e) w2" by (intro failed [where g = g and m = m]) (simp add: finalizers_field)
    then show ?case by simp
  qed
qed

end

end
