(* ===== verification/TenantController.thy ===== *)
theory TenantController
  imports Provision Reporting
begin

text \<open>
  \<open>internal/controller/tenant_controller.go\<close>: a Tenant becomes an isolated namespace with its
  quota, limits, network policy and admin binding. The pointer to the tenant that the methods share
  is an argument, and the methods that change the tenant return it.
\<close>

section \<open>The controller\<close>

definition tenantControllerName :: string where "tenantControllerName = ''tenant''"
definition tenantResyncPeriod :: Duration where "tenantResyncPeriod = 5 * Minute"

definition tenant_ref :: "Tenant \<Rightarrow> ObjectRef" where
  "tenant_ref tenant = \<lparr>ref_Kind = ''Tenant'', ref_meta = t_meta tenant\<rparr>"

abbreviation set_tst :: "(TenantStatus \<Rightarrow> TenantStatus) \<Rightarrow> Tenant \<Rightarrow> Tenant" where
  "set_tst f tenant \<equiv> tenant\<lparr>t_Status := f (t_Status tenant)\<rparr>"

definition tenant_setPhase :: "'w api \<Rightarrow> Tenant \<Rightarrow> TenantPhase \<Rightarrow> ('w, Tenant) state" where
  "tenant_setPhase A tenant phase = do {
     let tenant = set_tst (tst_Phase_update (\<lambda>_. phase)) tenant;
     _ \<leftarrow> SetPhase A tenantControllerName [] (om_Name (t_meta tenant)) phase;
     State_Monad.return tenant
   }"

definition tenant_updateStatus :: "'w api \<Rightarrow> Tenant \<Rightarrow> int64 \<Rightarrow> ('w, go_err option \<times> Tenant) state" where
  "tenant_updateStatus A tenant gen = do {
     let tenant = set_tst (tst_ObservedGeneration_update (\<lambda>_. gen)) tenant;
     now \<leftarrow> Now A;
     kc_StatusUpdate (api_Tenants A) (set_tst (tst_LastReconcileTime_update (\<lambda>_. Some now)) tenant)
   }"

lemma tenant_ref_status [simp]: "tenant_ref (t\<lparr>t_Status := st\<rparr>) = tenant_ref t"
  by (simp add: tenant_ref_def)

definition tenant_fail :: "'w api \<Rightarrow> Tenant \<Rightarrow> string \<Rightarrow> go_err \<Rightarrow> ('w, Result \<times> go_err option) state" where
  "tenant_fail A tenant reason cause = do {
     cs \<leftarrow> MarkTrue A (tst_Conditions (t_Status tenant)) ConditionDegraded reason (Error cause)
       (om_Generation (t_meta tenant));
     cs \<leftarrow> MarkFalse A cs ConditionReady reason (Error cause) (om_Generation (t_meta tenant));
     tenant \<leftarrow> tenant_setPhase A (set_tst (tst_Conditions_update (\<lambda>_. cs)) tenant) TenantPhaseFailed;
     _ \<leftarrow> Eventf A (tenant_ref tenant) EventTypeWarning reason (Error cause);
     _ \<leftarrow> tenant_updateStatus A tenant (om_Generation (t_meta tenant));
     State_Monad.return (no_requeue, Some cause)
   }"

definition tenant_countChildren :: "'w api \<Rightarrow> string \<Rightarrow> ('w, go_err + int32 \<times> int32) state" where
  "tenant_countChildren A tenantName = do {
     envs \<leftarrow> kc_ListByTenantRef (api_Environments A) tenantName;
     (case envs of
        Inl err \<Rightarrow> State_Monad.return (Inl err)
      | Inr envs \<Rightarrow> do {
          intgs \<leftarrow> kc_ListByTenantRef (api_Integrations A) tenantName;
          (case intgs of
             Inl err \<Rightarrow> State_Monad.return (Inl err)
           | Inr intgs \<Rightarrow> State_Monad.return (Inr (of_nat (length envs), of_nat (length intgs))))
        })
   }"

definition tenant_namespace :: "Tenant \<Rightarrow> string" where
  "tenant_namespace tenant =
     (let prefix = ts_NamespacePrefix (t_Spec tenant);
          prefix = (if prefix = [] then ''tenant'' else prefix)
      in prefix @ ''-'' @ om_Name (t_meta tenant))"

text \<open>The end of \<open>reconcileTenant\<close>, from the comment "Success" on.\<close>

definition tenant_succeed ::
  "'w api \<Rightarrow> Tenant \<Rightarrow> string \<Rightarrow> int64 \<Rightarrow> bool \<Rightarrow> ('w, Result \<times> go_err option) state" where
  "tenant_succeed A tenant nsName gen suspended = do {
     let cs = cond_Remove A (tst_Conditions (t_Status tenant)) ConditionDegraded;
     cs \<leftarrow> MarkFalse A cs ConditionProgressing ReasonProvisioned ''All tenant resources are provisioned'' gen;
     tenant \<leftarrow>
       (if suspended then do {
          cs \<leftarrow> MarkFalse A cs ConditionReady ReasonSuspended
            ''Tenant is suspended; workloads are cordoned'' gen;
          tenant_setPhase A (set_tst (tst_Conditions_update (\<lambda>_. cs)) tenant) TenantPhaseSuspended
        }
        else do {
          let wasReady = cond_IsTrue A cs ConditionReady;
          cs \<leftarrow> MarkTrue A cs ConditionReady ReasonProvisioned
            ''Tenant namespace and policies are active'' gen;
          tenant \<leftarrow> tenant_setPhase A (set_tst (tst_Conditions_update (\<lambda>_. cs)) tenant) TenantPhaseActive;
          _ \<leftarrow> (if \<not> wasReady then
                 Eventf A (tenant_ref tenant) EventTypeNormal ''Provisioned''
                   (''Tenant namespace '' @ fmt_q nsName @ '' provisioned and active'')
               else State_Monad.return ());
          State_Monad.return tenant
        });
     (err, _) \<leftarrow> tenant_updateStatus A tenant gen;
     (case err of
        Some e \<Rightarrow> State_Monad.return (no_requeue, Some e)
      | None \<Rightarrow> State_Monad.return (\<lparr>RequeueAfter = tenantResyncPeriod\<rparr>, None))
   }"

definition tenant_reconcileTenant :: "'w api \<Rightarrow> Tenant \<Rightarrow> ('w, Result \<times> go_err option) state" where
  "tenant_reconcileTenant A tenant = do {
     let gen = om_Generation (t_meta tenant);
     let suspended = lp_Suspended (ts_Lifecycle (t_Spec tenant));
     let nsName = tenant_namespace tenant;
     let tenant = set_tst (tst_Namespace_update (\<lambda>_. nsName)) tenant;
     let owner = tenant_ref tenant;
     let name = om_Name (t_meta tenant);
     let extra = ts_ExtraLabels (t_Spec tenant);
     cs \<leftarrow> MarkTrue A (tst_Conditions (t_Status tenant)) ConditionProgressing ReasonReconciling
       ''Reconciling tenant resources'' gen;
     let tenant = set_tst (tst_Conditions_update (\<lambda>_. cs)) tenant;
     r \<leftarrow> ReconcileNamespace A owner True nsName (TenantLabels name ''namespace'' extra);
     (case r of Inl err \<Rightarrow> tenant_fail A tenant ''NamespaceError'' err | Inr _ \<Rightarrow> do {
     let hard = (case ts_Quota (t_Spec tenant) of Some q \<Rightarrow> tq_Hard q | None \<Rightarrow> fmempty);
     r \<leftarrow> ReconcileResourceQuota A owner True nsName hard suspended (TenantLabels name ''quota'' extra);
     (case r of Inl err \<Rightarrow> tenant_fail A tenant ''QuotaError'' err | Inr _ \<Rightarrow> do {
     let (def, defReq, mx) = (case ts_Limits (t_Spec tenant) of
         Some l \<Rightarrow> (tl_Default l, tl_DefaultRequest l, tl_Max l) | None \<Rightarrow> (fmempty, fmempty, fmempty));
     r \<leftarrow> ReconcileLimitRange A owner True nsName def defReq mx (TenantLabels name ''limits'' extra);
     (case r of Inl err \<Rightarrow> tenant_fail A tenant ''LimitRangeError'' err | Inr _ \<Rightarrow> do {
     r \<leftarrow> ReconcileNetworkPolicy A owner nsName (ts_NetworkIsolation (t_Spec tenant))
       (TenantLabels name ''networkpolicy'' extra);
     (case r of Inl err \<Rightarrow> tenant_fail A tenant ''NetworkPolicyError'' err | Inr _ \<Rightarrow> do {
     r \<leftarrow> ReconcileTenantAdminBinding A owner nsName (ts_Admins (t_Spec tenant))
       (TenantLabels name ''rbac'' extra);
     (case r of Inl err \<Rightarrow> tenant_fail A tenant ''RBACError'' err | Inr _ \<Rightarrow> do {
     counts \<leftarrow> tenant_countChildren A name;
     (case counts of Inl err \<Rightarrow> tenant_fail A tenant ''InventoryError'' err | Inr (envCount, intgCount) \<Rightarrow>
     tenant_succeed A (set_tst (\<lambda>st. st\<lparr>tst_EnvironmentCount := envCount, tst_IntegrationCount := intgCount\<rparr>) tenant)
       nsName gen suspended) }) }) }) }) })
   }"

text \<open>The two halves of \<open>finalize\<close> after the status update: tearing the namespace down, where
  \<open>Some r\<close> is a return from the method, and dropping the finalizer.\<close>

definition tenant_teardown :: "'w api \<Rightarrow> Tenant \<Rightarrow> ('w, (Result \<times> go_err option) option) state" where
  "tenant_teardown A tenant =
     (if lp_DeletionPolicy (ts_Lifecycle (t_Spec tenant)) \<noteq> DeletionPolicyOrphan \<and>
         tst_Namespace (t_Status tenant) \<noteq> [] then do {
        (gone, err) \<leftarrow> EnsureNamespaceDeleted A (tst_Namespace (t_Status tenant));
        (case err of
           Some e \<Rightarrow> do {
             _ \<leftarrow> Eventf A (tenant_ref tenant) EventTypeWarning ''TeardownError''
               (''Failed to delete namespace '' @ fmt_q (tst_Namespace (t_Status tenant)) @ '': '' @ Error e);
             State_Monad.return (Some (no_requeue, Some e))
           }
         | None \<Rightarrow>
             if \<not> gone then State_Monad.return (Some (\<lparr>RequeueAfter = 5 * Second\<rparr>, None))
             else State_Monad.return None)
      }
      else State_Monad.return None)"

definition tenant_release :: "'w api \<Rightarrow> Tenant \<Rightarrow> ('w, Result \<times> go_err option) state" where
  "tenant_release A tenant = do {
     _ \<leftarrow> ClearPhase A tenantControllerName [] (om_Name (t_meta tenant));
     (err, _) \<leftarrow> kc_Update (api_Tenants A) (tenant\<lparr>t_meta := (t_meta tenant)\<lparr>om_Finalizers :=
       RemoveFinalizer A (om_Finalizers (t_meta tenant)) TenantFinalizer\<rparr>\<rparr>);
     (case err of
        Some e \<Rightarrow> State_Monad.return (no_requeue, Some e)
      | None \<Rightarrow> State_Monad.return (no_requeue, None))
   }"

definition tenant_finalize :: "'w api \<Rightarrow> Tenant \<Rightarrow> ('w, Result \<times> go_err option) state" where
  "tenant_finalize A tenant =
     (if \<not> ContainsFinalizer A (om_Finalizers (t_meta tenant)) TenantFinalizer
      then State_Monad.return (no_requeue, None)
      else do {
        tenant \<leftarrow> tenant_setPhase A tenant TenantPhaseTerminating;
        cs \<leftarrow> MarkFalse A (tst_Conditions (t_Status tenant)) ConditionReady ReasonTerminating
          ''Tenant is terminating'' (om_Generation (t_meta tenant));
        (_, tenant) \<leftarrow> kc_StatusUpdate (api_Tenants A) (set_tst (tst_Conditions_update (\<lambda>_. cs)) tenant);
        early \<leftarrow> tenant_teardown A tenant;
        (case early of
           Some r \<Rightarrow> State_Monad.return r
         | None \<Rightarrow> tenant_release A tenant)
      })"

definition tenant_Reconcile :: "'w api \<Rightarrow> objkey \<Rightarrow> ('w, Result \<times> go_err option) state" where
  "tenant_Reconcile A req = do {
     start \<leftarrow> Now A;
     r \<leftarrow> do {
       got \<leftarrow> kc_Get (api_Tenants A) req;
       (case got of
          Inl err \<Rightarrow>
            if IsNotFound err then do {
              _ \<leftarrow> ClearPhase A tenantControllerName [] (snd req);
              State_Monad.return (no_requeue, None)
            }
            else State_Monad.return (no_requeue, Some err)
        | Inr tenant \<Rightarrow>
            if om_DeletionTimestamp (t_meta tenant) \<noteq> None then tenant_finalize A tenant
            else if \<not> ContainsFinalizer A (om_Finalizers (t_meta tenant)) TenantFinalizer then do {
              (err, _) \<leftarrow> kc_Update (api_Tenants A) (tenant\<lparr>t_meta := (t_meta tenant)\<lparr>om_Finalizers :=
                AddFinalizer A (om_Finalizers (t_meta tenant)) TenantFinalizer\<rparr>\<rparr>);
              State_Monad.return (no_requeue, err)
            }
            else tenant_reconcileTenant A tenant)
     };
     _ \<leftarrow> record_outcome A tenantControllerName start r;
     State_Monad.return r
   }"

text \<open>The map function of \<open>SetupWithManager\<close>: a change of a child enqueues its tenant.\<close>

definition mapToTenant :: "RuntimeObject \<Rightarrow> objkey list" where
  "mapToTenant obj =
     (let ref = (case obj of
            EnvironmentObject e \<Rightarrow> tr_Name (es_TenantRef (e_Spec e))
          | IntegrationObject i \<Rightarrow> tr_Name (is_TenantRef (i_Spec i))
          | _ \<Rightarrow> [])
      in if ref = [] then [] else [([], ref)])"

section \<open>Status, phase and failure\<close>

definition tenant_gauge :: "Tenant \<Rightarrow> resource_id" where
  "tenant_gauge t = (tenantControllerName, [], om_Name (t_meta t))"

interpretation tenant_reports: reporter api_Tenants ob_Tenants ob_Tenants_update t_meta tenant_ref tenant_gauge
    t_Status "\<lambda>s t. t\<lparr>t_Status := s\<rparr>" tst_Conditions "\<lambda>cs. tst_Conditions_update (\<lambda>_. cs)"
    "\<lambda>p. tst_Phase_update (\<lambda>_. p)" "\<lambda>e s. s"
    "\<lambda>gen now s. s\<lparr>tst_ObservedGeneration := gen, tst_LastReconcileTime := Some now\<rparr>" TenantPhaseFailed
    tenant_setPhase tenant_updateStatus tenant_fail
  by unfold_locales
    (simp_all add: tenant_setPhase_def tenant_updateStatus_def tenant_fail_def put_phase_def tenant_gauge_def
      api_ok_def resources_ok_def)

lemmas tenant_setPhase_rule = tenant_reports.setPhase_rule

text \<open>What a status write stamps on the status.\<close>

definition stamped :: "int64 \<Rightarrow> TenantStatus \<Rightarrow> TenantStatus \<Rightarrow> bool" where
  "stamped gen st st' \<longleftrightarrow> (\<exists>now. st' = st\<lparr>tst_ObservedGeneration := gen, tst_LastReconcileTime := Some now\<rparr>)"

lemma tenant_updateStatus_rule:
  assumes ok: "api_ok A V"
    and saved: "\<And>s st w'. ob_Tenants (V w) (meta_key (t_meta t)) = Some s \<Longrightarrow> stamped gen (t_Status t) st \<Longrightarrow>
       V w' = ob_Tenants_update (\<lambda>m. m(meta_key (t_meta t) \<mapsto> s\<lparr>t_Status := st\<rparr>)) (V w) \<Longrightarrow>
       Q (None, s\<lparr>t_Status := st\<rparr>) w'"
    and unsaved: "\<And>e x m' w'. V w' = ob_Tenants_update (\<lambda>m. m(meta_key (t_meta t) := m')) (V w) \<Longrightarrow>
       Q (Some e, x) w'"
  shows "wp (tenant_updateStatus A t gen) Q w"
  by (rule tenant_reports.updateStatus_rule [OF ok]) (auto simp: stamped_def intro!: saved intro: unsaved)

text \<open>The children of a tenant, by the field index.\<close>

definition child_envs :: "obs \<Rightarrow> string \<Rightarrow> objkey set" where
  "child_envs v n = {k. \<exists>x. ob_Environments v k = Some x \<and> tenant_ref_of_env x = n}"

definition child_intgs :: "obs \<Rightarrow> string \<Rightarrow> objkey set" where
  "child_intgs v n = {k. \<exists>x. ob_Integrations v k = Some x \<and> tenant_ref_of_intg x = n}"

lemma tenant_countChildren_rule:
  assumes ok: "api_ok A V"
    and Inr: "\<And>w'. V w' = V w \<Longrightarrow>
       Q (Inr (of_nat (card (child_envs (V w) n)), of_nat (card (child_intgs (V w) n)))) w'"
    and Inl: "\<And>e w'. V w' = V w \<Longrightarrow> Q (Inl e) w'"
  shows "wp (tenant_countChildren A n) Q w"
proof -
  have count: "card S = length xs" if "distinct ks" "map f ks = map Some xs" "set ks = S"
    for ks S and f :: "objkey \<Rightarrow> 'x option" and xs
    using that distinct_card [of ks] map_eq_imp_length_eq [OF that(2)] by simp
  from ok have lists: "list_ok V ob_Environments tenant_ref_of_env (api_Environments A)"
    "list_ok V ob_Integrations tenant_ref_of_intg (api_Integrations A)"
    by (simp_all add: api_ok_def reads_ok_def)
  show ?thesis
    unfolding tenant_countChildren_def wp_simps
  proof (rule wp_list [OF lists(1)], goal_cases)
    case (1 xs ks w')
    note envs = count [OF 1(2-4)]
    show ?case
      unfolding sum.case wp_simps
    proof (rule wp_list [OF lists(2)], goal_cases)
      case (1 ys ls w'')
      with count [OF 1(2-4)] envs \<open>V w' = V w\<close> Inr [of w''] show ?case
        by (simp add: child_envs_def child_intgs_def)
    qed (use 1 in \<open>auto intro: Inl\<close>)
  qed (auto intro: Inl)
qed

section \<open>What a reconcile achieves\<close>

text \<open>The objects a reconcile of a tenant may write: the tenant itself, its namespace, and the four
  objects of fixed name inside that namespace; besides them the gauge and the events.\<close>

definition tenant_footprint :: "Tenant \<Rightarrow> obs \<Rightarrow> obs \<Rightarrow> bool" where
  "tenant_footprint t v v' \<longleftrightarrow>
     (let ns = tenant_namespace t in
      only_at {meta_key (t_meta t)} (ob_Tenants v) (ob_Tenants v') \<and>
      only_at {([], ns)} (ob_Namespaces v) (ob_Namespaces v') \<and>
      only_at {(ns, QuotaName)} (ob_ResourceQuotas v) (ob_ResourceQuotas v') \<and>
      only_at {(ns, LimitRangeName)} (ob_LimitRanges v) (ob_LimitRanges v') \<and>
      only_at {(ns, DefaultNetworkPolicyName)} (ob_NetworkPolicies v) (ob_NetworkPolicies v') \<and>
      only_at {(ns, TenantAdminBindingName)} (ob_RoleBindings v) (ob_RoleBindings v') \<and>
      (\<exists>es. ob_Events v' = ob_Events v @ es) \<and>
      ob_Environments v' = ob_Environments v \<and> ob_Integrations v' = ob_Integrations v \<and>
      ob_ConfigMaps v' = ob_ConfigMaps v \<and> ob_Secrets v' = ob_Secrets v \<and>
      ob_Unstructured v' = ob_Unstructured v \<and> ob_ReconcileTotal v' = ob_ReconcileTotal v)"

text \<open>The cluster is as the tenant's spec describes it.\<close>

definition tenant_hard :: "Tenant \<Rightarrow> ResourceList" where
  "tenant_hard t = (case ts_Quota (t_Spec t) of Some q \<Rightarrow> tq_Hard q | None \<Rightarrow> fmempty)"

definition tenant_labels :: "Tenant \<Rightarrow> string \<Rightarrow> labels" where
  "tenant_labels t component = TenantLabels (om_Name (t_meta t)) component (ts_ExtraLabels (t_Spec t))"

definition tenant_suspended :: "Tenant \<Rightarrow> bool" where
  "tenant_suspended t = lp_Suspended (ts_Lifecycle (t_Spec t))"

definition limits_of :: "Tenant \<Rightarrow> ResourceList \<times> ResourceList \<times> ResourceList" where
  "limits_of t = (case ts_Limits (t_Spec t) of
     Some l \<Rightarrow> (tl_Default l, tl_DefaultRequest l, tl_Max l) | None \<Rightarrow> (fmempty, fmempty, fmempty))"

definition tenant_provisioned :: "'w api \<Rightarrow> Tenant \<Rightarrow> obs \<Rightarrow> bool" where
  "tenant_provisioned A t v \<longleftrightarrow>
     (let ns = tenant_namespace t; own = tenant_ref t; l = tenant_labels t in
      (\<exists>x. ob_Namespaces v ([], ns) = Some x \<and> namespace_desired A (own, True, ns, l ''namespace'') x) \<and>
      (case ob_ResourceQuotas v (ns, QuotaName) of
         None \<Rightarrow> tenant_hard t = fmempty \<and> \<not> tenant_suspended t
       | Some x \<Rightarrow> quota_desired A (own, True, ns, tenant_hard t, tenant_suspended t, l ''quota'') x) \<and>
      (case limits_of t of (def, defReq, mx) \<Rightarrow>
         (case ob_LimitRanges v (ns, LimitRangeName) of
            None \<Rightarrow> def = fmempty \<and> defReq = fmempty \<and> mx = fmempty
          | Some x \<Rightarrow> limits_desired A (own, True, ns, def, defReq, mx, l ''limits'') x)) \<and>
      (case ob_NetworkPolicies v (ns, DefaultNetworkPolicyName) of
         None \<Rightarrow> ts_NetworkIsolation (t_Spec t) = NetworkIsolationNone
       | Some x \<Rightarrow> networkpolicy_desired A (own, ns, ts_NetworkIsolation (t_Spec t), l ''networkpolicy'') x) \<and>
      (case ob_RoleBindings v (ns, TenantAdminBindingName) of
         None \<Rightarrow> ts_Admins (t_Spec t) = []
       | Some x \<Rightarrow> binding_desired A (own, ns, ts_Admins (t_Spec t), l ''rbac'') x))"

text \<open>The stored status says so.\<close>

definition tenant_reported :: "'w api \<Rightarrow> Tenant \<Rightarrow> obs \<Rightarrow> bool" where
  "tenant_reported A t v \<longleftrightarrow>
     (\<exists>t'. ob_Tenants v (meta_key (t_meta t)) = Some t' \<and>
       (let st = t_Status t'; cs = tst_Conditions st in
        tst_Phase st = (if tenant_suspended t then TenantPhaseSuspended else TenantPhaseActive) \<and>
        tst_Namespace st = tenant_namespace t \<and>
        tst_ObservedGeneration st = om_Generation (t_meta t) \<and> tst_LastReconcileTime st \<noteq> None \<and>
        tst_EnvironmentCount st = of_nat (card (child_envs v (om_Name (t_meta t)))) \<and>
        tst_IntegrationCount st = of_nat (card (child_intgs v (om_Name (t_meta t)))) \<and>
        (cond_IsTrue A cs ConditionReady \<longleftrightarrow> \<not> tenant_suspended t) \<and>
        cond_Get A cs ConditionDegraded = None \<and> \<not> cond_IsTrue A cs ConditionProgressing \<and>
        one_hot v (tenant_gauge t) (tst_Phase st)))"

lemma tenant_succeed_rule:
  assumes ok: "api_ok A V" and t': "t_meta t' = t_meta t" "t_Spec t' = t_Spec t"
      "tst_Namespace (t_Status t') = tenant_namespace t"
      "tst_EnvironmentCount (t_Status t') = of_nat (card (child_envs (V w) (om_Name (t_meta t))))"
      "tst_IntegrationCount (t_Status t') = of_nat (card (child_intgs (V w) (om_Name (t_meta t))))"
    and saved: "\<And>w' g es m'. V w' = (V w)\<lparr>ob_Phase := g, ob_Events := ob_Events (V w) @ es,
         ob_Tenants := (ob_Tenants (V w))(meta_key (t_meta t) := m')\<rparr> \<Longrightarrow> tenant_reported A t (V w') \<Longrightarrow>
       Q (\<lparr>RequeueAfter = tenantResyncPeriod\<rparr>, None) w'"
    and unsaved: "\<And>w' g es m' e. V w' = (V w)\<lparr>ob_Phase := g, ob_Events := ob_Events (V w) @ es,
         ob_Tenants := (ob_Tenants (V w))(meta_key (t_meta t) := m')\<rparr> \<Longrightarrow> Q (no_requeue, Some e) w'"
  shows "wp (tenant_succeed A t' nsName (om_Generation (t_meta t)) (tenant_suspended t)) Q w"
proof -
  note cond = api_okD(7) [OF ok] and eff = api_okD(9) [OF ok]
  let ?phase = "if tenant_suspended t then TenantPhaseSuspended else TenantPhaseActive"
  have ne: "ConditionDegraded \<noteq> ConditionProgressing" "ConditionDegraded \<noteq> ConditionReady"
    "ConditionProgressing \<noteq> ConditionReady" by (simp_all add: upo_consts)
  have finish: "wp (tenant_updateStatus A t'' (om_Generation (t_meta t)))
      (\<lambda>(err, _). case err of Some e \<Rightarrow> Q (no_requeue, Some e)
         | None \<Rightarrow> Q (\<lparr>RequeueAfter = tenantResyncPeriod\<rparr>, None)) u"
    if V: "V u = (V w)\<lparr>ob_Phase := g, ob_Events := ob_Events (V w) @ es\<rparr>"
      and hot: "one_hot ((V w)\<lparr>ob_Phase := g\<rparr>) (tenant_gauge t) ?phase"
      and t'': "t'' = t'\<lparr>t_Status := (t_Status t')\<lparr>tst_Conditions := cs, tst_Phase := ?phase\<rparr>\<rparr>"
      and cs: "cond_Get A cs ConditionDegraded = None" "\<not> cond_IsTrue A cs ConditionProgressing"
        "cond_IsTrue A cs ConditionReady \<longleftrightarrow> \<not> tenant_suspended t"
    for u g es cs t''
  proof (rule tenant_updateStatus_rule [OF ok], goal_cases)
    case (1 s st w')
    with V t' t'' have V': "V w' = (V w)\<lparr>ob_Phase := g, ob_Events := ob_Events (V w) @ es,
         ob_Tenants := (ob_Tenants (V w))(meta_key (t_meta t) := Some (s\<lparr>t_Status := st\<rparr>))\<rparr>" by simp
    have "ob_Phase (V w') = ob_Phase ((V w)\<lparr>ob_Phase := g\<rparr>)" using V' by simp
    with hot have "one_hot (V w') (tenant_gauge t) ?phase" using one_hot_cong by blast
    with 1(2) t' t'' cs V' have "tenant_reported A t (V w')"
      unfolding tenant_reported_def by (auto simp: stamped_def child_envs_def child_intgs_def Let_def)
    with V' show ?case by (simp add: saved)
  next
    case (2 e x m' w')
    with V t' t'' have "Q (no_requeue, Some e) w'"
      by (intro unsaved [where g = g and es = es and m' = m']) simp_all
    then show ?case by simp
  qed
  show ?thesis
  proof (cases "tenant_suspended t")
    case True
    show ?thesis
    proof (simp only: tenant_succeed_def wp_simps True if_True,
        rule MarkFalse_rule [OF cond], rule MarkFalse_rule [OF cond], rule tenant_setPhase_rule [OF ok], goal_cases)
      case (1 cs w1 c cs' w2 c' w3 g)
      note get = conds.drop_absent [OF cond, of "tst_Conditions (t_Status t')" ConditionDegraded]
      show ?case
        by (rule finish [where g = g and es = "[]" and cs = cs'])
          (use 1 t' True ne get cond_IsTrue_says [OF cond 1(7,8)] cond_IsTrue_says [OF cond, of cs' ConditionProgressing c]
            in \<open>simp_all add: tenant_gauge_def\<close>)
    qed
  next
    case False
    have ev: "(if b then wp (Eventf A (tenant_ref t'') EventTypeNormal r m) (\<lambda>_. P) else P) u"
      if "\<And>u' es. V u' = (V u)\<lparr>ob_Events := ob_Events (V u) @ es\<rparr> \<Longrightarrow> P u'" for b t'' r m P u
      using that [of u "[]"] that by (auto intro: wp_Eventf [OF eff])
    show ?thesis
    proof (simp only: tenant_succeed_def wp_simps False if_False,
        rule MarkFalse_rule [OF cond], rule MarkTrue_rule [OF cond], rule tenant_setPhase_rule [OF ok],
        rule ev, goal_cases)
      case (1 cs w1 c cs' w2 c' w3 g w4 es)
      note get = conds.drop_absent [OF cond, of "tst_Conditions (t_Status t')" ConditionDegraded]
      show ?case
        by (rule finish [where g = g and es = es and cs = cs'])
          (use 1 t' False ne get cond_IsTrue_says [OF cond 1(7,8)] cond_IsTrue_says [OF cond, of cs' ConditionProgressing c]
            in \<open>simp_all add: tenant_gauge_def\<close>)
    qed
  qed
qed

definition tenant_warning :: "Tenant \<Rightarrow> go_err \<Rightarrow> obs \<Rightarrow> bool" where
  "tenant_warning t e v \<longleftrightarrow> one_hot v (tenant_gauge t) TenantPhaseFailed \<and>
     (\<exists>reason es. ob_Events v = es @ [mk_event (tenant_ref t) EventTypeWarning reason (Error e)])"

lemma tenant_reconcileTenant_rule:
  assumes ok: "api_ok A V"
    and saved: "\<And>w'. tenant_footprint t (V w) (V w') \<Longrightarrow> tenant_provisioned A t (V w') \<Longrightarrow>
       tenant_reported A t (V w') \<Longrightarrow> Q (\<lparr>RequeueAfter = tenantResyncPeriod\<rparr>, None) w'"
    and unsaved: "\<And>e w'. tenant_footprint t (V w) (V w') \<Longrightarrow> tenant_provisioned A t (V w') \<Longrightarrow>
       Q (no_requeue, Some e) w'"
    and failed: "\<And>e w'. tenant_footprint t (V w) (V w') \<Longrightarrow> tenant_warning t e (V w') \<Longrightarrow>
       Q (no_requeue, Some e) w'"
  shows "wp (tenant_reconcileTenant A t) Q w"
proof -
  note cond = api_okD(7) [OF ok]
  have fail: "wp (tenant_fail A t' reason cause) Q u"
    if "tenant_footprint t (V w) (V u)" "t_meta t' = t_meta t" for t' reason cause u
  proof (rule tenant_reports.fail_rule [OF ok], goal_cases)
    case (1 w' g m')
    with that have "tenant_warning t cause (V w')"
      by (auto simp: tenant_warning_def tenant_gauge_def tenant_ref_def)
    moreover from 1 that have "tenant_footprint t (V w) (V w')" by (auto simp: tenant_footprint_def Let_def)
    ultimately show ?case by (rule failed [rotated])
  qed
  obtain def defReq mx where lims: "(case ts_Limits (t_Spec t) of
      Some l \<Rightarrow> (tl_Default l, tl_DefaultRequest l, tl_Max l) | None \<Rightarrow> (fmempty, fmempty, fmempty)) = (def, defReq, mx)"
    by (cases "ts_Limits (t_Spec t)") auto
  show ?thesis
  proof (simp only: tenant_reconcileTenant_def wp_simps, rule MarkTrue_rule [OF cond],
      rule ReconcileNamespace_rule [OF ok],
      simp only: sum.case wp_simps, rule ReconcileResourceQuota_rule [OF ok],
      simp add: lims, rule ReconcileLimitRange_rule [OF ok],
      simp only: sum.case wp_simps, rule ReconcileNetworkPolicy_rule [OF ok],
      simp only: sum.case wp_simps, rule ReconcileTenantAdminBinding_rule [OF ok],
      simp only: sum.case wp_simps, rule tenant_countChildren_rule [OF ok],
      simp only: sum.case prod.case wp_simps, goal_cases)
    case (1 cs w1 c x w2 q w3 r1 l w4 r2 np w5 r3 rb w6 w7)
    note V = 1(1,5,7,9,11,13,15)
    have foot: "tenant_footprint t (V w) (V w7)" using V by (simp add: tenant_footprint_def Let_def)
    have prov: "tenant_provisioned A t (V w7)"
      unfolding tenant_provisioned_def Let_def tenant_labels_def tenant_hard_def tenant_suspended_def
        limits_of_def lims prod.case
    proof (intro conjI, goal_cases)
      case 1
      from V \<open>namespace_desired _ _ x\<close> show ?case by simp
    next
      case 2
      from V 1(8) show ?case by (auto split: option.splits)
    next
      case 3
      from V 1(10) show ?case by (simp split: option.splits)
    next
      case 4
      from V 1(12) show ?case by (simp split: option.splits)
    next
      case 5
      from V 1(14) show ?case by (simp split: option.splits)
    qed
    have later: "tenant_footprint t (V w) v \<and> tenant_provisioned A t v"
      if "v = (V w7)\<lparr>ob_Phase := g, ob_Events := ob_Events (V w7) @ es,
        ob_Tenants := (ob_Tenants (V w7))(meta_key (t_meta t) := m')\<rparr>" for v g es m'
      using foot prov by (auto simp: that tenant_footprint_def tenant_provisioned_def Let_def)
    show ?case
    proof (rule tenant_succeed_rule [OF ok, of _ t, unfolded tenant_suspended_def], goal_cases)
      case (6 w' g es m')
      with later [OF 6(1)] show ?case by (intro saved) simp_all
    next
      case (7 w' g es m' e)
      with later [OF 7(1)] show ?case by (intro unsaved) simp_all
    qed (use 1 in \<open>simp_all add: child_envs_def child_intgs_def\<close>)
  qed (auto simp: tenant_footprint_def Let_def intro!: fail)
qed

section \<open>Deletion\<close>

text \<open>The deletion policy has been carried out: the tenant keeps its namespace on purpose, never got
  one, or the namespace is gone or on its way out.\<close>

definition torn_down :: "Tenant \<Rightarrow> obs \<Rightarrow> bool" where
  "torn_down t v \<longleftrightarrow> lp_DeletionPolicy (ts_Lifecycle (t_Spec t)) = DeletionPolicyOrphan \<or>
     tst_Namespace (t_Status t) = [] \<or> gone_or_terminating v (tst_Namespace (t_Status t))"

definition finalizer_held :: "Tenant \<Rightarrow> obs \<Rightarrow> bool" where
  "finalizer_held t v \<longleftrightarrow> (\<exists>t'. ob_Tenants v (meta_key (t_meta t)) = Some t' \<and>
     TenantFinalizer \<in> set (om_Finalizers (t_meta t')))"

definition teardown_footprint :: "Tenant \<Rightarrow> obs \<Rightarrow> obs \<Rightarrow> bool" where
  "teardown_footprint t v v' \<longleftrightarrow>
     v'\<lparr>ob_Phase := ob_Phase v, ob_Events := ob_Events v, ob_Tenants := ob_Tenants v,
        ob_Namespaces := ob_Namespaces v\<rparr> = v \<and>
     only_at {meta_key (t_meta t)} (ob_Tenants v) (ob_Tenants v') \<and>
     only_at {([], tst_Namespace (t_Status t))} (ob_Namespaces v) (ob_Namespaces v') \<and>
     (lp_DeletionPolicy (ts_Lifecycle (t_Spec t)) = DeletionPolicyOrphan \<longrightarrow> ob_Namespaces v' = ob_Namespaces v)"

interpretation tenant_releases: releaser api_Tenants ob_Tenants ob_Tenants_update t_meta t_Spec
    "\<lambda>fs t. t\<lparr>t_meta := (t_meta t)\<lparr>om_Finalizers := fs\<rparr>\<rparr>" TenantFinalizer tenant_gauge tenant_release
  by unfold_locales
    (simp_all add: tenant_release_def clear_phase_def tenant_gauge_def api_ok_def resources_ok_def)

lemma finalizer_held_eq: "finalizer_held = tenant_releases.held"
  by (intro ext) (simp add: finalizer_held_def tenant_releases.held_def)

lemma tenant_teardown_rule:
  assumes ok: "api_ok A V"
    and None: "\<And>w' n. V w' = (V w)\<lparr>ob_Namespaces := n\<rparr> \<Longrightarrow>
       only_at {([], tst_Namespace (t_Status t))} (ob_Namespaces (V w)) n \<Longrightarrow>
       (lp_DeletionPolicy (ts_Lifecycle (t_Spec t)) = DeletionPolicyOrphan \<Longrightarrow> n = ob_Namespaces (V w)) \<Longrightarrow>
       torn_down t (V w') \<Longrightarrow> Q None w'"
    and Some: "\<And>e w' n es. V w' = (V w)\<lparr>ob_Namespaces := n, ob_Events := es\<rparr> \<Longrightarrow>
       only_at {([], tst_Namespace (t_Status t))} (ob_Namespaces (V w)) n \<Longrightarrow>
       lp_DeletionPolicy (ts_Lifecycle (t_Spec t)) \<noteq> DeletionPolicyOrphan \<Longrightarrow>
       Q (Some (no_requeue, Some e)) w'"
  shows "wp (tenant_teardown A t) Q w"
proof (cases "lp_DeletionPolicy (ts_Lifecycle (t_Spec t)) \<noteq> DeletionPolicyOrphan \<and> tst_Namespace (t_Status t) \<noteq> []")
  case True
  show ?thesis
  proof (simp only: tenant_teardown_def True if_True wp_simps simp_thms, rule EnsureNamespaceDeleted_rule [OF ok], goal_cases)
    case (1 w' x)
    then have "Q None w'"
      by (intro None [where n = "(ob_Namespaces (V w))(([], tst_Namespace (t_Status t)) := x)"])
        (auto simp: torn_down_def True)
    then show ?case by simp
  next
    case (2 e w' x)
    have "wp (Eventf A (tenant_ref t) EventTypeWarning r m) (\<lambda>_. Q (Some (no_requeue, Some e))) w'" for r m
      by (rule wp_Eventf [OF api_okD(9) [OF ok]],
          rule Some [where n = "(ob_Namespaces (V w))(([], tst_Namespace (t_Status t)) := x)"
            and es = "ob_Events (V w) @ [mk_event (tenant_ref t) EventTypeWarning r m]"])
        (use 2 True in auto)
    then show ?case by simp
  qed
next
  case False
  then have "Q None w" by (intro None [where n = "ob_Namespaces (V w)"]) (auto simp: torn_down_def)
  then show ?thesis by (simp only: tenant_teardown_def False if_False wp_simps)
qed

lemma tenant_finalize_rule:
  assumes ok: "api_ok A V" and stored: "ob_Tenants (V w) (meta_key (t_meta t)) = Some t"
    and foreign: "TenantFinalizer \<notin> set (om_Finalizers (t_meta t)) \<Longrightarrow> Q (no_requeue, None) w"
    and released: "\<And>w'. teardown_footprint t (V w) (V w') \<Longrightarrow> torn_down t (V w') \<Longrightarrow>
       no_series (V w') (tenant_gauge t) \<Longrightarrow> \<not> finalizer_held t (V w') \<Longrightarrow> Q (no_requeue, None) w'"
    and failed: "\<And>e w'. teardown_footprint t (V w) (V w') \<Longrightarrow> torn_down t (V w') \<or> finalizer_held t (V w') \<Longrightarrow>
       Q (no_requeue, Some e) w'"
  shows "wp (tenant_finalize A t) Q w"
proof (cases "TenantFinalizer \<in> set (om_Finalizers (t_meta t))")
  case False
  then show ?thesis
    by (simp add: tenant_finalize_def finalizers_okD [OF api_okD(6) [OF ok]] foreign)
next
  case True
  have st: "status_ok V ob_Tenants ob_Tenants_update t_meta (\<lambda>x s. s\<lparr>t_Status := t_Status x\<rparr>) (api_Tenants A)"
    using ok by (simp add: api_ok_def resources_ok_def)
  let ?key = "meta_key (t_meta t)" and ?ns = "tst_Namespace (t_Status t)"
  have rest: "wp (do { early \<leftarrow> tenant_teardown A t1;
        (case early of Some r \<Rightarrow> State_Monad.return r | None \<Rightarrow> tenant_release A t1) }) Q u"
    if V: "V u = (V w)\<lparr>ob_Phase := g, ob_Tenants := (ob_Tenants (V w))(?key \<mapsto> s)\<rparr>"
      and t1: "t_meta t1 = t_meta t" "t_Spec t1 = t_Spec t" "tst_Namespace (t_Status t1) = ?ns"
      and s: "om_Finalizers (t_meta s) = om_Finalizers (t_meta t)" for g s u t1
    unfolding wp_simps
  proof (rule tenant_teardown_rule [OF ok, where t = t1], goal_cases)
    case (1 u')
    then obtain n where V': "V u' = (V u)\<lparr>ob_Namespaces := n\<rparr>" "only_at {([], ?ns)} (ob_Namespaces (V u)) n"
      "lp_DeletionPolicy (ts_Lifecycle (t_Spec t)) = DeletionPolicyOrphan \<longrightarrow> n = ob_Namespaces (V u)"
      and down: "torn_down t (V u')" using t1 by (auto simp: torn_down_def)
    have held: "ob_Tenants (V u') ?key = Some s" using V V' by simp
    show ?case
      unfolding option.case
    proof (rule tenant_releases.release_rule [OF ok], goal_cases)
      case (1 w' g' m)
      with t1 tenant_releases.held_cong [OF t1(1)] have "\<not> finalizer_held t (V w')" "no_series (V w') (tenant_gauge t)"
        by (simp_all add: finalizer_held_eq tenant_gauge_def)
      with 1(1) V V' t1 down show ?case by (intro released) (auto simp: teardown_footprint_def torn_down_def gone_or_terminating_def)
    next
      case (2 w' g' m e)
      with V V' t1 down show ?case by (intro failed) (auto simp: teardown_footprint_def torn_down_def gone_or_terminating_def)
    qed
  next
    case (2 e u')
    with V t1 s True show ?case
      by (auto intro!: failed simp: teardown_footprint_def finalizer_held_def)
  qed
  show ?thesis
  proof (simp only: tenant_finalize_def finalizers_okD [OF api_okD(6) [OF ok]] True not_True_eq_False if_False,
      unfold wp_bind, rule tenant_setPhase_rule [OF ok], rule MarkFalse_rule [OF api_okD(7) [OF ok]], rule wp_status [OF st], goal_cases)
    case (1 w1 g cs w2 c s w3)
    with stored have "s = t" by simp
    with 1 show ?case unfolding wp_prod prod.case
      by (intro rest [where g = g and s = "t\<lparr>t_Status := (t_Status t)\<lparr>tst_Phase := TenantPhaseTerminating,
          tst_Conditions := cs\<rparr>\<rparr>"]) auto
  next
    case (2 w1 g cs w2 c e m w3)
    with stored obtain s where s: "m = Some s" "om_Finalizers (t_meta s) = om_Finalizers (t_meta t)" by auto
    with 2 show ?case unfolding wp_prod prod.case
      by (intro rest [where g = g and s = s]) auto
  qed
qed

section \<open>The controller contract\<close>

interpretation tenants: controller tenantControllerName ob_Tenants ob_Tenants_update t_meta t_Spec
    "\<lambda>fs t. t\<lparr>t_meta := (t_meta t)\<lparr>om_Finalizers := fs\<rparr>\<rparr>" api_Tenants TenantFinalizer
    "\<lambda>req. (tenantControllerName, [], snd req)" tenant_finalize tenant_reconcileTenant tenant_Reconcile
proof (unfold_locales, goal_cases)
  case (1 A req)
  show ?case by (simp add: tenant_Reconcile_def skeleton_def clear_phase_def)
next
  case (2 A V)
  then show ?case by (simp add: api_ok_def reads_ok_def resources_ok_def)
next
  case (10 A V w x)
  show ?case by (rule tenant_finalize_rule [OF 10]) (auto simp: teardown_footprint_def dest!: arg_cong [of _ _ ob_ReconcileTotal])
next
  case (11 A V w x)
  show ?case by (rule tenant_reconcileTenant_rule [OF 11(1)]) (auto simp: tenant_footprint_def Let_def)
qed simp_all

section \<open>Properties\<close>

text \<open>A tenant with a quota and a finalizer, stored in an otherwise empty cluster.\<close>

definition live_tenant :: Tenant where
  "live_tenant =
     \<lparr>t_meta = (new_meta [] ''acme'')\<lparr>om_Generation := 3, om_Finalizers := [TenantFinalizer]\<rparr>,
      t_Spec = \<lparr>ts_DisplayName = ''Acme'', ts_Tier = TenantTierStandard, ts_NamespacePrefix = ''tenant'',
        ts_Quota = Some \<lparr>tq_Hard = fmap_of_list [(ResourcePods, 50000)]\<rparr>, ts_Limits = None,
        ts_NetworkIsolation = NetworkIsolationBaseline, ts_Admins = some_admins, ts_ExtraLabels = fmempty,
        ts_Lifecycle = \<lparr>lp_Suspended = False, lp_DeletionPolicy = DeletionPolicyDelete\<rparr>\<rparr>,
      t_Status = \<lparr>tst_Phase = [], tst_Conditions = [], tst_ObservedGeneration = 0, tst_Namespace = [],
        tst_EnvironmentCount = 0, tst_IntegrationCount = 0, tst_LastReconcileTime = None\<rparr>\<rparr>"

definition tenant_world :: mworld where
  "tenant_world = mw_empty\<lparr>mw_Tenants := [(([], ''acme''), live_tenant)]\<rparr>"




text \<open>The same cluster, whose third call fails: the quota cannot be written.\<close>

definition flaky_tenant_world :: mworld where
  "flaky_tenant_world = tenant_world\<lparr>mw_Faults := [False, True]\<rparr>"


text \<open>C21: Tenants are isolated from each other. Whatever its outcome, a reconcile writes no object but
  the tenant itself, its namespace, and the four objects of fixed name in that namespace; in
  particular two tenants whose derived namespaces differ never write the same object.\<close>

theorem tenant_writes_own_objects:
  assumes "api_ok A V"
  shows "wp (tenant_reconcileTenant A t) (\<lambda>_ w'. tenant_footprint t (V w) (V w')) w"
  by (rule tenant_reconcileTenant_rule [OF assms]) simp_all

lemma tenant_writes_own_objects_witness:
  "wp (tenant_reconcileTenant mem_api live_tenant)
     (\<lambda>_ w'. tenant_footprint live_tenant (m_obs flaky_tenant_world) (m_obs w')) flaky_tenant_world"
  by (rule tenant_writes_own_objects [OF mem_api_ok])

text \<open>C9: The finalizer of a Tenant protects its teardown. \<open>finalize\<close> on a stored tenant under deletion
  gives the finalizer up only when the deletion policy has been carried out (orphaned, nothing to
  delete, or the namespace gone or terminating). A return without error means that the finalizer is
  gone and the phase series dropped; under the policy Orphan no namespace is touched.\<close>

theorem tenant_finalizer_protects:
  assumes "api_ok A V" and "ob_Tenants (V w) (meta_key (t_meta t)) = Some t"
  shows "wp (tenant_finalize A t) (\<lambda>(res, err) w'. res = no_requeue \<and>
     teardown_footprint t (V w) (V w') \<and>
     (if TenantFinalizer \<in> set (om_Finalizers (t_meta t)) then
        (torn_down t (V w') \<or> finalizer_held t (V w')) \<and>
        (if err = None then torn_down t (V w') \<and> \<not> finalizer_held t (V w') \<and> no_series (V w') (tenant_gauge t)
         else True)
      else err = None \<and> V w' = V w)) w"
proof (cases "TenantFinalizer \<in> set (om_Finalizers (t_meta t))")
  case True
  then show ?thesis by (intro tenant_finalize_rule [OF assms]) auto
next
  case False
  then show ?thesis
    by (simp add: tenant_finalize_def finalizers_okD [OF api_okD(6) [OF assms(1)]] teardown_footprint_def)
qed

definition doomed_tenant :: Tenant where
  "doomed_tenant = live_tenant\<lparr>t_meta := (t_meta live_tenant)\<lparr>om_DeletionTimestamp := Some 2000\<rparr>,
     t_Status := (t_Status live_tenant)\<lparr>tst_Namespace := ''tenant-acme''\<rparr>\<rparr>"

definition doomed_world :: mworld where
  "doomed_world = namespace_world\<lparr>mw_Tenants := [(([], ''acme''), doomed_tenant)]\<rparr>"

lemma tenant_finalizer_protects_witness:
  "wp (tenant_finalize mem_api doomed_tenant) (\<lambda>(res, err) w'. res = no_requeue \<and>
     teardown_footprint doomed_tenant (m_obs doomed_world) (m_obs w') \<and>
     (if TenantFinalizer \<in> set (om_Finalizers (t_meta doomed_tenant)) then
        (torn_down doomed_tenant (m_obs w') \<or> finalizer_held doomed_tenant (m_obs w')) \<and>
        (if err = None then torn_down doomed_tenant (m_obs w') \<and> \<not> finalizer_held doomed_tenant (m_obs w') \<and>
           no_series (m_obs w') (tenant_gauge doomed_tenant)
         else True)
      else err = None \<and> m_obs w' = m_obs doomed_world)) doomed_world \<and>
   snd (fst (run_state (tenant_finalize mem_api doomed_tenant) doomed_world)) = None"
proof (intro conjI tenant_finalizer_protects [OF mem_api_ok])
  show "ob_Tenants (m_obs doomed_world) (meta_key (t_meta doomed_tenant)) = Some doomed_tenant"
    by (simp add: m_obs_def doomed_world_def doomed_tenant_def live_tenant_def new_meta_def meta_key_def)
  show "snd (fst (run_state (tenant_finalize mem_api doomed_tenant) doomed_world)) = None" by code_simp
qed

text \<open>C39: The policy Orphan does not release the namespace. A converged tenant owns its namespace
  through a controller reference whatever its deletion policy, and \<open>finalize\<close> under Orphan leaves
  every namespace, that reference included, as it is; so the garbage collector, which deletes the
  dependents of a deleted owner, removes the namespace that the policy promises to leave in place.\<close>

theorem orphan_keeps_owner_reference:
  assumes "api_ok A V"
  shows "wp (tenant_reconcileTenant A t) (\<lambda>(res, err) w'.
     (case err of
        Some e \<Rightarrow> True
      | None \<Rightarrow> (\<exists>ns. ob_Namespaces (V w') ([], tenant_namespace t) = Some ns \<and>
          owner_ref (tenant_ref t) \<in> set (om_OwnerReferences (ns_meta ns))))) w \<and>
   (lp_DeletionPolicy (ts_Lifecycle (t_Spec t)) = DeletionPolicyOrphan \<longrightarrow>
    ob_Tenants (V w) (meta_key (t_meta t)) = Some t \<longrightarrow>
      wp (tenant_finalize A t) (\<lambda>_ w'. ob_Namespaces (V w') = ob_Namespaces (V w)) w)"
proof (intro conjI impI, goal_cases)
  case 1
  show ?case
    by (rule tenant_reconcileTenant_rule [OF assms])
      (auto simp: tenant_provisioned_def namespace_desired_def owned_def Let_def)
next
  case 2
  then show ?case by (intro tenant_finalize_rule [OF assms]) (auto simp: teardown_footprint_def)
qed

definition orphan_tenant :: Tenant where
  "orphan_tenant = doomed_tenant\<lparr>t_Spec := (t_Spec doomed_tenant)\<lparr>ts_Lifecycle :=
     \<lparr>lp_Suspended = False, lp_DeletionPolicy = DeletionPolicyOrphan\<rparr>\<rparr>\<rparr>"

definition orphan_world :: mworld where
  "orphan_world = namespace_world\<lparr>mw_Tenants := [(([], ''acme''), orphan_tenant)]\<rparr>"

lemma orphan_keeps_owner_reference_witness:
  "wp (tenant_finalize mem_api orphan_tenant)
     (\<lambda>_ w'. ob_Namespaces (m_obs w') = ob_Namespaces (m_obs orphan_world)) orphan_world \<and>
   snd (fst (run_state (tenant_finalize mem_api orphan_tenant) orphan_world)) = None"
proof (intro conjI)
  have "ob_Tenants (m_obs orphan_world) (meta_key (t_meta orphan_tenant)) = Some orphan_tenant"
    by (simp add: m_obs_def orphan_world_def orphan_tenant_def doomed_tenant_def live_tenant_def new_meta_def meta_key_def)
  moreover have "lp_DeletionPolicy (ts_Lifecycle (t_Spec orphan_tenant)) = DeletionPolicyOrphan"
    by (simp add: orphan_tenant_def)
  ultimately show "wp (tenant_finalize mem_api orphan_tenant)
     (\<lambda>_ w'. ob_Namespaces (m_obs w') = ob_Namespaces (m_obs orphan_world)) orphan_world"
    using orphan_keeps_owner_reference [OF mem_api_ok, of orphan_tenant orphan_world] by blast
  show "snd (fst (run_state (tenant_finalize mem_api orphan_tenant) orphan_world)) = None" by code_simp
qed

end
