(* ===== verification/EnvironmentController.thy ===== *)
theory EnvironmentController
  imports GitOps Connector Reporting
begin

text \<open>
  \<open>internal/controller/environment_controller.go\<close>: an Environment becomes a workload namespace of
  its tenant with a quota, configuration and secrets, delivered to by a GitOps engine and deleted
  when its time to live has passed. The pointer to the environment that the methods share is an
  argument, and the methods that change the environment return it.
\<close>

section \<open>The controller\<close>

definition environmentControllerName :: string where "environmentControllerName = ''environment''"
definition environmentResyncPeriod :: Duration where "environmentResyncPeriod = 3 * Minute"

abbreviation set_est :: "(EnvironmentStatus \<Rightarrow> EnvironmentStatus) \<Rightarrow> Environment \<Rightarrow> Environment" where
  "set_est f env \<equiv> env\<lparr>e_Status := f (e_Status env)\<rparr>"

definition env_setPhase :: "'w api \<Rightarrow> Environment \<Rightarrow> EnvironmentPhase \<Rightarrow> ('w, Environment) state" where
  "env_setPhase A env phase = do {
     let env = set_est (est_Phase_update (\<lambda>_. phase)) env;
     _ \<leftarrow> SetPhase A environmentControllerName (om_Namespace (e_meta env)) (om_Name (e_meta env)) phase;
     State_Monad.return env
   }"

definition env_updateStatus ::
  "'w api \<Rightarrow> Environment \<Rightarrow> int64 \<Rightarrow> ('w, go_err option \<times> Environment) state" where
  "env_updateStatus A env gen = do {
     let env = set_est (est_ObservedGeneration_update (\<lambda>_. gen)) env;
     now \<leftarrow> Now A;
     kc_StatusUpdate (api_Environments A) (set_est (est_LastReconcileTime_update (\<lambda>_. Some now)) env)
   }"

definition env_fail :: "'w api \<Rightarrow> Environment \<Rightarrow> string \<Rightarrow> go_err \<Rightarrow> ('w, Result \<times> go_err option) state" where
  "env_fail A env reason cause = do {
     cs \<leftarrow> MarkTrue A (est_Conditions (e_Status env)) ConditionDegraded reason (Error cause)
       (om_Generation (e_meta env));
     cs \<leftarrow> MarkFalse A cs ConditionReady reason (Error cause) (om_Generation (e_meta env));
     env \<leftarrow> env_setPhase A (set_est (est_Conditions_update (\<lambda>_. cs)) env) EnvironmentPhaseFailed;
     _ \<leftarrow> Eventf A (env_ref env) EventTypeWarning reason (Error cause);
     _ \<leftarrow> env_updateStatus A env (om_Generation (e_meta env));
     State_Monad.return (no_requeue, Some cause)
   }"

definition env_blockOnDependency :: "'w api \<Rightarrow> Environment \<Rightarrow> string \<Rightarrow> ('w, Result \<times> go_err option) state" where
  "env_blockOnDependency A env msg = do {
     cs \<leftarrow> MarkFalse A (est_Conditions (e_Status env)) ConditionReady ReasonDependencyNotMet msg
       (om_Generation (e_meta env));
     env \<leftarrow> env_setPhase A (set_est (est_Conditions_update (\<lambda>_. cs)) env) EnvironmentPhasePending;
     (err, _) \<leftarrow> env_updateStatus A env (om_Generation (e_meta env));
     (case err of
        Some e \<Rightarrow> State_Monad.return (no_requeue, Some e)
      | None \<Rightarrow> State_Monad.return (\<lparr>RequeueAfter = 15 * Second\<rparr>, None))
   }"

definition env_derivePhase ::
  "'w api \<Rightarrow> Environment \<Rightarrow> SyncStatus option \<Rightarrow> int64 \<Rightarrow> ('w, Environment) state" where
  "env_derivePhase A env sync gen = do {
     let env = set_est (\<lambda>st. st\<lparr>est_Conditions := cond_Remove A (est_Conditions st) ConditionDegraded\<rparr>) env;
     (case sync of
        None \<Rightarrow> env_setPhase A (set_est (est_Sync_update (\<lambda>_. None)) env) EnvironmentPhaseHealthy
      | Some sync \<Rightarrow> do {
          now \<leftarrow> Now A;
          let sync = sync\<lparr>ss_LastSyncTime := Some now\<rparr>;
          let env = set_est (est_Sync_update (\<lambda>_. Some sync)) env;
          (if ss_Phase sync = ''Synced'' then env_setPhase A env EnvironmentPhaseHealthy
           else if ss_Phase sync = ''Error'' then do {
             cs \<leftarrow> MarkTrue A (est_Conditions (e_Status env)) ConditionDegraded ''SyncError'' (ss_Message sync) gen;
             env_setPhase A (set_est (est_Conditions_update (\<lambda>_. cs)) env) EnvironmentPhaseDegraded
           }
           else env_setPhase A env EnvironmentPhaseSyncing)
        })
   }"

text \<open>The TTL block of \<open>reconcileEnvironment\<close>; \<open>Some r\<close> is a return from the method.\<close>

definition env_enforceTTL ::
  "'w api \<Rightarrow> Environment \<Rightarrow> ('w, (Result \<times> go_err option) option \<times> Environment) state" where
  "env_enforceTTL A env =
     (case (if es_Type (e_Spec env) = EnvironmentTypeEphemeral then es_TTL (e_Spec env) else None) of
        None \<Rightarrow> State_Monad.return (None, env)
      | Some ttl \<Rightarrow> do {
          let expiry = time_add (om_CreationTimestamp (e_meta env)) ttl;
          let env = set_est (est_ExpiresAt_update (\<lambda>_. Some expiry)) env;
          now \<leftarrow> Now A;
          (if \<not> now < expiry then do {
             _ \<leftarrow> Eventf A (env_ref env) EventTypeNormal ''Expired''
               (''Ephemeral environment reached its TTL ('' @ dur_string ttl @ ''); deleting'');
             err \<leftarrow> kc_Delete (api_Environments A) env;
             (case err of
                Some e \<Rightarrow>
                  if \<not> IsNotFound e then State_Monad.return (Some (no_requeue, Some e), env)
                  else State_Monad.return (Some (no_requeue, None), env)
              | None \<Rightarrow> State_Monad.return (Some (no_requeue, None), env))
           }
           else State_Monad.return (None, env))
        })"

definition env_labels :: "Tenant \<Rightarrow> Environment \<Rightarrow> labels" where
  "env_labels tenant env =
     MergeLabels (TenantLabels (om_Name (t_meta tenant)) ''environment'' fmempty)
       (fmap_of_list [(EnvironmentLabel, om_Name (e_meta env))])"

text \<open>The end of \<open>reconcileEnvironment\<close>, after the call of \<open>ReconcileGitOps\<close>.\<close>

definition env_succeed ::
  "'w api \<Rightarrow> Environment \<Rightarrow> SyncStatus option \<Rightarrow> int64 \<Rightarrow> ('w, Result \<times> go_err option) state" where
  "env_succeed A env sync gen = do {
     let env = (if es_Domain (e_Spec env) \<noteq> []
                then set_est (est_URL_update (\<lambda>_. ''https://'' @ es_Domain (e_Spec env))) env else env);
     env \<leftarrow> env_derivePhase A env sync gen;
     cs \<leftarrow> MarkFalse A (est_Conditions (e_Status env)) ConditionProgressing ReasonProvisioned
       ''Environment reconciled'' gen;
     (err, env) \<leftarrow> env_updateStatus A (set_est (est_Conditions_update (\<lambda>_. cs)) env) gen;
     (case err of
        Some e \<Rightarrow> State_Monad.return (no_requeue, Some e)
      | None \<Rightarrow>
          (case est_ExpiresAt (e_Status env) of
             None \<Rightarrow> State_Monad.return (\<lparr>RequeueAfter = environmentResyncPeriod\<rparr>, None)
           | Some expires \<Rightarrow> do {
               now \<leftarrow> Now A;
               let remaining = time_sub expires now;
               let requeue = (if 0 < sint remaining \<and> sint remaining < sint environmentResyncPeriod
                              then remaining else environmentResyncPeriod);
               State_Monad.return (\<lparr>RequeueAfter = requeue\<rparr>, None)
             }))
   }"

text \<open>\<open>reconcileEnvironment\<close> from the first change of the conditions on.\<close>

definition env_provision ::
  "'w api \<Rightarrow> Environment \<Rightarrow> Tenant \<Rightarrow> int64 \<Rightarrow> ('w, Result \<times> go_err option) state" where
  "env_provision A env tenant gen = do {
     cs \<leftarrow> MarkTrue A (est_Conditions (e_Status env)) ConditionProgressing ReasonReconciling
       ''Reconciling environment resources'' gen;
     let env = set_est (est_Conditions_update (\<lambda>_. cs)) env;
     let targetNS = tst_Namespace (t_Status tenant) @ ''-'' @ om_Name (e_meta env);
     let env = set_est (est_TargetNamespace_update (\<lambda>_. targetNS)) env;
     let nsLabels = env_labels tenant env;
     let owner = env_ref env;
     r \<leftarrow> ReconcileNamespace A owner False targetNS nsLabels;
     (case r of Inl err \<Rightarrow> env_fail A env ''NamespaceError'' err | Inr _ \<Rightarrow> do {
     r \<leftarrow> ReconcileResourceQuota A owner False targetNS (ProfileQuota A (es_Profile (e_Spec env))) False nsLabels;
     (case r of Inl err \<Rightarrow> env_fail A env ''QuotaError'' err | Inr _ \<Rightarrow> do {
     r \<leftarrow> ReconcileConfigMap A owner False targetNS EnvConfigMapName (es_Variables (e_Spec env)) nsLabels;
     (case r of Inl err \<Rightarrow> env_fail A env ''ConfigError'' err | Inr _ \<Rightarrow> do {
     r \<leftarrow> ProjectSecrets A owner False (om_Namespace (e_meta env)) targetNS EnvSecretName
       (es_SecretRefs (e_Spec env)) nsLabels;
     (case r of Inl err \<Rightarrow> env_fail A env ''SecretError'' err | Inr _ \<Rightarrow> do {
     cs \<leftarrow> MarkTrue A (est_Conditions (e_Status env)) ConditionReady ReasonProvisioned
       ''Workload namespace and configuration are provisioned'' gen;
     let env = set_est (est_Conditions_update (\<lambda>_. cs)) env;
     r \<leftarrow> ReconcileGitOps A env targetNS;
     (case r of Inl err \<Rightarrow> env_fail A env ''GitOpsError'' err | Inr sync \<Rightarrow>
     env_succeed A env sync gen) }) }) }) })
   }"

definition env_reconcileEnvironment :: "'w api \<Rightarrow> Environment \<Rightarrow> ('w, Result \<times> go_err option) state" where
  "env_reconcileEnvironment A env = (
     let gen = om_Generation (e_meta env) in
     if es_Suspend (e_Spec env) then do {
       cs \<leftarrow> MarkFalse A (est_Conditions (e_Status env)) ConditionReady ReasonSuspended
         ''Environment is suspended'' gen;
       env \<leftarrow> env_setPhase A (set_est (est_Conditions_update (\<lambda>_. cs)) env) EnvironmentPhaseSuspended;
       (err, _) \<leftarrow> env_updateStatus A env gen;
       State_Monad.return (no_requeue, err)
     }
     else do {
       got \<leftarrow> kc_Get (api_Tenants A) ([], tr_Name (es_TenantRef (e_Spec env)));
       (case got of
          Inl err \<Rightarrow>
            if IsNotFound err then
              env_blockOnDependency A env (''tenant '' @ fmt_q (tr_Name (es_TenantRef (e_Spec env))) @ '' not found'')
            else State_Monad.return (no_requeue, Some err)
        | Inr tenant \<Rightarrow>
            if tst_Namespace (t_Status tenant) = [] then
              env_blockOnDependency A env (''tenant '' @ fmt_q (om_Name (t_meta tenant)) @ '' namespace not yet provisioned'')
            else do {
              (early, env) \<leftarrow> env_enforceTTL A env;
              (case early of
                 Some r \<Rightarrow> State_Monad.return r
               | None \<Rightarrow> env_provision A env tenant gen)
            })
     })"

text \<open>The two halves of \<open>finalize\<close> after the phase: tearing down, where \<open>Some r\<close> is a return from
  the method, and dropping the finalizer.\<close>

definition env_teardown :: "'w api \<Rightarrow> Environment \<Rightarrow> ('w, (Result \<times> go_err option) option) state" where
  "env_teardown A env = do {
     err \<leftarrow> DeleteGitOps A env;
     (case err of
        Some e \<Rightarrow> State_Monad.return (Some (no_requeue, Some e))
      | None \<Rightarrow>
          if est_TargetNamespace (e_Status env) \<noteq> [] then do {
            (gone, err) \<leftarrow> EnsureNamespaceDeleted A (est_TargetNamespace (e_Status env));
            (case err of
               Some e \<Rightarrow> State_Monad.return (Some (no_requeue, Some e))
             | None \<Rightarrow>
                 if \<not> gone then State_Monad.return (Some (\<lparr>RequeueAfter = 5 * Second\<rparr>, None))
                 else State_Monad.return None)
          }
          else State_Monad.return None)
   }"

definition env_release :: "'w api \<Rightarrow> Environment \<Rightarrow> ('w, Result \<times> go_err option) state" where
  "env_release A env = do {
     _ \<leftarrow> ClearPhase A environmentControllerName (om_Namespace (e_meta env)) (om_Name (e_meta env));
     (err, _) \<leftarrow> kc_Update (api_Environments A) (env\<lparr>e_meta := (e_meta env)\<lparr>om_Finalizers :=
       RemoveFinalizer A (om_Finalizers (e_meta env)) EnvironmentFinalizer\<rparr>\<rparr>);
     (case err of
        Some e \<Rightarrow> State_Monad.return (no_requeue, Some e)
      | None \<Rightarrow> State_Monad.return (no_requeue, None))
   }"

definition env_finalize :: "'w api \<Rightarrow> Environment \<Rightarrow> ('w, Result \<times> go_err option) state" where
  "env_finalize A env =
     (if \<not> ContainsFinalizer A (om_Finalizers (e_meta env)) EnvironmentFinalizer
      then State_Monad.return (no_requeue, None)
      else do {
        env \<leftarrow> env_setPhase A env EnvironmentPhaseTerminating;
        early \<leftarrow> env_teardown A env;
        (case early of
           Some r \<Rightarrow> State_Monad.return r
         | None \<Rightarrow> env_release A env)
      })"

definition env_Reconcile :: "'w api \<Rightarrow> objkey \<Rightarrow> ('w, Result \<times> go_err option) state" where
  "env_Reconcile A req = do {
     start \<leftarrow> Now A;
     r \<leftarrow> do {
       got \<leftarrow> kc_Get (api_Environments A) req;
       (case got of
          Inl err \<Rightarrow>
            if IsNotFound err then do {
              _ \<leftarrow> ClearPhase A environmentControllerName (fst req) (snd req);
              State_Monad.return (no_requeue, None)
            }
            else State_Monad.return (no_requeue, Some err)
        | Inr env \<Rightarrow>
            if om_DeletionTimestamp (e_meta env) \<noteq> None then env_finalize A env
            else if \<not> ContainsFinalizer A (om_Finalizers (e_meta env)) EnvironmentFinalizer then do {
              (err, _) \<leftarrow> kc_Update (api_Environments A) (env\<lparr>e_meta := (e_meta env)\<lparr>om_Finalizers :=
                AddFinalizer A (om_Finalizers (e_meta env)) EnvironmentFinalizer\<rparr>\<rparr>);
              State_Monad.return (no_requeue, err)
            }
            else env_reconcileEnvironment A env)
     };
     _ \<leftarrow> record_outcome A environmentControllerName start r;
     State_Monad.return r
   }"

section \<open>Reporting\<close>

definition env_gauge :: "Environment \<Rightarrow> resource_id" where
  "env_gauge e = (environmentControllerName, om_Namespace (e_meta e), om_Name (e_meta e))"

lemma env_ref_status [simp]: "env_ref (e\<lparr>e_Status := st\<rparr>) = env_ref e" "env_gauge (e\<lparr>e_Status := st\<rparr>) = env_gauge e"
  by (simp_all add: env_ref_def env_gauge_def)

abbreviation env_stamp :: "int64 \<Rightarrow> Time \<Rightarrow> EnvironmentStatus \<Rightarrow> EnvironmentStatus" where
  "env_stamp gen now s \<equiv> s\<lparr>est_ObservedGeneration := gen, est_LastReconcileTime := Some now\<rparr>"

interpretation env_reports: reporter api_Environments ob_Environments ob_Environments_update e_meta env_ref env_gauge
    e_Status "\<lambda>s e. e\<lparr>e_Status := s\<rparr>" est_Conditions "\<lambda>cs. est_Conditions_update (\<lambda>_. cs)"
    "\<lambda>p. est_Phase_update (\<lambda>_. p)" "\<lambda>e s. s" env_stamp EnvironmentPhaseFailed
    env_setPhase env_updateStatus env_fail
  by unfold_locales
    (simp_all add: env_setPhase_def env_updateStatus_def env_fail_def put_phase_def env_gauge_def
      api_ok_def resources_ok_def)

interpretation env_releases: releaser api_Environments ob_Environments ob_Environments_update e_meta e_Spec
    "\<lambda>fs e. e\<lparr>e_meta := (e_meta e)\<lparr>om_Finalizers := fs\<rparr>\<rparr>" EnvironmentFinalizer env_gauge env_release
  by unfold_locales
    (simp_all add: env_release_def clear_phase_def env_gauge_def api_ok_def resources_ok_def)

section \<open>What a reconcile achieves\<close>

text \<open>Changes that concern the environment object only.\<close>

definition env_only :: "Environment \<Rightarrow> obs \<Rightarrow> obs \<Rightarrow> bool" where
  "env_only e v v' \<longleftrightarrow>
     v'\<lparr>ob_Phase := ob_Phase v, ob_Events := ob_Events v, ob_Environments := ob_Environments v\<rparr> = v \<and>
     only_at {meta_key (e_meta e)} (ob_Environments v) (ob_Environments v') \<and>
     (\<exists>es. ob_Events v' = ob_Events v @ es)"

text \<open>The objects a provisioning reconcile may write: the environment, its workload namespace \<open>tn\<close>,
  the three objects of fixed name in it, and the delivery objects beside the environment.\<close>

definition env_footprint :: "Environment \<Rightarrow> string \<Rightarrow> obs \<Rightarrow> obs \<Rightarrow> bool" where
  "env_footprint e tn v v' \<longleftrightarrow>
     only_at {meta_key (e_meta e)} (ob_Environments v) (ob_Environments v') \<and>
     only_at {([], tn)} (ob_Namespaces v) (ob_Namespaces v') \<and>
     only_at {(tn, QuotaName)} (ob_ResourceQuotas v) (ob_ResourceQuotas v') \<and>
     only_at {(tn, EnvConfigMapName)} (ob_ConfigMaps v) (ob_ConfigMaps v') \<and>
     only_at {(tn, EnvSecretName)} (ob_Secrets v) (ob_Secrets v') \<and>
     (\<forall>g k. ob_Unstructured v' g k \<noteq> ob_Unstructured v g k \<longrightarrow>
        k = gitops_key e \<and> g \<in> {argoApplicationGVK, fluxKustomizeGVK, fluxGitRepoGVK}) \<and>
     (\<exists>es. ob_Events v' = ob_Events v @ es) \<and>
     ob_Tenants v' = ob_Tenants v \<and> ob_Integrations v' = ob_Integrations v \<and>
     ob_LimitRanges v' = ob_LimitRanges v \<and> ob_NetworkPolicies v' = ob_NetworkPolicies v \<and>
     ob_RoleBindings v' = ob_RoleBindings v \<and> ob_ReconcileTotal v' = ob_ReconcileTotal v"

lemma env_only_simps [simp]: "env_only e v v"
  by (simp add: env_only_def)

definition env_target :: "Tenant \<Rightarrow> Environment \<Rightarrow> string" where
  "env_target t e = tst_Namespace (t_Status t) @ ''-'' @ om_Name (e_meta e)"

text \<open>The cluster is as the environment describes it; \<open>secs\<close> are the secrets before the reconcile,
  \<open>s\<close> what the delivery engine reports.\<close>

definition env_provisioned ::
  "'w api \<Rightarrow> Tenant \<Rightarrow> Environment \<Rightarrow> (objkey \<rightharpoonup> Secret) \<Rightarrow> SyncStatus option \<Rightarrow> obs \<Rightarrow> bool" where
  "env_provisioned A t e secs s v \<longleftrightarrow>
     (let tn = env_target t e; own = env_ref e; l = env_labels t e in
      (\<exists>x. ob_Namespaces v ([], tn) = Some x \<and> namespace_desired A (own, False, tn, l) x) \<and>
      (\<exists>x. ob_ResourceQuotas v (tn, QuotaName) = Some x \<and>
         quota_desired A (own, False, tn, ProfileQuota A (es_Profile (e_Spec e)), False, l) x) \<and>
      (case ob_ConfigMaps v (tn, EnvConfigMapName) of
         None \<Rightarrow> es_Variables (e_Spec e) = fmempty
       | Some x \<Rightarrow> configmap_desired A (own, False, tn, EnvConfigMapName, es_Variables (e_Spec e), l) x) \<and>
      secrets_projected A secs own False (om_Namespace (e_meta e)) (es_SecretRefs (e_Spec e)) l
        (ob_Secrets v (tn, EnvSecretName)) \<and>
      gitops_result A v e tn s)"

definition env_phase_of :: "SyncStatus option \<Rightarrow> EnvironmentPhase" where
  "env_phase_of s = (case s of
     None \<Rightarrow> EnvironmentPhaseHealthy
   | Some sync \<Rightarrow>
       if ss_Phase sync = ''Synced'' then EnvironmentPhaseHealthy
       else if ss_Phase sync = ''Error'' then EnvironmentPhaseDegraded
       else EnvironmentPhaseSyncing)"

text \<open>The stored status says so.\<close>

definition env_reported :: "'w api \<Rightarrow> Tenant \<Rightarrow> Environment \<Rightarrow> SyncStatus option \<Rightarrow> obs \<Rightarrow> bool" where
  "env_reported A t e s v \<longleftrightarrow>
     (\<exists>e'. ob_Environments v (meta_key (e_meta e)) = Some e' \<and>
       (let st = e_Status e'; cs = est_Conditions st in
        est_Phase st = env_phase_of s \<and> est_TargetNamespace st = env_target t e \<and>
        est_ObservedGeneration st = om_Generation (e_meta e) \<and> est_LastReconcileTime st \<noteq> None \<and>
        (case s of None \<Rightarrow> est_Sync st = None
         | Some sync \<Rightarrow> \<exists>at. est_Sync st = Some (sync\<lparr>ss_LastSyncTime := Some at\<rparr>)) \<and>
        (es_Domain (e_Spec e) \<noteq> [] \<longrightarrow> est_URL st = ''https://'' @ es_Domain (e_Spec e)) \<and>
        cond_IsTrue A cs ConditionReady \<and> \<not> cond_IsTrue A cs ConditionProgressing \<and>
        (cond_Get A cs ConditionDegraded \<noteq> None \<longleftrightarrow> est_Phase st = EnvironmentPhaseDegraded) \<and>
        one_hot v (env_gauge e) (est_Phase st)))"

text \<open>The environment's expiry, if it has one, and the delay until the next look at it.\<close>

definition env_expiry :: "Environment \<Rightarrow> Time option" where
  "env_expiry e =
     (if es_Type (e_Spec e) = EnvironmentTypeEphemeral
      then map_option (time_add (om_CreationTimestamp (e_meta e))) (es_TTL (e_Spec e)) else None)"

definition env_delay :: "Time option \<Rightarrow> Time \<Rightarrow> Duration" where
  "env_delay expires now =
     (case expires of
        None \<Rightarrow> environmentResyncPeriod
      | Some t \<Rightarrow>
          let remaining = time_sub t now
          in if 0 < sint remaining \<and> sint remaining < sint environmentResyncPeriod then remaining
             else environmentResyncPeriod)"

definition env_expires :: "Environment \<Rightarrow> Time option" where
  "env_expires e = (case env_expiry e of Some t \<Rightarrow> Some t | None \<Rightarrow> est_ExpiresAt (e_Status e))"

lemma env_derivePhase_rule:
  assumes ok: "api_ok A V"
    and Q: "\<And>w' g cs sy. V w' = (V w)\<lparr>ob_Phase := g\<rparr> \<Longrightarrow>
       one_hot (V w') (env_gauge e) (env_phase_of s) \<Longrightarrow>
       (case s of None \<Rightarrow> sy = None | Some sync \<Rightarrow> \<exists>at. sy = Some (sync\<lparr>ss_LastSyncTime := Some at\<rparr>)) \<Longrightarrow>
       (cond_Get A cs ConditionDegraded \<noteq> None \<longleftrightarrow> env_phase_of s = EnvironmentPhaseDegraded) \<Longrightarrow>
       (\<And>u. u \<noteq> ConditionDegraded \<Longrightarrow> cond_Get A cs u = cond_Get A (est_Conditions (e_Status e)) u) \<Longrightarrow>
       Q (e\<lparr>e_Status := (e_Status e)\<lparr>est_Conditions := cs, est_Sync := sy, est_Phase := env_phase_of s\<rparr>\<rparr>) w'"
  shows "wp (env_derivePhase A e s gen) Q w"
proof -
  note cond = api_okD(7) [OF ok]
  let ?cs = "cond_Remove A (est_Conditions (e_Status e)) ConditionDegraded"
  have rem: "cond_Get A ?cs u = (if u = ConditionDegraded then None else cond_Get A (est_Conditions (e_Status e)) u)" for u
    by (rule conds.drop_find [OF cond])
  have swap: "st\<lparr>est_Conditions := cs, est_Sync := sy, est_Conditions := cs'\<rparr> = st\<lparr>est_Conditions := cs', est_Sync := sy\<rparr>"
    "st\<lparr>est_Sync := sy, est_Conditions := cs'\<rparr> = st\<lparr>est_Conditions := cs', est_Sync := sy\<rparr>" for st cs cs' sy
    by simp_all
  have phases: "EnvironmentPhaseHealthy \<noteq> EnvironmentPhaseDegraded" "EnvironmentPhaseSyncing \<noteq> EnvironmentPhaseDegraded"
    by (simp_all add: upo_consts)
  show ?thesis
  proof (cases s)
    case None
    have "env_phase_of s = EnvironmentPhaseHealthy" by (simp add: env_phase_of_def None)
    with None rem phases show ?thesis
      by (simp add: env_derivePhase_def) (rule env_reports.setPhase_rule [OF ok], use Q [of _ _ None ?cs] in simp)
  next
    case (Some sync)
    have set: "wp (env_setPhase A (e\<lparr>e_Status := (e_Status e)\<lparr>est_Conditions := cs,
          est_Sync := Some (sync\<lparr>ss_LastSyncTime := Some now\<rparr>)\<rparr>\<rparr>) (env_phase_of s)) Q u"
      if "V u = V w" "cond_Get A cs ConditionDegraded \<noteq> None \<longleftrightarrow> env_phase_of s = EnvironmentPhaseDegraded"
        "\<And>u. u \<noteq> ConditionDegraded \<Longrightarrow> cond_Get A cs u = cond_Get A (est_Conditions (e_Status e)) u" for u cs now
    proof (rule env_reports.setPhase_rule [OF ok], goal_cases)
      case (1 w' g)
      with that Some have "Q (e\<lparr>e_Status := (e_Status e)\<lparr>est_Conditions := cs,
          est_Sync := Some (sync\<lparr>ss_LastSyncTime := Some now\<rparr>), est_Phase := env_phase_of s\<rparr>\<rparr>) w'"
        by (intro Q) auto
      then show ?case by simp
    qed
    consider "ss_Phase sync = ''Error''" | "ss_Phase sync = ''Synced''" | "ss_Phase sync \<notin> {''Error'', ''Synced''}" by blast
    then show ?thesis
    proof cases
      case 1
      then have ph: "env_phase_of s = EnvironmentPhaseDegraded" by (simp add: env_phase_of_def Some)
      from 1 show ?thesis
        unfolding env_derivePhase_def Some option.case wp_simps
        by (intro wp_Now [OF api_okD(9) [OF ok]]) (simp, rule MarkTrue_rule [OF cond], use set ph rem in \<open>simp add: swap\<close>)
    next
      case 2
      then have ph: "env_phase_of s = EnvironmentPhaseHealthy" by (simp add: env_phase_of_def Some)
      from 2 show ?thesis
        unfolding env_derivePhase_def Some option.case wp_simps
        by (intro wp_Now [OF api_okD(9) [OF ok]]) (use set [of _ ?cs] ph rem phases in simp)
    next
      case 3
      then have ph: "env_phase_of s = EnvironmentPhaseSyncing" by (simp add: env_phase_of_def Some)
      from 3 show ?thesis
        unfolding env_derivePhase_def Some option.case wp_simps
        by (intro wp_Now [OF api_okD(9) [OF ok]]) (use set [of _ ?cs] ph rem phases in simp)
    qed
  qed
qed

lemma env_succeed_rule:
  assumes ok: "api_ok A V" and clock: "clock_in A C"
    and e1: "e_meta e1 = e_meta e" "e_Spec e1 = e_Spec e" "est_TargetNamespace (e_Status e1) = env_target t e"
      "cond_IsTrue A (est_Conditions (e_Status e1)) ConditionReady"
    and saved: "\<And>w' g m' now. V w' = (V w)\<lparr>ob_Phase := g,
         ob_Environments := (ob_Environments (V w))(meta_key (e_meta e) := m')\<rparr> \<Longrightarrow> env_reported A t e s (V w') \<Longrightarrow>
       C now \<Longrightarrow> Q (\<lparr>RequeueAfter = env_delay (est_ExpiresAt (e_Status e1)) now\<rparr>, None) w'"
    and unsaved: "\<And>w' g m' err. V w' = (V w)\<lparr>ob_Phase := g,
         ob_Environments := (ob_Environments (V w))(meta_key (e_meta e) := m')\<rparr> \<Longrightarrow> Q (no_requeue, Some err) w'"
  shows "wp (env_succeed A e1 s (om_Generation (e_meta e))) Q w"
proof -
  note cond = api_okD(7) [OF ok] and eff = api_okD(9) [OF ok]
  have ne: "ConditionDegraded \<noteq> ConditionProgressing" "ConditionDegraded \<noteq> ConditionReady"
    "ConditionProgressing \<noteq> ConditionReady" by (simp_all add: upo_consts)
  define e2 where "e2 = (if es_Domain (e_Spec e1) \<noteq> []
      then set_est (est_URL_update (\<lambda>_. ''https://'' @ es_Domain (e_Spec e1))) e1 else e1)"
  have e2: "e_meta e2 = e_meta e" "env_gauge e2 = env_gauge e" "est_TargetNamespace (e_Status e2) = env_target t e"
    "cond_IsTrue A (est_Conditions (e_Status e2)) ConditionReady"
    "est_ExpiresAt (e_Status e2) = est_ExpiresAt (e_Status e1)"
    "es_Domain (e_Spec e) \<noteq> [] \<Longrightarrow> est_URL (e_Status e2) = ''https://'' @ es_Domain (e_Spec e)"
    using e1 by (auto simp: e2_def env_gauge_def)
  obtain now0 where now0: "C now0"
    using clock wpD [of "Now A" "\<lambda>t _. C t" w] by (metis clock_in_def prod.collapse)
  show ?thesis
    unfolding env_succeed_def wp_simps e2_def [symmetric]
  proof (rule env_derivePhase_rule [OF ok], rule MarkFalse_rule [OF cond], rule env_reports.updateStatus_rule [OF ok], goal_cases)
    case (1 w1 g cs sy cs' w2 c x now w3)
    let ?e' = "x\<lparr>e_Status := env_stamp (om_Generation (e_meta e)) now
      ((e_Status e2)\<lparr>est_Sync := sy, est_Phase := env_phase_of s, est_Conditions := cs'\<rparr>)\<rparr>"
    from 1(1,6,11) e2(1) have V: "V w3 = (V w)\<lparr>ob_Phase := g,
        ob_Environments := (ob_Environments (V w))(meta_key (e_meta e) := Some ?e')\<rparr>" by simp
    have "ob_Phase (V w3) = ob_Phase (V w1)" by (simp add: V 1(1))
    with 1(2) e2(2) have hot: "one_hot (V w3) (env_gauge e) (env_phase_of s)" using one_hot_cong by metis
    have prog: "\<not> cond_IsTrue A cs' ConditionProgressing"
      using cond_IsTrue_says [OF cond 1(8,9)] by simp
    have ready: "cond_IsTrue A cs' ConditionReady"
      using e2(4) 1(5,7) ne by (simp add: cond_IsTrue_iff [OF cond])
    have rep: "env_reported A t e s (V w3)"
      unfolding env_reported_def
      by (rule exI [of _ ?e'])
        (use 1(3,4,7) e2 hot prog ready ne in \<open>auto simp: V Let_def split: option.splits\<close>)
    have fin: "Q (\<lparr>RequeueAfter = env_delay (est_ExpiresAt (e_Status e1)) n\<rparr>, None) w4" if "V w4 = V w3" "C n" for w4 n
      by (rule saved [where g = g]) (use that V rep in auto)
    show ?case
    proof (cases "est_ExpiresAt (e_Status e1)")
      case None
      with fin [OF refl now0] e2(5) show ?thesis by (simp add: env_delay_def)
    next
      case (Some t')
      have "wp (Now A) (\<lambda>n. Q (\<lparr>RequeueAfter = env_delay (Some t') n\<rparr>, None)) w3"
        by (rule wp_Now_in [OF eff clock]) (use fin Some in simp)
      with Some e2(5) show ?thesis by (simp add: env_delay_def Let_def)
    qed
  next
    case (2 w1 g cs sy cs' w2 c err y m' w3)
    with e2(1) have "Q (no_requeue, Some err) w3" by (intro unsaved [where g = g and m' = m']) simp
    then show ?case by simp
  qed
qed

lemma env_enforceTTL_rule:
  assumes ok: "api_ok A V" and clock: "clock_in A C"
    and alive: "\<And>w'. V w' = V w \<Longrightarrow>
       (\<And>t. env_expiry e = Some t \<Longrightarrow> \<exists>now. C now \<and> now < t) \<Longrightarrow>
       Q (None, e\<lparr>e_Status := (e_Status e)\<lparr>est_ExpiresAt := env_expires e\<rparr>\<rparr>) w'"
    and expired: "\<And>err e' w' m' msg t now. V w' = (V w)\<lparr>ob_Events := ob_Events (V w) @
           [mk_event (env_ref e) EventTypeNormal ''Expired'' msg],
         ob_Environments := (ob_Environments (V w))(meta_key (e_meta e) := m')\<rparr> \<Longrightarrow>
       env_expiry e = Some t \<Longrightarrow> C now \<Longrightarrow> t \<le> now \<Longrightarrow>
       (err = None \<Longrightarrow> (\<forall>y. m' = Some y \<longrightarrow> om_DeletionTimestamp (e_meta y) \<noteq> None)) \<Longrightarrow>
       Q (Some (no_requeue, err), e') w'"
  shows "wp (env_enforceTTL A e) Q w"
proof (cases "env_expiry e")
  case None
  then have "(if es_Type (e_Spec e) = EnvironmentTypeEphemeral then es_TTL (e_Spec e) else None) = None"
    by (simp add: env_expiry_def split: if_splits)
  moreover from None have "e\<lparr>e_Status := (e_Status e)\<lparr>est_ExpiresAt := env_expires e\<rparr>\<rparr> = e"
    by (simp add: env_expires_def)
  ultimately show ?thesis using alive [of w] None by (simp add: env_enforceTTL_def)
next
  case (Some t)
  then obtain ttl where ttl: "es_Type (e_Spec e) = EnvironmentTypeEphemeral" "es_TTL (e_Spec e) = Some ttl"
    and t: "t = time_add (om_CreationTimestamp (e_meta e)) ttl" by (auto simp: env_expiry_def split: if_splits)
  from ok have del: "delete_ok V ob_Environments ob_Environments_update e_meta (api_Environments A)"
    by (simp add: api_ok_def resources_ok_def)
  show ?thesis
    unfolding env_enforceTTL_def ttl simp_thms if_True option.case wp_simps t [symmetric]
  proof (rule wp_Now_in [OF api_okD(9) [OF ok] clock], goal_cases)
    case (1 now w1)
    show ?case
    proof (cases "now < t")
      case True
      with 1 Some alive [of w1] show ?thesis by (auto simp: env_expires_def)
    next
      case False
      let ?msg = "''Ephemeral environment reached its TTL ('' @ dur_string ttl @ ''); deleting''"
      let ?e = "e\<lparr>e_Status := (e_Status e)\<lparr>est_ExpiresAt := Some t\<rparr>\<rparr>"
      have gone: "Q (Some (no_requeue, err), e') w2"
        if "V w2 = (V w)\<lparr>ob_Events := ob_Events (V w) @ [mk_event (env_ref e) EventTypeNormal ''Expired'' ?msg],
          ob_Environments := (ob_Environments (V w))(meta_key (e_meta e) := m')\<rparr>"
          "err = None \<Longrightarrow> (\<forall>y. m' = Some y \<longrightarrow> om_DeletionTimestamp (e_meta y) \<noteq> None)" for err m' w2 e'
        using that False 1 Some by (intro expired [where m' = m' and t = t and now = now and msg = ?msg]) auto
      have "wp (Eventf A (env_ref ?e) EventTypeNormal ''Expired'' ?msg)
          (\<lambda>_. wp (kc_Delete (api_Environments A) ?e) (\<lambda>err. case err of
             Some x \<Rightarrow> if \<not> IsNotFound x then Q (Some (no_requeue, Some x), ?e) else Q (Some (no_requeue, None), ?e)
           | None \<Rightarrow> Q (Some (no_requeue, None), ?e))) w1"
      proof (rule wp_Eventf [OF api_okD(9) [OF ok]], rule wp_delete [OF del], goal_cases)
        case (1 w2 m' w3)
        with \<open>V w1 = V w\<close> have "Q (Some (no_requeue, None), ?e) w3" by (intro gone [where m' = m']) auto
        then show ?case by simp
      next
        case (2 w2 err m' w3)
        with \<open>V w1 = V w\<close> have "Q (Some (no_requeue, if IsNotFound err then None else Some err), ?e) w3"
          by (intro gone [where m' = m']) (auto split: if_splits)
        then show ?case by (cases "IsNotFound err") simp_all
      qed
      with False show ?thesis by (simp cong: option.case_cong)
    qed
  qed
qed

text \<open>The stored status of an environment that is not being provisioned.\<close>

definition env_waiting :: "'w api \<Rightarrow> Environment \<Rightarrow> EnvironmentPhase \<Rightarrow> string \<Rightarrow> obs \<Rightarrow> bool" where
  "env_waiting A e phase reason v \<longleftrightarrow> one_hot v (env_gauge e) phase \<and>
     (\<exists>e' c. ob_Environments v (meta_key (e_meta e)) = Some e' \<and> est_Phase (e_Status e') = phase \<and>
        cond_Get A (est_Conditions (e_Status e')) ConditionReady = Some c \<and>
        c_Status c = ConditionFalse \<and> c_Reason c = reason)"

lemma env_wait:
  assumes "v' = ob_Environments_update (\<lambda>m. m(meta_key (e_meta e) \<mapsto>
       s\<lparr>e_Status := env_stamp gen now ((e_Status e)\<lparr>est_Conditions := cs, est_Phase := p\<rparr>)\<rparr>)) (v\<lparr>ob_Phase := g\<rparr>)"
    and "cond_Get A cs ConditionReady = Some c" "says c = (ConditionFalse, effective_reason reason, msg, gen)"
    and "one_hot v' (env_gauge e) p"
  shows "env_waiting A e p (effective_reason reason) v'" "env_only e v v'"
  using assms by (auto simp: env_waiting_def env_only_def says_def)

lemma env_blockOnDependency_rule:
  assumes ok: "api_ok A V"
    and saved: "\<And>w'. env_only e (V w) (V w') \<Longrightarrow>
       env_waiting A e EnvironmentPhasePending ReasonDependencyNotMet (V w') \<Longrightarrow>
       Q (\<lparr>RequeueAfter = 15 * Second\<rparr>, None) w'"
    and unsaved: "\<And>err w'. env_only e (V w) (V w') \<Longrightarrow> Q (no_requeue, Some err) w'"
  shows "wp (env_blockOnDependency A e msg) Q w"
proof -
  have eff: "effective_reason ReasonDependencyNotMet = ReasonDependencyNotMet"
    by (simp add: effective_reason_def upo_consts)
  show ?thesis
    unfolding env_blockOnDependency_def wp_simps
  proof (rule env_reports.not_ready_rule [OF ok], goal_cases)
    case (2 w' g s cs c now)
    from env_wait [OF 2(1-4)] saved eff show ?case by simp
  next
    case (3 w' g m' err y)
    then have "Q (no_requeue, Some err) w'" by (intro unsaved) (simp add: env_only_def)
    then show ?case by simp
  qed simp
qed

lemma env_footprint_trans:
  "env_footprint e tn v v' \<Longrightarrow> v'' = v'\<lparr>ob_Phase := g, ob_Events := ob_Events v' @ es,
     ob_Environments := (ob_Environments v')(meta_key (e_meta e) := m)\<rparr> \<Longrightarrow> env_footprint e tn v v''"
  by (auto simp: env_footprint_def)

lemma gitops_result_cong: "ob_Unstructured v = ob_Unstructured v' \<Longrightarrow> gitops_result A v = gitops_result A v'"
proof -
  assume "ob_Unstructured v = ob_Unstructured v'"
  then have "delivered v = delivered v'" by (intro ext) (simp add: delivered_def unst_sel_def)
  then show ?thesis by (intro ext) (simp only: gitops_result_def)
qed

lemma env_provisioned_trans:
  "env_provisioned A t e secs s v \<Longrightarrow> v' = v\<lparr>ob_Phase := g, ob_Events := es, ob_Environments := m\<rparr> \<Longrightarrow>
   env_provisioned A t e secs s v'"
  using gitops_result_cong [of v' v A] by (simp add: env_provisioned_def Let_def)

lemma gitops_status:
  assumes "e_meta e' = e_meta e" "e_Spec e' = e_Spec e"
  shows "only_gitops e' = only_gitops e" "gitops_result A v e' = gitops_result A v e"
  using assms
  by (intro ext, simp add: only_gitops_def gitops_key_def,
      intro ext, simp add: gitops_result_def delivered_def gitops_key_def gitopsLabels_def env_ref_def argo_spec_def
        flux_ks_spec_def)

lemma env_provision_rule:
  assumes ok: "api_ok A V" and clock: "clock_in A C" and e0: "e_meta e0 = e_meta e" "e_Spec e0 = e_Spec e"
    and saved: "\<And>w' s now. env_footprint e (env_target t e) (V w) (V w') \<Longrightarrow>
       env_provisioned A t e (ob_Secrets (V w)) s (V w') \<Longrightarrow> env_reported A t e s (V w') \<Longrightarrow> C now \<Longrightarrow>
       Q (\<lparr>RequeueAfter = env_delay (est_ExpiresAt (e_Status e0)) now\<rparr>, None) w'"
    and unsaved: "\<And>w' s err. env_footprint e (env_target t e) (V w) (V w') \<Longrightarrow>
       env_provisioned A t e (ob_Secrets (V w)) s (V w') \<Longrightarrow> Q (no_requeue, Some err) w'"
    and failed: "\<And>w' err. env_footprint e (env_target t e) (V w) (V w') \<Longrightarrow>
       env_reports.warning e err (V w') \<Longrightarrow> Q (no_requeue, Some err) w'"
  shows "wp (env_provision A e0 t (om_Generation (e_meta e))) Q w"
proof -
  note cond = api_okD(7) [OF ok]
  let ?tn = "env_target t e"
  have refs: "env_ref (e0\<lparr>e_Status := st\<rparr>) = env_ref e" "env_gauge (e0\<lparr>e_Status := st\<rparr>) = env_gauge e"
    "env_labels t (e0\<lparr>e_Status := st\<rparr>) = env_labels t e" for st
    using e0 by (simp_all add: env_ref_def env_gauge_def env_labels_def)
  have refs0: "env_ref e0 = env_ref e" using e0 by (simp add: env_ref_def)
  have tn: "tst_Namespace (t_Status t) @ CHR ''-'' # om_Name (e_meta e) = ?tn" by (simp add: env_target_def)
  have fail: "wp (env_fail A e' reason cause) Q u"
    if "env_footprint e ?tn (V w) (V u)" "e_meta e' = e_meta e" for e' reason cause u
  proof (rule env_reports.fail_rule [OF ok], goal_cases)
    case (1 w' g m')
    with that have V: "V w' = (V u)\<lparr>ob_Phase := g, ob_Events := ob_Events (V u) @
        [mk_event (env_ref e) EventTypeWarning reason (Error cause)],
        ob_Environments := (ob_Environments (V u))(meta_key (e_meta e) := m')\<rparr>" by (simp add: env_ref_def)
    then have "ob_Events (V w') = ob_Events (V u) @ [mk_event (env_ref e) EventTypeWarning reason (Error cause)]" by simp
    then have "\<exists>r es. ob_Events (V w') = es @ [mk_event (env_ref e) EventTypeWarning r (Error cause)]" by blast
    with 1 that have "env_reports.warning e cause (V w')"
      by (simp add: env_reports.warning_def env_gauge_def)
    with env_footprint_trans [OF that(1) V] show ?case by (rule failed)
  qed
  have gitops_foot: "env_footprint e ?tn (V w) v'" if "env_footprint e ?tn (V w) v" "only_gitops e v v'" for v v'
  proof -
    from that(2) have "v'\<lparr>ob_Unstructured := ob_Unstructured v\<rparr> = v" by (simp add: only_gitops_def)
    then have v: "v = v'\<lparr>ob_Unstructured := ob_Unstructured v\<rparr>" by simp
    have un: "ob_Unstructured v g k = ob_Unstructured (V w) g k \<and> ob_Unstructured v' g k = ob_Unstructured v g k \<or>
        k = gitops_key e \<and> g \<in> {argoApplicationGVK, fluxKustomizeGVK, fluxGitRepoGVK}" for g k
      using that unfolding env_footprint_def only_gitops_def by blast
    have "env_footprint e ?tn (V w) (v'\<lparr>ob_Unstructured := ob_Unstructured v\<rparr>)"
      using that(1) v by simp
    then show ?thesis unfolding env_footprint_def using un by simp metis
  qed
  show ?thesis
  proof (simp add: env_provision_def e0 refs tn, rule MarkTrue_rule [OF cond], rule ReconcileNamespace_rule [OF ok],
      simp only: sum.case wp_simps, rule ReconcileResourceQuota_rule [OF ok],
      simp only: sum.case wp_simps, rule ReconcileConfigMap_rule [OF ok],
      simp only: sum.case wp_simps, rule ProjectSecrets_rule [OF ok],
      simp only: sum.case wp_simps, rule MarkTrue_rule [OF cond], rule ReconcileGitOps_rule [OF ok],
      simp only: sum.case wp_simps, goal_cases)
    case (1 cs w1 c r1 x w2 r2 q w3 r3 cm w4 r4 w5 sec cs2 w6 c2 s w7)
    let ?e = "e0\<lparr>e_Status := (e_Status e0)\<lparr>est_TargetNamespace := ?tn, est_Conditions := cs2\<rparr>\<rparr>"
    have git: "only_gitops e (V w6) (V w7)" "gitops_result A (V w7) e ?tn s"
      using 1(13,17,18) gitops_status(1) [of ?e e] gitops_status(2) [of ?e e A "V w7"] e0 by simp_all
    have "env_footprint e ?tn (V w) (V w6)" using 1(1,5,7,9,11,13) by (simp add: env_footprint_def)
    then have foot: "env_footprint e ?tn (V w) (V w7)" using git(1) by (rule gitops_foot)
    have same: "ob_Namespaces (V w7) = ob_Namespaces (V w6)" "ob_ResourceQuotas (V w7) = ob_ResourceQuotas (V w6)"
      "ob_ConfigMaps (V w7) = ob_ConfigMaps (V w6)" "ob_Secrets (V w7) = ob_Secrets (V w6)"
      using git(1) by (auto simp: only_gitops_def dest: arg_cong [where f = ob_Namespaces]
          arg_cong [where f = ob_ResourceQuotas] arg_cong [where f = ob_ConfigMaps] arg_cong [where f = ob_Secrets])
    have prov: "env_provisioned A t e (ob_Secrets (V w)) s (V w7)"
      unfolding env_provisioned_def Let_def same using 1(5-13) git refs0 by (auto split: option.splits)
    have ready: "cond_IsTrue A cs2 ConditionReady" using cond_IsTrue_says [OF cond 1(15,16)] by simp
    show ?case
    proof (rule env_succeed_rule [OF ok clock, where e = e and t = t], goal_cases)
      case (5 w' g m' now)
      from 5(1) have V: "V w' = (V w7)\<lparr>ob_Phase := g, ob_Events := ob_Events (V w7) @ [],
          ob_Environments := (ob_Environments (V w7))(meta_key (e_meta e) := m')\<rparr>" by simp
      from saved [OF env_footprint_trans [OF foot V] env_provisioned_trans [OF prov V] 5(2,3)] show ?case by simp
    next
      case (6 w' g m' err)
      then have V: "V w' = (V w7)\<lparr>ob_Phase := g, ob_Events := ob_Events (V w7) @ [],
          ob_Environments := (ob_Environments (V w7))(meta_key (e_meta e) := m')\<rparr>" by simp
      from unsaved [OF env_footprint_trans [OF foot V] env_provisioned_trans [OF prov V]] show ?case .
    qed (use e0 ready in simp_all)
  next
    case (2 cs w1 c r1 x w2 r2 q w3 r3 cm w4 r4 w5 sec cs2 w6 c2 err w7)
    let ?e = "e0\<lparr>e_Status := (e_Status e0)\<lparr>est_TargetNamespace := ?tn, est_Conditions := cs2\<rparr>\<rparr>"
    have git: "only_gitops e (V w6) (V w7)" using 2(13,17) gitops_status(1) [of ?e e] e0 by simp
    have "env_footprint e ?tn (V w) (V w6)" using 2(1,5,7,9,11,13) by (simp add: env_footprint_def)
    then have "env_footprint e ?tn (V w) (V w7)" using git by (rule gitops_foot)
    then show ?case unfolding sum.case by (rule fail) (simp add: e0)
  qed (auto simp: env_footprint_def e0 intro!: fail)
qed

text \<open>The environment's tenant, once it has a namespace.\<close>

definition owner_ready :: "obs \<Rightarrow> Environment \<Rightarrow> Tenant \<Rightarrow> bool" where
  "owner_ready v e t \<longleftrightarrow> ob_Tenants v ([], tr_Name (es_TenantRef (e_Spec e))) = Some t \<and>
     tst_Namespace (t_Status t) \<noteq> []"

text \<open>The environment has been told to go: an event says so, and it is gone or terminating.\<close>

definition env_expired :: "Environment \<Rightarrow> obs \<Rightarrow> obs \<Rightarrow> bool" where
  "env_expired e v v' \<longleftrightarrow>
     (\<exists>msg. ob_Events v' = ob_Events v @ [mk_event (env_ref e) EventTypeNormal ''Expired'' msg]) \<and>
     (\<forall>e'. ob_Environments v' (meta_key (e_meta e)) = Some e' \<longrightarrow> om_DeletionTimestamp (e_meta e') \<noteq> None)"

lemma env_reconcileEnvironment_rule:
  assumes ok: "api_ok A V" and clock: "clock_in A C"
    and suspended: "\<And>w'. es_Suspend (e_Spec e) \<Longrightarrow> env_only e (V w) (V w') \<Longrightarrow>
       env_waiting A e EnvironmentPhaseSuspended ReasonSuspended (V w') \<Longrightarrow> Q (no_requeue, None) w'"
    and unread: "\<And>err w'. V w' = V w \<Longrightarrow> Q (no_requeue, Some err) w'"
    and error: "\<And>err w'. es_Suspend (e_Spec e) \<or> (\<nexists>t. owner_ready (V w) e t) \<or> env_expiry e \<noteq> None \<Longrightarrow>
       env_only e (V w) (V w') \<Longrightarrow> Q (no_requeue, Some err) w'"
    and blocked: "\<And>w'. \<not> es_Suspend (e_Spec e) \<Longrightarrow> \<nexists>t. owner_ready (V w) e t \<Longrightarrow> env_only e (V w) (V w') \<Longrightarrow>
       env_waiting A e EnvironmentPhasePending ReasonDependencyNotMet (V w') \<Longrightarrow>
       Q (\<lparr>RequeueAfter = 15 * Second\<rparr>, None) w'"
    and expired: "\<And>t x now w'. \<not> es_Suspend (e_Spec e) \<Longrightarrow> owner_ready (V w) e t \<Longrightarrow> env_expiry e = Some x \<Longrightarrow>
       C now \<Longrightarrow> x \<le> now \<Longrightarrow> env_only e (V w) (V w') \<Longrightarrow> env_expired e (V w) (V w') \<Longrightarrow> Q (no_requeue, None) w'"
    and saved: "\<And>t s now w'. \<not> es_Suspend (e_Spec e) \<Longrightarrow> owner_ready (V w) e t \<Longrightarrow>
       (\<And>x. env_expiry e = Some x \<Longrightarrow> \<exists>now. C now \<and> now < x) \<Longrightarrow>
       env_footprint e (env_target t e) (V w) (V w') \<Longrightarrow>
       env_provisioned A t e (ob_Secrets (V w)) s (V w') \<Longrightarrow> env_reported A t e s (V w') \<Longrightarrow> C now \<Longrightarrow>
       Q (\<lparr>RequeueAfter = env_delay (env_expires e) now\<rparr>, None) w'"
    and unsaved: "\<And>t s err w'. \<not> es_Suspend (e_Spec e) \<Longrightarrow> owner_ready (V w) e t \<Longrightarrow> (\<And>x. env_expiry e = Some x \<Longrightarrow> \<exists>now. C now \<and> now < x) \<Longrightarrow>
       env_footprint e (env_target t e) (V w) (V w') \<Longrightarrow>
       env_provisioned A t e (ob_Secrets (V w)) s (V w') \<Longrightarrow> Q (no_requeue, Some err) w'"
    and failed: "\<And>t err w'. \<not> es_Suspend (e_Spec e) \<Longrightarrow> owner_ready (V w) e t \<Longrightarrow> (\<And>x. env_expiry e = Some x \<Longrightarrow> \<exists>now. C now \<and> now < x) \<Longrightarrow>
       env_footprint e (env_target t e) (V w) (V w') \<Longrightarrow>
       env_reports.warning e err (V w') \<Longrightarrow> Q (no_requeue, Some err) w'"
  shows "wp (env_reconcileEnvironment A e) Q w"
proof (cases "es_Suspend (e_Spec e)")
  case True
  have eff: "effective_reason ReasonSuspended = ReasonSuspended" by (simp add: effective_reason_def upo_consts)
  show ?thesis
  proof (simp only: env_reconcileEnvironment_def Let_def True if_True wp_simps,
      rule env_reports.not_ready_rule [OF ok], goal_cases)
    case (2 w' g s cs c now)
    from env_wait [OF 2(1-4)] suspended [OF True] eff show ?case by simp
  next
    case (3 w' g m' err y)
    then have "Q (no_requeue, Some err) w'" by (intro error) (simp_all add: env_only_def True)
    then show ?case by simp
  qed simp
next
  case alive: False
  from ok have get: "get_ok V ob_Tenants t_meta (api_Tenants A)" by (simp add: api_ok_def reads_ok_def)
  show ?thesis
  proof (simp only: env_reconcileEnvironment_def Let_def alive if_False wp_simps, rule wp_get [OF get], goal_cases)
    case (1 t w1)
    show ?case
    proof (cases "tst_Namespace (t_Status t) = []")
      case True
      with 1 have "\<nexists>t. owner_ready (V w) e t" by (auto simp: owner_ready_def)
      with True 1 blocked [OF alive] error show ?thesis
        by (simp only: sum.case if_True True) (rule env_blockOnDependency_rule [OF ok], simp_all)
    next
      case False
      with 1 have ready: "owner_ready (V w) e t" by (simp add: owner_ready_def)
      show ?thesis
      proof (simp only: sum.case if_False False, rule env_enforceTTL_rule [OF ok clock], goal_cases)
        case (1 w2)
        let ?e = "e\<lparr>e_Status := (e_Status e)\<lparr>est_ExpiresAt := env_expires e\<rparr>\<rparr>"
        have V: "V w2 = V w" using 1(1) \<open>V w1 = V w\<close> by simp
        have "wp (env_provision A ?e t (om_Generation (e_meta e))) Q w2"
          by (rule env_provision_rule [OF ok clock, where e = e])
            (use V 1(2) saved [OF alive ready] unsaved [OF alive ready] failed [OF alive ready] in simp_all)
        then show ?case by simp
      next
        case (2 err e' w2 m' msg x now)
        then have only: "env_only e (V w) (V w2)" using \<open>V w1 = V w\<close> by (simp add: env_only_def)
        show ?case
        proof (cases err)
          case None
          with 2 have "env_expired e (V w) (V w2)" using \<open>V w1 = V w\<close> by (auto simp: env_expired_def)
          with None expired [OF alive ready 2(2,3,4) only] show ?thesis by simp
        next
          case (Some er)
          with error [OF _ only] 2(2) show ?thesis by simp
        qed
      qed
    qed
  next
    case (2 err w1)
    show ?case
    proof (cases "IsNotFound err")
      case True
      with 2 have "\<nexists>t. owner_ready (V w) e t" by (auto simp: owner_ready_def)
      with True 2 blocked [OF alive] error show ?thesis
        by (simp only: sum.case if_True) (rule env_blockOnDependency_rule [OF ok], simp_all)
    next
      case False
      with 2 unread show ?thesis by simp
    qed
  qed
qed

section \<open>Deletion\<close>

text \<open>Nothing of the environment is left behind: no delivery object, and the workload namespace gone
  or on its way out.\<close>

definition env_torn_down :: "Environment \<Rightarrow> obs \<Rightarrow> bool" where
  "env_torn_down e v \<longleftrightarrow>
     (\<forall>g \<in> {argoApplicationGVK, fluxKustomizeGVK, fluxGitRepoGVK}. ob_Unstructured v g (gitops_key e) = None) \<and>
     (est_TargetNamespace (e_Status e) \<noteq> [] \<longrightarrow> gone_or_terminating v (est_TargetNamespace (e_Status e)))"

definition env_teardown_footprint :: "Environment \<Rightarrow> obs \<Rightarrow> obs \<Rightarrow> bool" where
  "env_teardown_footprint e v v' \<longleftrightarrow>
     v'\<lparr>ob_Phase := ob_Phase v, ob_Environments := ob_Environments v, ob_Namespaces := ob_Namespaces v,
        ob_Unstructured := ob_Unstructured v\<rparr> = v \<and>
     only_at {meta_key (e_meta e)} (ob_Environments v) (ob_Environments v') \<and>
     only_at {([], est_TargetNamespace (e_Status e))} (ob_Namespaces v) (ob_Namespaces v') \<and>
     (\<forall>g k. ob_Unstructured v' g k \<noteq> ob_Unstructured v g k \<longrightarrow>
        k = gitops_key e \<and> g \<in> {argoApplicationGVK, fluxKustomizeGVK, fluxGitRepoGVK})"

lemma only_gitops_eq: "only_gitops e v v' \<Longrightarrow> v' = v\<lparr>ob_Unstructured := ob_Unstructured v'\<rparr>"
  by (cases v; cases v') (simp add: only_gitops_def)

lemma env_teardown_rule:
  assumes ok: "api_ok A V"
    and None: "\<And>w' n u. V w' = (V w)\<lparr>ob_Namespaces := n, ob_Unstructured := u\<rparr> \<Longrightarrow>
       env_teardown_footprint e (V w) (V w') \<Longrightarrow> env_torn_down e (V w') \<Longrightarrow> Q None w'"
    and Some: "\<And>err w' n u. V w' = (V w)\<lparr>ob_Namespaces := n, ob_Unstructured := u\<rparr> \<Longrightarrow>
       env_teardown_footprint e (V w) (V w') \<Longrightarrow> Q (Some (no_requeue, Some err)) w'"
  shows "wp (env_teardown A e) Q w"
  unfolding env_teardown_def wp_simps
proof (rule DeleteGitOps_rule [OF ok], goal_cases)
  case (1 w1)
  let ?tn = "est_TargetNamespace (e_Status e)"
  from only_gitops_eq [OF 1(1)] obtain u where V1: "V w1 = (V w)\<lparr>ob_Unstructured := u\<rparr>" by blast
  with 1(1) have foot: "\<forall>g k. u g k \<noteq> ob_Unstructured (V w) g k \<longrightarrow>
      k = gitops_key e \<and> g \<in> {argoApplicationGVK, fluxKustomizeGVK, fluxGitRepoGVK}" by (simp add: only_gitops_def)
  show ?case
  proof (cases "?tn = []")
    case True
    have "Q None w1"
      by (rule None [where n = "ob_Namespaces (V w)" and u = u])
        (use V1 foot 1(2) True in \<open>simp_all add: env_teardown_footprint_def env_torn_down_def\<close>)
    with True show ?thesis by simp
  next
    case False
    have "wp (EnsureNamespaceDeleted A ?tn) (\<lambda>(gone, err). case err of
        Some e \<Rightarrow> Q (Some (no_requeue, Some e))
      | None \<Rightarrow> if \<not> gone then Q (Some (\<lparr>RequeueAfter = 5 * Second\<rparr>, None)) else Q None) w1"
    proof (rule EnsureNamespaceDeleted_rule [OF ok], goal_cases)
      case (1 w2 x)
      have "Q None w2"
        by (rule None [where n = "(ob_Namespaces (V w))(([], ?tn) := x)" and u = u])
          (use 1 V1 foot \<open>\<And>g. g \<in> _ \<Longrightarrow> ob_Unstructured (V w1) g (gitops_key e) = None\<close> in
            \<open>simp_all add: env_teardown_footprint_def env_torn_down_def gone_or_terminating_def\<close>)
      then show ?case by simp
    next
      case (2 err w2 x)
      have "Q (Some (no_requeue, Some err)) w2"
        by (rule Some [where n = "(ob_Namespaces (V w))(([], ?tn) := x)" and u = u])
          (use 2 V1 foot in \<open>simp_all add: env_teardown_footprint_def\<close>)
      then show ?case by simp
    qed
    with False show ?thesis by simp
  qed
next
  case (2 err w1)
  from only_gitops_eq [OF 2] obtain u where V1: "V w1 = (V w)\<lparr>ob_Unstructured := u\<rparr>" by blast
  have "Q (Some (no_requeue, Some err)) w1"
    by (rule Some [where n = "ob_Namespaces (V w)" and u = u])
      (use V1 2 in \<open>simp_all add: env_teardown_footprint_def only_gitops_def\<close>)
  then show ?case by simp
qed

lemma env_finalize_rule:
  assumes ok: "api_ok A V" and stored: "ob_Environments (V w) (meta_key (e_meta e)) = Some e"
    and foreign: "EnvironmentFinalizer \<notin> set (om_Finalizers (e_meta e)) \<Longrightarrow> Q (no_requeue, None) w"
    and released: "\<And>w'. env_teardown_footprint e (V w) (V w') \<Longrightarrow> env_torn_down e (V w') \<Longrightarrow>
       no_series (V w') (env_gauge e) \<Longrightarrow> \<not> env_releases.held e (V w') \<Longrightarrow> Q (no_requeue, None) w'"
    and failed: "\<And>err w'. env_teardown_footprint e (V w) (V w') \<Longrightarrow>
       env_torn_down e (V w') \<or> env_releases.held e (V w') \<Longrightarrow> Q (no_requeue, Some err) w'"
  shows "wp (env_finalize A e) Q w"
proof (cases "EnvironmentFinalizer \<in> set (om_Finalizers (e_meta e))")
  case False
  then show ?thesis
    by (simp add: env_finalize_def finalizers_okD [OF api_okD(6) [OF ok]] foreign)
next
  case True
  let ?e = "e\<lparr>e_Status := (e_Status e)\<lparr>est_Phase := EnvironmentPhaseTerminating\<rparr>\<rparr>"
  have same: "gitops_key ?e = gitops_key e" "env_torn_down ?e = env_torn_down e"
    "env_teardown_footprint ?e = env_teardown_footprint e" "env_releases.held ?e = env_releases.held e"
    by (intro ext | simp add: gitops_key_def env_torn_down_def env_teardown_footprint_def env_releases.held_def)+
  show ?thesis
    unfolding env_finalize_def finalizers_okD [OF api_okD(6) [OF ok]] not_not True if_False wp_simps
  proof (simp add: True, rule env_reports.setPhase_rule [OF ok], rule env_teardown_rule [OF ok], goal_cases)
    case (1 w1 g w2 n u)
    then have V: "V w2 = (V w)\<lparr>ob_Phase := g, ob_Namespaces := n, ob_Unstructured := u\<rparr>"
      and foot: "env_teardown_footprint e (V w1) (V w2)" and down: "env_torn_down e (V w2)" by (simp_all add: same)
    have after: "env_teardown_footprint e (V w) v \<and> env_torn_down e v"
      if "v = ob_Environments_update (\<lambda>s. s(meta_key (e_meta e) := m)) ((V w2)\<lparr>ob_Phase := g'\<rparr>)" for v g' m
      using foot down 1(1) V by (simp add: that env_teardown_footprint_def env_torn_down_def gone_or_terminating_def)
    show ?case
      unfolding option.case
    proof (rule env_releases.release_rule [OF ok], goal_cases)
      case (1 w3 g' m)
      with after [of "V w3" m g'] show ?case by (intro released) (simp_all add: same)
    next
      case (2 w3 g' m err)
      with after [of "V w3" m g'] show ?case by (intro failed) simp_all
    qed
  next
    case (2 w1 g err w2 n u)
    then have "env_teardown_footprint e (V w) (V w2)" by (simp add: same env_teardown_footprint_def)
    moreover have "env_releases.held e (V w2)" using 2 stored True by (simp add: env_releases.held_def)
    ultimately show ?case unfolding option.case by (intro failed) simp_all
  qed
qed

section \<open>The controller contract\<close>

interpretation environments: controller environmentControllerName ob_Environments ob_Environments_update e_meta e_Spec
    "\<lambda>fs e. e\<lparr>e_meta := (e_meta e)\<lparr>om_Finalizers := fs\<rparr>\<rparr>" api_Environments EnvironmentFinalizer
    "\<lambda>req. (environmentControllerName, fst req, snd req)" env_finalize env_reconcileEnvironment env_Reconcile
proof (unfold_locales, goal_cases)
  case (1 A req)
  show ?case by (simp only: env_Reconcile_def skeleton_def clear_phase_def prod.case)
next
  case (2 A V)
  then show ?case by (simp add: api_ok_def reads_ok_def resources_ok_def)
next
  case (10 A V w x)
  show ?case
    by (rule env_finalize_rule [OF 10])
      (auto simp: env_teardown_footprint_def dest!: arg_cong [of _ _ ob_ReconcileTotal])
next
  case (11 A V w x)
  show ?case
    by (rule env_reconcileEnvironment_rule [OF 11(1) clock_any])
      (auto simp: env_footprint_def env_only_def dest!: arg_cong [of _ _ ob_ReconcileTotal])
qed simp_all

section \<open>Properties\<close>

text \<open>An environment under Argo CD whose tenant has its namespace, and an ephemeral one.\<close>

definition owning_tenant :: Tenant where
  "owning_tenant =
     \<lparr>t_meta = new_meta [] ''acme'',
      t_Spec = \<lparr>ts_DisplayName = ''Acme'', ts_Tier = TenantTierStandard, ts_NamespacePrefix = ''tenant'',
        ts_Quota = None, ts_Limits = None, ts_NetworkIsolation = NetworkIsolationBaseline,
        ts_Admins = [], ts_ExtraLabels = fmempty,
        ts_Lifecycle = \<lparr>lp_Suspended = True, lp_DeletionPolicy = DeletionPolicyDelete\<rparr>\<rparr>,
      t_Status = \<lparr>tst_Phase = TenantPhaseSuspended, tst_Conditions = [], tst_ObservedGeneration = 0,
        tst_Namespace = ''tenant-acme'', tst_EnvironmentCount = 1, tst_IntegrationCount = 0,
        tst_LastReconcileTime = None\<rparr>\<rparr>"

definition live_env :: Environment where
  "live_env = argo_env\<lparr>e_meta := (e_meta argo_env)\<lparr>om_Generation := 2, om_Finalizers := [EnvironmentFinalizer]\<rparr>\<rparr>"

definition ephemeral_env :: Environment where
  "ephemeral_env = live_env\<lparr>e_Spec := (e_Spec live_env)\<lparr>es_Type := EnvironmentTypeEphemeral, es_TTL := Some (60 * Minute)\<rparr>\<rparr>"

definition env_world :: "Environment \<Rightarrow> mworld" where
  "env_world e = mw_empty\<lparr>mw_Tenants := [(([], ''acme''), owning_tenant)], mw_Environments := [(meta_key (e_meta e), e)]\<rparr>"

lemma env_world_ready: "tr_Name (es_TenantRef (e_Spec e)) = ''acme'' \<Longrightarrow> owner_ready (m_obs (env_world e)) e owning_tenant"
  by (simp add: owner_ready_def m_obs_def env_world_def owning_tenant_def)

text \<open>The next look at an environment is due within the resync period.\<close>

lemma env_delay_bounds: "0 < sint (env_delay x now)" "sint (env_delay x now) \<le> sint environmentResyncPeriod"
proof -
  have "0 < sint environmentResyncPeriod" by (simp add: environmentResyncPeriod_def Minute_def Second_def)
  then show "0 < sint (env_delay x now)" "sint (env_delay x now) \<le> sint environmentResyncPeriod"
    by (auto simp: env_delay_def Let_def split: option.split)
qed

lemma env_delay_before:
  assumes "now < x" and "x - now < 2 ^ 63"
  shows "sint (env_delay (Some x) now) \<le> x - now"
  using assms by (auto simp: env_delay_def Let_def)



text \<open>C22: Environments are isolated. Whatever its outcome, a reconcile of an environment that is
  suspended, or whose tenant is missing or not provisioned, writes nothing but the environment's own
  status; otherwise it writes no object but the environment, the workload namespace derived from its
  tenant, the three objects of fixed name in that namespace, and its own delivery objects.\<close>

theorem env_writes_own_objects:
  assumes "api_ok A V"
  shows "wp (env_reconcileEnvironment A e) (\<lambda>_ w'. env_only e (V w) (V w') \<or>
     \<not> es_Suspend (e_Spec e) \<and> (\<exists>t. owner_ready (V w) e t \<and> env_footprint e (env_target t e) (V w) (V w'))) w"
  by (rule env_reconcileEnvironment_rule [OF assms clock_any]) auto

lemma env_writes_own_objects_witness:
  "wp (env_reconcileEnvironment mem_api live_env)
     (\<lambda>_ w'. env_only live_env (m_obs (env_world live_env)) (m_obs w') \<or>
        \<not> es_Suspend (e_Spec live_env) \<and> (\<exists>t. owner_ready (m_obs (env_world live_env)) live_env t \<and>
          env_footprint live_env (env_target t live_env) (m_obs (env_world live_env)) (m_obs w'))) (env_world live_env)"
  by (rule env_writes_own_objects [OF mem_api_ok])

text \<open>C32: A failed provisioning step is never silent. When \<open>reconcileEnvironment\<close> returns an error,
  either a Warning event with the text of that error was recorded last and the gauge shows Failed, or
  every resource is in place and only the status write failed, or nothing was done because the tenant
  could not be read, or nothing but the environment's own status was to be written: it is suspended,
  ephemeral, or without a ready tenant.\<close>

theorem env_failure_reported:
  assumes "api_ok A V"
  shows "wp (env_reconcileEnvironment A e) (\<lambda>(res, err) w'.
     (case err of
        None \<Rightarrow> True
      | Some er \<Rightarrow> env_reports.warning e er (V w') \<or> V w' = V w \<or>
          env_only e (V w) (V w') \<and> (if es_Suspend (e_Spec e) \<or> env_expiry e \<noteq> None then True else \<nexists>t. owner_ready (V w) e t) \<or>
          (\<exists>t s. owner_ready (V w) e t \<and> env_provisioned A t e (ob_Secrets (V w)) s (V w')))) w"
  by (rule env_reconcileEnvironment_rule [OF assms clock_any]) auto

text \<open>The same cluster, whose third write fails.\<close>

definition flaky_env_world :: mworld where
  "flaky_env_world = (env_world live_env)\<lparr>mw_Faults := [False, False, True]\<rparr>"

lemma env_failure_reported_witness:
  "wp (env_reconcileEnvironment mem_api live_env) (\<lambda>(res, err) w'.
     (case err of
        None \<Rightarrow> True
      | Some er \<Rightarrow> env_reports.warning live_env er (m_obs w') \<or> m_obs w' = m_obs flaky_env_world \<or>
          env_only live_env (m_obs flaky_env_world) (m_obs w') \<and>
            (if es_Suspend (e_Spec live_env) \<or> env_expiry live_env \<noteq> None then True
             else \<nexists>t. owner_ready (m_obs flaky_env_world) live_env t) \<or>
          (\<exists>t s. owner_ready (m_obs flaky_env_world) live_env t \<and>
             env_provisioned mem_api t live_env (ob_Secrets (m_obs flaky_env_world)) s (m_obs w')))) flaky_env_world \<and>
   fst (run_state (env_reconcileEnvironment mem_api live_env) flaky_env_world) =
     (no_requeue, Some (plain_err ''unavailable''))"
proof (rule conjI [OF env_failure_reported [OF mem_api_ok]])
  show "fst (run_state (env_reconcileEnvironment mem_api live_env) flaky_env_world) =
     (no_requeue, Some (plain_err ''unavailable''))" by code_simp
qed


definition instant_env :: Environment where
  "instant_env = live_env\<lparr>e_Spec := (e_Spec live_env)\<lparr>es_Type := EnvironmentTypeEphemeral, es_TTL := Some 0\<rparr>\<rparr>"



definition doomed_env :: Environment where
  "doomed_env = live_env\<lparr>e_meta := (e_meta live_env)\<lparr>om_DeletionTimestamp := Some 2000\<rparr>,
     e_Status := (e_Status live_env)\<lparr>est_TargetNamespace := ''tenant-acme-dev''\<rparr>\<rparr>"


text \<open>Suspending a tenant does not cordon its environments. While a tenant is suspended, a
  reconcile of one of its environments (not itself suspended, without a time to live) that returns
  without error still leaves the workload namespace with the full quota of its profile and reports
  the environment as Ready, although the tenant's condition says that workloads are cordoned.\<close>

lemma suspended_tenant_spares_environments:
  assumes "api_ok A V" and "owner_ready (V w) e t" and "lp_Suspended (ts_Lifecycle (t_Spec t))"
    and "\<not> es_Suspend (e_Spec e)" and "env_expiry e = None"
  shows "wp (env_reconcileEnvironment A e) (\<lambda>(res, err) w'.
     (case err of
        Some _ \<Rightarrow> True
      | None \<Rightarrow>
          (\<exists>x. ob_ResourceQuotas (V w') (env_target t e, QuotaName) = Some x \<and>
             rq_Hard x = ProfileQuota A (es_Profile (e_Spec e))) \<and>
          (\<exists>e'. ob_Environments (V w') (meta_key (e_meta e)) = Some e' \<and>
             cond_IsTrue A (est_Conditions (e_Status e')) ConditionReady))) w"
proof -
  have one: "s = t" if "owner_ready (V w) e s" for s using that assms(2) by (simp add: owner_ready_def)
  show ?thesis
  proof (rule env_reconcileEnvironment_rule [OF assms(1) clock_any], goal_cases)
    case (6 t' s now w')
    with one have "t' = t" by blast
    with 6 show ?case
      by (auto simp: env_provisioned_def env_reported_def Let_def quota_desired_def suspended_hard_def)
  next
    case 4 with assms(2) show ?case by blast
  qed (use assms(4,5) in simp_all)
qed

lemma suspended_tenant_spares_environments_witness:
  "wp (env_reconcileEnvironment mem_api live_env) (\<lambda>(res, err) w'.
     (case err of
        Some _ \<Rightarrow> True
      | None \<Rightarrow>
          (\<exists>x. ob_ResourceQuotas (m_obs w') (env_target owning_tenant live_env, QuotaName) = Some x \<and>
             rq_Hard x = ProfileQuota mem_api (es_Profile (e_Spec live_env))) \<and>
          (\<exists>e'. ob_Environments (m_obs w') (meta_key (e_meta live_env)) = Some e' \<and>
             cond_IsTrue mem_api (est_Conditions (e_Status e')) ConditionReady))) (env_world live_env)"
proof (rule suspended_tenant_spares_environments [OF mem_api_ok])
  show "owner_ready (m_obs (env_world live_env)) live_env owning_tenant"
    by (rule env_world_ready) (simp add: live_env_def argo_env_def)
qed (simp_all add: owning_tenant_def live_env_def argo_env_def env_expiry_def upo_consts)

end
