(* ===== verification/Backoff.thy ===== *)
theory Backoff
  imports ApiTypes
begin

text \<open>
  \<open>computeBackoff\<close> of \<open>internal/controller/integration_controller.go\<close>: the delay before the next probe,
  on 64-bit integers that wrap, and how it relates to the exponential backoff over the integers.
\<close>

section \<open>The backoff\<close>

definition defaultInitialBackoff :: Duration where "defaultInitialBackoff = 5 * Second"
definition defaultMaxBackoff :: Duration where "defaultMaxBackoff = 5 * Minute"

text \<open>Go's \<open>x << n\<close> of an int64: a count of 64 or more, such as that of a negative int32 converted to
  uint, leaves nothing.\<close>

definition go_shl :: "int64 \<Rightarrow> 64 word \<Rightarrow> int64" where
  "go_shl x n = (if n < 64 then push_bit (unat n) x else 0)"

text \<open>The effective policy: the initial and the maximal delay and the strategy, with their defaults.\<close>

definition backoff_params :: "RetryPolicy option \<Rightarrow> Duration \<times> Duration \<times> BackoffStrategy" where
  "backoff_params policy = (case policy of
            None \<Rightarrow> (defaultInitialBackoff, defaultMaxBackoff, BackoffStrategyExponential)
          | Some policy \<Rightarrow>
              (case rp_InitialDelay policy of Some d \<Rightarrow> d | None \<Rightarrow> defaultInitialBackoff,
               case rp_MaxDelay policy of Some d \<Rightarrow> d | None \<Rightarrow> defaultMaxBackoff,
               if rp_Backoff policy \<noteq> [] then rp_Backoff policy else BackoffStrategyExponential))"

definition computeBackoff :: "RetryPolicy option \<Rightarrow> int32 \<Rightarrow> Duration" where
  "computeBackoff policy attempt =
     (let (initial, mx, strategy) = backoff_params policy
      in if strategy = BackoffStrategyFixed then initial
         else
           let shift = attempt - 1;
               shift = (if 16 < sint shift then 16 else shift);
               d = initial * go_shl 1 (scast shift)
           in if sint d \<le> 0 \<or> sint mx < sint d then mx else d)"

section \<open>Properties\<close>

lemma go_shl_one:
  assumes "0 \<le> n" "n \<le> (16::int)"
  shows "sint (go_shl 1 (word_of_int n)) = 2 ^ nat n"
proof -
  have n: "n \<in> set [0..16]" using assms by simp
  have up: "[0..16] = [0,1,2,3,4,5,6,7,8,9,10,11,12,13,14,15,16::int]" by code_simp
  from n show ?thesis unfolding up by (auto simp: go_shl_def)
qed

lemma sint_pred:
  fixes a :: int32
  assumes "0 < sint a"
  shows "sint (a - 1) = sint a - 1"
proof -
  have "sint a < 2 ^ 31" using sint_lt [of a] by simp
  with assms show ?thesis by (simp add: sint_word_ariths signed_take_bit_int_eq_self)
qed

lemma backoff_product:
  fixes initial :: Duration
  assumes "0 \<le> sint initial" "sint initial < 2 ^ 47" "0 \<le> n" "n \<le> (16::int)"
  shows "sint (initial * go_shl 1 (word_of_int n)) = sint initial * 2 ^ nat n"
proof -
  have "sint initial * 2 ^ nat n < 2 ^ 47 * 2 ^ nat n" using assms by simp
  also have "\<dots> \<le> 2 ^ 47 * 2 ^ 16" using assms by (intro mult_left_mono power_increasing) auto
  finally have "sint initial * 2 ^ nat n < 2 ^ 63" by simp
  moreover have "- (2 ^ 63) \<le> sint initial * 2 ^ nat n"
    using assms(1) by (smt (verit) zero_le_mult_iff zero_le_power)
  ultimately show ?thesis using assms by (simp add: sint_word_ariths go_shl_one signed_take_bit_int_eq_self)
qed

text \<open>C25: On 64-bit integers that wrap, \<open>computeBackoff\<close> computes the exponential backoff it means to:
  for a positive initial delay below 2^47 nanoseconds (39 hours) the n-th retry is delayed by
  min(max, initial * 2^min(n - 1, 16)), over the unbounded integers.\<close>

theorem computeBackoff_exact:
  assumes "backoff_params policy = (initial, mx, strategy)"
    and "strategy \<noteq> BackoffStrategyFixed" and "0 < sint attempt"
    and "0 < sint initial" and "sint initial < 2 ^ 47"
  shows "sint (computeBackoff policy attempt) = min (sint mx) (sint initial * 2 ^ min 16 (nat (sint attempt - 1)))"
proof -
  let ?n = "min 16 (sint attempt - 1)"
  let ?s = "if 16 < sint (attempt - 1) then 16 else attempt - 1"
  have "sint ?s = ?n" using sint_pred [OF assms(3)] by (simp add: min_def)
  moreover have "(scast ?s :: 64 word) = word_of_int (sint ?s)" by (simp only: of_int_sint)
  ultimately have shift: "(scast ?s :: 64 word) = word_of_int ?n" by simp
  have "nat ?n = min 16 (nat (sint attempt - 1))" by linarith
  with backoff_product [of initial ?n] assms
  have d: "sint (initial * go_shl 1 (word_of_int ?n)) = sint initial * 2 ^ min 16 (nat (sint attempt - 1))" by simp
  have "0 < sint initial * 2 ^ min 16 (nat (sint attempt - 1))" using assms(4) by simp
  with assms(1,2) d show ?thesis
    unfolding computeBackoff_def by (auto simp: Let_def shift)
qed

definition slow_policy :: RetryPolicy where
  "slow_policy = \<lparr>rp_MaxRetries = 8, rp_Backoff = [], rp_InitialDelay = Some Second, rp_MaxDelay = Some Minute\<rparr>"

lemma computeBackoff_exact_witness:
  "sint (computeBackoff (Some slow_policy) 4) = min (sint Minute) (sint Second * 2 ^ min 16 (nat (sint (4::int32) - 1))) \<and>
   sint (computeBackoff (Some slow_policy) 4) = 8000000000"
proof
  show "sint (computeBackoff (Some slow_policy) 4) =
      min (sint Minute) (sint Second * 2 ^ min 16 (nat (sint (4::int32) - 1)))"
    by (rule computeBackoff_exact [where strategy = BackoffStrategyExponential])
      (simp_all add: backoff_params_def slow_policy_def upo_consts Second_def)
  show "sint (computeBackoff (Some slow_policy) 4) = 8000000000" by code_simp
qed

text \<open>For every policy and every attempt, even where the arithmetic wraps, a backoff that is not
  fixed never exceeds the maximal delay, and it is positive whenever the maximal delay is: a retry is
  never scheduled in the past. A fixed backoff is the initial delay whatever the attempt.\<close>

lemma computeBackoff_bounds:
  "(case backoff_params policy of (initial, mx, strategy) \<Rightarrow>
      let d = computeBackoff policy attempt
      in if strategy = BackoffStrategyFixed then d = initial else sint d \<le> sint mx \<and> (0 < sint d \<or> d = mx))"
  unfolding computeBackoff_def by (auto simp: Let_def split: prod.splits)

definition weekly_policy :: RetryPolicy where
  "weekly_policy = \<lparr>rp_MaxRetries = 20, rp_Backoff = BackoffStrategyExponential, rp_InitialDelay = Some (2 ^ 48 + 1),
     rp_MaxDelay = Some (2 ^ 50)\<rparr>"

text \<open>The guard against overflow does not cover a large initial delay. With an initial delay of
  2^48 + 1 nanoseconds (78 hours) and a maximal one of 2^50, the first retry waits for the initial
  delay, but the seventeenth comes after 65536 nanoseconds: the product wraps to a small positive
  number, which the code takes for the delay.\<close>

lemma computeBackoff_wraps:
  "backoff_params (Some weekly_policy) = (2 ^ 48 + 1, 2 ^ 50, BackoffStrategyExponential) \<and>
   computeBackoff (Some weekly_policy) 1 = 2 ^ 48 + 1 \<and> sint (computeBackoff (Some weekly_policy) 17) = 65536"
  by code_simp

end
