(* ===== verification/IntegrationController.thy ===== *)
theory IntegrationController
  imports Connector Reporting Backoff
begin

text \<open>
  \<open>internal/controller/integration_controller.go\<close>: an Integration becomes a connection secret and a
  health state, kept by a probe with bounded retries and a backoff. The pointer to the integration
  that the methods share is an argument, and the methods that change the integration return it. The
  reconciler's field \<open>Prober\<close> is the argument \<open>pr\<close>; \<open>cmd/main.go\<close> leaves it nil.
\<close>

section \<open>The controller\<close>

definition integrationControllerName :: string where "integrationControllerName = ''integration''"
definition integrationResyncPeriod :: Duration where "integrationResyncPeriod = 2 * Minute"

abbreviation set_ist :: "(IntegrationStatus \<Rightarrow> IntegrationStatus) \<Rightarrow> Integration \<Rightarrow> Integration" where
  "set_ist f intg \<equiv> intg\<lparr>i_Status := f (i_Status intg)\<rparr>"

definition intg_ref :: "Integration \<Rightarrow> ObjectRef" where
  "intg_ref intg = \<lparr>ref_Kind = ''Integration'', ref_meta = i_meta intg\<rparr>"

type_synonym 'w prober = "ProbeRequest \<Rightarrow> ('w, go_err option) state"

definition prober :: "'w api \<Rightarrow> 'w prober option \<Rightarrow> 'w prober" where
  "prober A pr = (case pr of Some p \<Rightarrow> p | None \<Rightarrow> HTTPProber_Probe A)"

definition intg_setPhase :: "'w api \<Rightarrow> Integration \<Rightarrow> IntegrationPhase \<Rightarrow> ('w, Integration) state" where
  "intg_setPhase A intg phase = do {
     let intg = set_ist (ist_Phase_update (\<lambda>_. phase)) intg;
     _ \<leftarrow> SetPhase A integrationControllerName (om_Namespace (i_meta intg)) (om_Name (i_meta intg)) phase;
     State_Monad.return intg
   }"

definition intg_updateStatus ::
  "'w api \<Rightarrow> Integration \<Rightarrow> int64 \<Rightarrow> ('w, go_err option \<times> Integration) state" where
  "intg_updateStatus A intg gen = do {
     let intg = set_ist (ist_ObservedGeneration_update (\<lambda>_. gen)) intg;
     now \<leftarrow> Now A;
     kc_StatusUpdate (api_Integrations A) (set_ist (ist_LastReconcileTime_update (\<lambda>_. Some now)) intg)
   }"

definition intg_fail :: "'w api \<Rightarrow> Integration \<Rightarrow> string \<Rightarrow> go_err \<Rightarrow> ('w, Result \<times> go_err option) state" where
  "intg_fail A intg reason cause = do {
     cs \<leftarrow> MarkTrue A (ist_Conditions (i_Status intg)) ConditionDegraded reason (Error cause)
       (om_Generation (i_meta intg));
     cs \<leftarrow> MarkFalse A cs ConditionReady reason (Error cause) (om_Generation (i_meta intg));
     let intg = set_ist (ist_Conditions_update (\<lambda>_. cs)) intg;
     let intg = set_ist (ist_LastError_update (\<lambda>_. Error cause)) intg;
     intg \<leftarrow> intg_setPhase A intg IntegrationPhaseFailed;
     _ \<leftarrow> Eventf A (intg_ref intg) EventTypeWarning reason (Error cause);
     _ \<leftarrow> intg_updateStatus A intg (om_Generation (i_meta intg));
     State_Monad.return (no_requeue, Some cause)
   }"

definition intg_blockOnDependency ::
  "'w api \<Rightarrow> Integration \<Rightarrow> string \<Rightarrow> ('w, Result \<times> go_err option) state" where
  "intg_blockOnDependency A intg msg = do {
     cs \<leftarrow> MarkFalse A (ist_Conditions (i_Status intg)) ConditionReady ReasonDependencyNotMet msg
       (om_Generation (i_meta intg));
     intg \<leftarrow> intg_setPhase A (set_ist (ist_Conditions_update (\<lambda>_. cs)) intg) IntegrationPhasePending;
     (err, _) \<leftarrow> intg_updateStatus A intg (om_Generation (i_meta intg));
     (case err of
        Some e \<Rightarrow> State_Monad.return (no_requeue, Some e)
      | None \<Rightarrow> State_Monad.return (\<lparr>RequeueAfter = 15 * Second\<rparr>, None))
   }"

definition intg_markConnected ::
  "'w api \<Rightarrow> Integration \<Rightarrow> int64 \<Rightarrow> string \<Rightarrow> ('w, Result \<times> go_err option) state" where
  "intg_markConnected A intg gen msg = do {
     let wasConnected = (ist_Phase (i_Status intg) = IntegrationPhaseConnected);
     let intg = set_ist (\<lambda>st. st\<lparr>ist_Retries := 0, ist_LastError := []\<rparr>) intg;
     let cs = cond_Remove A (ist_Conditions (i_Status intg)) ConditionDegraded;
     cs \<leftarrow> MarkTrue A cs ''Connected'' ReasonProvisioned msg gen;
     cs \<leftarrow> MarkTrue A cs ConditionReady ReasonProvisioned msg gen;
     cs \<leftarrow> MarkFalse A cs ConditionProgressing ReasonProvisioned ''Integration connected'' gen;
     intg \<leftarrow> intg_setPhase A (set_ist (ist_Conditions_update (\<lambda>_. cs)) intg) IntegrationPhaseConnected;
     _ \<leftarrow> (if \<not> wasConnected then
            Eventf A (intg_ref intg) EventTypeNormal ''Connected''
              (''Integration '' @ fmt_q (om_Name (i_meta intg)) @ '' connected: '' @ msg)
          else State_Monad.return ());
     (err, _) \<leftarrow> intg_updateStatus A intg gen;
     State_Monad.return (\<lparr>RequeueAfter = integrationResyncPeriod\<rparr>, err)
   }"

text \<open>The request that \<open>probeAndFinish\<close> makes, and the rest of the method once the probe has failed.\<close>

definition probe_request :: "Integration \<Rightarrow> ProbeRequest" where
  "probe_request intg =
     (let (path, timeout) = (case is_HealthCheck (i_Spec intg) of
            None \<Rightarrow> (''/healthz'', 10 * Second)
          | Some hc \<Rightarrow>
              (if hc_Path hc \<noteq> [] then hc_Path hc else ''/healthz'',
               if 0 < sint (hc_TimeoutSeconds hc) then scast (hc_TimeoutSeconds hc) * Second else 10 * Second));
          insecure = (case is_TLS (i_Spec intg) of None \<Rightarrow> False | Some tls \<Rightarrow> tls_InsecureSkipVerify tls)
      in \<lparr>pr_Endpoint = is_Endpoint (i_Spec intg), pr_HealthPath = path, pr_Timeout = timeout,
          pr_InsecureSkipVerify = insecure, pr_Headers = is_Headers (i_Spec intg)\<rparr>)"

definition intg_probeFailed ::
  "'w api \<Rightarrow> Integration \<Rightarrow> int64 \<Rightarrow> go_err \<Rightarrow> ('w, Result \<times> go_err option) state" where
  "intg_probeFailed A intg gen err = do {
     let intg = set_ist (\<lambda>st. st\<lparr>ist_Retries := ist_Retries st + 1\<rparr>) intg;
     let intg = set_ist (ist_LastError_update (\<lambda>_. Error err)) intg;
     let maxRetries = (case is_RetryPolicy (i_Spec intg) of None \<Rightarrow> 5 | Some p \<Rightarrow> rp_MaxRetries p);
     (if sint maxRetries < sint (ist_Retries (i_Status intg)) then do {
        cs \<leftarrow> MarkFalse A (ist_Conditions (i_Status intg)) ConditionReady ReasonProvisionFailed
          (''health probe failed after '' @ fmt_d (sint maxRetries) @ '' retries: '' @ Error err) gen;
        cs \<leftarrow> MarkTrue A cs ConditionDegraded ''ProbeFailed'' (Error err) gen;
        intg \<leftarrow> intg_setPhase A (set_ist (ist_Conditions_update (\<lambda>_. cs)) intg) IntegrationPhaseFailed;
        _ \<leftarrow> Eventf A (intg_ref intg) EventTypeWarning ''ProbeFailed''
          (''Health probe exhausted '' @ fmt_d (sint maxRetries) @ '' retries: '' @ Error err);
        (err, _) \<leftarrow> intg_updateStatus A intg gen;
        (case err of
           Some e \<Rightarrow> State_Monad.return (no_requeue, Some e)
         | None \<Rightarrow> State_Monad.return (\<lparr>RequeueAfter = integrationResyncPeriod\<rparr>, None))
      }
      else do {
        let backoff = computeBackoff (is_RetryPolicy (i_Spec intg)) (ist_Retries (i_Status intg));
        cs \<leftarrow> MarkFalse A (ist_Conditions (i_Status intg)) ConditionReady ''Retrying''
          (''probe failed (attempt '' @ fmt_d (sint (ist_Retries (i_Status intg))) @ ''/'' @
           fmt_d (sint maxRetries) @ ''), retrying in '' @ dur_string backoff @ '': '' @ Error err) gen;
        intg \<leftarrow> intg_setPhase A (set_ist (ist_Conditions_update (\<lambda>_. cs)) intg) IntegrationPhaseDegraded;
        (err, _) \<leftarrow> intg_updateStatus A intg gen;
        (case err of
           Some e \<Rightarrow> State_Monad.return (no_requeue, Some e)
         | None \<Rightarrow> State_Monad.return (\<lparr>RequeueAfter = backoff\<rparr>, None))
      })
   }"

definition intg_probeAndFinish ::
  "'w api \<Rightarrow> 'w prober option \<Rightarrow> Integration \<Rightarrow> int64 \<Rightarrow> ('w, Result \<times> go_err option) state" where
  "intg_probeAndFinish A pr intg gen = do {
     now \<leftarrow> Now A;
     let intg = set_ist (ist_LastProbeTime_update (\<lambda>_. Some now)) intg;
     (if \<not> IsHTTPType (is_Type (i_Spec intg)) then
        intg_markConnected A intg gen
          (''connectivity assumed for type='' @ is_Type (i_Spec intg) @ '' (no HTTP probe)'')
      else do {
        err \<leftarrow> prober A pr (probe_request intg);
        (case err of
           None \<Rightarrow> intg_markConnected A intg gen ''endpoint reachable''
         | Some err \<Rightarrow> intg_probeFailed A intg gen err)
      })
   }"

definition intg_reconcileIntegration ::
  "'w api \<Rightarrow> 'w prober option \<Rightarrow> Integration \<Rightarrow> ('w, Result \<times> go_err option) state" where
  "intg_reconcileIntegration A pr intg = (
     let gen = om_Generation (i_meta intg) in
     let intg = set_ist (ist_ObservedEndpoint_update (\<lambda>_. is_Endpoint (i_Spec intg))) intg in
     if is_Suspend (i_Spec intg) then do {
       cs \<leftarrow> MarkFalse A (ist_Conditions (i_Status intg)) ConditionReady ReasonSuspended
         ''Integration is suspended'' gen;
       intg \<leftarrow> intg_setPhase A (set_ist (ist_Conditions_update (\<lambda>_. cs)) intg) IntegrationPhaseDisabled;
       (err, _) \<leftarrow> intg_updateStatus A intg gen;
       State_Monad.return (no_requeue, err)
     }
     else do {
       got \<leftarrow> kc_Get (api_Tenants A) ([], tr_Name (is_TenantRef (i_Spec intg)));
       (case got of
          Inl err \<Rightarrow>
            if IsNotFound err then
              intg_blockOnDependency A intg (''tenant '' @ fmt_q (tr_Name (is_TenantRef (i_Spec intg))) @ '' not found'')
            else State_Monad.return (no_requeue, Some err)
        | Inr tenant \<Rightarrow> do {
            cs \<leftarrow> MarkUnknown A (ist_Conditions (i_Status intg)) ConditionProgressing ReasonReconciling
              ''Resolving credentials and validating connectivity'' gen;
            let intg = set_ist (ist_Conditions_update (\<lambda>_. cs)) intg;
            creds \<leftarrow> ResolveAuthSecret A (om_Namespace (i_meta intg)) (is_AuthSecretRef (i_Spec intg));
            (case creds of
               Inl err \<Rightarrow>
                 if IsNotFound err then
                   intg_blockOnDependency A intg (''auth secret '' @
                     fmt_q (case is_AuthSecretRef (i_Spec intg) of Some s \<Rightarrow> sr_Name s | None \<Rightarrow> []) @ '' not found'')
                 else intg_fail A intg ''SecretError'' err
             | Inr creds \<Rightarrow> do {
                 cs \<leftarrow> MarkTrue A (ist_Conditions (i_Status intg)) ''SecretResolved'' ReasonProvisioned
                   ''Credentials resolved'' gen;
                 let intg = set_ist (ist_Conditions_update (\<lambda>_. cs)) intg;
                 let connName = ConnectionSecretName (om_Name (i_meta intg));
                 let data = BuildConnectionData (i_Spec intg) creds;
                 let labels = TenantLabels (om_Name (t_meta tenant)) ''integration'' fmempty;
                 let labels = fmupd IntegrationLabel (om_Name (i_meta intg)) labels;
                 r \<leftarrow> ReconcileConnectionSecret A (intg_ref intg) (om_Namespace (i_meta intg)) connName data labels;
                 (case r of
                    Inl err \<Rightarrow> intg_fail A intg ''ConnectionSecretError'' err
                  | Inr _ \<Rightarrow> do {
                      let intg = set_ist (ist_ConnectionSecretName_update (\<lambda>_. connName)) intg;
                      intg_probeAndFinish A pr intg gen
                    })
               })
          })
     })"

text \<open>The last step of \<open>finalize\<close>: dropping the finalizer.\<close>

definition intg_release :: "'w api \<Rightarrow> Integration \<Rightarrow> ('w, Result \<times> go_err option) state" where
  "intg_release A intg = do {
     _ \<leftarrow> ClearPhase A integrationControllerName (om_Namespace (i_meta intg)) (om_Name (i_meta intg));
     (err, _) \<leftarrow> kc_Update (api_Integrations A) (intg\<lparr>i_meta := (i_meta intg)\<lparr>om_Finalizers :=
       RemoveFinalizer A (om_Finalizers (i_meta intg)) IntegrationFinalizer\<rparr>\<rparr>);
     (case err of
        Some e \<Rightarrow> State_Monad.return (no_requeue, Some e)
      | None \<Rightarrow> State_Monad.return (no_requeue, None))
   }"

definition intg_finalize :: "'w api \<Rightarrow> Integration \<Rightarrow> ('w, Result \<times> go_err option) state" where
  "intg_finalize A intg =
     (if \<not> ContainsFinalizer A (om_Finalizers (i_meta intg)) IntegrationFinalizer
      then State_Monad.return (no_requeue, None)
      else do {
        err \<leftarrow> (if ist_ConnectionSecretName (i_Status intg) \<noteq> [] then
                 DeleteConnectionSecret A (om_Namespace (i_meta intg)) (ist_ConnectionSecretName (i_Status intg))
               else State_Monad.return None);
        (case err of
           Some e \<Rightarrow> State_Monad.return (no_requeue, Some e)
         | None \<Rightarrow> intg_release A intg)
      })"

definition intg_Reconcile :: "'w api \<Rightarrow> 'w prober option \<Rightarrow> objkey \<Rightarrow> ('w, Result \<times> go_err option) state" where
  "intg_Reconcile A pr req = do {
     start \<leftarrow> Now A;
     r \<leftarrow> do {
       got \<leftarrow> kc_Get (api_Integrations A) req;
       (case got of
          Inl err \<Rightarrow>
            if IsNotFound err then do {
              _ \<leftarrow> ClearPhase A integrationControllerName (fst req) (snd req);
              State_Monad.return (no_requeue, None)
            }
            else State_Monad.return (no_requeue, Some err)
        | Inr intg \<Rightarrow>
            if om_DeletionTimestamp (i_meta intg) \<noteq> None then intg_finalize A intg
            else if \<not> ContainsFinalizer A (om_Finalizers (i_meta intg)) IntegrationFinalizer then do {
              (err, _) \<leftarrow> kc_Update (api_Integrations A) (intg\<lparr>i_meta := (i_meta intg)\<lparr>om_Finalizers :=
                AddFinalizer A (om_Finalizers (i_meta intg)) IntegrationFinalizer\<rparr>\<rparr>);
              State_Monad.return (no_requeue, err)
            }
            else intg_reconcileIntegration A pr intg)
     };
     _ \<leftarrow> record_outcome A integrationControllerName start r;
     State_Monad.return r
   }"

section \<open>Reporting\<close>

definition intg_gauge :: "Integration \<Rightarrow> resource_id" where
  "intg_gauge i = (integrationControllerName, om_Namespace (i_meta i), om_Name (i_meta i))"

lemma intg_ref_status [simp]: "intg_ref (i\<lparr>i_Status := st\<rparr>) = intg_ref i" "intg_gauge (i\<lparr>i_Status := st\<rparr>) = intg_gauge i"
  by (simp_all add: intg_ref_def intg_gauge_def)

abbreviation intg_stamp :: "int64 \<Rightarrow> Time \<Rightarrow> IntegrationStatus \<Rightarrow> IntegrationStatus" where
  "intg_stamp gen now s \<equiv> s\<lparr>ist_ObservedGeneration := gen, ist_LastReconcileTime := Some now\<rparr>"

interpretation intg_reports: reporter api_Integrations ob_Integrations ob_Integrations_update i_meta intg_ref intg_gauge
    i_Status "\<lambda>s i. i\<lparr>i_Status := s\<rparr>" ist_Conditions "\<lambda>cs. ist_Conditions_update (\<lambda>_. cs)"
    "\<lambda>p. ist_Phase_update (\<lambda>_. p)" "\<lambda>e. ist_LastError_update (\<lambda>_. e)" intg_stamp IntegrationPhaseFailed
    intg_setPhase intg_updateStatus intg_fail
  by unfold_locales
    (simp_all add: intg_setPhase_def intg_updateStatus_def intg_fail_def put_phase_def intg_gauge_def
      api_ok_def resources_ok_def)

interpretation intg_releases: releaser api_Integrations ob_Integrations ob_Integrations_update i_meta i_Spec
    "\<lambda>fs i. i\<lparr>i_meta := (i_meta i)\<lparr>om_Finalizers := fs\<rparr>\<rparr>" IntegrationFinalizer intg_gauge intg_release
  by unfold_locales
    (simp_all add: intg_release_def clear_phase_def intg_gauge_def api_ok_def resources_ok_def)

section \<open>What a reconcile achieves\<close>

text \<open>Changes that concern the integration object only, and changes that may concern its connection
  secret as well.\<close>

definition intg_only :: "Integration \<Rightarrow> obs \<Rightarrow> obs \<Rightarrow> bool" where
  "intg_only e v v' \<longleftrightarrow> (\<exists>g es m. v' = v\<lparr>ob_Phase := g, ob_Events := ob_Events v @ es,
     ob_Integrations := (ob_Integrations v)(meta_key (i_meta e) := m)\<rparr>)"

definition intg_secret_key :: "Integration \<Rightarrow> objkey" where
  "intg_secret_key e = (om_Namespace (i_meta e), ConnectionSecretName (om_Name (i_meta e)))"

definition intg_footprint :: "Integration \<Rightarrow> obs \<Rightarrow> obs \<Rightarrow> bool" where
  "intg_footprint e v v' \<longleftrightarrow>
     (\<exists>s. intg_only e (v\<lparr>ob_Secrets := (ob_Secrets v)(intg_secret_key e := s)\<rparr>) v')"

lemma intg_only_refl [simp]: "intg_only e v v"
  unfolding intg_only_def
  by (rule exI [of _ "ob_Phase v"], rule exI [of _ "[]"], rule exI [of _ "ob_Integrations v (meta_key (i_meta e))"]) simp

lemma intg_only_trans: "intg_only e v v' \<Longrightarrow> intg_only e v' v'' \<Longrightarrow> intg_only e v v''"
  unfolding intg_only_def by (elim exE) (simp, blast)

lemma intg_onlyI:
  "v' = v\<lparr>ob_Phase := g, ob_Events := ob_Events v @ es,
     ob_Integrations := (ob_Integrations v)(meta_key (i_meta e) := m)\<rparr> \<Longrightarrow> intg_only e v v'"
  unfolding intg_only_def by blast

lemma intg_only_status:
  "v' = ob_Integrations_update (\<lambda>s. s(meta_key (i_meta e) := m)) (v\<lparr>ob_Phase := g\<rparr>) \<Longrightarrow> intg_only e v v'"
  by (rule intg_onlyI [where g = g and es = "[]" and m = m]) simp

lemma intg_footprint_only [simp]: "intg_only e v v' \<Longrightarrow> intg_footprint e v v'"
  unfolding intg_footprint_def by (rule exI [of _ "ob_Secrets v (intg_secret_key e)"]) simp

text \<open>The retry state of an integration, and what one probe does to it. \<open>None\<close> is a successful probe,
  \<open>Some msg\<close> a failed one.\<close>

type_synonym retry_state = "IntegrationPhase \<times> int32 \<times> string"

definition retry_view :: "IntegrationStatus \<Rightarrow> retry_state" where
  "retry_view st = (ist_Phase st, ist_Retries st, ist_LastError st)"

definition max_retries :: "RetryPolicy option \<Rightarrow> int32" where
  "max_retries p = (case p of None \<Rightarrow> 5 | Some p \<Rightarrow> rp_MaxRetries p)"

definition exhausted :: "RetryPolicy option \<Rightarrow> int32 \<Rightarrow> bool" where
  "exhausted p n \<longleftrightarrow> sint (max_retries p) < sint n"

fun retry_next :: "RetryPolicy option \<Rightarrow> string option \<Rightarrow> int32 \<Rightarrow> retry_state" where
  "retry_next p None n = (IntegrationPhaseConnected, 0, [])"
| "retry_next p (Some msg) n =
     (if exhausted p (n + 1) then IntegrationPhaseFailed else IntegrationPhaseDegraded, n + 1, msg)"

fun retry_delay :: "RetryPolicy option \<Rightarrow> string option \<Rightarrow> int32 \<Rightarrow> Duration" where
  "retry_delay p None n = integrationResyncPeriod"
| "retry_delay p (Some msg) n = (if exhausted p (n + 1) then integrationResyncPeriod else computeBackoff p (n + 1))"

text \<open>The stored status after a probe with the given outcome.\<close>

definition intg_reported :: "'w api \<Rightarrow> Integration \<Rightarrow> string option \<Rightarrow> obs \<Rightarrow> bool" where
  "intg_reported A e out v \<longleftrightarrow>
     (\<exists>st. ob_Integrations v (meta_key (i_meta e)) = Some (e\<lparr>i_Status := st\<rparr>) \<and>
       (let cs = ist_Conditions st in
        retry_view st = retry_next (is_RetryPolicy (i_Spec e)) out (ist_Retries (i_Status e)) \<and>
        ist_ConnectionSecretName st = ConnectionSecretName (om_Name (i_meta e)) \<and>
        ist_ObservedEndpoint st = is_Endpoint (i_Spec e) \<and>
        ist_ObservedGeneration st = om_Generation (i_meta e) \<and>
        ist_LastReconcileTime st \<noteq> None \<and> ist_LastProbeTime st \<noteq> None \<and>
        cond_IsTrue A cs ''SecretResolved'' \<and> (cond_IsTrue A cs ConditionReady \<longleftrightarrow> out = None) \<and>
        (out = None \<longrightarrow> cond_IsTrue A cs ''Connected'' \<and> cond_Get A cs ConditionDegraded = None \<and>
           \<not> cond_IsTrue A cs ConditionProgressing) \<and>
        (out \<noteq> None \<longrightarrow> cond_Get A cs ''Connected'' = cond_Get A (ist_Conditions (i_Status e)) ''Connected'') \<and>
        (ist_Phase st = IntegrationPhaseFailed \<longrightarrow> cond_IsTrue A cs ConditionDegraded) \<and>
        one_hot v (intg_gauge e) (ist_Phase st)))"

text \<open>What \<open>reconcileIntegration\<close> has put into the status before the outcome of the probe is known.\<close>

definition intg_prepared :: "'w api \<Rightarrow> Integration \<Rightarrow> Integration \<Rightarrow> bool" where
  "intg_prepared A e e1 \<longleftrightarrow> i_meta e1 = i_meta e \<and> i_Spec e1 = i_Spec e \<and>
     (let st = i_Status e1 in
      ist_Retries st = ist_Retries (i_Status e) \<and>
      ist_ConnectionSecretName st = ConnectionSecretName (om_Name (i_meta e)) \<and>
      ist_ObservedEndpoint st = is_Endpoint (i_Spec e) \<and> ist_LastProbeTime st \<noteq> None \<and>
      cond_IsTrue A (ist_Conditions st) ''SecretResolved'' \<and>
      cond_Get A (ist_Conditions st) ''Connected'' = cond_Get A (ist_Conditions (i_Status e)) ''Connected'')"

lemma intg_phases: "IntegrationPhaseConnected \<noteq> IntegrationPhaseFailed" "IntegrationPhaseDegraded \<noteq> IntegrationPhaseFailed"
  by (simp_all add: upo_consts)

lemma intg_types: "ConditionDegraded \<noteq> ConditionProgressing" "ConditionDegraded \<noteq> ConditionReady"
    "ConditionProgressing \<noteq> ConditionReady" "''SecretResolved'' \<noteq> ConditionReady" "''SecretResolved'' \<noteq> ConditionDegraded"
    "''SecretResolved'' \<noteq> ConditionProgressing" "''Connected'' \<noteq> ConditionReady" "''Connected'' \<noteq> ConditionDegraded"
    "''Connected'' \<noteq> ConditionProgressing" "''Connected'' \<noteq> ''SecretResolved''"
  by (simp_all add: upo_consts)

lemma intg_markConnected_rule:
  assumes ok: "api_ok A V" and stored: "ob_Integrations (V w) (meta_key (i_meta e)) = Some e"
    and e1: "intg_prepared A e e1"
    and saved: "\<And>w'. intg_only e (V w) (V w') \<Longrightarrow> intg_reported A e None (V w') \<Longrightarrow>
       Q (\<lparr>RequeueAfter = integrationResyncPeriod\<rparr>, None) w'"
    and unsaved: "\<And>err w'. intg_only e (V w) (V w') \<Longrightarrow> Q (\<lparr>RequeueAfter = integrationResyncPeriod\<rparr>, Some err) w'"
  shows "wp (intg_markConnected A e1 (om_Generation (i_meta e)) msg) Q w"
proof -
  note cond = api_okD(7) [OF ok]
  note rem = conds.drop_find [OF cond]
  from e1 have meta: "i_meta e1 = i_meta e" "intg_gauge e1 = intg_gauge e" by (simp_all add: intg_prepared_def intg_gauge_def)
  have ev: "(if b then wp (Eventf A r ty reason m) (\<lambda>_. P) else P) u"
    if "\<And>u' es. V u' = (V u)\<lparr>ob_Events := ob_Events (V u) @ es\<rparr> \<Longrightarrow> P u'" for b r ty reason m P u
    using that [of u "[]"] that by (auto intro: wp_Eventf [OF api_okD(9) [OF ok]])
  show ?thesis
  proof (simp only: intg_markConnected_def wp_simps, rule MarkTrue_rule [OF cond], rule MarkTrue_rule [OF cond],
      rule MarkFalse_rule [OF cond], rule intg_reports.setPhase_rule [OF ok], rule ev,
      rule intg_reports.updateStatus_rule [OF ok], goal_cases)
    case (1 cs1 w1 c1 cs2 w2 c2 cs3 w3 c3 w4 g w5 es s now w6)
    let ?st = "intg_stamp (om_Generation (i_meta e)) now ((i_Status e1)\<lparr>ist_Retries := 0, ist_LastError := [],
      ist_Conditions := cs3, ist_Phase := IntegrationPhaseConnected\<rparr>)"
    have s: "s = e" using 1(1,5,9,13,15,16) stored meta by simp
    with 1(1,5,9,13,15,17) meta have V: "V w6 = (V w)\<lparr>ob_Phase := g, ob_Events := ob_Events (V w) @ es,
        ob_Integrations := (ob_Integrations (V w))(meta_key (i_meta e) := Some (e\<lparr>i_Status := ?st\<rparr>))\<rparr>" by simp
    have "ob_Phase (V w6) = ob_Phase (V w4)" by (simp add: V 1(1,5,9,13))
    with 1(14) meta have hot: "one_hot (V w6) (intg_gauge e) IntegrationPhaseConnected"
      using one_hot_cong [of "V w6" "V w4"] by simp
    have t: "cond_IsTrue A cs1 ''Connected''" "cond_IsTrue A cs2 ConditionReady" "\<not> cond_IsTrue A cs3 ConditionProgressing"
      using cond_IsTrue_says [OF cond 1(3,4)] cond_IsTrue_says [OF cond 1(7,8)] cond_IsTrue_says [OF cond 1(11,12)] by simp_all
    have c: "cond_IsTrue A cs3 ''Connected''" "cond_IsTrue A cs3 ConditionReady" "cond_IsTrue A cs3 ''SecretResolved''"
      "cond_Get A cs3 ConditionDegraded = None"
      using t(1,2) e1 1(2,6,10) intg_types
      by (simp_all add: cond_IsTrue_iff [OF cond] rem intg_prepared_def Let_def)
    have "intg_reported A e None (V w6)"
      unfolding intg_reported_def
      by (rule exI [of _ ?st]) (use e1 c t hot intg_phases in \<open>simp add: V Let_def intg_prepared_def retry_view_def\<close>)
    with intg_onlyI [OF V] saved show ?case by simp
  next
    case (2 cs1 w1 c1 cs2 w2 c2 cs3 w3 c3 w4 g w5 es err y m' w6)
    with meta have "V w6 = (V w)\<lparr>ob_Phase := g, ob_Events := ob_Events (V w) @ es,
        ob_Integrations := (ob_Integrations (V w))(meta_key (i_meta e) := m')\<rparr>" by simp
    from unsaved [OF intg_onlyI [OF this]] show ?case by simp
  qed
qed

lemma intg_probeFailed_rule:
  assumes ok: "api_ok A V" and stored: "ob_Integrations (V w) (meta_key (i_meta e)) = Some e"
    and e1: "intg_prepared A e e1"
    and saved: "\<And>w'. intg_only e (V w) (V w') \<Longrightarrow> intg_reported A e (Some (Error err)) (V w') \<Longrightarrow>
       Q (\<lparr>RequeueAfter = retry_delay (is_RetryPolicy (i_Spec e)) (Some (Error err)) (ist_Retries (i_Status e))\<rparr>, None) w'"
    and unsaved: "\<And>er w'. intg_only e (V w) (V w') \<Longrightarrow> Q (no_requeue, Some er) w'"
  shows "wp (intg_probeFailed A e1 (om_Generation (i_meta e)) err) Q w"
proof -
  note cond = api_okD(7) [OF ok]
  let ?p = "is_RetryPolicy (i_Spec e)" and ?n = "ist_Retries (i_Status e) + 1"
  let ?phase = "if exhausted ?p ?n then IntegrationPhaseFailed else IntegrationPhaseDegraded"
  from e1 have meta: "i_meta e1 = i_meta e" "i_Spec e1 = i_Spec e" "intg_gauge e1 = intg_gauge e"
      "ist_Retries (i_Status e1) = ist_Retries (i_Status e)" "cond_IsTrue A (ist_Conditions (i_Status e1)) ''SecretResolved''"
      "cond_Get A (ist_Conditions (i_Status e1)) ''Connected'' = cond_Get A (ist_Conditions (i_Status e)) ''Connected''"
    by (simp_all add: intg_prepared_def intg_gauge_def Let_def)
  define st where "st now cs = intg_stamp (om_Generation (i_meta e)) now ((i_Status e1)\<lparr>ist_Retries := ?n,
      ist_LastError := Error err, ist_Conditions := cs, ist_Phase := ?phase\<rparr>)" for now cs
  have rep: "intg_only e (V w) (V u) \<and> intg_reported A e (Some (Error err)) (V u)"
    if V: "V u = (V w)\<lparr>ob_Phase := g, ob_Events := ob_Events (V w) @ es,
        ob_Integrations := (ob_Integrations (V w))(meta_key (i_meta e) := Some (e\<lparr>i_Status := st now cs\<rparr>))\<rparr>"
      and hot: "one_hot ((V w)\<lparr>ob_Phase := g\<rparr>) (intg_gauge e) ?phase"
      and cs: "\<not> cond_IsTrue A cs ConditionReady" "cond_IsTrue A cs ''SecretResolved''"
        "exhausted ?p ?n \<Longrightarrow> cond_IsTrue A cs ConditionDegraded"
        "cond_Get A cs ''Connected'' = cond_Get A (ist_Conditions (i_Status e)) ''Connected''" for u g es now cs
  proof
    show "intg_only e (V w) (V u)" by (rule intg_onlyI [OF V])
    have "ob_Phase (V u) = ob_Phase ((V w)\<lparr>ob_Phase := g\<rparr>)" by (simp add: V)
    with hot have "one_hot (V u) (intg_gauge e) ?phase" using one_hot_cong by blast
    then show "intg_reported A e (Some (Error err)) (V u)"
      unfolding intg_reported_def
      by (intro exI [of _ "st now cs"])
        (use e1 cs intg_phases in \<open>simp add: V Let_def intg_prepared_def retry_view_def st_def\<close>)
  qed
  have max: "(case ?p of None \<Rightarrow> 5 | Some p \<Rightarrow> rp_MaxRetries p) = max_retries ?p" by (simp add: max_retries_def)
  show ?thesis
  proof (cases "exhausted ?p ?n")
    case True
    then have lt: "sint (max_retries ?p) < sint ?n" by (simp add: exhausted_def)
    show ?thesis
    proof (simp add: intg_probeFailed_def meta max lt del: fun_upd_apply, rule MarkFalse_rule [OF cond],
        rule MarkTrue_rule [OF cond], rule intg_reports.setPhase_rule [OF ok], rule wp_Eventf [OF api_okD(9) [OF ok]],
        rule intg_reports.updateStatus_rule [OF ok], goal_cases)
      case (1 cs1 w1 c1 cs2 w2 c2 w3 g w4 s now w5)
      from 1(11) obtain es where V4: "V w4 = (V w3)\<lparr>ob_Events := ob_Events (V w3) @ es\<rparr>" by blast
      have V3: "V w3 = (V w)\<lparr>ob_Phase := g\<rparr>" using 1(1,5,9) by simp
      have "s = e" using 1(12) stored meta by (simp add: V4 V3)
      with 1(13) meta True have V: "V w5 = (V w)\<lparr>ob_Phase := g, ob_Events := ob_Events (V w) @ es,
          ob_Integrations := (ob_Integrations (V w))(meta_key (i_meta e) := Some (e\<lparr>i_Status := st now cs2\<rparr>))\<rparr>"
        by (simp add: V4 V3 st_def)
      have "intg_only e (V w) (V w5) \<and> intg_reported A e (Some (Error err)) (V w5)"
      proof (rule rep [OF V])
        show "one_hot ((V w)\<lparr>ob_Phase := g\<rparr>) (intg_gauge e) ?phase" using 1(10) True V3 meta by simp
      qed (use 1(2-4,6-8) True meta intg_types cond_IsTrue_says [OF cond 1(3,4)] cond_IsTrue_says [OF cond 1(7,8)]
          in \<open>simp_all add: cond_IsTrue_iff [OF cond]\<close>)
      with True saved show ?case by simp
    next
      case (2 cs1 w1 c1 cs2 w2 c2 w3 g w4 er y m' w5)
      from 2(11) obtain es where V4: "V w4 = (V w3)\<lparr>ob_Events := ob_Events (V w3) @ es\<rparr>" by blast
      have V3: "V w3 = (V w)\<lparr>ob_Phase := g\<rparr>" using 2(1,5,9) by simp
      from 2(12) meta have "V w5 = (V w)\<lparr>ob_Phase := g, ob_Events := ob_Events (V w) @ es,
          ob_Integrations := (ob_Integrations (V w))(meta_key (i_meta e) := m')\<rparr>" by (simp add: V4 V3)
      from unsaved [OF intg_onlyI [OF this]] show ?case by simp
    qed
  next
    case False
    then have lt: "\<not> sint (max_retries ?p) < sint ?n" by (simp add: exhausted_def)
    show ?thesis
    proof (simp add: intg_probeFailed_def meta max lt del: fun_upd_apply, rule MarkFalse_rule [OF cond],
        rule intg_reports.setPhase_rule [OF ok], rule intg_reports.updateStatus_rule [OF ok], goal_cases)
      case (1 cs w1 c w2 g s now w3)
      have V2: "V w2 = (V w)\<lparr>ob_Phase := g\<rparr>" using 1(1,5) by simp
      have "s = e" using 1(7) stored meta by (simp add: V2)
      with 1(8) meta False have V: "V w3 = (V w)\<lparr>ob_Phase := g, ob_Events := ob_Events (V w) @ [],
          ob_Integrations := (ob_Integrations (V w))(meta_key (i_meta e) := Some (e\<lparr>i_Status := st now cs\<rparr>))\<rparr>"
        by (simp add: V2 st_def)
      have "intg_only e (V w) (V w3) \<and> intg_reported A e (Some (Error err)) (V w3)"
      proof (rule rep [OF V])
        show "one_hot ((V w)\<lparr>ob_Phase := g\<rparr>) (intg_gauge e) ?phase" using 1(6) False V2 meta by simp
      qed (use 1(2-4) False meta intg_types cond_IsTrue_says [OF cond 1(3,4)]
          in \<open>simp_all add: cond_IsTrue_iff [OF cond]\<close>)
      with False saved show ?case by simp
    next
      case (2 cs w1 c w2 g er y m' w3)
      with meta have "V w3 = (V w)\<lparr>ob_Phase := g, ob_Events := ob_Events (V w) @ [],
          ob_Integrations := (ob_Integrations (V w))(meta_key (i_meta e) := m')\<rparr>" by simp
      from unsaved [OF intg_onlyI [OF this]] show ?case by simp
    qed
  qed
qed

text \<open>A prober whose answers are in \<open>R\<close>, and which changes nothing in the cluster.\<close>

definition probing :: "('w \<Rightarrow> obs) \<Rightarrow> (go_err option \<Rightarrow> bool) \<Rightarrow> 'w prober \<Rightarrow> bool" where
  "probing V R P \<longleftrightarrow> (\<forall>req w. wp (P req) (\<lambda>r w'. V w' = V w \<and> R r) w)"

lemma probing_rule: "probing V R P \<Longrightarrow> (\<And>r w'. V w' = V w \<Longrightarrow> R r \<Longrightarrow> Q r w') \<Longrightarrow> wp (P req) Q w"
  unfolding probing_def by (blast intro: wp_mono)

lemma HTTPProber_probing:
  assumes "effects_ok A V"
  shows "probing V (\<lambda>_. True) (HTTPProber_Probe A)"
proof -
  have "wp (HTTPProber_Probe A req) (\<lambda>r w'. V w' = V w \<and> True) w" for req w
    by (cases "HttpNewRequest A (probe_target req)")
      (auto simp: HTTPProber_Probe_def intro!: wp_HttpDo [OF assms] split: sum.split)
  then show ?thesis by (simp add: probing_def)
qed

text \<open>The outcomes a probe of the integration can have: without an HTTP endpoint it counts as reachable.\<close>

definition outcome_of :: "(go_err option \<Rightarrow> bool) \<Rightarrow> Integration \<Rightarrow> string option \<Rightarrow> bool" where
  "outcome_of R e out \<longleftrightarrow>
     (if IsHTTPType (is_Type (i_Spec e)) then \<exists>r. R r \<and> out = map_option Error r else out = None)"

lemma intg_probeAndFinish_rule:
  assumes ok: "api_ok A V" and probe: "probing V R (prober A pr)"
    and stored: "ob_Integrations (V w) (meta_key (i_meta e)) = Some e"
    and e0: "i_meta e0 = i_meta e" "i_Spec e0 = i_Spec e" "ist_Retries (i_Status e0) = ist_Retries (i_Status e)"
      "ist_ConnectionSecretName (i_Status e0) = ConnectionSecretName (om_Name (i_meta e))"
      "ist_ObservedEndpoint (i_Status e0) = is_Endpoint (i_Spec e)"
      "cond_IsTrue A (ist_Conditions (i_Status e0)) ''SecretResolved''"
      "cond_Get A (ist_Conditions (i_Status e0)) ''Connected'' = cond_Get A (ist_Conditions (i_Status e)) ''Connected''"
    and saved: "\<And>out w'. outcome_of R e out \<Longrightarrow> intg_only e (V w) (V w') \<Longrightarrow> intg_reported A e out (V w') \<Longrightarrow>
       Q (\<lparr>RequeueAfter = retry_delay (is_RetryPolicy (i_Spec e)) out (ist_Retries (i_Status e))\<rparr>, None) w'"
    and unsaved: "\<And>res er w'. intg_only e (V w) (V w') \<Longrightarrow> Q (res, Some er) w'"
  shows "wp (intg_probeAndFinish A pr e0 (om_Generation (i_meta e))) Q w"
proof (simp only: intg_probeAndFinish_def wp_simps, rule wp_Now [OF api_okD(9) [OF ok]], goal_cases)
  case (1 now w1)
  let ?e = "set_ist (ist_LastProbeTime_update (\<lambda>_. Some now)) e0"
  have prep: "intg_prepared A e ?e" using e0 by (simp add: intg_prepared_def)
  have conn: "wp (intg_markConnected A ?e (om_Generation (i_meta e)) msg) Q u"
    if "V u = V w" "outcome_of R e None" for u msg
    by (rule intg_markConnected_rule [OF ok _ prep])
      (use that stored saved [of None] unsaved in simp_all)
  show ?case
  proof (cases "IsHTTPType (is_Type (i_Spec e))")
    case False
    with e0(2) conn 1 show ?thesis by (simp add: outcome_of_def)
  next
    case True
    have "wp (prober A pr (probe_request ?e)) (\<lambda>err. case err of
        None \<Rightarrow> wp (intg_markConnected A ?e (om_Generation (i_meta e)) ''endpoint reachable'') Q
      | Some err \<Rightarrow> wp (intg_probeFailed A ?e (om_Generation (i_meta e)) err) Q) w1"
    proof (rule probing_rule [OF probe], goal_cases)
      case (1 r w2)
      with \<open>V w1 = V w\<close> have V: "V w2 = V w" by simp
      have out: "outcome_of R e (map_option Error r)" using True 1(2) by (auto simp: outcome_of_def)
      show ?case
      proof (cases r)
        case None
        with conn [OF V] out show ?thesis by simp
      next
        case (Some er)
        have "wp (intg_probeFailed A ?e (om_Generation (i_meta e)) er) Q w2"
          by (rule intg_probeFailed_rule [OF ok _ prep]) (use V stored saved out Some unsaved in \<open>simp_all del: retry_delay.simps\<close>)
        with Some show ?thesis by simp
      qed
    qed
    with True e0(2) show ?thesis by simp
  qed
qed

text \<open>The credentials the integration refers to, and its connection secret.\<close>

definition intg_creds :: "obs \<Rightarrow> Integration \<Rightarrow> (string, string) fmap \<Rightarrow> bool" where
  "intg_creds v e creds \<longleftrightarrow>
     (case is_AuthSecretRef (i_Spec e) of
        None \<Rightarrow> creds = fmempty
      | Some s \<Rightarrow> \<exists>x. ob_Secrets v (om_Namespace (i_meta e), sr_Name s) = Some x \<and> creds = sec_Data x)"

definition intg_ready :: "obs \<Rightarrow> Integration \<Rightarrow> Tenant \<Rightarrow> (string, string) fmap \<Rightarrow> bool" where
  "intg_ready v e t creds \<longleftrightarrow> \<not> is_Suspend (i_Spec e) \<and>
     ob_Tenants v ([], tr_Name (is_TenantRef (i_Spec e))) = Some t \<and> intg_creds v e creds"

lemma intg_ready_alive: "intg_ready v e t creds \<Longrightarrow> \<not> is_Suspend (i_Spec e)"
  by (simp add: intg_ready_def)

definition intg_labels :: "Tenant \<Rightarrow> Integration \<Rightarrow> labels" where
  "intg_labels t e =
     fmupd IntegrationLabel (om_Name (i_meta e)) (TenantLabels (om_Name (t_meta t)) ''integration'' fmempty)"

definition intg_linked :: "'w api \<Rightarrow> Integration \<Rightarrow> Tenant \<Rightarrow> (string, string) fmap \<Rightarrow> obs \<Rightarrow> bool" where
  "intg_linked A e t creds v \<longleftrightarrow>
     (\<exists>x. ob_Secrets v (intg_secret_key e) = Some x \<and>
        connection_desired A (intg_ref e, fst (intg_secret_key e), snd (intg_secret_key e),
          BuildConnectionData (i_Spec e) creds, intg_labels t e) x)"

text \<open>The stored status of an integration that is not being probed: its retry count is kept.\<close>

definition intg_waiting :: "'w api \<Rightarrow> Integration \<Rightarrow> IntegrationPhase \<Rightarrow> string \<Rightarrow> obs \<Rightarrow> bool" where
  "intg_waiting A e phase reason v \<longleftrightarrow> one_hot v (intg_gauge e) phase \<and>
     (\<exists>st c. ob_Integrations v (meta_key (i_meta e)) = Some (e\<lparr>i_Status := st\<rparr>) \<and> ist_Phase st = phase \<and>
        ist_Retries st = ist_Retries (i_Status e) \<and>
        cond_Get A (ist_Conditions st) ConditionReady = Some c \<and>
        c_Status c = ConditionFalse \<and> c_Reason c = reason)"

lemma intg_wait:
  assumes "v' = ob_Integrations_update (\<lambda>m. m(meta_key (i_meta e0) \<mapsto>
       s\<lparr>i_Status := intg_stamp gen now ((i_Status e0)\<lparr>ist_Conditions := cs, ist_Phase := p\<rparr>)\<rparr>)) (v\<lparr>ob_Phase := g\<rparr>)"
    and "cond_Get A cs ConditionReady = Some c" "says c = (ConditionFalse, effective_reason reason, msg, gen)"
    and "one_hot v' (intg_gauge e0) p" and "s = e" "i_meta e0 = i_meta e" "ist_Retries (i_Status e0) = ist_Retries (i_Status e)"
  shows "intg_waiting A e p (effective_reason reason) v'" "intg_only e v v'"
proof -
  have "intg_gauge e0 = intg_gauge e" using assms(6) by (simp add: intg_gauge_def)
  then show "intg_waiting A e p (effective_reason reason) v'" "intg_only e v v'"
    using assms by (auto simp: intg_waiting_def says_def intro: intg_only_status)
qed

lemma intg_blockOnDependency_rule:
  assumes ok: "api_ok A V" and stored: "ob_Integrations (V w) (meta_key (i_meta e)) = Some e"
    and e0: "i_meta e0 = i_meta e" "ist_Retries (i_Status e0) = ist_Retries (i_Status e)"
    and saved: "\<And>w'. intg_only e (V w) (V w') \<Longrightarrow>
       intg_waiting A e IntegrationPhasePending ReasonDependencyNotMet (V w') \<Longrightarrow>
       Q (\<lparr>RequeueAfter = 15 * Second\<rparr>, None) w'"
    and unsaved: "\<And>err w'. intg_only e (V w) (V w') \<Longrightarrow> Q (no_requeue, Some err) w'"
  shows "wp (intg_blockOnDependency A e0 msg) Q w"
proof -
  have eff: "effective_reason ReasonDependencyNotMet = ReasonDependencyNotMet"
    by (simp add: effective_reason_def upo_consts)
  show ?thesis
  proof (simp only: intg_blockOnDependency_def wp_simps, rule intg_reports.not_ready_rule [OF ok], goal_cases)
    case (2 w' g s cs c now)
    then have "s = e" using stored e0 by simp
    from intg_wait [OF 2(1-4) this e0] saved eff show ?case by simp
  next
    case (3 w' g m' err y)
    then have "Q (no_requeue, Some err) w'" by (intro unsaved intg_only_status) (simp add: e0)
    then show ?case by simp
  qed simp
qed

lemma intg_footprint_trans:
  "intg_footprint e v v' \<Longrightarrow> intg_only e v' v'' \<Longrightarrow> intg_footprint e v v''"
  unfolding intg_footprint_def using intg_only_trans by blast

lemma intg_linked_cong: "intg_only e v v' \<Longrightarrow> intg_linked A e t creds v \<Longrightarrow> intg_linked A e t creds v'"
  by (auto simp: intg_only_def intg_linked_def)

lemma intg_reconcileIntegration_rule:
  assumes ok: "api_ok A V" and probe: "probing V R (prober A pr)"
    and stored: "ob_Integrations (V w) (meta_key (i_meta e)) = Some e"
    and suspended: "\<And>w'. is_Suspend (i_Spec e) \<Longrightarrow> intg_only e (V w) (V w') \<Longrightarrow>
       intg_waiting A e IntegrationPhaseDisabled ReasonSuspended (V w') \<Longrightarrow> Q (no_requeue, None) w'"
    and unread: "\<And>err w'. V w' = V w \<Longrightarrow> Q (no_requeue, Some err) w'"
    and error: "\<And>err w'. is_Suspend (i_Spec e) \<or> (\<nexists>t creds. intg_ready (V w) e t creds) \<Longrightarrow>
       intg_only e (V w) (V w') \<Longrightarrow> Q (no_requeue, Some err) w'"
    and blocked: "\<And>w'. \<not> is_Suspend (i_Spec e) \<Longrightarrow> \<nexists>t creds. intg_ready (V w) e t creds \<Longrightarrow>
       intg_only e (V w) (V w') \<Longrightarrow>
       intg_waiting A e IntegrationPhasePending ReasonDependencyNotMet (V w') \<Longrightarrow>
       Q (\<lparr>RequeueAfter = 15 * Second\<rparr>, None) w'"
    and failed: "\<And>err w'. \<not> is_Suspend (i_Spec e) \<Longrightarrow> intg_footprint e (V w) (V w') \<Longrightarrow>
       intg_reports.warning e err (V w') \<Longrightarrow> Q (no_requeue, Some err) w'"
    and saved: "\<And>t creds out w'. intg_ready (V w) e t creds \<Longrightarrow> outcome_of R e out \<Longrightarrow>
       intg_footprint e (V w) (V w') \<Longrightarrow> intg_linked A e t creds (V w') \<Longrightarrow> intg_reported A e out (V w') \<Longrightarrow>
       Q (\<lparr>RequeueAfter = retry_delay (is_RetryPolicy (i_Spec e)) out (ist_Retries (i_Status e))\<rparr>, None) w'"
    and unsaved: "\<And>t creds res err w'. intg_ready (V w) e t creds \<Longrightarrow>
       intg_footprint e (V w) (V w') \<Longrightarrow> intg_linked A e t creds (V w') \<Longrightarrow> Q (res, Some err) w'"
  shows "wp (intg_reconcileIntegration A pr e) Q w"
proof -
  note cond = api_okD(7) [OF ok]
  let ?e = "set_ist (ist_ObservedEndpoint_update (\<lambda>_. is_Endpoint (i_Spec e))) e"
  have fail: "wp (intg_fail A e' reason cause) Q u"
    if "intg_footprint e (V w) (V u)" "i_meta e' = i_meta e" "\<not> is_Suspend (i_Spec e)" for e' reason cause u
  proof (rule intg_reports.fail_rule [OF ok], goal_cases)
    case (1 w' g m')
    with that have V: "V w' = (V u)\<lparr>ob_Phase := g, ob_Events := ob_Events (V u) @
        [mk_event (intg_ref e) EventTypeWarning reason (Error cause)],
        ob_Integrations := (ob_Integrations (V u))(meta_key (i_meta e) := m')\<rparr>" by (simp add: intg_ref_def)
    then have "ob_Events (V w') = ob_Events (V u) @ [mk_event (intg_ref e) EventTypeWarning reason (Error cause)]" by simp
    then have "\<exists>r es. ob_Events (V w') = es @ [mk_event (intg_ref e) EventTypeWarning r (Error cause)]" by blast
    with 1 that have "intg_reports.warning e cause (V w')"
      by (simp add: intg_reports.warning_def intg_gauge_def)
    with failed [OF that(3) intg_footprint_trans [OF that(1) intg_onlyI [OF V]]] show ?case by simp
  qed
  show ?thesis
  proof (cases "is_Suspend (i_Spec e)")
    case True
    have eff: "effective_reason ReasonSuspended = ReasonSuspended" by (simp add: effective_reason_def upo_consts)
    from True have susp: "is_Suspend (i_Spec ?e)" by simp
    show ?thesis
    proof (simp only: intg_reconcileIntegration_def Let_def susp if_True wp_simps,
        rule intg_reports.not_ready_rule [OF ok], goal_cases)
      case (2 w' g s cs c now)
      then have "s = e" using stored by simp
      from intg_wait [OF 2(1-4) this] suspended [OF True] eff show ?case by simp
    next
      case (3 w' g m' err y)
      then have "Q (no_requeue, Some err) w'" by (intro error intg_only_status) (simp_all add: True)
      then show ?case by simp
    qed simp
  next
    case alive: False
    from ok have get: "get_ok V ob_Tenants t_meta (api_Tenants A)" by (simp add: api_ok_def reads_ok_def)
    from alive have susp: "\<not> is_Suspend (i_Spec ?e)" by simp
    show ?thesis
    proof (simp only: intg_reconcileIntegration_def Let_def susp if_False wp_simps, rule wp_get [OF get], goal_cases)
      case (1 t w1)
      note V1 = 1(1) and t = 1(2)
      show ?case
      proof (simp only: sum.case, rule MarkUnknown_rule [OF cond], rule ResolveAuthSecret_rule [OF ok], goal_cases)
        case (1 cs w2 c creds w3)
        have V3: "V w3 = V w" using 1(1,5) V1 by simp
        have unk: "cond_Get A cs ''Connected'' = cond_Get A (ist_Conditions (i_Status e)) ''Connected''"
          using 1(2) intg_types by simp
        have ready: "intg_ready (V w) e t creds"
          using alive t V1 1(1,6) by (simp add: intg_ready_def intg_creds_def split: option.splits)
        show ?case
        proof (simp only: sum.case, rule MarkTrue_rule [OF cond], rule ReconcileConnectionSecret_rule [OF ok], goal_cases)
          case (1 cs2 w4 c2 r x w5)
          have "V w5 = (V w)\<lparr>ob_Secrets := (ob_Secrets (V w))(intg_secret_key e := Some x)\<rparr>"
            using 1(1,5) V3 by (simp add: intg_secret_key_def)
          then have foot: "intg_footprint e (V w) (V w5)"
            unfolding intg_footprint_def by (metis intg_only_refl)
          have link: "intg_linked A e t creds (V w5)"
            using 1(5,6) by (simp add: intg_linked_def intg_secret_key_def intg_labels_def intg_ref_def)
          have res: "cond_IsTrue A cs2 ''SecretResolved''" using cond_IsTrue_says [OF cond 1(3,4)] by simp
          show ?case
            unfolding sum.case
          proof (rule intg_probeAndFinish_rule [OF ok probe, where e = e], goal_cases)
            case (9 out w')
            from saved [OF ready 9(1) intg_footprint_trans [OF foot 9(2)] intg_linked_cong [OF 9(2) link] 9(3)] show ?case .
          next
            case (10 res er w')
            from unsaved [OF ready intg_footprint_trans [OF foot 10] intg_linked_cong [OF 10 link]] show ?case .
          qed (use stored 1(1,2,5) V3 res unk in simp_all)
        next
          case (2 cs2 w4 c2 err x w5)
          have "V w5 = (V w)\<lparr>ob_Secrets := (ob_Secrets (V w))(intg_secret_key e := x)\<rparr>"
            using 2(1,5) V3 by (simp add: intg_secret_key_def)
          then have "intg_footprint e (V w) (V w5)"
            unfolding intg_footprint_def by (metis intg_only_refl)
          from fail [OF this _ alive] show ?case unfolding sum.case by simp
        qed
      next
        case (2 cs w2 c err w3 s)
        have V3: "V w3 = V w" using 2(1,5) V1 by simp
        show ?case
        proof (cases "IsNotFound err")
          case True
          with 2(1,6,7) V1 have "\<nexists>t creds. intg_ready (V w) e t creds"
            by (auto simp: intg_ready_def intg_creds_def)
          with V3 True stored blocked [OF alive] error show ?thesis
            by (simp only: sum.case if_True) (rule intg_blockOnDependency_rule [OF ok, where e = e], simp_all)
        next
          case False
          then show ?thesis
            by (simp only: sum.case if_False) (rule fail, simp_all add: V3 alive)
        qed
      qed
    next
      case (2 err w1)
      show ?case
      proof (cases "IsNotFound err")
        case True
        with 2 have "\<nexists>t creds. intg_ready (V w) e t creds" by (auto simp: intg_ready_def)
        with True 2 blocked [OF alive] error show ?thesis
          by (simp only: sum.case if_True) (rule intg_blockOnDependency_rule [OF ok, where e = e], use stored in simp_all)
      next
        case False
        with 2 unread show ?thesis by simp
      qed
    qed
  qed
qed

section \<open>Deletion\<close>

definition intg_status_secret :: "Integration \<Rightarrow> objkey" where
  "intg_status_secret e = (om_Namespace (i_meta e), ist_ConnectionSecretName (i_Status e))"

definition intg_unlinked :: "Integration \<Rightarrow> obs \<Rightarrow> bool" where
  "intg_unlinked e v \<longleftrightarrow> ist_ConnectionSecretName (i_Status e) = [] \<or> ob_Secrets v (intg_status_secret e) = None"

definition intg_final_footprint :: "Integration \<Rightarrow> obs \<Rightarrow> obs \<Rightarrow> bool" where
  "intg_final_footprint e v v' \<longleftrightarrow> (\<exists>g m s. v' = v\<lparr>ob_Phase := g,
     ob_Integrations := (ob_Integrations v)(meta_key (i_meta e) := m),
     ob_Secrets := (ob_Secrets v)(intg_status_secret e := s)\<rparr>)"

lemma intg_final_footprint_refl [simp]: "intg_final_footprint e v v"
  unfolding intg_final_footprint_def
  by (rule exI [of _ "ob_Phase v"], rule exI [of _ "ob_Integrations v (meta_key (i_meta e))"],
      rule exI [of _ "ob_Secrets v (intg_status_secret e)"]) simp

lemma intg_finalize_rule:
  assumes ok: "api_ok A V" and stored: "ob_Integrations (V w) (meta_key (i_meta e)) = Some e"
    and foreign: "IntegrationFinalizer \<notin> set (om_Finalizers (i_meta e)) \<Longrightarrow> Q (no_requeue, None) w"
    and released: "\<And>w'. intg_final_footprint e (V w) (V w') \<Longrightarrow> intg_unlinked e (V w') \<Longrightarrow>
       no_series (V w') (intg_gauge e) \<Longrightarrow> \<not> intg_releases.held e (V w') \<Longrightarrow> Q (no_requeue, None) w'"
    and failed: "\<And>err w'. intg_final_footprint e (V w) (V w') \<Longrightarrow>
       intg_unlinked e (V w') \<or> intg_releases.held e (V w') \<Longrightarrow> Q (no_requeue, Some err) w'"
  shows "wp (intg_finalize A e) Q w"
proof (cases "IntegrationFinalizer \<in> set (om_Finalizers (i_meta e))")
  case False
  then show ?thesis by (simp add: intg_finalize_def finalizers_okD [OF api_okD(6) [OF ok]] foreign)
next
  case True
  have release: "wp (intg_release A e) Q u"
    if V: "V u = (V w)\<lparr>ob_Secrets := (ob_Secrets (V w))(intg_status_secret e := s)\<rparr>" and gone: "intg_unlinked e (V u)" for u s
  proof -
    have after: "intg_final_footprint e (V w) v \<and> intg_unlinked e v"
      if "v = ob_Integrations_update (\<lambda>s. s(meta_key (i_meta e) := m)) ((V u)\<lparr>ob_Phase := g\<rparr>)" for v g m
    proof
      show "intg_final_footprint e (V w) v" unfolding intg_final_footprint_def
        by (rule exI [of _ g], rule exI [of _ m], rule exI [of _ s]) (simp add: that V)
      show "intg_unlinked e v" using gone by (simp add: that intg_unlinked_def)
    qed
    show ?thesis
    proof (rule intg_releases.release_rule [OF ok], goal_cases)
      case (1 w3 g m)
      with after [OF 1(1)] show ?case by (intro released) simp_all
    next
      case (2 w3 g m err)
      with after [OF 2(1)] show ?case by (intro failed) simp_all
    qed
  qed
  show ?thesis
  proof (cases "ist_ConnectionSecretName (i_Status e) = []")
    case empty: True
    with release [of w "ob_Secrets (V w) (intg_status_secret e)"] True show ?thesis
      by (simp add: intg_finalize_def finalizers_okD [OF api_okD(6) [OF ok]] intg_unlinked_def)
  next
    case False
    have "wp (DeleteConnectionSecret A (fst (intg_status_secret e)) (snd (intg_status_secret e)))
        (\<lambda>err. case err of Some e \<Rightarrow> Q (no_requeue, Some e) | None \<Rightarrow> wp (intg_release A e) Q) w"
    proof (rule DeleteConnectionSecret_rule [OF ok], goal_cases)
      case (1 w')
      with release [of w' None] show ?case by (simp add: intg_unlinked_def)
    next
      case (2 err w' s)
      have "Q (no_requeue, Some err) w'"
      proof (rule failed)
        show "intg_final_footprint e (V w) (V w')" unfolding intg_final_footprint_def
          by (rule exI [of _ "ob_Phase (V w)"], rule exI [of _ "ob_Integrations (V w) (meta_key (i_meta e))"],
              rule exI [of _ s]) (simp add: 2)
        show "intg_unlinked e (V w') \<or> intg_releases.held e (V w')"
          using 2 stored True by (simp add: intg_releases.held_def)
      qed
      then show ?case by simp
    qed
    with False True show ?thesis
      by (simp add: intg_finalize_def finalizers_okD [OF api_okD(6) [OF ok]] intg_status_secret_def
          cong: option.case_cong)
  qed
qed

section \<open>The controller contract\<close>

interpretation integrations: controller integrationControllerName ob_Integrations ob_Integrations_update i_meta i_Spec
    "\<lambda>fs i. i\<lparr>i_meta := (i_meta i)\<lparr>om_Finalizers := fs\<rparr>\<rparr>" api_Integrations IntegrationFinalizer
    "\<lambda>req. (integrationControllerName, fst req, snd req)" intg_finalize "\<lambda>A. intg_reconcileIntegration A None"
    "\<lambda>A. intg_Reconcile A None"
proof (unfold_locales, goal_cases)
  case (1 A req)
  show ?case by (simp only: intg_Reconcile_def skeleton_def clear_phase_def prod.case)
next
  case (2 A V)
  then show ?case by (simp add: api_ok_def reads_ok_def resources_ok_def)
next
  case (10 A V w x)
  show ?case
    by (rule intg_finalize_rule [OF 10]) (auto simp: intg_final_footprint_def)
next
  case (11 A V w x)
  have probe: "probing V (\<lambda>_. True) (prober A None)"
    using HTTPProber_probing [OF api_okD(9) [OF 11(1)]] by (simp add: prober_def)
  show ?case
    by (rule intg_reconcileIntegration_rule [OF 11(1) probe 11(2)]) (auto simp: intg_footprint_def intg_only_def)
qed simp_all

end
