(* ===== verification/IntegrationRuns.thy ===== *)
theory IntegrationRuns
  imports IntegrationController
begin

text \<open>
  The properties of the Integration controller, and its runs: the work queue reconciles the same
  integration again and again, and what the status says along such a run is the state of a small
  retry machine.
\<close>

section \<open>Runs of the controller\<close>

text \<open>The work queue calls \<open>Reconcile\<close> for the same integration time and again.\<close>

fun intg_reconciles :: "'w api \<Rightarrow> objkey \<Rightarrow> nat \<Rightarrow> ('w, (Result \<times> go_err option) list) state" where
  "intg_reconciles A req 0 = State_Monad.return []"
| "intg_reconciles A req (Suc k) = do {
     r \<leftarrow> intg_Reconcile A None req;
     rs \<leftarrow> intg_reconciles A req k;
     State_Monad.return (r # rs)
   }"

text \<open>The retry machine: the states and the delays along a list of probe outcomes.\<close>

fun retry_run :: "RetryPolicy option \<Rightarrow> string option list \<Rightarrow> retry_state \<Rightarrow> retry_state" where
  "retry_run p [] s = s"
| "retry_run p (out # outs) s = retry_run p outs (retry_next p out (fst (snd s)))"

fun retry_delays :: "RetryPolicy option \<Rightarrow> string option list \<Rightarrow> retry_state \<Rightarrow> Duration list" where
  "retry_delays p [] s = []"
| "retry_delays p (out # outs) s =
     retry_delay p out (fst (snd s)) # retry_delays p outs (retry_next p out (fst (snd s)))"

text \<open>What is needed for the next reconcile to probe: nothing of it is changed by a reconcile.\<close>

definition intg_live :: "obs \<Rightarrow> Integration \<Rightarrow> IntegrationStatus \<Rightarrow> Tenant \<Rightarrow> (string, string) fmap \<Rightarrow> bool" where
  "intg_live v e st t creds \<longleftrightarrow>
     ob_Integrations v (meta_key (i_meta e)) = Some (e\<lparr>i_Status := st\<rparr>) \<and>
     om_DeletionTimestamp (i_meta e) = None \<and> IntegrationFinalizer \<in> set (om_Finalizers (i_meta e)) \<and>
     intg_ready v e t creds \<and>
     (case is_AuthSecretRef (i_Spec e) of None \<Rightarrow> True | Some s \<Rightarrow> sr_Name s \<noteq> ConnectionSecretName (om_Name (i_meta e)))"

lemma intg_status_simps [simp]:
  "intg_secret_key (e\<lparr>i_Status := st\<rparr>) = intg_secret_key e" "intg_labels t (e\<lparr>i_Status := st\<rparr>) = intg_labels t e"
  "intg_ready v (e\<lparr>i_Status := st\<rparr>) t creds = intg_ready v e t creds"
  "outcome_of R (e\<lparr>i_Status := st\<rparr>) out = outcome_of R e out"
  by (auto simp: intg_ready_def intg_creds_def intg_secret_key_def intg_labels_def outcome_of_def split: option.splits)

lemma intg_status_linked [simp]: "intg_linked A (e\<lparr>i_Status := st\<rparr>) t creds v = intg_linked A e t creds v"
  by (simp add: intg_linked_def)

lemma intg_reported_view:
  "intg_reported A e out v \<Longrightarrow> \<exists>st. ob_Integrations v (meta_key (i_meta e)) = Some (e\<lparr>i_Status := st\<rparr>) \<and>
     retry_view st = retry_next (is_RetryPolicy (i_Spec e)) out (ist_Retries (i_Status e))"
  unfolding intg_reported_def Let_def by blast

lemma intg_total_simps [simp]:
  "intg_live (integrations.total v r) e st t creds = intg_live v e st t creds"
  "intg_linked A e t creds (integrations.total v r) = intg_linked A e t creds v"
  by (simp_all add: integrations.total_def intg_live_def intg_ready_def intg_creds_def intg_linked_def
      cong: option.case_cong)

lemma intg_Reconcile_live:
  assumes ok: "api_ok A V" and probe: "probing V R (HTTPProber_Probe A)" and live: "intg_live (V w) e st t creds"
  shows "wp (intg_Reconcile A None (meta_key (i_meta e))) (\<lambda>(res, err) w'. err = None \<longrightarrow>
     (\<exists>st' out. outcome_of R e out \<and> intg_live (V w') e st' t creds \<and> intg_linked A e t creds (V w') \<and>
        retry_view st' = retry_next (is_RetryPolicy (i_Spec e)) out (ist_Retries st) \<and>
        res = \<lparr>RequeueAfter = retry_delay (is_RetryPolicy (i_Spec e)) out (ist_Retries st)\<rparr>)) w"
proof (rule integrations.Reconcile_rule [OF ok], goal_cases)
  case (5 x u)
  let ?e = "e\<lparr>i_Status := st\<rparr>"
  from 5 live have x: "x = ?e" by (simp add: intg_live_def)
  have p: "probing V R (prober A None)" using probe by (simp add: prober_def)
  have stored: "ob_Integrations (V u) (meta_key (i_meta ?e)) = Some ?e" using 5(1) live by (simp add: intg_live_def)
  have ready: "intg_ready (V u) ?e t creds" using 5(1) live by (simp add: intg_live_def)
  show ?case
    unfolding x
  proof (rule intg_reconcileIntegration_rule [OF ok p stored], goal_cases)
    case (1 w') with ready show ?case by (simp add: intg_ready_def)
  next
    case (4 w') with ready show ?case by blast
  next
    case (6 t' creds' out w')
    then have [simp]: "t' = t" "creds' = creds"
      using ready by (auto simp: intg_ready_def intg_creds_def split: option.splits)
    from intg_reported_view [OF 6(5)] obtain st' where
      st': "ob_Integrations (V w') (meta_key (i_meta e)) = Some (e\<lparr>i_Status := st'\<rparr>)"
      "retry_view st' = retry_next (is_RetryPolicy (i_Spec e)) out (ist_Retries st)" by auto
    have "intg_live (V w') e st' t creds"
      using 6(3) 5(1) live st'(1)
      by (auto simp: intg_live_def intg_footprint_def intg_only_def intg_ready_def intg_creds_def intg_secret_key_def
          split: option.splits)
    with 6(2,4) st'(2) show ?case by (simp del: retry_delay.simps) blast
  qed simp_all
qed (use live in \<open>auto simp: intg_live_def\<close>)

lemma intg_reconciles_live:
  assumes ok: "api_ok A V" and probe: "probing V R (HTTPProber_Probe A)" and live: "intg_live (V w) e st t creds"
  shows "wp (intg_reconciles A (meta_key (i_meta e)) k) (\<lambda>rs w'. (\<forall>r \<in> set rs. snd r = None) \<longrightarrow>
     (\<exists>st' outs. length outs = k \<and> (\<forall>out \<in> set outs. outcome_of R e out) \<and> intg_live (V w') e st' t creds \<and>
        (0 < k \<or> intg_linked A e t creds (V w) \<longrightarrow> intg_linked A e t creds (V w')) \<and>
        retry_view st' = retry_run (is_RetryPolicy (i_Spec e)) outs (retry_view st) \<and>
        map fst rs = map (\<lambda>d. \<lparr>RequeueAfter = d\<rparr>) (retry_delays (is_RetryPolicy (i_Spec e)) outs (retry_view st)))) w"
  using live
proof (induction k arbitrary: w st)
  case 0
  then show ?case by auto
next
  case (Suc k)
  let ?p = "is_RetryPolicy (i_Spec e)"
  have n: "fst (snd (retry_view st)) = ist_Retries st" for st by (simp add: retry_view_def)
  show ?case
    unfolding intg_reconciles.simps wp_simps
  proof (rule wp_mono [OF intg_Reconcile_live [OF ok probe Suc.prems]], goal_cases)
    case (1 r w1)
    show ?case
    proof (cases "snd r")
      case None
      with 1 obtain st1 out where st1: "outcome_of R e out" "intg_live (V w1) e st1 t creds"
        "intg_linked A e t creds (V w1)" "retry_view st1 = retry_next ?p out (ist_Retries st)"
        "fst r = \<lparr>RequeueAfter = retry_delay ?p out (ist_Retries st)\<rparr>" by (cases r) auto
      show ?thesis
      proof (rule wp_mono [OF Suc.IH [OF st1(2)]], intro impI, goal_cases)
        case (1 rs w2)
        then obtain st2 outs where IH: "length outs = k" "\<forall>out \<in> set outs. outcome_of R e out"
          "intg_live (V w2) e st2 t creds" "intg_linked A e t creds (V w2)"
          "retry_view st2 = retry_run ?p outs (retry_view st1)"
          "map fst rs = map (\<lambda>d. \<lparr>RequeueAfter = d\<rparr>) (retry_delays ?p outs (retry_view st1))" using st1(3) by auto
        show ?case
          by (rule exI [of _ st2], rule exI [of _ "out # outs"])
            (use IH st1 n in \<open>auto simp del: retry_delay.simps\<close>)
      qed
    next
      case (Some er)
      then show ?thesis by (intro wp_any) auto
    qed
  qed
qed

lemma retry_run_failing:
  assumes "\<forall>out \<in> set outs. out \<noteq> None" and "outs \<noteq> []"
  shows "retry_run p outs s =
     (let n = fst (snd s) + of_nat (length outs) in
      (if exhausted p n then IntegrationPhaseFailed else IntegrationPhaseDegraded, n, the (last outs)))"
  using assms
proof (induction outs arbitrary: s)
  case (Cons out outs)
  then obtain msg where "out = Some msg" by auto
  with Cons show ?case by (cases "outs = []") (simp_all add: Let_def add.assoc)
qed simp

lemma retry_delays_failing:
  assumes "\<forall>out \<in> set outs. out \<noteq> None"
  shows "retry_delays p outs s = map (\<lambda>i. let n = fst (snd s) + of_nat (Suc i) in
     if exhausted p n then integrationResyncPeriod else computeBackoff p n) [0..<length outs]"
  using assms
proof (induction outs arbitrary: s)
  case (Cons out outs)
  then obtain msg where "out = Some msg" by auto
  with Cons show ?case
    by (simp add: Let_def upt_conv_Cons map_Suc_upt [symmetric] comp_def add.assoc del: upt_Suc map_Suc_upt)
qed simp

section \<open>Properties\<close>

text \<open>An integration with credentials and its cluster, right after its finalizer was added.\<close>

definition intg_tenant :: Tenant where
  "intg_tenant =
     \<lparr>t_meta = new_meta [] ''acme'',
      t_Spec = \<lparr>ts_DisplayName = ''Acme'', ts_Tier = TenantTierStandard, ts_NamespacePrefix = ''tenant'',
        ts_Quota = None, ts_Limits = None, ts_NetworkIsolation = NetworkIsolationBaseline,
        ts_Admins = [], ts_ExtraLabels = fmempty,
        ts_Lifecycle = \<lparr>lp_Suspended = False, lp_DeletionPolicy = DeletionPolicyDelete\<rparr>\<rparr>,
      t_Status = \<lparr>tst_Phase = TenantPhaseActive, tst_Conditions = [], tst_ObservedGeneration = 0,
        tst_Namespace = ''tenant-acme'', tst_EnvironmentCount = 0, tst_IntegrationCount = 1,
        tst_LastReconcileTime = None\<rparr>\<rparr>"

definition billing :: Integration where
  "billing =
     \<lparr>i_meta = (new_meta ''team'' ''billing'')\<lparr>om_Generation := 1, om_Finalizers := [IntegrationFinalizer]\<rparr>,
      i_Spec = \<lparr>is_TenantRef = \<lparr>tr_Name = ''acme''\<rparr>, is_Type = IntegrationTypeRESTAPI, is_Endpoint = ''https://api'',
        is_AuthSecretRef = Some \<lparr>sr_Name = ''creds''\<rparr>, is_Headers = fmempty, is_Events = [],
        is_RetryPolicy = Some \<lparr>rp_MaxRetries = 1, rp_Backoff = BackoffStrategyExponential, rp_InitialDelay = None,
          rp_MaxDelay = None\<rparr>,
        is_RateLimit = None, is_HealthCheck = None, is_TLS = None, is_Suspend = False\<rparr>,
      i_Status = \<lparr>ist_Phase = [], ist_Conditions = [], ist_ObservedGeneration = 0, ist_ConnectionSecretName = [],
        ist_ObservedEndpoint = [], ist_Retries = 0, ist_DeliveredEvents = 0, ist_FailedEvents = 0,
        ist_LastEventTime = None, ist_LastProbeTime = None, ist_LastError = [], ist_LastReconcileTime = None\<rparr>\<rparr>"

definition creds_secret :: Secret where
  "creds_secret = (new_Secret ''team'' ''creds'')\<lparr>sec_Data := fmap_of_list [(''token'', ''s3cret'')]\<rparr>"

definition intg_world :: "Integration \<Rightarrow> mworld" where
  "intg_world e = mw_empty\<lparr>mw_Tenants := [(([], ''acme''), intg_tenant)],
     mw_Integrations := [(meta_key (i_meta e), e)], mw_Secrets := [((''team'', ''creds''), creds_secret)]\<rparr>"

lemma intg_world_stored: "ob_Integrations (m_obs (intg_world e)) (meta_key (i_meta e)) = Some e"
  by (simp add: m_obs_def intg_world_def)

lemma mem_probing: "probing m_obs (\<lambda>_. True) (prober mem_api None)"
  using HTTPProber_probing [OF api_okD(9) [OF mem_api_ok]] by (simp add: prober_def)

text \<open>C3: \<open>reconcileIntegration\<close> does what the Integration asks for and says so, with any prober that
  leaves the cluster alone. Without an error there are three outcomes: it is suspended and says
  Disabled; its tenant or its auth secret is missing, and it says Pending and comes back in 15
  seconds; or the connection secret holds the endpoint, the type and the credentials, and the stored
  status reports the outcome of the probe - Connected, or Degraded with a counted retry, or Failed -
  with the next check due after the delay of the retry policy.\<close>

theorem intg_converges:
  assumes "api_ok A V" and "probing V R (prober A pr)"
    and "ob_Integrations (V w) (meta_key (i_meta e)) = Some e"
  shows "wp (intg_reconcileIntegration A pr e) (\<lambda>(res, err) w'.
     (case err of
        Some _ \<Rightarrow> True
      | None \<Rightarrow>
          if is_Suspend (i_Spec e) then res = no_requeue \<and> intg_only e (V w) (V w') \<and>
            intg_waiting A e IntegrationPhaseDisabled ReasonSuspended (V w')
          else if \<nexists>t creds. intg_ready (V w) e t creds then
            res = \<lparr>RequeueAfter = 15 * Second\<rparr> \<and> intg_only e (V w) (V w') \<and>
            intg_waiting A e IntegrationPhasePending ReasonDependencyNotMet (V w')
          else \<exists>t creds out. intg_ready (V w) e t creds \<and> outcome_of R e out \<and>
            intg_linked A e t creds (V w') \<and> intg_reported A e out (V w') \<and>
            res = \<lparr>RequeueAfter = retry_delay (is_RetryPolicy (i_Spec e)) out (ist_Retries (i_Status e))\<rparr>)) w"
  by (rule intg_reconcileIntegration_rule [OF assms]) (auto dest: intg_ready_alive)

lemma intg_converges_witness:
  "wp (intg_reconcileIntegration mem_api None billing) (\<lambda>(res, err) w'.
     (case err of
        Some _ \<Rightarrow> True
      | None \<Rightarrow>
          if is_Suspend (i_Spec billing) then res = no_requeue \<and>
            intg_only billing (m_obs (intg_world billing)) (m_obs w') \<and>
            intg_waiting mem_api billing IntegrationPhaseDisabled ReasonSuspended (m_obs w')
          else if \<nexists>t creds. intg_ready (m_obs (intg_world billing)) billing t creds then
            res = \<lparr>RequeueAfter = 15 * Second\<rparr> \<and> intg_only billing (m_obs (intg_world billing)) (m_obs w') \<and>
            intg_waiting mem_api billing IntegrationPhasePending ReasonDependencyNotMet (m_obs w')
          else \<exists>t creds out. intg_ready (m_obs (intg_world billing)) billing t creds \<and> outcome_of (\<lambda>_. True) billing out \<and>
            intg_linked mem_api billing t creds (m_obs w') \<and> intg_reported mem_api billing out (m_obs w') \<and>
            res = \<lparr>RequeueAfter = retry_delay (is_RetryPolicy (i_Spec billing)) out (ist_Retries (i_Status billing))\<rparr>))
     (intg_world billing) \<and>
   fst (run_state (intg_reconcileIntegration mem_api None billing) (intg_world billing)) =
     (\<lparr>RequeueAfter = integrationResyncPeriod\<rparr>, None)"
proof (rule conjI [OF intg_converges [OF mem_api_ok mem_probing intg_world_stored]])
  show "fst (run_state (intg_reconcileIntegration mem_api None billing) (intg_world billing)) =
     (\<lparr>RequeueAfter = integrationResyncPeriod\<rparr>, None)" by code_simp
qed


text \<open>The same cluster, whose first write fails.\<close>

definition flaky_intg_world :: mworld where
  "flaky_intg_world = (intg_world billing)\<lparr>mw_Faults := [False, False, True]\<rparr>"


text \<open>Integrations are isolated. Whatever its outcome, a reconcile of an integration writes nothing but
  the integration's own status and its connection secret, and the secret only when the integration is
  not suspended.\<close>

lemma intg_writes_own_objects:
  assumes "api_ok A V" and "probing V R (prober A pr)"
    and "ob_Integrations (V w) (meta_key (i_meta e)) = Some e"
  shows "wp (intg_reconcileIntegration A pr e) (\<lambda>_ w'.
     if is_Suspend (i_Spec e) then intg_only e (V w) (V w') else intg_footprint e (V w) (V w')) w"
  by (rule intg_reconcileIntegration_rule [OF assms]) (auto dest: intg_ready_alive)

lemma intg_writes_own_objects_witness:
  "wp (intg_reconcileIntegration mem_api None billing) (\<lambda>_ w'.
     if is_Suspend (i_Spec billing) then intg_only billing (m_obs (intg_world billing)) (m_obs w')
     else intg_footprint billing (m_obs (intg_world billing)) (m_obs w')) (intg_world billing)"
  by (rule intg_writes_own_objects [OF mem_api_ok mem_probing intg_world_stored])

text \<open>C11: The finalizer of an Integration protects its credentials. \<open>finalize\<close> on a stored integration
  gives the finalizer up only when the connection secret recorded in its status is gone; a return
  without error means that the finalizer is gone and the phase series dropped; and it writes nothing
  but the integration and that secret.\<close>

theorem intg_finalizer_protects:
  assumes "api_ok A V" and "ob_Integrations (V w) (meta_key (i_meta e)) = Some e"
  shows "wp (intg_finalize A e) (\<lambda>(res, err) w'. res = no_requeue \<and>
     intg_final_footprint e (V w) (V w') \<and>
     (if IntegrationFinalizer \<in> set (om_Finalizers (i_meta e)) then
        (intg_unlinked e (V w') \<or> intg_releases.held e (V w')) \<and>
        (if err = None then intg_unlinked e (V w') \<and> \<not> intg_releases.held e (V w') \<and> no_series (V w') (intg_gauge e)
         else True)
      else err = None \<and> V w' = V w)) w"
proof (cases "IntegrationFinalizer \<in> set (om_Finalizers (i_meta e))")
  case True
  then show ?thesis by (intro intg_finalize_rule [OF assms]) auto
next
  case False
  then show ?thesis by (simp add: intg_finalize_def finalizers_okD [OF api_okD(6) [OF assms(1)]])
qed

definition doomed_intg :: Integration where
  "doomed_intg = billing\<lparr>i_meta := (i_meta billing)\<lparr>om_DeletionTimestamp := Some 2000\<rparr>,
     i_Status := (i_Status billing)\<lparr>ist_ConnectionSecretName := ''billing-connection''\<rparr>\<rparr>"

lemma intg_finalizer_protects_witness:
  "wp (intg_finalize mem_api doomed_intg) (\<lambda>(res, err) w'. res = no_requeue \<and>
     intg_final_footprint doomed_intg (m_obs (intg_world doomed_intg)) (m_obs w') \<and>
     (if IntegrationFinalizer \<in> set (om_Finalizers (i_meta doomed_intg)) then
        (intg_unlinked doomed_intg (m_obs w') \<or> intg_releases.held doomed_intg (m_obs w')) \<and>
        (if err = None then intg_unlinked doomed_intg (m_obs w') \<and> \<not> intg_releases.held doomed_intg (m_obs w') \<and>
           no_series (m_obs w') (intg_gauge doomed_intg)
         else True)
      else err = None \<and> m_obs w' = m_obs (intg_world doomed_intg))) (intg_world doomed_intg) \<and>
   snd (fst (run_state (intg_finalize mem_api doomed_intg) (intg_world doomed_intg))) = None"
proof (rule conjI [OF intg_finalizer_protects [OF mem_api_ok intg_world_stored]])
  show "snd (fst (run_state (intg_finalize mem_api doomed_intg) (intg_world doomed_intg))) = None" by code_simp
qed

text \<open>C6: The controller implements the retry machine. Reconcile a live integration any number of times,
  and let every reconcile succeed: then there are outcomes of the probes, one for each, such that
  phase, retry count and last error in the stored status are the state that the machine reaches along
  them, and the requested delays are the machine's. The integration stays live, and its connection
  secret is as described.\<close>

theorem intg_implements_retry_machine:
  assumes "api_ok A V" and "probing V R (HTTPProber_Probe A)" and "intg_live (V w) e st t creds"
  shows "wp (intg_reconciles A (meta_key (i_meta e)) (Suc k)) (\<lambda>rs w'. (\<forall>r \<in> set rs. snd r = None) \<longrightarrow>
     (\<exists>st' outs. length outs = Suc k \<and> (\<forall>out \<in> set outs. outcome_of R e out) \<and>
        intg_live (V w') e st' t creds \<and> intg_linked A e t creds (V w') \<and>
        retry_view st' = retry_run (is_RetryPolicy (i_Spec e)) outs (retry_view st) \<and>
        map fst rs = map (\<lambda>d. \<lparr>RequeueAfter = d\<rparr>) (retry_delays (is_RetryPolicy (i_Spec e)) outs (retry_view st)))) w"
  by (rule wp_mono [OF intg_reconciles_live [OF assms, of "Suc k"]]) blast

lemma billing_live: "intg_live (m_obs (intg_world billing)) billing (i_Status billing) intg_tenant (sec_Data creds_secret)"
  by (simp add: intg_live_def m_obs_def intg_world_def billing_def new_meta_def meta_key_def intg_ready_def intg_creds_def
      ConnectionSecretName_def upo_consts)

lemma intg_implements_retry_machine_witness:
  "wp (intg_reconciles mem_api (meta_key (i_meta billing)) 3) (\<lambda>rs w'. (\<forall>r \<in> set rs. snd r = None) \<longrightarrow>
     (\<exists>st' outs. length outs = 3 \<and> (\<forall>out \<in> set outs. outcome_of (\<lambda>_. True) billing out) \<and>
        intg_live (m_obs w') billing st' intg_tenant (sec_Data creds_secret) \<and>
        intg_linked mem_api billing intg_tenant (sec_Data creds_secret) (m_obs w') \<and>
        retry_view st' = retry_run (is_RetryPolicy (i_Spec billing)) outs (retry_view (i_Status billing)) \<and>
        map fst rs = map (\<lambda>d. \<lparr>RequeueAfter = d\<rparr>)
          (retry_delays (is_RetryPolicy (i_Spec billing)) outs (retry_view (i_Status billing))))) (intg_world billing)"
proof -
  have "probing m_obs (\<lambda>_. True) (HTTPProber_Probe mem_api)" by (rule HTTPProber_probing [OF api_okD(9) [OF mem_api_ok]])
  from intg_implements_retry_machine [OF mem_api_ok this billing_live, of 2] show ?thesis
    by (simp add: eval_nat_numeral)
qed

text \<open>C13: The retries of an unreachable endpoint are bounded and counted. Let a live integration of an HTTP
  type have no retries yet, and let every probe fail. After k reconciles without error the status
  counts k retries and carries the text of the last failure, the phase is Degraded as long as k is at
  most the maximum of the policy (5 if there is none) and Failed from then on, and the delays are
  those of the backoff up to the maximum and the resync period after it.\<close>

theorem intg_retries_exhaust:
  assumes "api_ok A V" and "probing V R (HTTPProber_Probe A)" and "\<not> R None" and "intg_live (V w) e st t creds"
    and "IsHTTPType (is_Type (i_Spec e))" and "ist_Retries st = 0" and "0 < k" and "k < 2 ^ 31"
  shows "wp (intg_reconciles A (meta_key (i_meta e)) k) (\<lambda>rs w'. (\<forall>r \<in> set rs. snd r = None) \<longrightarrow>
     (\<exists>st' er. intg_live (V w') e st' t creds \<and> sint (ist_Retries st') = int k \<and>
        R (Some er) \<and> ist_LastError st' = Error er \<and>
        ist_Phase st' = (if sint (max_retries (is_RetryPolicy (i_Spec e))) < int k then IntegrationPhaseFailed
          else IntegrationPhaseDegraded) \<and>
        map fst rs = map (\<lambda>i. \<lparr>RequeueAfter =
          if sint (max_retries (is_RetryPolicy (i_Spec e))) < int (Suc i) then integrationResyncPeriod
          else computeBackoff (is_RetryPolicy (i_Spec e)) (of_nat (Suc i))\<rparr>) [0..<k])) w"
proof (rule wp_mono [OF intg_reconciles_live [OF assms(1,2,4), of k]], intro impI, goal_cases)
  case (1 rs w')
  let ?p = "is_RetryPolicy (i_Spec e)"
  from 1 obtain st' outs where *: "length outs = k" "\<forall>out \<in> set outs. outcome_of R e out"
    "intg_live (V w') e st' t creds" "retry_view st' = retry_run ?p outs (retry_view st)"
    "map fst rs = map (\<lambda>d. \<lparr>RequeueAfter = d\<rparr>) (retry_delays ?p outs (retry_view st))"
    by blast
  have failed: "\<exists>er. R (Some er) \<and> out = Some (Error er)" if "out \<in> set outs" for out
  proof -
    from that *(2) assms(5) obtain r where "R r" "out = map_option Error r" by (auto simp: outcome_of_def)
    with assms(3) show ?thesis by (cases r) auto
  qed
  then have none: "\<forall>out \<in> set outs. out \<noteq> None" by blast
  have ne: "outs \<noteq> []" using *(1) assms(7) by auto
  then obtain er where er: "R (Some er)" "last outs = Some (Error er)" using failed by (meson last_in_set)
  have n: "fst (snd (retry_view st)) = 0" by (simp add: retry_view_def assms(6))
  have exh: "exhausted ?p (of_nat i) \<longleftrightarrow> sint (max_retries ?p) < int i" if "i \<le> k" for i
    using that assms(8) by (simp add: exhausted_def signed_of_nat signed_take_bit_int_eq_self)
  have st': "sint (ist_Retries st') = int k" "ist_LastError st' = Error er"
    "ist_Phase st' = (if sint (max_retries ?p) < int k then IntegrationPhaseFailed else IntegrationPhaseDegraded)"
    using *(4) retry_run_failing [OF none ne, of ?p "retry_view st"] *(1) n er exh [of k] assms(8)
    by (simp_all add: Let_def retry_view_def signed_of_nat signed_take_bit_int_eq_self)
  have "map fst rs = map (\<lambda>i. \<lparr>RequeueAfter =
      if sint (max_retries ?p) < int (Suc i) then integrationResyncPeriod
      else computeBackoff ?p (of_nat (Suc i))\<rparr>) [0..<k]"
    unfolding *(5) retry_delays_failing [OF none] *(1) map_map
    by (rule map_cong [OF refl]) (use exh n in \<open>simp add: Let_def del: of_nat_Suc\<close>)
  with *(3) st' er show ?case by blast
qed

text \<open>A cluster in which no server is healthy.\<close>

definition outage :: "'w api \<Rightarrow> 'w api" where
  "outage A = A\<lparr>HttpDo := \<lambda>_. State_Monad.return (Inr 503)\<rparr>"

lemma outage_ok: "api_ok A V \<Longrightarrow> api_ok (outage A) V"
  by (simp cong: option.case_cong json.case_cong add: outage_def api_ok_def objects_ok_def prompt_deletes_def reads_ok_def
      resources_ok_def owners_ok_def finalizers_ok_def conditions_ok_def metrics_ok_def effects_ok_def json_ok_def)

lemma outage_probing: "probing V (\<lambda>r. r \<noteq> None) (HTTPProber_Probe (outage A))"
  by (auto simp: probing_def HTTPProber_Probe_def outage_def StatusInternalServerError_def split: option.split)

lemma intg_retries_exhaust_witness:
  "wp (intg_reconciles (outage mem_api) (meta_key (i_meta billing)) 3) (\<lambda>rs w'. (\<forall>r \<in> set rs. snd r = None) \<longrightarrow>
     (\<exists>st' (er :: go_err). intg_live (m_obs w') billing st' intg_tenant (sec_Data creds_secret) \<and>
        sint (ist_Retries st') = int 3 \<and> Some er \<noteq> None \<and> ist_LastError st' = Error er \<and>
        ist_Phase st' = (if sint (max_retries (is_RetryPolicy (i_Spec billing))) < int 3 then IntegrationPhaseFailed
          else IntegrationPhaseDegraded) \<and>
        map fst rs = map (\<lambda>i. \<lparr>RequeueAfter =
          if sint (max_retries (is_RetryPolicy (i_Spec billing))) < int (Suc i) then integrationResyncPeriod
          else computeBackoff (is_RetryPolicy (i_Spec billing)) (of_nat (Suc i))\<rparr>) [0..<3])) (intg_world billing)"
proof (rule intg_retries_exhaust [OF outage_ok [OF mem_api_ok] outage_probing _ billing_live])
  show "IsHTTPType (is_Type (i_Spec billing))" "ist_Retries (i_Status billing) = 0"
    by (simp_all add: billing_def IsHTTPType_def)
qed simp_all

text \<open>An outage does not withdraw the Connected condition. When the probe of an integration that was
  connected fails, a reconcile without error makes it not Ready, but its condition Connected stays
  True, with the message of the last success.\<close>

lemma intg_outage_keeps_Connected:
  assumes "api_ok A V" and "probing V R (prober A pr)" and "\<not> R None"
    and "ob_Integrations (V w) (meta_key (i_meta e)) = Some e" and "intg_ready (V w) e t creds"
    and "IsHTTPType (is_Type (i_Spec e))" and "cond_IsTrue A (ist_Conditions (i_Status e)) ''Connected''"
  shows "wp (intg_reconcileIntegration A pr e) (\<lambda>(res, err) w'.
     (case err of
        Some _ \<Rightarrow> True
      | None \<Rightarrow> \<exists>e'. ob_Integrations (V w') (meta_key (i_meta e)) = Some e' \<and>
          cond_IsTrue A (ist_Conditions (i_Status e')) ''Connected'' \<and>
          \<not> cond_IsTrue A (ist_Conditions (i_Status e')) ConditionReady)) w"
proof (rule intg_reconcileIntegration_rule [OF assms(1,2,4)], goal_cases)
  case (6 t' creds' out w')
  from 6(2) assms(6) obtain r where "R r" "out = map_option Error r" by (auto simp: outcome_of_def)
  with assms(3) have "out \<noteq> None" by (cases r) auto
  with 6(5) assms(7) show ?case
    by (auto simp: intg_reported_def Let_def cond_IsTrue_iff [OF api_okD(7) [OF assms(1)]])
qed (use assms(5) intg_ready_alive in auto)

definition connected_intg :: Integration where
  "connected_intg = billing\<lparr>i_Status := (i_Status billing)\<lparr>ist_Phase := IntegrationPhaseConnected, ist_Conditions :=
     [\<lparr>c_Type = ''Connected'', c_Status = ConditionTrue, c_ObservedGeneration = 1, c_LastTransitionTime = None,
       c_Reason = ReasonProvisioned, c_Message = ''endpoint reachable''\<rparr>]\<rparr>\<rparr>"

lemma intg_outage_keeps_Connected_witness:
  "wp (intg_reconcileIntegration (outage mem_api) None connected_intg) (\<lambda>(res, err) w'.
     (case err of
        Some _ \<Rightarrow> True
      | None \<Rightarrow> \<exists>e'. ob_Integrations (m_obs w') (meta_key (i_meta connected_intg)) = Some e' \<and>
          cond_IsTrue (outage mem_api) (ist_Conditions (i_Status e')) ''Connected'' \<and>
          \<not> cond_IsTrue (outage mem_api) (ist_Conditions (i_Status e')) ConditionReady)) (intg_world connected_intg)"
proof (rule intg_outage_keeps_Connected [OF outage_ok [OF mem_api_ok], where R = "\<lambda>r. r \<noteq> None"])
  show "probing m_obs (\<lambda>r. r \<noteq> None) (prober (outage mem_api) None)"
    by (simp only: prober_def option.case outage_probing)
  show "ob_Integrations (m_obs (intg_world connected_intg)) (meta_key (i_meta connected_intg)) = Some connected_intg"
    by (rule intg_world_stored)
  show "intg_ready (m_obs (intg_world connected_intg)) connected_intg intg_tenant (sec_Data creds_secret)"
    by (simp add: m_obs_def intg_world_def connected_intg_def billing_def new_meta_def intg_ready_def intg_creds_def)
  show "cond_IsTrue (outage mem_api) (ist_Conditions (i_Status connected_intg)) ''Connected''" by code_simp
qed (simp_all add: connected_intg_def billing_def IsHTTPType_def)

end
