(* ===== verification/Progress.thy ===== *)
theory Progress
  imports Calm TenantController EnvironmentController IntegrationRuns
begin

text \<open>
  The controllers make progress: in a calm cluster (theory Calm) a new object is provisioned, and a
  deleted one goes away, within the number of reconciles stated. Together with the other properties,
  which say what a reconcile without error achieves, these are total.
\<close>

section \<open>The shared parts of the controllers\<close>

lemma if_worldI: "(b \<Longrightarrow> P w) \<Longrightarrow> (\<not> b \<Longrightarrow> R w) \<Longrightarrow> (if b then P else R) w"
  by simp

context reporter
begin

lemma updateStatus_settles:
  assumes ok: "api_ok A V" and calm: "calm_resource V sel mt (kc A)"
    and stored: "sel (V w) (meta_key (mt x)) = Some s"
    and Q: "\<And>now w'. V w' = upd (\<lambda>m. m(meta_key (mt x) \<mapsto> put_st (stamp gen now (st x)) s)) (V w) \<Longrightarrow>
       Q (None, put_st (stamp gen now (st x)) s) w'"
  shows "wp (updateStatus A x gen) Q w"
  unfolding updateStatus_eq wp_simps
  by (rule wp_Now [OF api_okD(9) [OF ok]], rule wp_status_calm [OF client [OF ok] calm])
    (use stored in \<open>auto simp: put_st intro!: Q\<close>)

lemma updateStatus_accepted:
  assumes "api_ok A V" "calm_resource V sel mt (kc A)" "sel (V w) (meta_key (mt x)) \<noteq> None"
    and "\<And>y w'. Q (None, y) w'"
  shows "wp (updateStatus A x gen) Q w"
proof -
  from assms(3) obtain s where "sel (V w) (meta_key (mt x)) = Some s" by blast
  then show ?thesis by (rule updateStatus_settles [OF assms(1,2)]) (rule assms(4))
qed

end

context controller
begin

lemma settles:
  assumes ok: "api_ok A V" and calm: "calm_resource V sel mt (kc A)"
    and stored: "sel (V w) req = Some x" "meta_key (mt x) = req"
    and final: "\<And>u. V u = V w \<Longrightarrow> om_DeletionTimestamp (mt x) \<noteq> None \<Longrightarrow>
       wp (finalize A x) (\<lambda>r _. snd r = None) u"
    and body: "\<And>u. V u = V w \<Longrightarrow> om_DeletionTimestamp (mt x) = None \<Longrightarrow> finalizer \<in> set (om_Finalizers (mt x)) \<Longrightarrow>
       wp (body A x) (\<lambda>r _. snd r = None) u"
  shows "wp (Reconcile A req) (\<lambda>r _. snd r = None) w"
proof -
  from client [OF ok] have get: "get_ok V sel mt (kc A)" and upd_ok: "update_ok V sel upd mt spec (kc A)" by auto
  note fins = finalizers_okD [OF api_okD(6) [OF ok]]
  have acc: "wp (record_outcome A name start r) (\<lambda>_ _. snd r = None) u" if "snd r = None" for start r u
    using that by (intro wp_any)
  show ?thesis
    unfolding shape skeleton_def wp_simps
  proof (rule wp_Now [OF api_okD(9) [OF ok]], rule wp_get_there [OF get _ _ stored(2)], goal_cases)
    case (3 start u u')
    then have V: "V u' = V w" by simp
    show ?case
    proof (cases "om_DeletionTimestamp (mt x) = None")
      case False
      from final [OF V this] have "wp (finalize A x) (\<lambda>r. wp (record_outcome A name start r) (\<lambda>_ _. snd r = None)) u'"
        by (rule wp_mono) (rule acc)
      with False show ?thesis by simp
    next
      case alive: True
      show ?thesis
      proof (cases "finalizer \<in> set (om_Finalizers (mt x))")
        case True
        from body [OF V alive True] have "wp (body A x) (\<lambda>r. wp (record_outcome A name start r) (\<lambda>_ _. snd r = None)) u'"
          by (rule wp_mono) (rule acc)
        with alive True show ?thesis by (simp add: fins)
      next
        case False
        have "sel (V u') (meta_key (mt (with_finalizers (om_Finalizers (mt x) @ [finalizer]) x))) = Some x"
          using V stored by (simp add: finalizers_field meta_key_def)
        then have "wp (kc_Update (kc A) (with_finalizers (om_Finalizers (mt x) @ [finalizer]) x))
            (\<lambda>(err, _). wp (record_outcome A name start (no_requeue, err)) (\<lambda>_ _. snd (no_requeue, err) = None)) u'"
          by (rule wp_update_calm [OF upd_ok calm]) (simp add: wp_any)
        with alive False show ?thesis by (simp add: fins split_def)
      qed
    qed
  qed (use stored calm in \<open>auto simp: calm_resource_def\<close>)
qed

text \<open>A new object is adopted, and the next call finds it as it was but for the finalizer.\<close>

lemma adopts:
  assumes ok: "api_ok A V" and calm: "calm_resource V sel mt (kc A)"
    and stored: "sel (V w) req = Some x" "meta_key (mt x) = req"
    and new: "om_DeletionTimestamp (mt x) = None" "finalizer \<notin> set (om_Finalizers (mt x))"
    and Q: "\<And>y n w'. V w' = (upd (\<lambda>m. m(req \<mapsto> y)) (V w))\<lparr>ob_ReconcileTotal := n\<rparr> \<Longrightarrow> spec y = spec x \<Longrightarrow>
       meta_key (mt y) = req \<Longrightarrow> om_DeletionTimestamp (mt y) = None \<Longrightarrow>
       om_Finalizers (mt y) = om_Finalizers (mt x) @ [finalizer] \<Longrightarrow> Q (no_requeue, None) w'"
  shows "wp (Reconcile A req) Q w"
proof -
  from client [OF ok] have get: "get_ok V sel mt (kc A)" and upd_ok: "update_ok V sel upd mt spec (kc A)" by auto
  note fins = finalizers_okD [OF api_okD(6) [OF ok]]
  let ?x = "with_finalizers (om_Finalizers (mt x) @ [finalizer]) x"
  have key: "meta_key (mt ?x) = req" using stored by (simp add: finalizers_field meta_key_def)
  show ?thesis
    unfolding shape skeleton_def wp_simps
  proof (rule wp_Now [OF api_okD(9) [OF ok]], rule wp_get_there [OF get _ _ stored(2)], goal_cases)
    case (3 start u u')
    then have V: "V u' = V w" by simp
    have there: "sel (V u') (meta_key (mt ?x)) = Some x" using V stored key by simp
    have "wp (kc_Update (kc A) ?x) (\<lambda>(err, _). wp (record_outcome A name start (no_requeue, err)) (\<lambda>_. Q (no_requeue, err))) u'"
    proof (rule wp_update_calm [OF upd_ok calm there], goal_cases)
      case (1 y v)
      show ?case
        unfolding prod.case
        by (rule wp_record_outcome [OF ok], rule Q) (use 1 V new key in \<open>auto simp: finalizers_field meta_key_def\<close>)
    qed
    with new show ?case by (simp add: fins split_def)
  qed (use stored calm in \<open>auto simp: calm_resource_def\<close>)
qed

end

context releaser
begin

lemma release_settles:
  assumes ok: "api_ok A V" and calm: "calm_resource V sel mt (kc A)"
    and stored: "sel (V w) (meta_key (mt x)) = Some s" and phase: "\<And>v g. sel (v\<lparr>ob_Phase := g\<rparr>) = sel v"
    and last: "om_DeletionTimestamp (mt x) \<noteq> None" "set (om_Finalizers (mt x)) \<subseteq> {finalizer}"
    and Q: "\<And>g w'. V w' = upd (\<lambda>m. m(meta_key (mt x) := None)) ((V w)\<lparr>ob_Phase := g\<rparr>) \<Longrightarrow>
       no_series (V w') (gauge_id x) \<Longrightarrow> Q (no_requeue, None) w'"
  shows "wp (release A x) Q w"
proof -
  note fins = finalizers_okD [OF api_okD(6) [OF ok]]
  from last(2) have none: "removeAll finalizer (om_Finalizers (mt x)) = []" by (auto simp: removeAll_filter_not_eq filter_empty_conv)
  show ?thesis
    unfolding release_eq wp_simps
  proof (rule gauge.clear_rule [OF api_okD(8) [OF ok]], rule wp_update_calm [OF client [OF ok] calm, where s = s], goal_cases)
    case (1 w1 g)
    then show ?case using stored by (simp add: finalizers_field phase meta_key_def)
  next
    case (2 w1 g y w2)
    then have V: "V w2 = upd (\<lambda>m. m(meta_key (mt x) := None)) ((V w)\<lparr>ob_Phase := g\<rparr>)"
      using last none by (simp add: finalizers_field fins meta_key_def)
    have "ob_Phase (V w2) = ob_Phase (V w1)" using 2(1) V by (simp add: store)
    with 2(2) have "no_series (V w2) (gauge_id x)" using no_series_cong by blast
    from Q [OF V this] show ?case by simp
  qed
qed

end

text \<open>Two calls in a row.\<close>

definition twice :: "('w, 'a) state \<Rightarrow> ('w, 'a \<times> 'a) state" where
  "twice m = do { r \<leftarrow> m; s \<leftarrow> m; State_Monad.return (r, s) }"

section \<open>Tenants\<close>

text \<open>No other controller owns what the tenant wants to write.\<close>

definition tenant_free :: "Tenant \<Rightarrow> obs \<Rightarrow> bool" where
  "tenant_free t v \<longleftrightarrow>
     (let ns = tenant_namespace t; own = tenant_ref t in
      uncontested own ns_meta (ob_Namespaces v ([], ns)) (new_Namespace ns) \<and>
      uncontested own rq_meta (ob_ResourceQuotas v (ns, QuotaName)) (new_ResourceQuota ns QuotaName) \<and>
      uncontested own lr_meta (ob_LimitRanges v (ns, LimitRangeName)) (new_LimitRange ns LimitRangeName) \<and>
      uncontested own np_meta (ob_NetworkPolicies v (ns, DefaultNetworkPolicyName))
        (new_NetworkPolicy ns DefaultNetworkPolicyName) \<and>
      uncontested own rb_meta (ob_RoleBindings v (ns, TenantAdminBindingName))
        (new_RoleBinding ns TenantAdminBindingName))"

lemma tenant_countChildren_settles:
  assumes ok: "api_ok A V" and calm: "calm A V"
    and "\<And>n m w'. V w' = V w \<Longrightarrow> Q (Inr (n, m)) w'"
  shows "wp (tenant_countChildren A name) Q w"
proof (rule wp_both)
  show "wp (tenant_countChildren A name) (\<lambda>_ w'. V w' = V w) w"
    by (rule tenant_countChildren_rule [OF ok]) auto
  have lists: "wp (kc_ListByTenantRef (api_Environments A) name) (\<lambda>r _. \<exists>xs. r = Inr xs) u"
    "wp (kc_ListByTenantRef (api_Integrations A) name) (\<lambda>r _. \<exists>xs. r = Inr xs) u" for u
    using calmD(4,5) [OF calm] by (simp_all add: calm_lists_def)
  show "wp (tenant_countChildren A name) (\<lambda>r _. \<exists>n m. r = Inr (n, m)) w"
    unfolding tenant_countChildren_def wp_simps
    by (rule wp_mono [OF lists(1)], erule exE, simp, rule wp_mono [OF lists(2)], erule exE, simp)
qed (use assms(3) in blast)

lemma tenant_succeed_settles:
  assumes ok: "api_ok A V" and calm: "calm A V"
    and stored: "ob_Tenants (V w) (meta_key (t_meta t)) \<noteq> None"
  shows "wp (tenant_succeed A t nsName gen suspended) (\<lambda>r _. snd r = None) w"
proof -
  note cond = api_okD(7) [OF ok]
  have ev: "(if b then wp (Eventf A (tenant_ref t') ty r m) (\<lambda>_. P) else P) u"
    if "\<And>u'. ob_Tenants (V u') = ob_Tenants (V u) \<Longrightarrow> P u'" for b t' ty r m P u
    using that by (auto intro: wp_Eventf [OF api_okD(9) [OF ok]])
  show ?thesis
  proof (cases suspended)
    case True
    show ?thesis
      by (simp only: tenant_succeed_def wp_simps True if_True, rule MarkFalse_rule [OF cond],
          rule MarkFalse_rule [OF cond], rule tenant_setPhase_rule [OF ok], rule tenant_reports.updateStatus_accepted [OF ok calmD(1) [OF calm]])
        (use stored in simp_all)
  next
    case False
    show ?thesis
      by (simp only: tenant_succeed_def wp_simps False if_False, rule MarkFalse_rule [OF cond],
          rule MarkTrue_rule [OF cond], rule tenant_setPhase_rule [OF ok], rule ev,
          rule tenant_reports.updateStatus_accepted [OF ok calmD(1) [OF calm]]) (use stored in simp_all)
  qed
qed

lemma tenant_reconcileTenant_settles:
  assumes ok: "api_ok A V" and calm: "calm A V"
    and stored: "ob_Tenants (V w) (meta_key (t_meta t)) \<noteq> None" and free: "tenant_free t (V w)"
  shows "wp (tenant_reconcileTenant A t) (\<lambda>r _. snd r = None) w"
proof -
  obtain def defReq mx where lims: "(case ts_Limits (t_Spec t) of
      Some l \<Rightarrow> (tl_Default l, tl_DefaultRequest l, tl_Max l) | None \<Rightarrow> (fmempty, fmempty, fmempty)) = (def, defReq, mx)"
    by (cases "ts_Limits (t_Spec t)") auto
  show ?thesis
  proof (simp only: tenant_reconcileTenant_def wp_simps, rule MarkTrue_rule [OF api_okD(7) [OF ok]],
      rule ReconcileNamespace_settles [OF ok calm, rotated], simp only: sum.case wp_simps,
      rule ReconcileResourceQuota_settles [OF ok calm, rotated], simp add: lims,
      rule ReconcileLimitRange_settles [OF ok calm, rotated], simp only: sum.case wp_simps,
      rule ReconcileNetworkPolicy_settles [OF ok calm, rotated], simp only: sum.case wp_simps,
      rule ReconcileTenantAdminBinding_settles [OF ok calm, rotated], simp only: sum.case wp_simps,
      rule tenant_countChildren_settles [OF ok calm], simp only: sum.case prod.case wp_simps,
      rule tenant_succeed_settles [OF ok calm])
  qed (use stored free in \<open>simp_all add: tenant_free_def Let_def\<close>)
qed

lemma tenant_free_cong:
  "t_Spec t' = t_Spec t \<Longrightarrow> meta_key (t_meta t') = meta_key (t_meta t) \<Longrightarrow> tenant_free t' v = tenant_free t v"
  by (simp add: tenant_free_def uncontested_def controllable_def tenant_ref_def owner_ref_def tenant_namespace_def
      meta_key_def Let_def)

lemma tenant_free_update [simp]:
  "tenant_free t (ob_Tenants_update f v) = tenant_free t v"
  "tenant_free t (ob_ReconcileTotal_update g v) = tenant_free t v"
  by (simp_all add: tenant_free_def)

lemma tenant_Reconcile_settles:
  assumes ok: "api_ok A V" and calm: "calm A V"
    and stored: "ob_Tenants (V w) req = Some t" "meta_key (t_meta t) = req"
    and live: "om_DeletionTimestamp (t_meta t) = None" "TenantFinalizer \<in> set (om_Finalizers (t_meta t))"
    and free: "tenant_free t (V w)"
  shows "wp (tenant_Reconcile A req) (\<lambda>r w'. r = (\<lparr>RequeueAfter = tenantResyncPeriod\<rparr>, None) \<and>
     tenant_provisioned A t (V w') \<and> tenant_reported A t (V w')) w"
proof (rule wp_both)
  show "wp (tenant_Reconcile A req) (\<lambda>r _. snd r = None) w"
    by (rule tenants.settles [OF ok calmD(1) [OF calm] stored])
      (use stored live free in \<open>auto intro!: tenant_reconcileTenant_settles [OF ok calm]\<close>)
  show "wp (tenant_Reconcile A req) (\<lambda>r w'. snd r = None \<longrightarrow> r = (\<lparr>RequeueAfter = tenantResyncPeriod\<rparr>, None) \<and>
     tenant_provisioned A t (V w') \<and> tenant_reported A t (V w')) w"
  proof (rule tenants.Reconcile_rule [OF ok], goal_cases)
    case (5 x u)
    with stored have x: "x = t" by simp
    show ?case
      unfolding x
      by (rule tenant_reconcileTenant_rule [OF ok])
        (auto simp: tenants.total_def tenant_provisioned_def tenant_reported_def Let_def child_envs_def child_intgs_def
          one_hot_def series_def)
  qed (use stored live in auto)
qed auto

lemma tenant_teardown_settles:
  assumes ok: "api_ok A V" and calm: "calm A V"
    and keyed: "\<And>ns. ob_Namespaces (V w) ([], tst_Namespace (t_Status t)) = Some ns \<Longrightarrow>
       meta_key (ns_meta ns) = ([], tst_Namespace (t_Status t))"
    and Q: "\<And>w' n. V w' = (V w)\<lparr>ob_Namespaces := n\<rparr> \<Longrightarrow> torn_down t (V w') \<Longrightarrow> Q None w'"
  shows "wp (tenant_teardown A t) Q w"
proof (cases "lp_DeletionPolicy (ts_Lifecycle (t_Spec t)) \<noteq> DeletionPolicyOrphan \<and> tst_Namespace (t_Status t) \<noteq> []")
  case True
  then have eq: "tenant_teardown A t = do {
        (gone, err) \<leftarrow> EnsureNamespaceDeleted A (tst_Namespace (t_Status t));
        (case err of
           Some e \<Rightarrow> do {
             _ \<leftarrow> Eventf A (tenant_ref t) EventTypeWarning ''TeardownError''
               (''Failed to delete namespace '' @ fmt_q (tst_Namespace (t_Status t)) @ '': '' @ Error e);
             State_Monad.return (Some (no_requeue, Some e))
           }
         | None \<Rightarrow>
             if \<not> gone then State_Monad.return (Some (\<lparr>RequeueAfter = 5 * Second\<rparr>, None))
             else State_Monad.return None)
      }" unfolding tenant_teardown_def by (rule if_P)
  show ?thesis
    unfolding eq wp_simps
  proof (rule EnsureNamespaceDeleted_settles [OF ok calm keyed], goal_cases)
    case (2 w' x)
    then have "Q None w'"
      by (intro Q [where n = "(ob_Namespaces (V w))(([], tst_Namespace (t_Status t)) := x)"]) (auto simp: torn_down_def)
    then show ?case by simp
  qed
next
  case False
  then have "tenant_teardown A t = State_Monad.return None" unfolding tenant_teardown_def by (rule if_not_P)
  moreover have "Q None w"
    by (rule Q [where n = "ob_Namespaces (V w)"]) (use False in \<open>auto simp: torn_down_def\<close>)
  ultimately show ?thesis by simp
qed

lemma tenant_finalize_settles:
  assumes ok: "api_ok A V" and calm: "calm A V"
    and stored: "ob_Tenants (V w) (meta_key (t_meta t)) = Some t"
    and last: "om_DeletionTimestamp (t_meta t) \<noteq> None" "om_Finalizers (t_meta t) = [TenantFinalizer]"
    and keyed: "\<And>ns. ob_Namespaces (V w) ([], tst_Namespace (t_Status t)) = Some ns \<Longrightarrow>
       meta_key (ns_meta ns) = ([], tst_Namespace (t_Status t))"
    and Q: "\<And>w'. ob_Tenants (V w') (meta_key (t_meta t)) = None \<Longrightarrow> torn_down t (V w') \<Longrightarrow>
       no_series (V w') (tenant_gauge t) \<Longrightarrow> Q (no_requeue, None) w'"
  shows "wp (tenant_finalize A t) Q w"
proof -
  have st: "status_ok V ob_Tenants ob_Tenants_update t_meta (\<lambda>x s. s\<lparr>t_Status := t_Status x\<rparr>) (api_Tenants A)"
    using ok by (simp add: api_ok_def resources_ok_def)
  have held: "ContainsFinalizer A (om_Finalizers (t_meta t)) TenantFinalizer"
    using last by (simp add: finalizers_okD [OF api_okD(6) [OF ok]])
  show ?thesis
  proof (simp only: tenant_finalize_def held not_True_eq_False if_False, unfold wp_bind, rule tenant_setPhase_rule [OF ok],
      rule MarkFalse_rule [OF api_okD(7) [OF ok]], rule wp_status_calm [OF st calmD(1) [OF calm], where s = t], goal_cases)
    case (1 w1 g cs w2 c)
    then show ?case using stored by simp
  next
    case (2 w1 g cs w2 c w3)
    let ?t = "t\<lparr>t_Status := (t_Status t)\<lparr>tst_Phase := TenantPhaseTerminating, tst_Conditions := cs\<rparr>\<rparr>"
    from 2 have V: "V w3 = (V w)\<lparr>ob_Phase := g, ob_Tenants := (ob_Tenants (V w))(meta_key (t_meta t) \<mapsto> ?t)\<rparr>"
      by simp
    have "wp (tenant_teardown A ?t) (\<lambda>a. wp (case a of Some r \<Rightarrow> State_Monad.return r | None \<Rightarrow> tenant_release A ?t) Q) w3"
    proof (rule tenant_teardown_settles [OF ok calm], goal_cases)
      case (2 w4 n)
      have "wp (tenant_release A ?t) Q w4"
        by (rule tenant_releases.release_settles [OF ok calmD(1) [OF calm]])
          (use 2 V last in \<open>auto intro!: Q simp: torn_down_def gone_or_terminating_def tenant_gauge_def\<close>)
      then show ?case by simp
    qed (use keyed V in simp)
    then show ?case by (simp add: wp_simps)
  qed
qed

text \<open>C14: A new tenant is up after two reconciles. In a calm cluster where nothing the tenant wants to
  write is owned by another controller, the first reconcile of a new Tenant adopts it and the second
  provisions it: both return without error, the cluster is then as the spec says, the status reports
  it, and the next reconcile is due after the resync period.\<close>

theorem tenant_up_after_two:
  assumes "api_ok A V" and "calm A V"
    and "ob_Tenants (V w) req = Some t" and "meta_key (t_meta t) = req"
    and "om_DeletionTimestamp (t_meta t) = None" and "TenantFinalizer \<notin> set (om_Finalizers (t_meta t))"
    and "tenant_free t (V w)"
  shows "wp (twice (tenant_Reconcile A req)) (\<lambda>(r, s) w'.
     r = (no_requeue, None) \<and> s = (\<lparr>RequeueAfter = tenantResyncPeriod\<rparr>, None) \<and>
     (\<exists>t'. t_Spec t' = t_Spec t \<and> meta_key (t_meta t') = req \<and>
        tenant_provisioned A t' (V w') \<and> tenant_reported A t' (V w'))) w"
  unfolding twice_def wp_simps
proof (rule tenants.adopts [OF assms(1) calmD(1) [OF assms(2)] assms(3-6)], goal_cases)
  case (1 t' n u)
  then have "ob_Tenants (V u) req = Some t'" "tenant_free t' (V u)"
    using assms(4,7) tenant_free_cong [of t' t] by simp_all
  from tenant_Reconcile_settles [OF assms(1,2) this(1) 1(3,4) _ this(2)] 1(5)
  have "wp (tenant_Reconcile A req) (\<lambda>s w'. s = (\<lparr>RequeueAfter = tenantResyncPeriod\<rparr>, None) \<and>
     tenant_provisioned A t' (V w') \<and> tenant_reported A t' (V w')) u" by simp
  then show ?case by (rule wp_mono) (use 1(2,3) in auto)
qed

definition new_tenant :: Tenant where
  "new_tenant = live_tenant\<lparr>t_meta := (t_meta live_tenant)\<lparr>om_Finalizers := []\<rparr>\<rparr>"

definition unadopted_world :: mworld where
  "unadopted_world = mw_empty\<lparr>mw_Tenants := [(([], ''acme''), new_tenant)]\<rparr>"

lemma tenant_up_after_two_witness:
  "wp (twice (tenant_Reconcile steady_api ([], ''acme''))) (\<lambda>(r, s) w'.
     r = (no_requeue, None) \<and> s = (\<lparr>RequeueAfter = tenantResyncPeriod\<rparr>, None) \<and>
     (\<exists>t'. t_Spec t' = t_Spec new_tenant \<and> meta_key (t_meta t') = ([], ''acme'') \<and>
        tenant_provisioned steady_api t' (m_obs w') \<and> tenant_reported steady_api t' (m_obs w'))) unadopted_world"
  by (rule tenant_up_after_two [OF steady_api_ok steady_api_calm])
    (simp_all add: m_obs_def unadopted_world_def mw_empty_def new_tenant_def live_tenant_def new_meta_def meta_key_def
      tenant_free_def uncontested_def controllable_def base_object_def tenant_ref_def Let_def)

text \<open>C17: A deleted tenant goes away. In a calm cluster one reconcile of a Tenant under deletion whose last
  finalizer is the operator's returns without error, and then the Tenant is gone, the deletion policy
  has been carried out, and no phase is exported for it any more.\<close>

theorem tenant_deletion_completes:
  assumes "api_ok A V" and "calm A V"
    and "ob_Tenants (V w) req = Some t" and "meta_key (t_meta t) = req"
    and "om_DeletionTimestamp (t_meta t) \<noteq> None" and "om_Finalizers (t_meta t) = [TenantFinalizer]"
    and "\<forall>ns. ob_Namespaces (V w) ([], tst_Namespace (t_Status t)) = Some ns \<longrightarrow>
       meta_key (ns_meta ns) = ([], tst_Namespace (t_Status t))"
  shows "wp (tenant_Reconcile A req) (\<lambda>r w'. r = (no_requeue, None) \<and> ob_Tenants (V w') req = None \<and>
     torn_down t (V w') \<and> no_series (V w') (tenant_gauge t)) w"
proof (rule wp_both)
  note ok = assms(1) and calm = assms(2)
  have fin: "wp (tenant_finalize A t) (\<lambda>r w'. r = (no_requeue, None) \<and> ob_Tenants (V w') req = None \<and>
     torn_down t (V w') \<and> no_series (V w') (tenant_gauge t)) u" if V: "V u = V w" for u
    by (rule tenant_finalize_settles [OF ok calm, where t = t]) (use assms V in auto)
  show "wp (tenant_Reconcile A req) (\<lambda>r _. snd r = None) w"
    by (rule tenants.settles [OF ok calmD(1) [OF calm] assms(3,4)]) (use assms in \<open>auto intro: wp_mono [OF fin]\<close>)
  show "wp (tenant_Reconcile A req) (\<lambda>r w'. snd r = None \<longrightarrow> r = (no_requeue, None) \<and> ob_Tenants (V w') req = None \<and>
     torn_down t (V w') \<and> no_series (V w') (tenant_gauge t)) w"
  proof (rule tenants.Reconcile_rule [OF ok], goal_cases)
    case (3 x u)
    with assms(3) fin [OF 3(1)] show ?case
      by (auto elim!: wp_mono simp: tenants.total_def torn_down_def gone_or_terminating_def no_series_def series_def)
  qed (use assms in auto)
qed auto

lemma tenant_deletion_completes_witness:
  "wp (tenant_Reconcile steady_api ([], ''acme'')) (\<lambda>r w'. r = (no_requeue, None) \<and>
     ob_Tenants (m_obs w') ([], ''acme'') = None \<and> torn_down doomed_tenant (m_obs w') \<and>
     no_series (m_obs w') (tenant_gauge doomed_tenant)) doomed_world"
  by (rule tenant_deletion_completes [OF steady_api_ok steady_api_calm])
    (simp_all add: m_obs_def doomed_world_def namespace_world_def mw_empty_def doomed_tenant_def live_tenant_def
      new_meta_def meta_key_def)

section \<open>Integrations\<close>

lemma intg_settled:
  assumes ok: "api_ok A V" and calm: "calm A V"
    and stored: "ob_Integrations (V w) (meta_key (i_meta e)) \<noteq> None"
  shows "wp (intg_markConnected A e gen msg) (\<lambda>r _. snd r = None) w"
    "wp (intg_probeFailed A e gen err) (\<lambda>r _. snd r = None) w"
    "wp (intg_blockOnDependency A e msg) (\<lambda>r _. snd r = None) w"
proof -
  note cond = api_okD(7) [OF ok]
  have ev: "(if b then wp (Eventf A r ty reason m) (\<lambda>_. P) else P) u"
    if "\<And>u'. ob_Integrations (V u') = ob_Integrations (V u) \<Longrightarrow> P u'" for b r ty reason m P u
    using that by (auto intro: wp_Eventf [OF api_okD(9) [OF ok]])
  note status = intg_reports.updateStatus_accepted [OF ok calmD(3) [OF calm]]
  show "wp (intg_markConnected A e gen msg) (\<lambda>r _. snd r = None) w"
    by (simp only: intg_markConnected_def wp_simps, rule MarkTrue_rule [OF cond], rule MarkTrue_rule [OF cond],
        rule MarkFalse_rule [OF cond], rule intg_reports.setPhase_rule [OF ok], rule ev, rule status)
      (use stored in simp_all)
  show "wp (intg_blockOnDependency A e msg) (\<lambda>r _. snd r = None) w"
    by (simp only: intg_blockOnDependency_def wp_simps, rule MarkFalse_rule [OF cond],
        rule intg_reports.setPhase_rule [OF ok], rule status) (use stored in simp_all)
  show "wp (intg_probeFailed A e gen err) (\<lambda>r _. snd r = None) w"
  proof (simp only: intg_probeFailed_def wp_simps, rule if_worldI, goal_cases)
    case 1
    show ?case
      by (rule MarkFalse_rule [OF cond], rule MarkTrue_rule [OF cond], rule intg_reports.setPhase_rule [OF ok],
          rule wp_Eventf [OF api_okD(9) [OF ok]], rule status) (use stored in simp_all)
  next
    case 2
    show ?case
      by (rule MarkFalse_rule [OF cond], rule intg_reports.setPhase_rule [OF ok], rule status) (use stored in simp_all)
  qed
qed

text \<open>What must hold of the stored objects an integration refers to: they are stored under their own
  keys, and its connection secret has no other controller.\<close>

definition intg_free :: "Integration \<Rightarrow> obs \<Rightarrow> bool" where
  "intg_free e v \<longleftrightarrow>
     uncontested (intg_ref e) sec_meta (ob_Secrets v (intg_secret_key e))
       (new_Secret (fst (intg_secret_key e)) (snd (intg_secret_key e))) \<and>
     (\<forall>t. ob_Tenants v ([], tr_Name (is_TenantRef (i_Spec e))) = Some t \<longrightarrow>
        meta_key (t_meta t) = ([], tr_Name (is_TenantRef (i_Spec e)))) \<and>
     (\<forall>s x. is_AuthSecretRef (i_Spec e) = Some s \<longrightarrow> ob_Secrets v (om_Namespace (i_meta e), sr_Name s) = Some x \<longrightarrow>
        meta_key (sec_meta x) = (om_Namespace (i_meta e), sr_Name s))"

lemma intg_reconcileIntegration_settles:
  assumes ok: "api_ok A V" and calm: "calm A V" and probe: "probing V R (prober A pr)"
    and stored: "ob_Integrations (V w) (meta_key (i_meta e)) \<noteq> None" and free: "intg_free e (V w)"
  shows "wp (intg_reconcileIntegration A pr e) (\<lambda>r _. snd r = None) w"
proof -
  let ?e = "set_ist (ist_ObservedEndpoint_update (\<lambda>_. is_Endpoint (i_Spec e))) e"
    and ?tk = "([], tr_Name (is_TenantRef (i_Spec e)))"
  note cond = api_okD(7) [OF ok]
  show ?thesis
  proof (cases "is_Suspend (i_Spec e)")
    case True
    then have susp: "is_Suspend (i_Spec ?e)" by simp
    show ?thesis
      by (simp only: intg_reconcileIntegration_def Let_def susp if_True wp_simps,
          rule MarkFalse_rule [OF cond], rule intg_reports.setPhase_rule [OF ok],
          rule intg_reports.updateStatus_accepted [OF ok calmD(3) [OF calm]])
        (use stored in simp_all)
  next
    case False
    then have susp: "\<not> is_Suspend (i_Spec ?e)" and tk: "([], tr_Name (is_TenantRef (i_Spec ?e))) = ?tk" by simp_all
    from ok have get: "get_ok V ob_Tenants t_meta (api_Tenants A)" "get_ok V ob_Secrets sec_meta (api_Secrets A)"
      by (simp_all add: api_ok_def reads_ok_def)
    have tenants: "calm_reads V ob_Tenants t_meta (api_Tenants A)"
      using calmD(1) [OF calm] by (simp add: calm_resource_def)
    show ?thesis
    proof (cases "ob_Tenants (V w) ?tk")
      case None
      show ?thesis
        by (simp only: intg_reconcileIntegration_def Let_def susp if_False wp_simps tk,
            rule wp_get_absent [OF get(1) tenants None])
          (use stored in \<open>simp add: intg_settled(3) [OF ok calm]\<close>)
    next
      case (Some t)
      with free have key: "meta_key (t_meta t) = ?tk" by (simp add: intg_free_def)
      have linked: "wp (ReconcileConnectionSecret A (intg_ref e) (om_Namespace (i_meta e))
          (ConnectionSecretName (om_Name (i_meta e))) data labels)
          (case_sum E (\<lambda>_. wp (intg_probeAndFinish A pr e' gen) (\<lambda>r _. snd r = None))) u"
        if "V u = V w" "i_meta e' = i_meta e" for u data labels e' gen E
      proof (rule ReconcileConnectionSecret_settles [OF ok calm], goal_cases)
        case 1
        with free that show ?case by (simp add: intg_free_def intg_secret_key_def)
      next
        case (2 r u' x)
        have "wp (intg_probeAndFinish A pr e' gen) (\<lambda>r _. snd r = None) u'"
        proof (simp only: intg_probeAndFinish_def Let_def wp_simps, rule wp_Now [OF api_okD(9) [OF ok]], rule if_worldI,
            goal_cases)
          case (1 now v)
          then show ?case using 2 that stored by (intro intg_settled(1) [OF ok calm]) simp
        next
          case (2 now v)
          then have "ob_Integrations (V v) (meta_key (i_meta e)) \<noteq> None" using 2 \<open>V u' = _\<close> that stored by simp
          then show ?case
            by (intro probing_rule [OF probe]) (auto simp: that intro!: intg_settled(1,2) [OF ok calm] split: option.split)
        qed
        then show ?case by simp
      qed
      show ?thesis
      proof (simp only: intg_reconcileIntegration_def Let_def susp if_False wp_simps tk,
          rule wp_get_there [OF get(1) tenants Some key], simp only: sum.case, rule MarkUnknown_rule [OF cond], goal_cases)
        case (1 u cs u' c)
        then have V: "V u' = V w" by simp
        show ?case
        proof (rule ResolveAuthSecret_settles [OF ok calm], goal_cases)
          case (1 s x)
          with V free show ?case by (simp add: intg_free_def)
        next
          case (2 creds v)
          show ?case
            by (simp only: sum.case, rule MarkTrue_rule [OF cond], simp, rule linked) (use 2 V in simp_all)
        next
          case (3 err v)
          then show ?case
            using V stored by (simp add: intg_settled(3) [OF ok calm])
        qed
      qed
    qed
  qed
qed

text \<open>C16: An integration is never left without an answer. In a calm cluster a reconcile of an adopted
  Integration whose connection secret no other controller owns returns without error, whatever its
  spec, its dependencies and its endpoint are like, and its stored status says which of three things
  is the case: it is suspended; it waits for its tenant or its credentials and is looked at again in 15
  seconds; or both are there, the connection secret is maintained, and the outcome of a probe is
  reported, with the next reconcile due as the retry policy says.\<close>

theorem intg_always_reports:
  assumes "api_ok A V" and "calm A V"
    and "ob_Integrations (V w) req = Some e" and "meta_key (i_meta e) = req"
    and "om_DeletionTimestamp (i_meta e) = None" and "IntegrationFinalizer \<in> set (om_Finalizers (i_meta e))"
    and "intg_free e (V w)"
  shows "wp (intg_Reconcile A None req) (\<lambda>r w'.
     if is_Suspend (i_Spec e) then
       r = (no_requeue, None) \<and> intg_waiting A e IntegrationPhaseDisabled ReasonSuspended (V w')
     else if \<exists>t creds. intg_ready (V w) e t creds then
       \<exists>t creds out. intg_ready (V w) e t creds \<and> intg_linked A e t creds (V w') \<and> intg_reported A e out (V w') \<and>
         r = (\<lparr>RequeueAfter = retry_delay (is_RetryPolicy (i_Spec e)) out (ist_Retries (i_Status e))\<rparr>, None)
     else r = (\<lparr>RequeueAfter = 15 * Second\<rparr>, None) \<and>
       intg_waiting A e IntegrationPhasePending ReasonDependencyNotMet (V w')) w"
proof -
  note ok = assms(1) and calm = assms(2)
  have probe: "probing V (\<lambda>_. True) (prober A None)"
    using HTTPProber_probing [OF api_okD(9) [OF ok]] by (simp add: prober_def)
  let ?P = "\<lambda>r v. if is_Suspend (i_Spec e) then
       r = (no_requeue, None) \<and> intg_waiting A e IntegrationPhaseDisabled ReasonSuspended v
     else if \<exists>t creds. intg_ready (V w) e t creds then
       \<exists>t creds out. intg_ready (V w) e t creds \<and> intg_linked A e t creds v \<and> intg_reported A e out v \<and>
         r = (\<lparr>RequeueAfter = retry_delay (is_RetryPolicy (i_Spec e)) out (ist_Retries (i_Status e))\<rparr>, None)
     else r = (\<lparr>RequeueAfter = 15 * Second\<rparr>, None) \<and>
       intg_waiting A e IntegrationPhasePending ReasonDependencyNotMet v"
  have count: "intg_waiting A e p reason (v\<lparr>ob_ReconcileTotal := n\<rparr>) = intg_waiting A e p reason v"
    "intg_linked A e t creds (v\<lparr>ob_ReconcileTotal := n\<rparr>) = intg_linked A e t creds v"
    "intg_reported A e out (v\<lparr>ob_ReconcileTotal := n\<rparr>) = intg_reported A e out v" for p reason t creds out v n
    by (simp_all add: intg_waiting_def intg_linked_def intg_reported_def one_hot_def series_def)
  show ?thesis
  proof (rule wp_both)
    show "wp (intg_Reconcile A None req) (\<lambda>r _. snd r = None) w"
      by (rule integrations.settles [OF ok calmD(3) [OF calm] assms(3,4)])
        (use assms in \<open>auto intro!: intg_reconcileIntegration_settles [OF ok calm probe]\<close>)
    show "wp (intg_Reconcile A None req) (\<lambda>r w'. snd r = None \<longrightarrow> ?P r (V w')) w"
    proof (rule integrations.Reconcile_rule [OF ok], goal_cases)
      case (5 x u)
      with assms(3) have x: "x = e" by simp
      have "wp (intg_reconcileIntegration A None e) (\<lambda>r u'. snd r = None \<longrightarrow> ?P r (V u')) u"
        by (rule intg_reconcileIntegration_rule [OF ok probe]) (use 5(1) assms in \<open>auto dest: intg_ready_alive\<close>)
      then show ?case unfolding x by (rule wp_mono) (auto simp: integrations.total_def count split: if_splits)
    qed (use assms in auto)
  qed auto
qed

lemma intg_always_reports_witness:
  "wp (intg_Reconcile steady_api None (''team'', ''billing'')) (\<lambda>r w'.
     \<exists>t creds out. intg_ready (m_obs (intg_world billing)) billing t creds \<and>
       intg_linked steady_api billing t creds (m_obs w') \<and> intg_reported steady_api billing out (m_obs w') \<and>
       r = (\<lparr>RequeueAfter = retry_delay (is_RetryPolicy (i_Spec billing)) out (ist_Retries (i_Status billing))\<rparr>, None))
     (intg_world billing)"
proof -
  have "\<exists>t creds. intg_ready (m_obs (intg_world billing)) billing t creds"
    by (simp add: intg_ready_def intg_creds_def m_obs_def intg_world_def billing_def)
  moreover have "\<not> is_Suspend (i_Spec billing)" by (simp add: billing_def)
  moreover have "wp (intg_Reconcile steady_api None (''team'', ''billing'')) (\<lambda>r w'.
     if is_Suspend (i_Spec billing) then
       r = (no_requeue, None) \<and> intg_waiting steady_api billing IntegrationPhaseDisabled ReasonSuspended (m_obs w')
     else if \<exists>t creds. intg_ready (m_obs (intg_world billing)) billing t creds then
       \<exists>t creds out. intg_ready (m_obs (intg_world billing)) billing t creds \<and>
         intg_linked steady_api billing t creds (m_obs w') \<and> intg_reported steady_api billing out (m_obs w') \<and>
         r = (\<lparr>RequeueAfter = retry_delay (is_RetryPolicy (i_Spec billing)) out (ist_Retries (i_Status billing))\<rparr>, None)
     else r = (\<lparr>RequeueAfter = 15 * Second\<rparr>, None) \<and>
       intg_waiting steady_api billing IntegrationPhasePending ReasonDependencyNotMet (m_obs w')) (intg_world billing)"
    by (rule intg_always_reports [OF steady_api_ok steady_api_calm])
      (simp_all add: m_obs_def intg_world_def mw_empty_def billing_def new_meta_def meta_key_def intg_free_def uncontested_def
        controllable_def base_object_def intg_secret_key_def intg_ref_def intg_tenant_def creds_secret_def
        ConnectionSecretName_def)
  ultimately show ?thesis by simp
qed

text \<open>C19: A deleted integration goes away. In a calm cluster one reconcile of an Integration under deletion
  whose last finalizer is the operator's returns without error, and then the Integration and its
  connection secret are gone and no phase is exported for it any more.\<close>

theorem intg_deletion_completes:
  assumes "api_ok A V" and "calm A V"
    and "ob_Integrations (V w) req = Some e" and "meta_key (i_meta e) = req"
    and "om_DeletionTimestamp (i_meta e) \<noteq> None" and "om_Finalizers (i_meta e) = [IntegrationFinalizer]"
  shows "wp (intg_Reconcile A None req) (\<lambda>r w'. r = (no_requeue, None) \<and> ob_Integrations (V w') req = None \<and>
     intg_unlinked e (V w') \<and> no_series (V w') (intg_gauge e)) w"
proof -
  note ok = assms(1) and calm = assms(2)
  have held: "ContainsFinalizer A (om_Finalizers (i_meta e)) IntegrationFinalizer"
    using assms(6) by (simp add: finalizers_okD [OF api_okD(6) [OF ok]])
  have fin: "wp (intg_finalize A e) (\<lambda>r w'. r = (no_requeue, None) \<and> ob_Integrations (V w') req = None \<and>
     intg_unlinked e (V w') \<and> no_series (V w') (intg_gauge e)) u" if V: "V u = V w" for u
  proof -
    have rel: "wp (intg_release A e) (\<lambda>r w'. r = (no_requeue, None) \<and> ob_Integrations (V w') req = None \<and>
       intg_unlinked e (V w') \<and> no_series (V w') (intg_gauge e)) u'"
      if "ob_Integrations (V u') req = Some e" "intg_unlinked e (V u')" for u'
      by (rule intg_releases.release_settles [OF ok calmD(3) [OF calm], where s = e])
        (use that assms in \<open>auto simp: intg_unlinked_def\<close>)
    show ?thesis
    proof (simp only: intg_finalize_def held not_True_eq_False if_False wp_simps, rule if_worldI, goal_cases)
      case 1
      show ?case
        by (rule DeleteConnectionSecret_settles [OF ok calm], simp, rule rel)
          (use V assms in \<open>simp_all add: intg_unlinked_def intg_status_secret_def\<close>)
    next
      case 2
      with rel [of u] V assms(3) show ?case by (simp add: intg_unlinked_def)
    qed
  qed
  show ?thesis
  proof (rule wp_both)
    show "wp (intg_Reconcile A None req) (\<lambda>r _. snd r = None) w"
      by (rule integrations.settles [OF ok calmD(3) [OF calm] assms(3,4)]) (use assms in \<open>auto intro: wp_mono [OF fin]\<close>)
    show "wp (intg_Reconcile A None req) (\<lambda>r w'. snd r = None \<longrightarrow> r = (no_requeue, None) \<and>
       ob_Integrations (V w') req = None \<and> intg_unlinked e (V w') \<and> no_series (V w') (intg_gauge e)) w"
    proof (rule integrations.Reconcile_rule [OF ok], goal_cases)
      case (3 x u)
      with assms(3) fin [OF 3(1)] show ?case
        by (auto elim!: wp_mono simp: integrations.total_def intg_unlinked_def no_series_def series_def)
    qed (use assms in auto)
  qed auto
qed

lemma intg_deletion_completes_witness:
  "wp (intg_Reconcile steady_api None (''team'', ''billing'')) (\<lambda>r w'. r = (no_requeue, None) \<and>
     ob_Integrations (m_obs w') (''team'', ''billing'') = None \<and> intg_unlinked doomed_intg (m_obs w') \<and>
     no_series (m_obs w') (intg_gauge doomed_intg)) (intg_world doomed_intg)"
  by (rule intg_deletion_completes [OF steady_api_ok steady_api_calm])
    (simp_all add: m_obs_def intg_world_def doomed_intg_def billing_def new_meta_def meta_key_def)

section \<open>Environments\<close>

text \<open>What an environment needs besides its tenant: the secrets it refers to exist, and its delivery
  engine can be written to.\<close>

definition env_feasible :: "'w api \<Rightarrow> ('w \<Rightarrow> obs) \<Rightarrow> Environment \<Rightarrow> obs \<Rightarrow> bool" where
  "env_feasible A V e v \<longleftrightarrow>
     (\<forall>t. ob_Tenants v ([], tr_Name (es_TenantRef (e_Spec e))) = Some t \<longrightarrow>
        meta_key (t_meta t) = ([], tr_Name (es_TenantRef (e_Spec e)))) \<and>
     secrets_keyed (ob_Secrets v) (om_Namespace (e_meta e)) \<and>
     resolvable (ob_Secrets v) (om_Namespace (e_meta e)) (es_SecretRefs (e_Spec e)) \<and> gitops_free A V e v"

lemma gitops_free_cong:
  assumes "e_meta e' = e_meta e" "e_Spec e' = e_Spec e" "ob_Unstructured v' = ob_Unstructured v"
  shows "gitops_free A V e' v' = gitops_free A V e v"
  using assms by (simp add: gitops_free_def gitops_kinds_def delivery_free_def gitops_key_def env_ref_def)

lemma env_settled:
  assumes ok: "api_ok A V" and calm: "calm A V"
    and stored: "ob_Environments (V w) (meta_key (e_meta e)) \<noteq> None"
  shows "wp (env_blockOnDependency A e msg) (\<lambda>r _. snd r = None) w"
    "wp (env_succeed A e sync gen) (\<lambda>r _. snd r = None) w"
proof -
  note cond = api_okD(7) [OF ok] and eff = api_okD(9) [OF ok]
  note status = env_reports.updateStatus_accepted [OF ok calmD(2) [OF calm]]
  show "wp (env_blockOnDependency A e msg) (\<lambda>r _. snd r = None) w"
    by (simp only: env_blockOnDependency_def wp_simps, rule MarkFalse_rule [OF cond],
        rule env_reports.setPhase_rule [OF ok], rule status) (use stored in simp_all)
  let ?e = "if es_Domain (e_Spec e) \<noteq> [] then set_est (est_URL_update (\<lambda>_. ''https://'' @ es_Domain (e_Spec e))) e else e"
  have "e_meta ?e = e_meta e" by simp
  then show "wp (env_succeed A e sync gen) (\<lambda>r _. snd r = None) w"
    unfolding env_succeed_def wp_simps
    by (intro env_derivePhase_rule [OF ok] MarkFalse_rule [OF cond] status)
      (use stored in \<open>auto intro!: wp_Now [OF eff] split: option.split\<close>)
qed

lemma env_enforceTTL_settles:
  assumes ok: "api_ok A V" and calm: "calm A V"
    and alive: "\<And>e' w'. V w' = V w \<Longrightarrow> e_meta e' = e_meta e \<Longrightarrow> e_Spec e' = e_Spec e \<Longrightarrow> Q (None, e') w'"
    and expired: "\<And>e' w'. Q (Some (no_requeue, None), e') w'"
  shows "wp (env_enforceTTL A e) Q w"
proof (rule wp_both)
  show "wp (env_enforceTTL A e) (\<lambda>a w'. case fst a of
      None \<Rightarrow> V w' = V w \<and> e_meta (snd a) = e_meta e \<and> e_Spec (snd a) = e_Spec e
    | Some r \<Rightarrow> fst r = no_requeue) w"
    by (rule env_enforceTTL_rule [OF ok clock_any]) auto
  have del: "wp (kc_Delete (api_Environments A) x) (\<lambda>r _. \<forall>err. r = Some err \<longrightarrow> IsNotFound err) u" for x u
    using calmD(2) [OF calm] by (simp add: calm_resource_def calm_deletes_def)
  show "wp (env_enforceTTL A e) (\<lambda>a _. case fst a of None \<Rightarrow> True | Some r \<Rightarrow> snd r = None) w"
  proof (cases "if es_Type (e_Spec e) = EnvironmentTypeEphemeral then es_TTL (e_Spec e) else None")
    case (Some ttl)
    show ?thesis
      unfolding env_enforceTTL_def Some option.case wp_simps
      by (rule wp_Now [OF api_okD(9) [OF ok]], rule if_worldI, rule wp_Eventf [OF api_okD(9) [OF ok]], rule wp_mono [OF del])
        (auto split: option.split)
  qed (simp add: env_enforceTTL_def)
next
  fix a :: "(Result \<times> go_err option) option \<times> Environment" and w'
  assume "case fst a of None \<Rightarrow> V w' = V w \<and> e_meta (snd a) = e_meta e \<and> e_Spec (snd a) = e_Spec e
      | Some r \<Rightarrow> fst r = no_requeue"
    and "case fst a of None \<Rightarrow> True | Some r \<Rightarrow> snd r = None"
  then show "Q a w'"
    by (cases a; cases "fst a") (auto intro: alive expired)
qed

lemma env_provision_settles:
  assumes ok: "api_ok A V" and calm: "calm A V"
    and stored: "ob_Environments (V w) (meta_key (e_meta e)) \<noteq> None" and feas: "env_feasible A V e (V w)"
  shows "wp (env_provision A e t gen) (\<lambda>r _. snd r = None) w"
proof -
  note cond = api_okD(7) [OF ok]
  have git: "wp (ReconcileGitOps A e' tn) (case_sum E (\<lambda>sync. wp (env_succeed A e' sync gen) (\<lambda>r _. snd r = None))) u"
    if "e_meta e' = e_meta e" "e_Spec e' = e_Spec e" "ob_Unstructured (V u) = ob_Unstructured (V w)"
      "ob_Environments (V u) = ob_Environments (V w)" for e' tn u E
  proof (rule wp_both)
    show "wp (ReconcileGitOps A e' tn) (\<lambda>_ u'. ob_Environments (V u') = ob_Environments (V u)) u"
      by (rule ReconcileGitOps_rule [OF ok]) (auto dest!: only_gitops_eq dest: arg_cong [where f = ob_Environments])
    show "wp (ReconcileGitOps A e' tn) (\<lambda>r _. \<exists>s. r = Inr s) u"
      by (rule ReconcileGitOps_settles [OF ok calm])
        (use feas gitops_free_cong [OF that(1-3), of A V] in \<open>simp add: env_feasible_def\<close>)
  qed (use that stored env_settled(2) [OF ok calm] in auto)
  show ?thesis
  proof (simp only: env_provision_def Let_def wp_simps, rule MarkTrue_rule [OF cond],
      rule ReconcileNamespace_settles [OF ok calm, rotated], simp only: sum.case wp_simps,
      rule ReconcileResourceQuota_settles [OF ok calm, rotated], simp only: sum.case wp_simps,
      rule ReconcileConfigMap_settles [OF ok calm, rotated], simp only: sum.case wp_simps,
      rule ProjectSecrets_settles [OF ok calm, rotated 2], simp only: sum.case wp_simps,
      rule MarkTrue_rule [OF cond], rule git)
  qed (use feas in \<open>simp_all add: env_feasible_def\<close>)
qed

lemma env_reconcileEnvironment_settles:
  assumes ok: "api_ok A V" and calm: "calm A V"
    and stored: "ob_Environments (V w) (meta_key (e_meta e)) \<noteq> None" and feas: "env_feasible A V e (V w)"
  shows "wp (env_reconcileEnvironment A e) (\<lambda>r _. snd r = None) w"
proof (cases "es_Suspend (e_Spec e)")
  case True
  show ?thesis
    by (simp only: env_reconcileEnvironment_def Let_def True if_True wp_simps, rule MarkFalse_rule [OF api_okD(7) [OF ok]],
        rule env_reports.setPhase_rule [OF ok], rule env_reports.updateStatus_accepted [OF ok calmD(2) [OF calm]])
      (use stored in simp_all)
next
  case False
  let ?tk = "([], tr_Name (es_TenantRef (e_Spec e)))"
  from ok have get: "get_ok V ob_Tenants t_meta (api_Tenants A)" by (simp add: api_ok_def reads_ok_def)
  have tenants: "calm_reads V ob_Tenants t_meta (api_Tenants A)"
    using calmD(1) [OF calm] by (simp add: calm_resource_def)
  show ?thesis
  proof (cases "ob_Tenants (V w) ?tk")
    case None
    show ?thesis
      by (simp only: env_reconcileEnvironment_def Let_def False if_False wp_simps,
          rule wp_get_absent [OF get tenants None]) (use stored in \<open>simp add: env_settled(1) [OF ok calm]\<close>)
  next
    case (Some t)
    with feas have key: "meta_key (t_meta t) = ?tk" by (simp add: env_feasible_def)
    show ?thesis
    proof (simp only: env_reconcileEnvironment_def Let_def False if_False wp_simps,
        rule wp_get_there [OF get tenants Some key], simp only: sum.case, rule if_worldI, goal_cases)
      case (1 u)
      then show ?case using stored by (simp add: env_settled(1) [OF ok calm])
    next
      case (2 u)
      show ?case
      proof (rule env_enforceTTL_settles [OF ok calm], goal_cases)
        case (1 e' v)
        then have "env_feasible A V e' (V v)"
          using feas \<open>V u = V w\<close> gitops_free_cong [of e' e "V v" "V w" A V] by (simp add: env_feasible_def)
        then have "wp (env_provision A e' t (om_Generation (e_meta e))) (\<lambda>r _. snd r = None) v"
          by (rule env_provision_settles [OF ok calm, rotated]) (use 1 \<open>V u = V w\<close> stored in simp)
        then show ?case by simp
      qed simp
    qed
  qed
qed

text \<open>C15: An environment that can be provisioned is. In a calm cluster a reconcile of an adopted Environment
  whose required secrets exist and whose delivery engine is installed and not contested returns without
  error, and its stored status says which is the case: it is suspended; its tenant has no namespace yet
  and it is looked at again in 15 seconds; its time to live is over and it has been deleted; or it is
  provisioned as the spec says, and the next reconcile is due within the resync period.\<close>

theorem env_always_reports:
  assumes "api_ok A V" and "calm A V"
    and "ob_Environments (V w) req = Some e" and "meta_key (e_meta e) = req"
    and "om_DeletionTimestamp (e_meta e) = None" and "EnvironmentFinalizer \<in> set (om_Finalizers (e_meta e))"
    and "env_feasible A V e (V w)"
  shows "wp (env_Reconcile A req) (\<lambda>r w'. snd r = None \<and>
     (if es_Suspend (e_Spec e) then
        fst r = no_requeue \<and> env_waiting A e EnvironmentPhaseSuspended ReasonSuspended (V w')
      else if \<nexists>t. owner_ready (V w) e t then fst r = \<lparr>RequeueAfter = 15 * Second\<rparr> \<and>
        env_waiting A e EnvironmentPhasePending ReasonDependencyNotMet (V w')
      else if fst r = no_requeue then env_expiry e \<noteq> None \<and> env_expired e (V w) (V w')
      else sint (RequeueAfter (fst r)) \<le> sint environmentResyncPeriod \<and>
        (\<exists>t s. owner_ready (V w) e t \<and> env_provisioned A t e (ob_Secrets (V w)) s (V w') \<and>
          env_reported A t e s (V w')))) w"
proof -
  note ok = assms(1) and calm = assms(2)
  have count: "env_waiting A e p reason (v\<lparr>ob_ReconcileTotal := n\<rparr>) = env_waiting A e p reason v"
    "env_expired e v0 (v\<lparr>ob_ReconcileTotal := n\<rparr>) = env_expired e v0 v"
    "env_provisioned A t e secs s (v\<lparr>ob_ReconcileTotal := n\<rparr>) = env_provisioned A t e secs s v"
    "env_reported A t e s (v\<lparr>ob_ReconcileTotal := n\<rparr>) = env_reported A t e s v" for p reason v0 v n t s secs
    using gitops_result_cong [of "v\<lparr>ob_ReconcileTotal := n\<rparr>" v A]
    by (simp_all add: env_waiting_def env_expired_def env_provisioned_def env_reported_def one_hot_def series_def)
  have busy: "\<lparr>RequeueAfter = env_delay x now\<rparr> \<noteq> no_requeue" for x now
    using env_delay_bounds(1) [of x now] by (auto simp: no_requeue_def)
  let ?P = "\<lambda>r v. if es_Suspend (e_Spec e) then
        fst r = no_requeue \<and> env_waiting A e EnvironmentPhaseSuspended ReasonSuspended v
      else if \<nexists>t. owner_ready (V w) e t then fst r = \<lparr>RequeueAfter = 15 * Second\<rparr> \<and>
        env_waiting A e EnvironmentPhasePending ReasonDependencyNotMet v
      else if fst r = no_requeue then env_expiry e \<noteq> None \<and> env_expired e (V w) v
      else sint (RequeueAfter (fst r)) \<le> sint environmentResyncPeriod \<and>
        (\<exists>t s. owner_ready (V w) e t \<and> env_provisioned A t e (ob_Secrets (V w)) s v \<and> env_reported A t e s v)"
  show ?thesis
  proof (rule wp_both)
    show "wp (env_Reconcile A req) (\<lambda>r _. snd r = None) w"
      by (rule environments.settles [OF ok calmD(2) [OF calm] assms(3,4)])
        (use assms in \<open>auto intro!: env_reconcileEnvironment_settles [OF ok calm]\<close>)
    show "wp (env_Reconcile A req) (\<lambda>r w'. snd r = None \<longrightarrow> ?P r (V w')) w"
    proof (rule environments.Reconcile_rule [OF ok], goal_cases)
      case (5 x u)
      with assms(3) have x: "x = e" and V: "V u = V w" by simp_all
      have "wp (env_reconcileEnvironment A e) (\<lambda>r u'. snd r = None \<longrightarrow> ?P r (V u')) u"
        by (rule env_reconcileEnvironment_rule [OF ok clock_any]) (use V busy env_delay_bounds(2) in auto)
      then show ?case unfolding x by (rule wp_mono) (auto simp: environments.total_def count split: if_splits)
    qed (use assms in auto)
  qed auto
qed

lemma env_always_reports_witness:
  "wp (env_Reconcile steady_api (''team'', ''dev'')) (\<lambda>r w'. snd r = None \<and>
     (if es_Suspend (e_Spec live_env) then
        fst r = no_requeue \<and> env_waiting steady_api live_env EnvironmentPhaseSuspended ReasonSuspended (m_obs w')
      else if \<nexists>t. owner_ready (m_obs (env_world live_env)) live_env t then fst r = \<lparr>RequeueAfter = 15 * Second\<rparr> \<and>
        env_waiting steady_api live_env EnvironmentPhasePending ReasonDependencyNotMet (m_obs w')
      else if fst r = no_requeue then
        env_expiry live_env \<noteq> None \<and> env_expired live_env (m_obs (env_world live_env)) (m_obs w')
      else sint (RequeueAfter (fst r)) \<le> sint environmentResyncPeriod \<and>
        (\<exists>t s. owner_ready (m_obs (env_world live_env)) live_env t \<and>
          env_provisioned steady_api t live_env (ob_Secrets (m_obs (env_world live_env))) s (m_obs w') \<and>
          env_reported steady_api t live_env s (m_obs w')))) (env_world live_env)"
  by (rule env_always_reports [OF steady_api_ok steady_api_calm])
    (simp_all add: m_obs_def env_world_def mw_empty_def live_env_def argo_env_def new_meta_def meta_key_def env_feasible_def
      owning_tenant_def secrets_keyed_def resolvable_def gitops_free_def gitops_kinds_def steady_api_installed
      delivery_free_def base_object_def controllable_def new_Unstructured_def env_ref_def upo_consts)

lemma env_finalize_settles:
  assumes ok: "api_ok A V" and calm: "calm A V"
    and stored: "ob_Environments (V w) (meta_key (e_meta e)) = Some e"
    and last: "om_DeletionTimestamp (e_meta e) \<noteq> None" "om_Finalizers (e_meta e) = [EnvironmentFinalizer]"
    and keyed: "\<And>ns. ob_Namespaces (V w) ([], est_TargetNamespace (e_Status e)) = Some ns \<Longrightarrow>
       meta_key (ns_meta ns) = ([], est_TargetNamespace (e_Status e))"
    and Q: "\<And>w'. ob_Environments (V w') (meta_key (e_meta e)) = None \<Longrightarrow> env_torn_down e (V w') \<Longrightarrow>
       no_series (V w') (env_gauge e) \<Longrightarrow> Q (no_requeue, None) w'"
  shows "wp (env_finalize A e) Q w"
proof -
  let ?e = "e\<lparr>e_Status := (e_Status e)\<lparr>est_Phase := EnvironmentPhaseTerminating\<rparr>\<rparr>" and ?tn = "est_TargetNamespace (e_Status e)"
  have held: "ContainsFinalizer A (om_Finalizers (e_meta e)) EnvironmentFinalizer"
    using last by (simp add: finalizers_okD [OF api_okD(6) [OF ok]])
  have rel: "wp (env_release A ?e) Q u"
    if "ob_Environments (V u) (meta_key (e_meta e)) = Some e" "env_torn_down e (V u)" for u
    by (rule env_releases.release_settles [OF ok calmD(2) [OF calm], where s = e])
      (use that last in \<open>auto intro!: Q simp: env_torn_down_def gone_or_terminating_def env_gauge_def\<close>)
  have down: "wp (env_teardown A ?e) (\<lambda>early. case early of Some r \<Rightarrow> Q r | None \<Rightarrow> wp (env_release A ?e) Q) u"
    if V: "V u = (V w)\<lparr>ob_Phase := g\<rparr>" for u g
    unfolding env_teardown_def wp_simps
  proof (rule DeleteGitOps_settles [OF ok calm], goal_cases)
    case (1 w1)
    from only_gitops_eq [OF 1(1)] V have V1: "V w1 = (V w)\<lparr>ob_Phase := g, ob_Unstructured := ob_Unstructured (V w1)\<rparr>"
      by simp
    then have same: "ob_Environments (V w1) = ob_Environments (V w)" "ob_Namespaces (V w1) = ob_Namespaces (V w)"
      by (metis obs.select_convs obs.surjective obs.update_convs)+
    have gone: "\<forall>k \<in> {argoApplicationGVK, fluxKustomizeGVK, fluxGitRepoGVK}. ob_Unstructured (V w1) k (gitops_key e) = None"
      using 1(2) by (simp add: gitops_key_def)
    show ?case
    proof (simp only: option.case wp_simps, rule if_worldI, goal_cases)
      case 1
      show ?case
      proof (rule EnsureNamespaceDeleted_settles [OF ok calm], goal_cases)
        case (1 ns)
        with keyed same show ?case by simp
      next
        case (2 w2 x)
        have "wp (env_release A ?e) Q w2"
          by (rule rel) (use 2 same stored gone in \<open>auto simp: env_torn_down_def\<close>)
        then show ?case by simp
      qed
    next
      case 2
      with rel [of w1] same stored gone show ?case by (simp add: env_torn_down_def)
    qed
  qed
  show ?thesis
    by (simp only: env_finalize_def held not_True_eq_False if_False wp_simps, rule env_reports.setPhase_rule [OF ok], rule down)
qed



end
