(* ===== verification/Interleaving.thy ===== *)
theory Interleaving
  imports TenantController EnvironmentController IntegrationRuns
begin

text \<open>
  The three controllers side by side. What any of them may do to the custom resources of any kind is a
  relation between two states of the cluster, \<open>operator_keeps\<close>; it is kept by every call the methods
  make (\<open>holds\<close>), so by every reconcile (locales \<open>custodian\<close> and \<open>keeper\<close>), and by any sequence of reconciles
  of the three controllers.
\<close>

section \<open>What the operator may do to a custom resource\<close>

text \<open>\<open>x\<close> is the object before, \<open>y\<close> after. An object is leaving when its deletion was requested, or when
  it is overdue by the clock.\<close>

definition leaving :: "('x \<Rightarrow> ObjectMeta) \<Rightarrow> ('x \<Rightarrow> bool) \<Rightarrow> 'x \<Rightarrow> bool" where
  "leaving mt overdue x \<longleftrightarrow> om_DeletionTimestamp (mt x) \<noteq> None \<or> overdue x"

definition passed :: "string \<Rightarrow> ('x \<Rightarrow> ObjectMeta) \<Rightarrow> ('x \<Rightarrow> 's) \<Rightarrow> ('x \<Rightarrow> bool) \<Rightarrow> 'x \<Rightarrow> 'x \<Rightarrow> bool" where
  "passed own mt spec overdue x y \<longleftrightarrow>
     meta_key (mt y) = meta_key (mt x) \<and> spec y = spec x \<and>
     set (om_Finalizers (mt x)) - {own} \<subseteq> set (om_Finalizers (mt y)) \<and>
     (\<not> overdue x \<longrightarrow> stamps (mt y) = stamps (mt x)) \<and>
     (\<not> leaving mt overdue x \<longrightarrow> set (om_Finalizers (mt x)) \<subseteq> set (om_Finalizers (mt y)))"

definition dropped :: "string \<Rightarrow> ('x \<Rightarrow> ObjectMeta) \<Rightarrow> ('x \<Rightarrow> bool) \<Rightarrow> 'x \<Rightarrow> bool" where
  "dropped own mt overdue x \<longleftrightarrow> leaving mt overdue x \<and> set (om_Finalizers (mt x)) \<subseteq> {own}"

fun succeeds_to :: "string \<Rightarrow> ('x \<Rightarrow> ObjectMeta) \<Rightarrow> ('x \<Rightarrow> 's) \<Rightarrow> ('x \<Rightarrow> bool) \<Rightarrow> 'x option \<Rightarrow> 'x option \<Rightarrow> bool" where
  "succeeds_to own mt spec overdue None new = (new = None)"
| "succeeds_to own mt spec overdue (Some x) None = dropped own mt overdue x"
| "succeeds_to own mt spec overdue (Some x) (Some y) = passed own mt spec overdue x y"

definition persists ::
  "string \<Rightarrow> ('x \<Rightarrow> ObjectMeta) \<Rightarrow> ('x \<Rightarrow> 's) \<Rightarrow> ('x \<Rightarrow> bool) \<Rightarrow> (objkey \<rightharpoonup> 'x) \<Rightarrow> (objkey \<rightharpoonup> 'x) \<Rightarrow> bool" where
  "persists own mt spec overdue m m' \<longleftrightarrow> (\<forall>k. succeeds_to own mt spec overdue (m k) (m' k))"

lemma passed_refl [simp]: "passed own mt spec overdue x x"
  by (auto simp: passed_def)

lemma succeeds_to_refl [simp]: "succeeds_to own mt spec overdue x x"
  by (cases x) simp_all

lemma persists_refl [simp]: "persists own mt spec overdue m m"
  by (simp add: persists_def)

lemma persists_at: "persists own mt spec overdue m m' \<Longrightarrow> succeeds_to own mt spec overdue (m k) (m' k)"
  unfolding persists_def by blast

lemma persistsD:
  assumes "persists own mt spec overdue m m'" "m' k = Some y"
  shows "\<exists>x. m k = Some x \<and> passed own mt spec overdue x y"
  using persists_at [OF assms(1), of k] assms(2) by (cases "m k") simp_all

lemma persists_upd:
  "persists own mt spec overdue m m' \<Longrightarrow> succeeds_to own mt spec overdue (m k) new \<Longrightarrow>
   persists own mt spec overdue m (m'(k := new))"
  unfolding persists_def by simp

text \<open>An environment is overdue at some reading of the clock in \<open>C\<close>; the other kinds never are.\<close>

definition env_overdue :: "(Time \<Rightarrow> bool) \<Rightarrow> Environment \<Rightarrow> bool" where
  "env_overdue C e \<longleftrightarrow> (\<exists>t now. env_expiry e = Some t \<and> C now \<and> \<not> now < t)"

definition operator_keeps :: "(Time \<Rightarrow> bool) \<Rightarrow> obs \<Rightarrow> obs \<Rightarrow> bool" where
  "operator_keeps C v v' \<longleftrightarrow>
     persists TenantFinalizer t_meta t_Spec (\<lambda>_. False) (ob_Tenants v) (ob_Tenants v') \<and>
     persists EnvironmentFinalizer e_meta e_Spec (env_overdue C) (ob_Environments v) (ob_Environments v') \<and>
     persists IntegrationFinalizer i_meta i_Spec (\<lambda>_. False) (ob_Integrations v) (ob_Integrations v')"

lemma operator_keeps_refl [simp]: "operator_keeps C v v"
  by (simp add: operator_keeps_def)

lemma operator_keeps_phase [simp]: "operator_keeps C v0 (v\<lparr>ob_Phase := g\<rparr>) = operator_keeps C v0 v"
  by (simp add: operator_keeps_def)

text \<open>The API server's part: a deletion removes an object that no finalizer holds, and otherwise marks it.\<close>

definition deletes_gracefully :: "'w api \<Rightarrow> ('w \<Rightarrow> obs) \<Rightarrow> bool" where
  "deletes_gracefully A V \<longleftrightarrow> (\<forall>x w. wp (kc_Delete (api_Environments A) x) (\<lambda>_ w'.
     \<forall>k. k = meta_key (e_meta x) \<longrightarrow> (case ob_Environments (V w') k of
       None \<Rightarrow> (\<forall>s. ob_Environments (V w) k = Some s \<longrightarrow> om_Finalizers (e_meta s) = [])
     | Some y \<Rightarrow> (\<exists>s. ob_Environments (V w) k = Some s \<and> meta_key (e_meta y) = meta_key (e_meta s) \<and>
         e_Spec y = e_Spec s \<and> om_Finalizers (e_meta y) = om_Finalizers (e_meta s)))) w)"

section \<open>Programs that keep an assertion\<close>

definition holds :: "('w \<Rightarrow> obs) \<Rightarrow> (obs \<Rightarrow> bool) \<Rightarrow> ('w, 'a) state \<Rightarrow> ('a \<Rightarrow> bool) \<Rightarrow> bool" where
  "holds V P m R \<longleftrightarrow> (\<forall>w. P (V w) \<longrightarrow> wp m (\<lambda>a w'. P (V w') \<and> R a) w)"

named_theorems kept \<open>programs that keep an assertion about the custom resources\<close>

lemma holdsI: "(\<And>w. P (V w) \<Longrightarrow> wp m (\<lambda>a w'. P (V w') \<and> R a) w) \<Longrightarrow> holds V P m R"
  by (simp add: holds_def)

lemma holdsD: "holds V P m R \<Longrightarrow> P (V w) \<Longrightarrow> (\<And>a w'. P (V w') \<Longrightarrow> R a \<Longrightarrow> Q a w') \<Longrightarrow> wp m Q w"
  unfolding holds_def by (blast intro: wp_mono)

lemma holds_weaken: "holds V P m R \<Longrightarrow> (\<And>a. R a \<Longrightarrow> S a) \<Longrightarrow> holds V P m S"
  unfolding holds_def by (blast intro: wp_mono)

lemma holds_bind:
  "holds V P m R \<Longrightarrow> (\<And>a. R a \<Longrightarrow> holds V P (f a) S) \<Longrightarrow> holds V P (m \<bind> f) S"
  unfolding holds_def wp_simps by (blast intro: wp_mono)

lemma holds_then [kept]:
  "holds V P m (\<lambda>_. True) \<Longrightarrow> (\<And>a. holds V P (f a) S) \<Longrightarrow> holds V P (m \<bind> f) S"
  by (rule holds_bind)

lemma holds_return: "R a \<Longrightarrow> holds V P (State_Monad.return a) R"
  by (simp add: holds_def)

lemma holds_return_any [kept]: "holds V P (State_Monad.return a) (\<lambda>_. True)"
  by (simp add: holds_def)

lemma holds_let [kept]: "(\<And>x. holds V P (f x) R) \<Longrightarrow> holds V P (Let y f) R"
  by (simp add: Let_def)

lemma holds_if [kept]: "holds V P m R \<Longrightarrow> holds V P n R \<Longrightarrow> holds V P (if b then m else n) R"
  by simp

lemma holds_if_cases:
  "(b \<Longrightarrow> holds V P m R) \<Longrightarrow> (\<not> b \<Longrightarrow> holds V P n R) \<Longrightarrow> holds V P (if b then m else n) R"
  by simp

lemma holds_sum [kept]:
  "(\<And>e. holds V P (m e) R) \<Longrightarrow> (\<And>x. holds V P (n x) R) \<Longrightarrow> holds V P (case r of Inl e \<Rightarrow> m e | Inr x \<Rightarrow> n x) R"
  by (simp split: sum.split)

lemma holds_option [kept]:
  "holds V P m R \<Longrightarrow> (\<And>x. holds V P (n x) R) \<Longrightarrow> holds V P (case r of None \<Rightarrow> m | Some x \<Rightarrow> n x) R"
  by (simp split: option.split)

lemma holds_prod [kept]: "(\<And>a b. holds V P (m a b) R) \<Longrightarrow> holds V P (case p of (a, b) \<Rightarrow> m a b) R"
  by (simp split: prod.split)

text \<open>Assertions about nothing but the custom resources are kept by everything that writes other objects.\<close>

definition on_resources :: "(obs \<Rightarrow> bool) \<Rightarrow> bool" where
  "on_resources P \<longleftrightarrow> (\<forall>v v'. ob_Tenants v' = ob_Tenants v \<longrightarrow> ob_Environments v' = ob_Environments v \<longrightarrow>
     ob_Integrations v' = ob_Integrations v \<longrightarrow> P v \<longrightarrow> P v')"

lemma on_resourcesD:
  "on_resources P \<Longrightarrow> P v \<Longrightarrow> ob_Tenants v' = ob_Tenants v \<Longrightarrow> ob_Environments v' = ob_Environments v \<Longrightarrow>
   ob_Integrations v' = ob_Integrations v \<Longrightarrow> P v'"
  unfolding on_resources_def by blast

lemma operator_keeps_on_resources [simp]: "on_resources (operator_keeps C v)"
  by (simp add: on_resources_def operator_keeps_def)

lemma calls_kept [kept]:
  assumes ok: "api_ok A V" and P: "on_resources P"
  shows "holds V P (Now A) (\<lambda>_. True)" "holds V P (Eventf A r ty reason msg) (\<lambda>_. True)"
    "holds V P (kc_Get (api_Tenants A) k) (\<lambda>_. True)" "holds V P (put_phase A g p) (\<lambda>_. True)"
    "holds V P (clear_phase A g) (\<lambda>_. True)" "holds V P (record_outcome A n start res) (\<lambda>_. True)"
proof -
  note eff = api_okD(9) [OF ok] and met = api_okD(8) [OF ok]
  from api_okD(3) [OF ok] have get: "get_ok V ob_Tenants t_meta (api_Tenants A)" by (simp add: reads_ok_def)
  show "holds V P (Now A) (\<lambda>_. True)" by (rule holdsI, rule wp_Now [OF eff]) simp
  show "holds V P (Eventf A r ty reason msg) (\<lambda>_. True)"
    by (rule holdsI, rule wp_Eventf [OF eff]) (auto intro: on_resourcesD [OF P])
  show "holds V P (kc_Get (api_Tenants A) k) (\<lambda>_. True)" by (rule holdsI, rule wp_get [OF get]) simp_all
  show "holds V P (put_phase A g p) (\<lambda>_. True)"
    by (rule holdsI, rule gauge.put_rule [OF met]) (auto intro: on_resourcesD [OF P])
  show "holds V P (clear_phase A g) (\<lambda>_. True)"
    by (rule holdsI, rule gauge.clear_rule [OF met]) (auto intro: on_resourcesD [OF P])
  show "holds V P (record_outcome A n start res) (\<lambda>_. True)"
    by (rule holdsI, rule wp_record_outcome [OF ok]) (auto intro: on_resourcesD [OF P])
qed

lemma marks_kept [kept]:
  assumes ok: "api_ok A V" and P: "on_resources P"
  shows "holds V P (MarkTrue A cs t reason msg gen) (\<lambda>_. True)" "holds V P (MarkFalse A cs t reason msg gen) (\<lambda>_. True)"
    "holds V P (MarkUnknown A cs t reason msg gen) (\<lambda>_. True)"
  by (rule holdsI, rule MarkTrue_rule [OF api_okD(7) [OF ok]], simp)
    (rule holdsI, rule MarkFalse_rule [OF api_okD(7) [OF ok]], simp,
     rule holdsI, rule MarkUnknown_rule [OF api_okD(7) [OF ok]], simp)

lemma primitives_kept [kept]:
  assumes ok: "api_ok A V" and P: "on_resources P"
  shows "holds V P (ReconcileNamespace A owner sc name labels) (\<lambda>_. True)"
    "holds V P (ReconcileResourceQuota A owner sc ns hard suspended labels) (\<lambda>_. True)"
    "holds V P (ReconcileLimitRange A owner sc ns def defReq mx labels) (\<lambda>_. True)"
    "holds V P (ReconcileNetworkPolicy A owner ns isolation labels) (\<lambda>_. True)"
    "holds V P (ReconcileTenantAdminBinding A owner ns admins labels) (\<lambda>_. True)"
    "holds V P (ReconcileConfigMap A owner sc ns name data labels) (\<lambda>_. True)"
    "holds V P (ProjectSecrets A owner sc src dst name sels labels) (\<lambda>_. True)"
    "holds V P (EnsureNamespaceDeleted A name) (\<lambda>_. True)"
  by (rule holdsI, rule ReconcileNamespace_rule [OF ok] ReconcileResourceQuota_rule [OF ok] ReconcileLimitRange_rule [OF ok]
      ReconcileNetworkPolicy_rule [OF ok] ReconcileTenantAdminBinding_rule [OF ok] ReconcileConfigMap_rule [OF ok]
      ProjectSecrets_rule [OF ok] EnsureNamespaceDeleted_rule [OF ok]; auto intro: on_resourcesD [OF P])+

lemma services_kept [kept]:
  assumes ok: "api_ok A V" and P: "on_resources P"
  shows "holds V P (ReconcileGitOps A env tn) (\<lambda>_. True)" "holds V P (DeleteGitOps A env) (\<lambda>_. True)"
    "holds V P (ResolveAuthSecret A ns ref) (\<lambda>_. True)"
    "holds V P (ReconcileConnectionSecret A owner ns name data labels) (\<lambda>_. True)"
    "holds V P (DeleteConnectionSecret A ns name) (\<lambda>_. True)"
    "holds V P (HTTPProber_Probe A pr) (\<lambda>_. True)" "holds V P (tenant_countChildren A n) (\<lambda>_. True)"
proof -
  have gitops: "P v'" if "only_gitops env v v'" "P v" for v v'
    by (rule on_resourcesD [OF P that(2)]) (use that(1) in \<open>auto simp: only_gitops_def dest: arg_cong [of _ _ ob_Tenants]
        arg_cong [of _ _ ob_Environments] arg_cong [of _ _ ob_Integrations]\<close>)
  show "holds V P (ReconcileGitOps A env tn) (\<lambda>_. True)"
    by (rule holdsI, rule ReconcileGitOps_rule [OF ok]) (auto intro: gitops)
  show "holds V P (DeleteGitOps A env) (\<lambda>_. True)"
    by (rule holdsI, rule DeleteGitOps_rule [OF ok]) (auto intro: gitops)
  show "holds V P (ResolveAuthSecret A ns ref) (\<lambda>_. True)"
    by (rule holdsI, rule ResolveAuthSecret_rule [OF ok]) simp_all
  show "holds V P (ReconcileConnectionSecret A owner ns name data labels) (\<lambda>_. True)"
    by (rule holdsI, rule ReconcileConnectionSecret_rule [OF ok]) (auto intro: on_resourcesD [OF P])
  show "holds V P (DeleteConnectionSecret A ns name) (\<lambda>_. True)"
    by (rule holdsI, rule DeleteConnectionSecret_rule [OF ok]) (auto intro: on_resourcesD [OF P])
  show "holds V P (HTTPProber_Probe A pr) (\<lambda>_. True)"
    by (rule holdsI, rule probing_rule [OF HTTPProber_probing [OF api_okD(9) [OF ok]]]) simp
  show "holds V P (tenant_countChildren A n) (\<lambda>_. True)"
    by (rule holdsI, rule tenant_countChildren_rule [OF ok]) simp_all
qed

section \<open>The writes of one kind\<close>

locale custodian =
  fixes kc :: "'w api \<Rightarrow> ('w, 'x) kclient"
    and sel :: "obs \<Rightarrow> (objkey \<rightharpoonup> 'x)"
    and upd :: "((objkey \<rightharpoonup> 'x) \<Rightarrow> (objkey \<rightharpoonup> 'x)) \<Rightarrow> obs \<Rightarrow> obs"
    and mt :: "'x \<Rightarrow> ObjectMeta"
    and spec :: "'x \<Rightarrow> 's"
    and st :: "'x \<Rightarrow> 'st"
    and put_st :: "'st \<Rightarrow> 'x \<Rightarrow> 'x"
    and own :: string
    and overdue :: "(Time \<Rightarrow> bool) \<Rightarrow> 'x \<Rightarrow> bool"
  assumes writes: "api_ok A V \<Longrightarrow> status_ok V sel upd mt (\<lambda>x s. put_st (st x) s) (kc A)"
      "api_ok A V \<Longrightarrow> update_ok V sel upd mt spec (kc A)"
    and put_st: "mt (put_st s x) = mt x" "spec (put_st s x) = spec x"
    and kept_sel: "operator_keeps C v0 v \<Longrightarrow> persists own mt spec (overdue C) (sel v0) (sel v)"
    and kept_upd: "operator_keeps C v0 v \<Longrightarrow> persists own mt spec (overdue C) (sel v0) (f (sel v)) \<Longrightarrow>
      operator_keeps C v0 (upd f v)"
begin

text \<open>The object that a method works on comes from one that was stored at the start.\<close>

definition descended :: "(Time \<Rightarrow> bool) \<Rightarrow> obs \<Rightarrow> 'x \<Rightarrow> bool" where
  "descended C v0 z \<longleftrightarrow> (\<exists>x. sel v0 (meta_key (mt z)) = Some x \<and> passed own mt spec (overdue C) x z)"

lemma descended_put [simp]: "descended C v0 (put_st s z) = descended C v0 z"
  by (simp add: descended_def passed_def put_st)

lemma descended_read:
  "operator_keeps C v0 v \<Longrightarrow> sel v (meta_key (mt x)) = Some x \<Longrightarrow> descended C v0 x"
  using persistsD [OF kept_sel] by (fastforce simp: descended_def)

lemma kept_at:
  "operator_keeps C v0 v \<Longrightarrow> succeeds_to own mt spec (overdue C) (sel v0 k) new \<Longrightarrow>
   operator_keeps C v0 (upd (\<lambda>m. m(k := new)) v)"
  by (intro kept_upd persists_upd kept_sel)

lemma passed_put: "passed own mt spec od x (put_st s y) = passed own mt spec od x y"
  by (simp add: passed_def put_st)

lemma status_kept:
  assumes ok: "api_ok A V"
  shows "holds V (operator_keeps C v0) (kc_StatusUpdate (kc A) z) (\<lambda>r. descended C v0 z \<longrightarrow>
    descended C v0 (snd r) \<and> meta_key (mt (snd r)) = meta_key (mt z))"
proof (rule holdsI, rule wp_status [OF writes(1) [OF ok]], goal_cases)
  case (1 w s w')
  from persistsD [OF kept_sel [OF 1(1)] 1(2)] obtain x where
    x: "sel v0 (meta_key (mt z)) = Some x" "passed own mt spec (overdue C) x s" by blast
  then have "operator_keeps C v0 (V w')" unfolding 1(3) by (intro kept_at [OF 1(1)]) (simp add: passed_put)
  moreover have "descended C v0 (put_st (st z) s) \<and> meta_key (mt s) = meta_key (mt z)" if "descended C v0 z"
    using that x by (auto simp: descended_def put_st passed_def)
  ultimately show ?case by (simp add: put_st)
next
  case (2 w e m' w')
  have "succeeds_to own mt spec (overdue C) (sel v0 (meta_key (mt z))) m'"
    using 2(3) persists_at [OF kept_sel [OF 2(1)], of "meta_key (mt z)"] persistsD [OF kept_sel [OF 2(1)], of "meta_key (mt z)"]
    by (auto simp: passed_put)
  with 2 show ?case by (simp add: kept_at)
qed

text \<open>Objects of one key that come from the same stored one have its timestamps, unless it is overdue.\<close>

lemma descended_stamps:
  "descended C v0 y \<Longrightarrow> descended C v0 z \<Longrightarrow> meta_key (mt y) = meta_key (mt z) \<Longrightarrow> (\<And>x. \<not> overdue C x) \<Longrightarrow>
   stamps (mt y) = stamps (mt z)"
  by (auto simp: descended_def passed_def)

text \<open>Giving up the finalizer of an object under deletion.\<close>

lemma release_kept:
  assumes ok: "api_ok A V" and z: "descended C v0 z" "om_DeletionTimestamp (mt z) \<noteq> None"
    and y: "mt y = (mt z)\<lparr>om_Finalizers := removeAll own (om_Finalizers (mt z))\<rparr>" "spec y = spec z"
  shows "holds V (operator_keeps C v0) (kc_Update (kc A) y) (\<lambda>_. True)"
proof -
  have key: "meta_key (mt y) = meta_key (mt z)" by (simp add: y)
  from z(1) obtain x where x: "sel v0 (meta_key (mt y)) = Some x" "passed own mt spec (overdue C) x z"
    by (auto simp: descended_def key)
  have leaves: "leaving mt (overdue C) x"
    using x(2) z(2) by (auto simp: passed_def leaving_def stamps_def)
  have dropped: "dropped own mt (overdue C) x" if "om_Finalizers (mt y) = []"
  proof -
    have "set (om_Finalizers (mt z)) \<subseteq> {own}" using that by (auto simp: y removeAll_filter_not_eq filter_empty_conv)
    with x(2) leaves show ?thesis by (auto simp: dropped_def passed_def)
  qed
  have passed: "passed own mt spec (overdue C) x y'"
    if s: "passed own mt spec (overdue C) x s"
      and y': "om_Finalizers (mt y') = om_Finalizers (mt y)" "meta_key (mt y') = meta_key (mt y)" "spec y' = spec y"
        "stamps (mt s) = stamps (mt y) \<Longrightarrow> stamps (mt y') = stamps (mt s)" for s y'
    using x(2) s leaves y' by (auto simp: passed_def y stamps_def)
  show ?thesis
  proof (rule holdsI, rule wp_update [OF writes(2) [OF ok]], goal_cases)
    case (1 w y' w')
    from 1(2) obtain s where s: "sel (V w) (meta_key (mt y)) = Some s" by blast
    with persistsD [OF kept_sel [OF 1(1)]] x(1) have "passed own mt spec (overdue C) x s" by fastforce
    from passed [OF this 1(3-5) 1(7) [OF s]] dropped show ?case
      unfolding 1(6) using x(1) by (auto intro!: kept_at [OF 1(1)] simp: y)
  next
    case (2 w e y' m' w')
    have "succeeds_to own mt spec (overdue C) (Some x) m'"
      using 2(3)
    proof (elim disjE, goal_cases)
      case 1
      with persists_at [OF kept_sel [OF 2(1)], of "meta_key (mt y)"] x(1) show ?case by simp
    next
      case 2
      with dropped show ?case by simp
    next
      case 3
      then obtain s y'' where s: "sel (V w) (meta_key (mt y)) = Some s" "m' = Some y''"
        "om_Finalizers (mt y'') = om_Finalizers (mt y)" "meta_key (mt y'') = meta_key (mt y)" "spec y'' = spec y"
        "stamps (mt s) = stamps (mt y) \<Longrightarrow> stamps (mt y'') = stamps (mt s)" by blast
      with persistsD [OF kept_sel [OF 2(1)]] x(1) have "passed own mt spec (overdue C) x s" by fastforce
      from passed [OF this s(3-6)] s(2) show ?case by simp
    qed
    with x(1) 2(2) show ?case by (simp add: kept_at [OF 2(1)])
  qed
qed

end

text \<open>The methods that report, on the contract of theory Reporting.\<close>

locale steward = custodian kc sel upd mt spec st put_st own overdue +
  reporter kc sel upd mt ref gauge_id st put_st conds_of with_conds with_phase with_error stamp failed
    setPhase updateStatus fail
  for kc :: "'w api \<Rightarrow> ('w, 'x) kclient" and sel upd and mt :: "'x \<Rightarrow> ObjectMeta" and spec :: "'x \<Rightarrow> 's"
    and st :: "'x \<Rightarrow> 'st" and put_st and own overdue ref gauge_id conds_of with_conds with_phase with_error stamp failed
    setPhase updateStatus fail
begin

lemma setPhase_kept:
  assumes "api_ok A V"
  shows "holds V (operator_keeps C v0) (setPhase A x p) (\<lambda>y. \<exists>s. y = put_st s x)"
  unfolding setPhase_eq by (rule holds_bind [OF calls_kept(4) [OF assms]]) (auto intro: holds_return)

lemmas setPhase_kept_any = holds_weaken [OF setPhase_kept, OF _ TrueI]

lemma updateStatus_kept:
  assumes "api_ok A V"
  shows "holds V (operator_keeps C v0) (updateStatus A x gen) (\<lambda>_. True)"
  unfolding updateStatus_eq
  by (intro holds_bind [OF calls_kept(1) [OF assms]] holds_weaken [OF status_kept [OF assms]]) simp_all

lemma fail_kept:
  assumes "api_ok A V"
  shows "holds V (operator_keeps C v0) (fail A x reason cause) (\<lambda>_. True)"
  unfolding fail_eq by (intro kept setPhase_kept_any updateStatus_kept assms operator_keeps_on_resources)

end

interpretation tenant_custody: custodian api_Tenants ob_Tenants ob_Tenants_update t_meta t_Spec t_Status
    "\<lambda>s t. t\<lparr>t_Status := s\<rparr>" TenantFinalizer "\<lambda>C t. False"
  by unfold_locales (simp_all add: api_ok_def resources_ok_def operator_keeps_def)

interpretation tenant_steward: steward api_Tenants ob_Tenants ob_Tenants_update t_meta t_Spec t_Status
    "\<lambda>s t. t\<lparr>t_Status := s\<rparr>" TenantFinalizer "\<lambda>C t. False" tenant_ref tenant_gauge
    tst_Conditions "\<lambda>cs. tst_Conditions_update (\<lambda>_. cs)" "\<lambda>p. tst_Phase_update (\<lambda>_. p)" "\<lambda>e s. s"
    "\<lambda>gen now s. s\<lparr>tst_ObservedGeneration := gen, tst_LastReconcileTime := Some now\<rparr>" TenantPhaseFailed
    tenant_setPhase tenant_updateStatus tenant_fail ..

interpretation env_custody: custodian api_Environments ob_Environments ob_Environments_update e_meta e_Spec e_Status
    "\<lambda>s e. e\<lparr>e_Status := s\<rparr>" EnvironmentFinalizer env_overdue
  by unfold_locales (simp_all add: api_ok_def resources_ok_def operator_keeps_def)

interpretation env_steward: steward api_Environments ob_Environments ob_Environments_update e_meta e_Spec e_Status
    "\<lambda>s e. e\<lparr>e_Status := s\<rparr>" EnvironmentFinalizer env_overdue env_ref env_gauge
    est_Conditions "\<lambda>cs. est_Conditions_update (\<lambda>_. cs)" "\<lambda>p. est_Phase_update (\<lambda>_. p)" "\<lambda>e s. s" env_stamp
    EnvironmentPhaseFailed env_setPhase env_updateStatus env_fail ..

interpretation intg_custody: custodian api_Integrations ob_Integrations ob_Integrations_update i_meta i_Spec i_Status
    "\<lambda>s i. i\<lparr>i_Status := s\<rparr>" IntegrationFinalizer "\<lambda>C i. False"
  by unfold_locales (simp_all add: api_ok_def resources_ok_def operator_keeps_def)

interpretation intg_steward: steward api_Integrations ob_Integrations ob_Integrations_update i_meta i_Spec i_Status
    "\<lambda>s i. i\<lparr>i_Status := s\<rparr>" IntegrationFinalizer "\<lambda>C i. False" intg_ref intg_gauge
    ist_Conditions "\<lambda>cs. ist_Conditions_update (\<lambda>_. cs)" "\<lambda>p. ist_Phase_update (\<lambda>_. p)"
    "\<lambda>e. ist_LastError_update (\<lambda>_. e)" intg_stamp IntegrationPhaseFailed intg_setPhase intg_updateStatus intg_fail ..

lemmas reports_kept [kept] =
  tenant_steward.setPhase_kept_any tenant_steward.updateStatus_kept tenant_steward.fail_kept
  env_steward.setPhase_kept_any env_steward.updateStatus_kept env_steward.fail_kept
  intg_steward.setPhase_kept_any intg_steward.updateStatus_kept intg_steward.fail_kept

section \<open>The methods of the three controllers\<close>

lemma tenant_reconcileTenant_kept:
  assumes ok: "api_ok A V"
  shows "holds V (operator_keeps C v0) (tenant_reconcileTenant A t) (\<lambda>_. True)"
  unfolding tenant_reconcileTenant_def tenant_succeed_def
  by (intro kept ok operator_keeps_on_resources)

lemma tenant_finalize_kept:
  assumes ok: "api_ok A V" and t: "tenant_custody.descended C v0 t" "om_DeletionTimestamp (t_meta t) \<noteq> None"
  shows "holds V (operator_keeps C v0) (tenant_finalize A t) (\<lambda>_. True)"
proof -
  note fins = finalizers_okD(3) [OF api_okD(6) [OF ok]]
  have release: "holds V (operator_keeps C v0) (tenant_release A t') (\<lambda>_. True)"
    if "tenant_custody.descended C v0 t'" "om_DeletionTimestamp (t_meta t') \<noteq> None" for t'
    unfolding tenant_releases.release_eq fins
    by (intro kept ok operator_keeps_on_resources tenant_custody.release_kept [OF ok that]) simp_all
  have teardown: "holds V (operator_keeps C v0) (tenant_teardown A t') (\<lambda>_. True)" for t'
    unfolding tenant_teardown_def by (intro kept ok operator_keeps_on_resources)
  have status: "holds V (operator_keeps C v0) (kc_StatusUpdate (api_Tenants A) (t\<lparr>t_Status := s\<rparr>))
      (\<lambda>r. tenant_custody.descended C v0 (snd r) \<and> om_DeletionTimestamp (t_meta (snd r)) \<noteq> None)" for s
  proof (rule holds_weaken [OF tenant_custody.status_kept [OF ok]])
    fix r :: "go_err option \<times> Tenant"
    assume r: "tenant_custody.descended C v0 (t\<lparr>t_Status := s\<rparr>) \<longrightarrow>
      tenant_custody.descended C v0 (snd r) \<and> meta_key (t_meta (snd r)) = meta_key (t_meta (t\<lparr>t_Status := s\<rparr>))"
    with t(1) have desc: "tenant_custody.descended C v0 (snd r)" "meta_key (t_meta (snd r)) = meta_key (t_meta t)"
      by simp_all
    from tenant_custody.descended_stamps [OF desc(1) t(1) desc(2)] t(2) desc(1)
    show "tenant_custody.descended C v0 (snd r) \<and> om_DeletionTimestamp (t_meta (snd r)) \<noteq> None"
      by (simp add: stamps_def)
  qed
  show ?thesis
    unfolding tenant_finalize_def split_def
    by (intro holds_if holds_return_any holds_bind [OF tenant_steward.setPhase_kept [OF ok]]) (auto, intro
      holds_then [OF marks_kept(2) [OF ok operator_keeps_on_resources]] holds_bind [OF status]
      holds_then [OF teardown] holds_option holds_return_any, auto intro: release)
qed

lemma intg_reconcileIntegration_kept:
  assumes ok: "api_ok A V"
  shows "holds V (operator_keeps C v0) (intg_reconcileIntegration A None i) (\<lambda>_. True)"
  unfolding intg_reconcileIntegration_def intg_blockOnDependency_def intg_probeAndFinish_def intg_markConnected_def
    intg_probeFailed_def prober_def option.case
  by (intro kept ok operator_keeps_on_resources)

lemma intg_finalize_kept:
  assumes ok: "api_ok A V" and i: "intg_custody.descended C v0 i" "om_DeletionTimestamp (i_meta i) \<noteq> None"
  shows "holds V (operator_keeps C v0) (intg_finalize A i) (\<lambda>_. True)"
proof -
  have release: "holds V (operator_keeps C v0) (intg_release A i) (\<lambda>_. True)"
    unfolding intg_releases.release_eq finalizers_okD(3) [OF api_okD(6) [OF ok]]
    by (intro kept ok operator_keeps_on_resources intg_custody.release_kept [OF ok i]) simp_all
  show ?thesis
    unfolding intg_finalize_def by (intro kept ok operator_keeps_on_resources release)
qed

text \<open>An environment is deleted only when the one it comes from is overdue.\<close>

lemma env_overdue_descended:
  assumes "env_custody.descended C v0 e" "env_overdue C e"
  shows "\<exists>x. ob_Environments v0 (meta_key (e_meta e)) = Some x \<and> passed EnvironmentFinalizer e_meta e_Spec (env_overdue C) x e \<and>
    env_overdue C x"
proof -
  from assms(1) obtain x where x: "ob_Environments v0 (meta_key (e_meta e)) = Some x"
    "passed EnvironmentFinalizer e_meta e_Spec (env_overdue C) x e" by (auto simp: env_custody.descended_def)
  have "env_overdue C x"
  proof (rule ccontr)
    assume "\<not> env_overdue C x"
    with x(2) have "e_Spec e = e_Spec x" "om_CreationTimestamp (e_meta e) = om_CreationTimestamp (e_meta x)"
      by (simp_all add: passed_def stamps_def)
    then have "env_expiry e = env_expiry x" by (simp add: env_expiry_def)
    with \<open>\<not> env_overdue C x\<close> assms(2) show False unfolding env_overdue_def by simp blast
  qed
  with x show ?thesis by blast
qed

lemma env_delete_kept:
  assumes ok: "api_ok A V" and law: "deletes_gracefully A V"
    and x: "ob_Environments v0 (meta_key (e_meta e)) = Some x" "env_overdue C x"
  shows "holds V (operator_keeps C v0) (kc_Delete (api_Environments A) e) (\<lambda>_. True)"
proof (rule holdsI, simp, rule wp_runI)
  fix w r w'
  assume keeps: "operator_keeps C v0 (V w)" and run: "run_state (kc_Delete (api_Environments A) e) w = (r, w')"
  let ?k = "meta_key (e_meta e)"
  from ok have del: "delete_ok V ob_Environments ob_Environments_update e_meta (api_Environments A)"
    by (simp add: api_ok_def resources_ok_def)
  have "wp (kc_Delete (api_Environments A) e) (\<lambda>_ w'. \<exists>m'. V w' = ob_Environments_update (\<lambda>m. m(?k := m')) (V w)) w"
    by (rule wp_delete [OF del]) auto
  from wpD [OF this run] obtain m' where V: "V w' = ob_Environments_update (\<lambda>m. m(?k := m')) (V w)" by blast
  from law have "wp (kc_Delete (api_Environments A) e) (\<lambda>_ w'. \<forall>k. k = ?k \<longrightarrow> (case ob_Environments (V w') k of
       None \<Rightarrow> (\<forall>s. ob_Environments (V w) k = Some s \<longrightarrow> om_Finalizers (e_meta s) = [])
     | Some y \<Rightarrow> (\<exists>s. ob_Environments (V w) k = Some s \<and> meta_key (e_meta y) = meta_key (e_meta s) \<and>
         e_Spec y = e_Spec s \<and> om_Finalizers (e_meta y) = om_Finalizers (e_meta s)))) w"
    unfolding deletes_gracefully_def by blast
  from wpD [OF this run] have m': "case m' of
       None \<Rightarrow> (\<forall>s. ob_Environments (V w) ?k = Some s \<longrightarrow> om_Finalizers (e_meta s) = [])
     | Some y \<Rightarrow> (\<exists>s. ob_Environments (V w) ?k = Some s \<and> meta_key (e_meta y) = meta_key (e_meta s) \<and>
         e_Spec y = e_Spec s \<and> om_Finalizers (e_meta y) = om_Finalizers (e_meta s))"
    by (simp add: V)
  note at = persists_at [OF env_custody.kept_sel [OF keeps], of ?k, unfolded x(1)]
  have "succeeds_to EnvironmentFinalizer e_meta e_Spec (env_overdue C) (Some x) m'"
  proof (cases "ob_Environments (V w) ?k")
    case None
    with at m' show ?thesis by (cases m') simp_all
  next
    case (Some s)
    with at m' x(2) show ?thesis by (cases m') (auto simp: passed_def dropped_def leaving_def)
  qed
  then show "operator_keeps C v0 (V w')" unfolding V by (intro env_custody.kept_at [OF keeps]) (simp add: x(1))
qed

lemma env_enforceTTL_kept:
  assumes ok: "api_ok A V" and clock: "clock_in A C" and law: "deletes_gracefully A V"
    and e: "env_custody.descended C v0 e"
  shows "holds V (operator_keeps C v0) (env_enforceTTL A e) (\<lambda>_. True)"
proof -
  have now: "holds V (operator_keeps C v0) (Now A) C"
    by (rule holdsI, rule wp_Now_in [OF api_okD(9) [OF ok] clock]) simp
  have delete: "holds V (operator_keeps C v0) (kc_Delete (api_Environments A) (e\<lparr>e_Status := s\<rparr>)) (\<lambda>_. True)"
    if "env_overdue C e" for s
    using env_overdue_descended [OF e that] by (auto intro: env_delete_kept [OF ok law])
  show ?thesis
  proof (cases "if es_Type (e_Spec e) = EnvironmentTypeEphemeral then es_TTL (e_Spec e) else None")
    case None
    then show ?thesis by (simp add: env_enforceTTL_def holds_return_any)
  next
    case (Some ttl)
    then have "env_expiry e = Some (time_add (om_CreationTimestamp (e_meta e)) ttl)"
      by (auto simp: env_expiry_def split: if_splits)
    then have od: "C t \<Longrightarrow> \<not> t < time_add (om_CreationTimestamp (e_meta e)) ttl \<Longrightarrow> env_overdue C e" for t
      by (auto simp: env_overdue_def)
    show ?thesis
      unfolding env_enforceTTL_def Some option.case Let_def
      by (rule holds_bind [OF now], rule holds_if_cases)
        (intro kept ok operator_keeps_on_resources delete, erule (1) od, rule holds_return_any)
  qed
qed

lemma env_reconcileEnvironment_kept:
  assumes ok: "api_ok A V" and clock: "clock_in A C" and law: "deletes_gracefully A V"
    and e: "env_custody.descended C v0 e"
  shows "holds V (operator_keeps C v0) (env_reconcileEnvironment A e) (\<lambda>_. True)"
  unfolding env_reconcileEnvironment_def env_blockOnDependency_def env_provision_def env_succeed_def env_derivePhase_def
  by (intro kept ok operator_keeps_on_resources env_enforceTTL_kept [OF ok clock law e])

lemma env_finalize_kept:
  assumes ok: "api_ok A V" and e: "env_custody.descended C v0 e" "om_DeletionTimestamp (e_meta e) \<noteq> None"
  shows "holds V (operator_keeps C v0) (env_finalize A e) (\<lambda>_. True)"
proof -
  have release: "holds V (operator_keeps C v0) (env_release A (e\<lparr>e_Status := s\<rparr>)) (\<lambda>_. True)" for s
    unfolding env_releases.release_eq finalizers_okD(3) [OF api_okD(6) [OF ok]]
    by (intro kept ok operator_keeps_on_resources env_custody.release_kept [OF ok _ e(2)]) (simp_all add: e)
  have teardown: "holds V (operator_keeps C v0) (env_teardown A e') (\<lambda>_. True)" for e'
    unfolding env_teardown_def by (intro kept ok operator_keeps_on_resources)
  show ?thesis
    unfolding env_finalize_def
    by (intro holds_if holds_return_any holds_bind [OF env_steward.setPhase_kept [OF ok]])
      (auto intro!: holds_then [OF teardown] holds_option holds_return_any release)
qed

section \<open>Any reconcile\<close>

locale keeper = controller name sel upd mt spec with_finalizers kc finalizer gauge_id finalize body Reconcile +
  custodian kc sel upd mt spec st put_st finalizer overdue
  for name sel upd and mt :: "'x \<Rightarrow> ObjectMeta" and spec :: "'x \<Rightarrow> 's" and with_finalizers
    and kc :: "'w api \<Rightarrow> ('w, 'x) kclient" and finalizer gauge_id finalize body Reconcile
    and st :: "'x \<Rightarrow> 'st" and put_st overdue +
  assumes finalize_kept: "api_ok A V \<Longrightarrow> descended C v0 x \<Longrightarrow> om_DeletionTimestamp (mt x) \<noteq> None \<Longrightarrow>
      holds V (operator_keeps C v0) (finalize A x) (\<lambda>_. True)"
    and body_kept: "api_ok A V \<Longrightarrow> clock_in A C \<Longrightarrow> deletes_gracefully A V \<Longrightarrow> descended C v0 x \<Longrightarrow>
      holds V (operator_keeps C v0) (body A x) (\<lambda>_. True)"
begin

lemma total_kept [simp]: "operator_keeps C v0 (total v r) = operator_keeps C v0 v"
  by (simp add: operator_keeps_def total_def)

lemma Reconcile_kept:
  assumes ok: "api_ok A V" and clock: "clock_in A C" and law: "deletes_gracefully A V"
  shows "holds V (operator_keeps C v0) (Reconcile A req) (\<lambda>_. True)"
proof (rule holdsI, rule Reconcile_rule [OF ok], goal_cases)
  case (1 w u w')
  then show ?case by auto
next
  case (2 w e w')
  then show ?case by simp
next
  case (3 w x u)
  then have "descended C v0 x" by (intro descended_read [of _ _ "V w"]) simp_all
  with 3 show ?case by (intro holdsD [OF finalize_kept [OF ok]]) auto
next
  case (4 w x x' err u w')
  then obtain m' y where u: "V u = upd (\<lambda>m. m(req := m')) (V w)" and y: "sel (V u) req = Some y" "meta_key (mt y) = req"
    "spec y = spec x" "stamps (mt y) = stamps (mt x)" "set (om_Finalizers (mt x)) \<subseteq> set (om_Finalizers (mt y))" by blast
  from u y(1) have m': "m' = Some y" by (simp add: store)
  from persistsD [OF kept_sel [OF 4(1)] 4(2)] obtain x0 where
    x0: "sel v0 req = Some x0" "passed finalizer mt spec (overdue C) x0 x" by blast
  with y 4(3) have "passed finalizer mt spec (overdue C) x0 y" by (auto simp: passed_def)
  with x0(1) have "operator_keeps C v0 (V u)" unfolding u m' by (intro kept_at [OF 4(1)]) simp
  with 4 show ?case by simp
next
  case (5 w x u)
  then have "descended C v0 x" by (intro descended_read [of _ _ "V w"]) simp_all
  with 5 show ?case by (intro holdsD [OF body_kept [OF ok clock law]]) auto
qed

end

interpretation tenant_keeper: keeper tenantControllerName ob_Tenants ob_Tenants_update t_meta t_Spec
    "\<lambda>fs t. t\<lparr>t_meta := (t_meta t)\<lparr>om_Finalizers := fs\<rparr>\<rparr>" api_Tenants TenantFinalizer
    "\<lambda>req. (tenantControllerName, [], snd req)" tenant_finalize tenant_reconcileTenant tenant_Reconcile
    t_Status "\<lambda>s t. t\<lparr>t_Status := s\<rparr>" "\<lambda>C t. False"
  by unfold_locales (auto intro: tenant_finalize_kept tenant_reconcileTenant_kept)

interpretation env_keeper: keeper environmentControllerName ob_Environments ob_Environments_update e_meta e_Spec
    "\<lambda>fs e. e\<lparr>e_meta := (e_meta e)\<lparr>om_Finalizers := fs\<rparr>\<rparr>" api_Environments EnvironmentFinalizer
    "\<lambda>req. (environmentControllerName, fst req, snd req)" env_finalize env_reconcileEnvironment env_Reconcile
    e_Status "\<lambda>s e. e\<lparr>e_Status := s\<rparr>" env_overdue
  by unfold_locales (auto intro: env_finalize_kept env_reconcileEnvironment_kept)

interpretation intg_keeper: keeper integrationControllerName ob_Integrations ob_Integrations_update i_meta i_Spec
    "\<lambda>fs i. i\<lparr>i_meta := (i_meta i)\<lparr>om_Finalizers := fs\<rparr>\<rparr>" api_Integrations IntegrationFinalizer
    "\<lambda>req. (integrationControllerName, fst req, snd req)" intg_finalize "\<lambda>A. intg_reconcileIntegration A None"
    "\<lambda>A. intg_Reconcile A None" i_Status "\<lambda>s i. i\<lparr>i_Status := s\<rparr>" "\<lambda>C i. False"
  by unfold_locales (auto intro: intg_finalize_kept intg_reconcileIntegration_kept)

section \<open>Any sequence of reconciles\<close>

text \<open>What the work queues of the three controllers hand out, in the order in which it is handled.\<close>

datatype work = TenantWork objkey | EnvironmentWork objkey | IntegrationWork objkey

fun run_work :: "'w api \<Rightarrow> work \<Rightarrow> ('w, Result \<times> go_err option) state" where
  "run_work A (TenantWork req) = tenant_Reconcile A req"
| "run_work A (EnvironmentWork req) = env_Reconcile A req"
| "run_work A (IntegrationWork req) = intg_Reconcile A None req"

fun run_works :: "'w api \<Rightarrow> work list \<Rightarrow> ('w, (Result \<times> go_err option) list) state" where
  "run_works A [] = State_Monad.return []"
| "run_works A (x # xs) = do {
     r \<leftarrow> run_work A x;
     rs \<leftarrow> run_works A xs;
     State_Monad.return (r # rs)
   }"

lemma run_work_kept:
  assumes "api_ok A V" "clock_in A C" "deletes_gracefully A V"
  shows "holds V (operator_keeps C v0) (run_work A x) (\<lambda>_. True)"
  using tenant_keeper.Reconcile_kept [OF assms] env_keeper.Reconcile_kept [OF assms] intg_keeper.Reconcile_kept [OF assms]
  by (cases x) simp_all

lemma run_works_kept:
  assumes "api_ok A V" "clock_in A C" "deletes_gracefully A V"
  shows "holds V (operator_keeps C v0) (run_works A xs) (\<lambda>_. True)"
  by (induction xs) (simp_all add: holds_then [OF run_work_kept [OF assms]] holds_then holds_return_any)

text \<open>C7: The operator never takes what users own. Whatever the three controllers reconcile, in whatever
  order and whichever calls fail: no custom resource appears that was not there; the spec and the
  timestamps of one that is there stay as they are, and so do the finalizers of others; a resource
  whose deletion nobody asked for stays stored and keeps the operator's finalizer too, unless it is an
  ephemeral environment past its time to live; and one that goes away is held by no finalizer but the
  operator's own.\<close>

theorem operator_keeps_resources:
  assumes "api_ok A V" and "clock_in A C" and "deletes_gracefully A V"
  shows "wp (run_works A works) (\<lambda>_ w'. operator_keeps C (V w) (V w')) w"
  by (rule holdsD [OF run_works_kept [OF assms]]) simp_all

text \<open>On the in-memory cluster: an environment past its time to live that another controller's finalizer
  holds, and an integration under deletion.\<close>

lemma mem_deletes_gracefully: "deletes_gracefully mem_api m_obs"
proof -
  note store = mem_store_rules [OF mem_stores(2)]
  have "wp (kc_Delete (api_Environments mem_api) x) (\<lambda>_ w'. \<forall>k. k = meta_key (e_meta x) \<longrightarrow> (case ob_Environments (m_obs w') k of
       None \<Rightarrow> (\<forall>s. ob_Environments (m_obs w) k = Some s \<longrightarrow> om_Finalizers (e_meta s) = [])
     | Some y \<Rightarrow> (\<exists>s. ob_Environments (m_obs w) k = Some s \<and> meta_key (e_meta y) = meta_key (e_meta s) \<and>
         e_Spec y = e_Spec s \<and> om_Finalizers (e_meta y) = om_Finalizers (e_meta s)))) w" for x w
    unfolding mem_api_def api.simps mem_client_def kclient.simps
  proof (rule wp_call, goal_cases)
    case (1 w')
    then show ?case by (simp split: option.split)
  next
    case (2 w')
    with store(1) [of w'] store(3) [of _ _ w'] store(4) [of _ w'] show ?case
      by (auto simp: Let_def split: option.splits)
  qed
  then show ?thesis by (simp add: deletes_gracefully_def)
qed

definition guarded_env :: Environment where
  "guarded_env = ephemeral_env\<lparr>e_meta := (e_meta ephemeral_env)\<lparr>om_Finalizers := [EnvironmentFinalizer, ''backup/keep'']\<rparr>\<rparr>"

definition shared_world :: mworld where
  "shared_world = (env_world guarded_env)\<lparr>mw_Integrations := [(meta_key (i_meta doomed_intg), doomed_intg)],
     mw_Clock := 10 ^ 13\<rparr>"

definition shared_works :: "work list" where
  "shared_works = [EnvironmentWork (''team'', ''dev''), TenantWork ([], ''acme''), IntegrationWork (''team'', ''billing''),
     EnvironmentWork (''team'', ''dev''), IntegrationWork (''team'', ''billing'')]"

lemma operator_keeps_resources_witness:
  "wp (run_works mem_api shared_works) (\<lambda>_ w'. operator_keeps (\<lambda>_. True) (m_obs shared_world) (m_obs w')) shared_world \<and>
   map snd (fst (run_state (run_works mem_api shared_works) shared_world)) = [None, None, None, None, None] \<and>
   map_option (\<lambda>e. om_Finalizers (e_meta e))
     (ob_Environments (m_obs (snd (run_state (run_works mem_api shared_works) shared_world))) (''team'', ''dev'')) =
     Some [''backup/keep''] \<and>
   ob_Integrations (m_obs (snd (run_state (run_works mem_api shared_works) shared_world))) (''team'', ''billing'') = None"
  by (intro conjI operator_keeps_resources [OF mem_api_ok clock_any mem_deletes_gracefully]; code_simp)

end
