(* ===== verification/Together.thy ===== *)
theory Together
  imports Progress Interleaving
begin

text \<open>
  The tenant controller and the environment controller one after the other in a calm cluster: how a new
  tenant and a new environment of it come up.
\<close>

section \<open>What one leaves to the other\<close>

text \<open>An environment's namespace is never its tenant's, so nothing of the tenant's is touched.\<close>

lemma env_footprint_spares_tenant:
  assumes "env_footprint e (ns @ ''-'' @ n) v v'" and "ns = tenant_namespace t" and "tenant_provisioned A t v"
  shows "tenant_provisioned A t v'"
proof -
  have "ns \<noteq> ns @ ''-'' @ n" by simp
  with assms show ?thesis
    by (simp add: tenant_provisioned_def Let_def env_footprint_def only_at_def)
qed

text \<open>What an environment needs of the rest of the cluster is not the tenant controller's to change.\<close>

definition same_for_env :: "obs \<Rightarrow> obs \<Rightarrow> bool" where
  "same_for_env v v' \<longleftrightarrow> ob_Environments v' = ob_Environments v \<and> ob_Secrets v' = ob_Secrets v \<and>
     ob_Unstructured v' = ob_Unstructured v"

definition tenant_up :: "'w api \<Rightarrow> objkey \<Rightarrow> Tenant \<Rightarrow> obs \<Rightarrow> bool" where
  "tenant_up A req t v \<longleftrightarrow> tenant_provisioned A t v \<and>
     (\<exists>t'. ob_Tenants v req = Some t' \<and> meta_key (t_meta t') = req \<and> tst_Namespace (t_Status t') = tenant_namespace t)"

lemma tenant_Reconcile_up:
  assumes ok: "api_ok A V" and calm: "calm A V" and law: "deletes_gracefully A V"
    and stored: "ob_Tenants (V w) req = Some t" "meta_key (t_meta t) = req"
    and live: "om_DeletionTimestamp (t_meta t) = None" "TenantFinalizer \<in> set (om_Finalizers (t_meta t))"
    and free: "tenant_free t (V w)"
  shows "wp (tenant_Reconcile A req) (\<lambda>r w'. snd r = None \<and> tenant_up A req t (V w') \<and> same_for_env (V w) (V w')) w"
proof (rule wp_both [OF tenant_Reconcile_settles [OF ok calm stored live free]])
  have "wp (tenant_Reconcile A req) (\<lambda>_ w'. operator_keeps (\<lambda>_. True) (V w) (V w')) w"
    by (rule holdsD [OF tenant_keeper.Reconcile_kept [OF ok clock_any law]]) simp_all
  moreover have "wp (tenant_Reconcile A req) (\<lambda>_ w'. same_for_env (V w) (V w')) w"
  proof (rule tenants.Reconcile_rule [OF ok], goal_cases)
    case (5 x u)
    show ?case
      by (rule tenant_reconcileTenant_rule [OF ok])
        (use 5 in \<open>auto simp: same_for_env_def tenants.total_def tenant_footprint_def Let_def\<close>)
  qed (use stored live in \<open>auto simp: same_for_env_def tenants.total_def\<close>)
  ultimately show "wp (tenant_Reconcile A req) (\<lambda>_ w'. operator_keeps (\<lambda>_. True) (V w) (V w') \<and> same_for_env (V w) (V w')) w"
    by (rule wp_conj)
next
  fix r w'
  assume up: "r = (\<lparr>RequeueAfter = tenantResyncPeriod\<rparr>, None) \<and> tenant_provisioned A t (V w') \<and> tenant_reported A t (V w')"
    and kept: "operator_keeps (\<lambda>_. True) (V w) (V w') \<and> same_for_env (V w) (V w')"
  from up obtain t' where t': "ob_Tenants (V w') req = Some t'" "tst_Namespace (t_Status t') = tenant_namespace t"
    by (auto simp: tenant_reported_def Let_def stored(2))
  from kept have "persists TenantFinalizer t_meta t_Spec (\<lambda>_. False) (ob_Tenants (V w)) (ob_Tenants (V w'))"
    by (simp add: operator_keeps_def)
  from persistsD [OF this t'(1)] stored have "meta_key (t_meta t') = req" by (auto simp: passed_def)
  with up kept t' show "snd r = None \<and> tenant_up A req t (V w') \<and> same_for_env (V w) (V w')"
    by (auto simp: tenant_up_def)
qed

lemma env_Reconcile_up:
  assumes ok: "api_ok A V" and calm: "calm A V"
    and stored: "ob_Environments (V w) req = Some e" "meta_key (e_meta e) = req"
    and live: "om_DeletionTimestamp (e_meta e) = None" "EnvironmentFinalizer \<in> set (om_Finalizers (e_meta e))"
    and plain: "\<not> es_Suspend (e_Spec e)" "env_expiry e = None"
    and up: "tenant_up A ([], tr_Name (es_TenantRef (e_Spec e))) t (V w)" and feas: "env_feasible A V e (V w)"
  shows "wp (env_Reconcile A req) (\<lambda>r w'. snd r = None \<and> tenant_provisioned A t (V w') \<and>
     (\<exists>t' s. ob_Tenants (V w') ([], tr_Name (es_TenantRef (e_Spec e))) = Some t' \<and>
        env_target t' e = tenant_namespace t @ ''-'' @ om_Name (e_meta e) \<and>
        env_provisioned A t' e (ob_Secrets (V w)) s (V w') \<and> env_reported A t' e s (V w'))) w"
proof (rule wp_both)
  show "wp (env_Reconcile A req) (\<lambda>r _. snd r = None) w"
    by (rule environments.settles [OF ok calmD(2) [OF calm] stored])
      (use stored live feas in \<open>auto intro!: env_reconcileEnvironment_settles [OF ok calm]\<close>)
  from up obtain t0 where t0: "ob_Tenants (V w) ([], tr_Name (es_TenantRef (e_Spec e))) = Some t0"
    "tst_Namespace (t_Status t0) = tenant_namespace t" and prov: "tenant_provisioned A t (V w)"
    by (auto simp: tenant_up_def)
  have ready: "owner_ready (V w) e t' \<longleftrightarrow> t' = t0" for t'
    using t0 by (auto simp: owner_ready_def tenant_namespace_def Let_def)
  have tgt: "env_target t0 e = tenant_namespace t @ ''-'' @ om_Name (e_meta e)" by (simp add: env_target_def t0(2))
  let ?Q = "\<lambda>v. tenant_provisioned A t v \<and> (\<exists>t' s. ob_Tenants v ([], tr_Name (es_TenantRef (e_Spec e))) = Some t' \<and>
      env_target t' e = tenant_namespace t @ ''-'' @ om_Name (e_meta e) \<and>
      env_provisioned A t' e (ob_Secrets (V w)) s v \<and> env_reported A t' e s v)"
  have total: "?Q (environments.total v r) = ?Q v" for v r
    using gitops_result_cong [of "environments.total v r" v A]
    by (simp add: environments.total_def tenant_provisioned_def env_provisioned_def env_reported_def one_hot_def series_def)
  show "wp (env_Reconcile A req) (\<lambda>r w'. snd r = None \<longrightarrow> ?Q (V w')) w"
  proof (rule environments.Reconcile_rule [OF ok], goal_cases)
    case (5 x u)
    with stored have x: "x = e" and V: "V u = V w" by simp_all
    have "wp (env_reconcileEnvironment A e) (\<lambda>r u'. snd r = None \<longrightarrow> ?Q (V u')) u"
    proof (rule env_reconcileEnvironment_rule [OF ok clock_any], goal_cases)
      case (6 t' s now w')
      then have t': "t' = t0" using V ready by simp
      from 6(4) have foot: "env_footprint e (tenant_namespace t @ ''-'' @ om_Name (e_meta e)) (V w) (V w')"
        by (simp add: V t' tgt)
      then have "ob_Tenants (V w') = ob_Tenants (V w)" by (simp add: env_footprint_def)
      with env_footprint_spares_tenant [OF foot refl prov] 6 t' t0 tgt V show ?case by auto
    qed (use plain V ready in auto)
    then show ?case unfolding x by (rule wp_mono) (use total in simp)
  qed (use stored live in auto)
qed auto

section \<open>Coming up\<close>

text \<open>C5: A tenant and its environment come up together. In a calm cluster that holds a new tenant and a
  new environment of it - neither suspended nor with a time to live, with its required secrets in place
  and its delivery engine installed - four reconciles, two of the tenant and then two of the
  environment, all return without error. The tenant is then provisioned as its spec says, and the
  environment is provisioned in the namespace derived from the tenant's and reported as its delivery
  engine says.\<close>

theorem tenant_and_environment_come_up:
  assumes "api_ok A V" and "calm A V" and "deletes_gracefully A V"
    and "ob_Tenants (V w) ([], n) = Some t" and "meta_key (t_meta t) = ([], n)"
    and "om_DeletionTimestamp (t_meta t) = None" and "TenantFinalizer \<notin> set (om_Finalizers (t_meta t))"
    and "tenant_free t (V w)"
    and "ob_Environments (V w) req = Some e" and "meta_key (e_meta e) = req"
    and "om_DeletionTimestamp (e_meta e) = None" and "EnvironmentFinalizer \<notin> set (om_Finalizers (e_meta e))"
    and "tr_Name (es_TenantRef (e_Spec e)) = n" and "\<not> es_Suspend (e_Spec e)"
    and "es_Type (e_Spec e) \<noteq> EnvironmentTypeEphemeral" and "env_feasible A V e (V w)"
  shows "wp (run_works A [TenantWork ([], n), TenantWork ([], n), EnvironmentWork req, EnvironmentWork req]) (\<lambda>rs w'.
     map snd rs = [None, None, None, None] \<and>
     (\<exists>t1 e1 t2 s. t_Spec t1 = t_Spec t \<and> e_Spec e1 = e_Spec e \<and> meta_key (e_meta e1) = req \<and>
        tenant_provisioned A t1 (V w') \<and> ob_Tenants (V w') ([], n) = Some t2 \<and>
        env_target t2 e1 = tenant_namespace t @ ''-'' @ snd req \<and>
        env_provisioned A t2 e1 (ob_Secrets (V w)) s (V w') \<and> env_reported A t2 e1 s (V w'))) w"
  unfolding run_works.simps run_work.simps wp_simps
proof (rule tenants.adopts [OF assms(1) calmD(1) [OF assms(2)] assms(4-7)], goal_cases)
  case (1 t1 n1 w1)
  then have st1: "ob_Tenants (V w1) ([], n) = Some t1" "tenant_free t1 (V w1)" "same_for_env (V w) (V w1)"
    using assms(5,8) tenant_free_cong [of t1 t] by (simp_all add: same_for_env_def)
  have live1: "TenantFinalizer \<in> set (om_Finalizers (t_meta t1))" using 1(5) by simp
  have ns: "tenant_namespace t1 = tenant_namespace t" using 1(2,3) assms(5) by (simp add: tenant_namespace_def meta_key_def)
  show ?case
  proof (rule wp_mono [OF tenant_Reconcile_up [OF assms(1-3) st1(1) 1(3,4) live1 st1(2)]], goal_cases)
    case (1 r2 w2)
    then have same: "ob_Environments (V w2) = ob_Environments (V w)" "ob_Secrets (V w2) = ob_Secrets (V w)"
      "ob_Unstructured (V w2) = ob_Unstructured (V w)" and up: "tenant_up A ([], n) t1 (V w2)"
      using st1(3) by (simp_all add: same_for_env_def)
    have e: "ob_Environments (V w2) req = Some e" using assms(9) same by simp
    show ?case
    proof (rule environments.adopts [OF assms(1) calmD(2) [OF assms(2)] e assms(10-12)], goal_cases)
      case (1 e1 n3 w3)
      have st3: "ob_Environments (V w3) req = Some e1" "EnvironmentFinalizer \<in> set (om_Finalizers (e_meta e1))"
        "ob_Tenants (V w3) = ob_Tenants (V w2)" "ob_Secrets (V w3) = ob_Secrets (V w)" "ob_Unstructured (V w3) = ob_Unstructured (V w)"
        using 1 same by simp_all
      have up3: "tenant_up A ([], tr_Name (es_TenantRef (e_Spec e1))) t1 (V w3)"
        using up by (simp add: 1(1,2) assms(13) tenant_up_def tenant_provisioned_def)
      have plain: "\<not> es_Suspend (e_Spec e1)" "env_expiry e1 = None" using 1(2) assms(14,15) by (simp_all add: env_expiry_def)
      have feas: "env_feasible A V e1 (V w3)"
        using assms(16) up3 1(2,3) assms(10) st3 by (auto simp: env_feasible_def tenant_up_def gitops_free_def gitops_kinds_def
          delivery_free_def gitops_key_def env_ref_def controllable_def owner_ref_def meta_key_def Let_def)
      have name: "om_Name (e_meta e1) = snd req" using 1(3) by (auto simp: meta_key_def)
      show ?case
      proof (rule wp_mono [OF env_Reconcile_up [OF assms(1,2) st3(1) 1(3,4) st3(2) plain up3 feas]], goal_cases)
        case (1 r4 w4)
        with \<open>snd r2 = None \<and> _\<close> show ?case
          using \<open>t_Spec t1 = t_Spec t\<close> \<open>e_Spec e1 = e_Spec e\<close> \<open>meta_key (e_meta e1) = req\<close> assms(13) name ns st3(4)
          by auto
      qed
    qed
  qed
qed

text \<open>A new tenant and a new environment delivered by Argo CD.\<close>

lemma steady_deletes_gracefully: "deletes_gracefully steady_api m_obs"
  unfolding deletes_gracefully_def
proof (intro allI)
  fix x w
  have env: "api_Environments steady_api = steady_client (api_Environments mem_api)" by (simp add: steady_api_def)
  from mem_deletes_gracefully have "wp (kc_Delete (api_Environments mem_api) x) (\<lambda>_ w'.
     \<forall>k. k = meta_key (e_meta x) \<longrightarrow> (case ob_Environments (m_obs w') k of
       None \<Rightarrow> (\<forall>s. ob_Environments (m_obs (w\<lparr>mw_Faults := []\<rparr>)) k = Some s \<longrightarrow> om_Finalizers (e_meta s) = [])
     | Some y \<Rightarrow> (\<exists>s. ob_Environments (m_obs (w\<lparr>mw_Faults := []\<rparr>)) k = Some s \<and> meta_key (e_meta y) = meta_key (e_meta s) \<and>
         e_Spec y = e_Spec s \<and> om_Finalizers (e_meta y) = om_Finalizers (e_meta s)))) (w\<lparr>mw_Faults := []\<rparr>)"
    unfolding deletes_gracefully_def by blast
  then show "wp (kc_Delete (api_Environments steady_api) x) (\<lambda>_ w'.
     \<forall>k. k = meta_key (e_meta x) \<longrightarrow> (case ob_Environments (m_obs w') k of
       None \<Rightarrow> (\<forall>s. ob_Environments (m_obs w) k = Some s \<longrightarrow> om_Finalizers (e_meta s) = [])
     | Some y \<Rightarrow> (\<exists>s. ob_Environments (m_obs w) k = Some s \<and> meta_key (e_meta y) = meta_key (e_meta s) \<and>
         e_Spec y = e_Spec s \<and> om_Finalizers (e_meta y) = om_Finalizers (e_meta s)))) w"
    unfolding m_obs_faults by (simp only: env steady_client_simps wp_fault_free)
qed

definition new_env :: Environment where
  "new_env = live_env\<lparr>e_meta := (e_meta live_env)\<lparr>om_Finalizers := []\<rparr>\<rparr>"

definition young_world :: mworld where
  "young_world = unadopted_world\<lparr>mw_Environments := [((''team'', ''dev''), new_env)]\<rparr>"

definition coming_up :: "work list" where
  "coming_up = [TenantWork ([], ''acme''), TenantWork ([], ''acme''), EnvironmentWork (''team'', ''dev''),
     EnvironmentWork (''team'', ''dev'')]"

lemma tenant_and_environment_come_up_witness:
  "wp (run_works steady_api coming_up) (\<lambda>rs w'.
     map snd rs = [None, None, None, None] \<and>
     (\<exists>t1 e1 t2 s. t_Spec t1 = t_Spec new_tenant \<and> e_Spec e1 = e_Spec new_env \<and> meta_key (e_meta e1) = (''team'', ''dev'') \<and>
        tenant_provisioned steady_api t1 (m_obs w') \<and> ob_Tenants (m_obs w') ([], ''acme'') = Some t2 \<and>
        env_target t2 e1 = tenant_namespace new_tenant @ ''-'' @ snd (''team'', ''dev'') \<and>
        env_provisioned steady_api t2 e1 (ob_Secrets (m_obs young_world)) s (m_obs w') \<and>
        env_reported steady_api t2 e1 s (m_obs w'))) young_world"
  unfolding coming_up_def
  by (rule tenant_and_environment_come_up [OF steady_api_ok steady_api_calm steady_deletes_gracefully])
    (simp_all add: m_obs_def young_world_def unadopted_world_def mw_empty_def new_tenant_def live_tenant_def new_env_def
      live_env_def argo_env_def new_meta_def meta_key_def env_feasible_def secrets_keyed_def resolvable_def gitops_free_def
      gitops_kinds_def steady_api_installed delivery_free_def base_object_def controllable_def new_Unstructured_def
      env_ref_def upo_consts tenant_free_def uncontested_def tenant_ref_def Let_def)

end
