(* ===== verification/GoUrl.thy ===== *)
theory GoUrl
  imports Prelude
begin

text \<open>
  What the program uses of two functions of Go's standard library: \<open>strings.TrimSpace(s) == ""\<close>
  and \<open>url.Parse\<close> (package \<open>net/url\<close>), of whose result the code reads the error, the scheme and
  whether the host is empty. Strings are sequences of bytes, as in Go.
\<close>

section \<open>strings.TrimSpace\<close>

text \<open>Whether nothing but white space is left: the ASCII spaces and the UTF-8 encodings of the
  other code points that \<open>unicode.IsSpace\<close> accepts.\<close>

definition ascii_space :: "char \<Rightarrow> bool" where
  "ascii_space c \<longleftrightarrow> (let n = (of_char c :: nat) in n = 32 \<or> 9 \<le> n \<and> n \<le> 13)"

definition space2 :: "char \<Rightarrow> char \<Rightarrow> bool" where
  "space2 a b \<longleftrightarrow> a = CHR 0xC2 \<and> (b = CHR 0x85 \<or> b = CHR 0xA0)"

definition space3 :: "char \<Rightarrow> char \<Rightarrow> char \<Rightarrow> bool" where
  "space3 a b c \<longleftrightarrow>
     a = CHR 0xE1 \<and> b = CHR 0x9A \<and> c = CHR 0x80 \<or>
     a = CHR 0xE2 \<and> b = CHR 0x80 \<and>
       (let n = (of_char c :: nat) in 0x80 \<le> n \<and> n \<le> 0x8A \<or> n = 0xA8 \<or> n = 0xA9 \<or> n = 0xAF) \<or>
     a = CHR 0xE2 \<and> b = CHR 0x81 \<and> c = CHR 0x9F \<or>
     a = CHR 0xE3 \<and> b = CHR 0x80 \<and> c = CHR 0x80"

fun only_space :: "string \<Rightarrow> bool" where
  "only_space [] \<longleftrightarrow> True"
| "only_space [a] \<longleftrightarrow> ascii_space a"
| "only_space [a, b] \<longleftrightarrow> ascii_space a \<and> only_space [b] \<or> space2 a b"
| "only_space (a # b # c # s) \<longleftrightarrow>
     ascii_space a \<and> only_space (b # c # s) \<or> space2 a b \<and> only_space (c # s) \<or>
     space3 a b c \<and> only_space s"

declare only_space.simps [simp del]

section \<open>url.Parse\<close>

definition is_alpha :: "char \<Rightarrow> bool" where
  "is_alpha c \<longleftrightarrow> (let n = (of_char c :: nat) in 97 \<le> n \<and> n \<le> 122 \<or> 65 \<le> n \<and> n \<le> 90)"

definition is_digit :: "char \<Rightarrow> bool" where
  "is_digit c \<longleftrightarrow> (let n = (of_char c :: nat) in 48 \<le> n \<and> n \<le> 57)"

definition is_hex :: "char \<Rightarrow> bool" where
  "is_hex c \<longleftrightarrow> is_digit c \<or> (let n = (of_char c :: nat) in 97 \<le> n \<and> n \<le> 102 \<or> 65 \<le> n \<and> n \<le> 70)"

definition unhex :: "char \<Rightarrow> nat" where
  "unhex c = (let n = (of_char c :: nat) in
     if n \<le> 57 then n - 48 else if n \<le> 70 then n - 55 else n - 87)"

definition to_lower :: "string \<Rightarrow> string" where
  "to_lower = map (\<lambda>c. let n = (of_char c :: nat) in if 65 \<le> n \<and> n \<le> 90 then char_of (n + 32) else c)"

text \<open>\<open>strings.Cut(s, sep)\<close> at one byte: what is before the first occurrence and, when there is
  one, what is after it.\<close>

definition cut :: "char \<Rightarrow> string \<Rightarrow> string \<times> string" where
  "cut sep s = (takeWhile (\<lambda>c. c \<noteq> sep) s, drop 1 (dropWhile (\<lambda>c. c \<noteq> sep) s))"

text \<open>\<open>strings.LastIndex(s, c)\<close> as a split: before and after the last occurrence.\<close>

definition cut_last :: "char \<Rightarrow> string \<Rightarrow> (string \<times> string) option" where
  "cut_last sep s =
     (if sep \<in> set s then
        Some (rev (drop 1 (dropWhile (\<lambda>c. c \<noteq> sep) (rev s))), rev (takeWhile (\<lambda>c. c \<noteq> sep) (rev s)))
      else None)"

text \<open>\<open>getScheme\<close>: the characters before a colon, \<open>None\<close> for an error.\<close>

fun get_scheme :: "string \<Rightarrow> string \<Rightarrow> string \<Rightarrow> (string \<times> string) option" where
  "get_scheme raw seen [] = Some ([], raw)"
| "get_scheme raw seen (c # s) =
     (if is_alpha c then get_scheme raw (seen @ [c]) s
      else if is_digit c \<or> c \<in> {CHR ''+'', CHR ''-'', CHR ''.''} then
        (if seen = [] then Some ([], raw) else get_scheme raw (seen @ [c]) s)
      else if c = CHR '':'' then (if seen = [] then None else Some (seen, s))
      else Some ([], raw))"

text \<open>\<open>shouldEscape\<close> in the modes for hosts and zones.\<close>

definition host_char :: "char \<Rightarrow> bool" where
  "host_char c \<longleftrightarrow> is_alpha c \<or> is_digit c \<or>
     c \<in> set ([CHR 0x21, CHR 0x24, CHR 0x26, CHR 0x27, CHR 0x28, CHR 0x29, CHR 0x2A, CHR 0x2B,
       CHR 0x2C, CHR 0x3B, CHR 0x3D, CHR 0x3A, CHR 0x5B, CHR 0x5D, CHR 0x3C, CHR 0x3E, CHR 0x22] @ ''-_.~'')"

datatype encoding = EncodePath | EncodeUserPassword | EncodeHost | EncodeZone

text \<open>Whether \<open>unescape\<close> accepts a string.\<close>

fun unescapes :: "encoding \<Rightarrow> string \<Rightarrow> bool" where
  "unescapes mode [] \<longleftrightarrow> True"
| "unescapes mode (c # s) \<longleftrightarrow>
     (if c = CHR ''%'' then
        (case s of
           a # b # s' \<Rightarrow>
             is_hex a \<and> is_hex b \<and>
             \<not> (mode = EncodeHost \<and> unhex a < 8 \<and> [a, b] \<noteq> ''25'') \<and>
             \<not> (mode = EncodeZone \<and> [a, b] \<noteq> ''25'' \<and>
                (let v = unhex a * 16 + unhex b in v \<noteq> 32 \<and> \<not> host_char (char_of v))) \<and>
             unescapes mode s'
         | _ \<Rightarrow> False)
      else
        \<not> ((mode = EncodeHost \<or> mode = EncodeZone) \<and> (of_char c :: nat) < 128 \<and> \<not> host_char c) \<and>
        unescapes mode s)"

definition validOptionalPort :: "string \<Rightarrow> bool" where
  "validOptionalPort port \<longleftrightarrow> port = [] \<or> hd port = CHR '':'' \<and> list_all is_digit (tl port)"

text \<open>\<open>strings.Index(s, "%25")\<close> as a split.\<close>

fun split_zone :: "string \<Rightarrow> (string \<times> string) option" where
  "split_zone [] = None"
| "split_zone (c # s) =
     (if take 3 (c # s) = ''%25'' then Some ([], c # s)
      else map_option (\<lambda>(a, b). (c # a, b)) (split_zone s))"

definition parse_host_ok :: "string \<Rightarrow> bool" where
  "parse_host_ok host =
     (if take 1 host = ''['' then
        (case cut_last CHR '']'' host of
           None \<Rightarrow> False
         | Some (inside, colonPort) \<Rightarrow>
             validOptionalPort colonPort \<and>
             (case split_zone inside of
                None \<Rightarrow> unescapes EncodeHost host
              | Some (h, zone) \<Rightarrow> unescapes EncodeHost h \<and> unescapes EncodeZone zone \<and>
                  unescapes EncodeHost (CHR '']'' # colonPort)))
      else
        (case cut_last CHR '':'' host of
           None \<Rightarrow> True
         | Some (_, port) \<Rightarrow> validOptionalPort (CHR '':'' # port)) \<and>
        unescapes EncodeHost host)"

definition valid_userinfo :: "string \<Rightarrow> bool" where
  "valid_userinfo s = list_all (\<lambda>c. is_alpha c \<or> is_digit c \<or>
     c \<in> set ([CHR 0x27, CHR 0x21, CHR 0x24, CHR 0x26, CHR 0x28, CHR 0x29] @ ''-._:~*+,;=%@'')) s"

text \<open>The host of an authority, \<open>None\<close> for an error. The host is kept as written: decoding it
  does not make it empty.\<close>

definition parse_authority :: "string \<Rightarrow> string option" where
  "parse_authority authority =
     (case cut_last CHR ''@'' authority of
        None \<Rightarrow> if parse_host_ok authority then Some authority else None
      | Some (userinfo, host) \<Rightarrow>
          if parse_host_ok host \<and> valid_userinfo userinfo \<and>
             (case cut CHR '':'' userinfo of (user, password) \<Rightarrow>
                unescapes EncodeUserPassword user \<and> unescapes EncodeUserPassword password)
          then Some host else None)"

definition has_ctl :: "string \<Rightarrow> bool" where
  "has_ctl s = list_ex (\<lambda>c. let n = (of_char c :: nat) in n < 32 \<or> n = 127) s"

text \<open>\<open>url.Parse\<close>: scheme and host, \<open>None\<close> for an error.\<close>

definition parse_rest :: "string \<Rightarrow> string \<Rightarrow> (string \<times> string) option" where
  "parse_rest scheme rest =
     (if take 1 rest \<noteq> ''/'' \<and> scheme \<noteq> [] then Some (scheme, [])
      else if take 1 rest \<noteq> ''/'' \<and> CHR '':'' \<in> set (fst (cut CHR ''/'' rest)) then None
      else if take 2 rest = ''//'' \<and> (scheme \<noteq> [] \<or> take 3 rest \<noteq> ''///'') then
        (let authority = takeWhile (\<lambda>c. c \<noteq> CHR ''/'') (drop 2 rest);
             path = dropWhile (\<lambda>c. c \<noteq> CHR ''/'') (drop 2 rest)
         in (case parse_authority authority of
               None \<Rightarrow> None
             | Some host \<Rightarrow> if unescapes EncodePath path then Some (scheme, host) else None))
      else if unescapes EncodePath rest then Some (scheme, []) else None)"

definition url_parse :: "string \<Rightarrow> (string \<times> string) option" where
  "url_parse rawURL =
     (case cut CHR ''#'' rawURL of
        (u, frag) \<Rightarrow>
          if has_ctl u then None
          else if u = ''*'' then (if unescapes EncodePath frag then Some ([], []) else None)
          else
            (case get_scheme u [] u of
               None \<Rightarrow> None
             | Some (scheme, rest) \<Rightarrow>
                 (case parse_rest (to_lower scheme) (fst (cut CHR ''?'' rest)) of
                    None \<Rightarrow> None
                  | Some r \<Rightarrow> if unescapes EncodePath frag then Some r else None)))"

section \<open>What an accepted HTTP URL looks like\<close>

lemma get_scheme_split:
  "get_scheme raw seen s = Some (scheme, rest) \<Longrightarrow> scheme \<noteq> [] \<Longrightarrow>
     \<exists>mid. scheme = seen @ mid \<and> s = mid @ CHR '':'' # rest"
proof (induction raw seen s rule: get_scheme.induct)
  case (2 raw seen c s)
  then show ?case by (auto split: if_splits)
qed simp

lemma parse_rest_host:
  "parse_rest scheme rest = Some (sch, host) \<Longrightarrow> host \<noteq> [] \<Longrightarrow> take 2 rest = ''//'' \<and> sch = scheme"
  by (auto simp: parse_rest_def Let_def split: if_splits option.splits)

text \<open>A URL with a scheme and a host is that scheme, in some mix of cases, followed by "://".\<close>

lemma url_parse_authority:
  assumes "url_parse s = Some (scheme, host)" "scheme \<noteq> []" "host \<noteq> []"
  shows "\<exists>sch rest. s = sch @ ''://'' @ rest \<and> to_lower sch = scheme"
proof -
  obtain u frag where u: "cut CHR ''#'' s = (u, frag)" by (cases "cut CHR ''#'' s")
  from assms u obtain sch rest where g: "get_scheme u [] u = Some (sch, rest)"
    and r: "parse_rest (to_lower sch) (fst (cut CHR ''?'' rest)) = Some (scheme, host)"
    by (auto simp: url_parse_def split: if_splits option.splits prod.splits)
  from parse_rest_host [OF r assms(3)] have "take 2 (fst (cut CHR ''?'' rest)) = ''//''" "scheme = to_lower sch"
    by simp_all
  then have s2: "take 2 (takeWhile (\<lambda>c. c \<noteq> CHR ''?'') rest) = ''//''" and sch: "sch \<noteq> []"
    using assms(2) by (auto simp: cut_def to_lower_def)
  from s2 have "\<exists>r. rest = ''//'' @ r"
    by (cases rest; cases "tl rest") (auto split: if_splits)
  with get_scheme_split [OF g sch] obtain r where "u = sch @ ''://'' @ r" by auto
  moreover from u have "u @ dropWhile (\<lambda>c. c \<noteq> CHR ''#'') s = s" by (auto simp: cut_def)
  ultimately have "s = sch @ ''://'' @ (r @ dropWhile (\<lambda>c. c \<noteq> CHR ''#'') s)" by simp
  with \<open>scheme = to_lower sch\<close> show ?thesis by blast
qed

end
