(* ===== verification/Webhooks.thy ===== *)
theory Webhooks
  imports GoUrl Connector GitOps
begin

text \<open>
  \<open>internal/webhook/v1alpha1\<close>: the defaulting and validating admission webhooks of the three
  kinds. The warnings the validators return are always nil and are left out; an error is \<open>None\<close>
  for nil. The locale \<open>admission\<close> is the contract a pair of webhooks has with the API server; it
  is interpreted on each of the three.
\<close>

section \<open>Objects and errors\<close>

definition type_name :: "RuntimeObject \<Rightarrow> string" where
  "type_name obj =
     (case obj of
        TenantObject _ \<Rightarrow> ''*v1alpha1.Tenant''
      | EnvironmentObject _ \<Rightarrow> ''*v1alpha1.Environment''
      | IntegrationObject _ \<Rightarrow> ''*v1alpha1.Integration''
      | OtherObject s \<Rightarrow> s)"

datatype FieldErrorType = FieldRequired | FieldInvalid | FieldForbidden

record FieldError =
  fe_Type :: FieldErrorType
  fe_Field :: string
  fe_BadValue :: string
  fe_Detail :: string

definition field_Required :: "string \<Rightarrow> string \<Rightarrow> FieldError" where
  "field_Required path detail =
     \<lparr>fe_Type = FieldRequired, fe_Field = path, fe_BadValue = [], fe_Detail = detail\<rparr>"

definition field_Forbidden :: "string \<Rightarrow> string \<Rightarrow> FieldError" where
  "field_Forbidden path detail =
     \<lparr>fe_Type = FieldForbidden, fe_Field = path, fe_BadValue = [], fe_Detail = detail\<rparr>"

definition field_Invalid :: "string \<Rightarrow> string \<Rightarrow> string \<Rightarrow> FieldError" where
  "field_Invalid path v detail =
     \<lparr>fe_Type = FieldInvalid, fe_Field = path, fe_BadValue = v, fe_Detail = detail\<rparr>"

datatype AdmissionError =
    UnexpectedType string
  | NewInvalid string string "FieldError list"

definition expected :: "string \<Rightarrow> RuntimeObject \<Rightarrow> AdmissionError" where
  "expected what obj = UnexpectedType (''expected '' @ what @ '' object but got '' @ type_name obj)"

section \<open>Tenant (tenant\_webhook.go)\<close>

definition maxNamespaceNameLength :: nat where "maxNamespaceNameLength = 63"

definition tenant_Default :: "RuntimeObject \<Rightarrow> AdmissionError option \<times> RuntimeObject" where
  "tenant_Default obj =
     (case obj of
        TenantObject tenant \<Rightarrow>
          (let spec = t_Spec tenant;
               spec = (if ts_Tier spec = [] then spec\<lparr>ts_Tier := TenantTierStandard\<rparr> else spec);
               spec = (if ts_NamespacePrefix spec = [] then spec\<lparr>ts_NamespacePrefix := ''tenant''\<rparr> else spec);
               spec = (if ts_NetworkIsolation spec = []
                       then spec\<lparr>ts_NetworkIsolation := NetworkIsolationBaseline\<rparr> else spec);
               spec = (if lp_DeletionPolicy (ts_Lifecycle spec) = []
                       then spec\<lparr>ts_Lifecycle := (ts_Lifecycle spec)\<lparr>lp_DeletionPolicy := DeletionPolicyDelete\<rparr>\<rparr>
                       else spec)
           in (None, TenantObject (tenant\<lparr>t_Spec := spec\<rparr>)))
      | _ \<Rightarrow> (Some (expected ''a Tenant'' obj), obj))"

fun admin_errors :: "nat \<Rightarrow> SubjectReference list \<Rightarrow> FieldError list" where
  "admin_errors i [] = []"
| "admin_errors i (a # admins) =
     (if sub_Kind a = ''ServiceAccount'' \<and> sub_Namespace a = []
      then [field_Required (''spec.admins['' @ fmt_d (int i) @ ''].namespace'')
              ''namespace is required for ServiceAccount subjects'']
      else []) @ admin_errors (Suc i) admins"

definition tenant_validateInto :: "Tenant \<Rightarrow> FieldError list \<Rightarrow> FieldError list" where
  "tenant_validateInto tenant errs =
     (let prefix = ts_NamespacePrefix (t_Spec tenant);
          prefix = (if prefix = [] then ''tenant'' else prefix);
          nsName = prefix @ ''-'' @ om_Name (t_meta tenant);
          errs = (if maxNamespaceNameLength < length nsName
                  then errs @ [field_Invalid ''spec.namespacePrefix'' prefix
                    (''derived namespace '' @ fmt_q nsName @ '' exceeds '' @
                     fmt_d (int maxNamespaceNameLength) @ '' characters; shorten the prefix or tenant name'')]
                  else errs)
      in errs @ admin_errors 0 (ts_Admins (t_Spec tenant)))"

definition tenant_validate :: "Tenant \<Rightarrow> AdmissionError option" where
  "tenant_validate tenant =
     (let errs = tenant_validateInto tenant []
      in if 0 < length errs then Some (NewInvalid ''Tenant'' (om_Name (t_meta tenant)) errs) else None)"

definition tenant_ValidateCreate :: "RuntimeObject \<Rightarrow> AdmissionError option" where
  "tenant_ValidateCreate obj =
     (case obj of
        TenantObject tenant \<Rightarrow> tenant_validate tenant
      | _ \<Rightarrow> Some (expected ''a Tenant'' obj))"

definition tenant_ValidateUpdate :: "RuntimeObject \<Rightarrow> RuntimeObject \<Rightarrow> AdmissionError option" where
  "tenant_ValidateUpdate oldObj newObj =
     (case oldObj of
        TenantObject oldTenant \<Rightarrow>
          (case newObj of
             TenantObject newTenant \<Rightarrow>
               (let errs = (if ts_NamespacePrefix (t_Spec oldTenant) \<noteq> ts_NamespacePrefix (t_Spec newTenant)
                            then [field_Forbidden ''spec.namespacePrefix''
                              ''namespacePrefix is immutable once the tenant namespace is provisioned'']
                            else []);
                    errs = tenant_validateInto newTenant errs
                in if 0 < length errs
                   then Some (NewInvalid ''Tenant'' (om_Name (t_meta newTenant)) errs) else None)
           | _ \<Rightarrow> Some (expected ''a Tenant'' newObj))
      | _ \<Rightarrow> Some (expected ''a Tenant'' oldObj))"

definition tenant_ValidateDelete :: "RuntimeObject \<Rightarrow> AdmissionError option" where
  "tenant_ValidateDelete obj = None"

section \<open>Environment (environment\_webhook.go)\<close>

definition env_Default :: "RuntimeObject \<Rightarrow> AdmissionError option \<times> RuntimeObject" where
  "env_Default obj =
     (case obj of
        EnvironmentObject env \<Rightarrow>
          (let spec = e_Spec env;
               spec = (if es_Profile spec = [] then spec\<lparr>es_Profile := ResourceProfileMedium\<rparr> else spec);
               spec = (if go_Provider (es_GitOps spec) = []
                       then spec\<lparr>es_GitOps := (es_GitOps spec)\<lparr>go_Provider := GitOpsProviderNone\<rparr>\<rparr> else spec);
               spec = (case es_Source spec of
                   None \<Rightarrow> spec
                 | Some source \<Rightarrow>
                     (let source = (if gs_Revision source = [] then source\<lparr>gs_Revision := ''HEAD''\<rparr> else source);
                          source = (if gs_Path source = [] then source\<lparr>gs_Path := ''.''\<rparr> else source)
                      in spec\<lparr>es_Source := Some source\<rparr>))
           in (None, EnvironmentObject (env\<lparr>e_Spec := spec\<rparr>)))
      | _ \<Rightarrow> (Some (expected ''an Environment'' obj), obj))"

definition env_validateInto :: "Environment \<Rightarrow> FieldError list \<Rightarrow> FieldError list" where
  "env_validateInto env errs =
     (let spec = e_Spec env;
          errs = (if tr_Name (es_TenantRef spec) = []
                  then errs @ [field_Required ''spec.tenantRef.name'' ''an owning tenant is required''] else errs);
          errs = (if es_Type spec = EnvironmentTypeEphemeral \<and> es_TTL spec = None
                  then errs @ [field_Required ''spec.ttl'' ''ttl is required for ephemeral environments''] else errs)
      in if go_Provider (es_GitOps spec) \<noteq> GitOpsProviderNone \<and>
            (case es_Source spec of None \<Rightarrow> True | Some source \<Rightarrow> gs_RepoURL source = [])
         then errs @ [field_Required ''spec.source.repoURL''
                (''source.repoURL is required when gitops.provider='' @ go_Provider (es_GitOps spec))]
         else errs)"

definition env_ValidateCreate :: "RuntimeObject \<Rightarrow> AdmissionError option" where
  "env_ValidateCreate obj =
     (case obj of
        EnvironmentObject env \<Rightarrow>
          (let errs = env_validateInto env []
           in if 0 < length errs then Some (NewInvalid ''Environment'' (om_Name (e_meta env)) errs) else None)
      | _ \<Rightarrow> Some (expected ''an Environment'' obj))"

definition env_ValidateUpdate :: "RuntimeObject \<Rightarrow> RuntimeObject \<Rightarrow> AdmissionError option" where
  "env_ValidateUpdate oldObj newObj =
     (case oldObj of
        EnvironmentObject oldEnv \<Rightarrow>
          (case newObj of
             EnvironmentObject newEnv \<Rightarrow>
               (let errs = (if tr_Name (es_TenantRef (e_Spec oldEnv)) \<noteq> tr_Name (es_TenantRef (e_Spec newEnv))
                            then [field_Forbidden ''spec.tenantRef'' ''tenantRef is immutable''] else []);
                    errs = (if es_Type (e_Spec oldEnv) \<noteq> es_Type (e_Spec newEnv)
                            then errs @ [field_Forbidden ''spec.type'' ''type is immutable''] else errs);
                    errs = env_validateInto newEnv errs
                in if 0 < length errs
                   then Some (NewInvalid ''Environment'' (om_Name (e_meta newEnv)) errs) else None)
           | _ \<Rightarrow> Some (expected ''an Environment'' newObj))
      | _ \<Rightarrow> Some (expected ''an Environment'' oldObj))"

definition env_ValidateDelete :: "RuntimeObject \<Rightarrow> AdmissionError option" where
  "env_ValidateDelete obj = None"

section \<open>Integration (integration\_webhook.go)\<close>

definition intg_Default :: "RuntimeObject \<Rightarrow> AdmissionError option \<times> RuntimeObject" where
  "intg_Default obj =
     (case obj of
        IntegrationObject intg \<Rightarrow>
          (let spec = i_Spec intg;
               spec = (case is_RetryPolicy spec of
                   None \<Rightarrow> spec\<lparr>is_RetryPolicy := Some \<lparr>rp_MaxRetries = 5,
                     rp_Backoff = BackoffStrategyExponential, rp_InitialDelay = None, rp_MaxDelay = None\<rparr>\<rparr>
                 | Some policy \<Rightarrow>
                     if rp_Backoff policy = []
                     then spec\<lparr>is_RetryPolicy := Some (policy\<lparr>rp_Backoff := BackoffStrategyExponential\<rparr>)\<rparr>
                     else spec);
               spec = (if is_Type spec \<noteq> [] \<and> is_HealthCheck spec = None
                       then spec\<lparr>is_HealthCheck := Some \<lparr>hc_Path = ''/healthz'', hc_IntervalSeconds = 60,
                              hc_TimeoutSeconds = 10\<rparr>\<rparr>
                       else spec)
           in (None, IntegrationObject (intg\<lparr>i_Spec := spec\<rparr>)))
      | _ \<Rightarrow> (Some (expected ''an Integration'' obj), obj))"

definition isHTTPType :: "IntegrationType \<Rightarrow> bool" where
  "isHTTPType t \<longleftrightarrow> t = IntegrationTypeWebhook \<or> t = IntegrationTypeRESTAPI \<or>
     t = IntegrationTypeOAuth2 \<or> t = IntegrationTypeObjectStore"

definition intg_validateInto :: "Integration \<Rightarrow> FieldError list \<Rightarrow> FieldError list" where
  "intg_validateInto intg errs =
     (let spec = i_Spec intg;
          errs = (if tr_Name (is_TenantRef spec) = []
                  then errs @ [field_Required ''spec.tenantRef.name'' ''an owning tenant is required''] else errs)
      in if only_space (is_Endpoint spec)
         then errs @ [field_Required ''spec.endpoint'' ''endpoint is required'']
         else if isHTTPType (is_Type spec) \<and>
            (case url_parse (is_Endpoint spec) of
               None \<Rightarrow> True
             | Some (scheme, host) \<Rightarrow> (scheme \<noteq> ''http'' \<and> scheme \<noteq> ''https'') \<or> host = [])
         then errs @ [field_Invalid ''spec.endpoint'' (is_Endpoint spec)
                (''endpoint must be a valid http(s) URL for type='' @ is_Type spec)]
         else errs)"

definition intg_ValidateCreate :: "RuntimeObject \<Rightarrow> AdmissionError option" where
  "intg_ValidateCreate obj =
     (case obj of
        IntegrationObject intg \<Rightarrow>
          (let errs = intg_validateInto intg []
           in if 0 < length errs then Some (NewInvalid ''Integration'' (om_Name (i_meta intg)) errs) else None)
      | _ \<Rightarrow> Some (expected ''an Integration'' obj))"

definition intg_ValidateUpdate :: "RuntimeObject \<Rightarrow> RuntimeObject \<Rightarrow> AdmissionError option" where
  "intg_ValidateUpdate oldObj newObj =
     (case oldObj of
        IntegrationObject oldIntg \<Rightarrow>
          (case newObj of
             IntegrationObject newIntg \<Rightarrow>
               (let errs = (if tr_Name (is_TenantRef (i_Spec oldIntg)) \<noteq> tr_Name (is_TenantRef (i_Spec newIntg))
                            then [field_Forbidden ''spec.tenantRef'' ''tenantRef is immutable''] else []);
                    errs = (if is_Type (i_Spec oldIntg) \<noteq> is_Type (i_Spec newIntg)
                            then errs @ [field_Forbidden ''spec.type'' ''type is immutable''] else errs);
                    errs = intg_validateInto newIntg errs
                in if 0 < length errs
                   then Some (NewInvalid ''Integration'' (om_Name (i_meta newIntg)) errs) else None)
           | _ \<Rightarrow> Some (expected ''an Integration'' newObj))
      | _ \<Rightarrow> Some (expected ''an Integration'' oldObj))"

definition intg_ValidateDelete :: "RuntimeObject \<Rightarrow> AdmissionError option" where
  "intg_ValidateDelete obj = None"

section \<open>The contract with the API server\<close>

text \<open>The states an object can take: the API server stores it once the create webhook admits it and
  replaces it once the update webhook admits the change.\<close>

inductive history :: "('o \<Rightarrow> 'e option) \<Rightarrow> ('o \<Rightarrow> 'o \<Rightarrow> 'e option) \<Rightarrow> 'o \<Rightarrow> 'o \<Rightarrow> bool"
  for create update where
  created: "create obj = None \<Longrightarrow> history create update obj obj"
| updated: "history create update first obj \<Longrightarrow> update obj obj' = None \<Longrightarrow> history create update first obj'"

locale admission =
  fixes is_kind :: "'o \<Rightarrow> bool"
    and good :: "'o \<Rightarrow> bool"
    and frozen :: "'o \<Rightarrow> 'i"
    and dflt :: "'o \<Rightarrow> 'e option \<times> 'o"
    and create :: "'o \<Rightarrow> 'e option"
    and update :: "'o \<Rightarrow> 'o \<Rightarrow> 'e option"
    and remove :: "'o \<Rightarrow> 'e option"
  assumes dflt_kind: "is_kind obj \<Longrightarrow> \<exists>obj'. dflt obj = (None, obj') \<and> is_kind obj' \<and> dflt obj' = (None, obj')"
    and dflt_other: "\<not> is_kind obj \<Longrightarrow> \<exists>e. dflt obj = (Some e, obj)"
    and create_iff: "create obj = None \<longleftrightarrow> is_kind obj \<and> good obj"
    and update_iff: "update obj obj' = None \<longleftrightarrow>
       is_kind obj \<and> is_kind obj' \<and> frozen obj' = frozen obj \<and> good obj'"
    and remove_allowed: "remove obj = None"
begin

text \<open>Whatever updates follow the creation, the object stays well formed and its frozen part is the
  one it was created with.\<close>

lemma history_invariant:
  assumes "history create update first obj"
  shows "is_kind obj \<and> good obj \<and> frozen obj = frozen first"
  using assms by induction (auto simp: create_iff update_iff)

text \<open>An update that writes the stored object back, as the controllers' writes of finalizers and
  status do to the spec, is admitted; so no object can get stuck.\<close>

lemma same_spec_update:
  assumes "history create update first obj"
  shows "update obj obj = None"
  using history_invariant [OF assms] by (simp add: update_iff)

lemma dflt_twice: "dflt (snd (dflt obj)) = dflt obj"
  by (cases "is_kind obj") (use dflt_kind dflt_other in force)+

lemma dflt_then_create:
  "fst (dflt obj) = None \<Longrightarrow> create (snd (dflt obj)) = None \<longleftrightarrow> good (snd (dflt obj))"
  using dflt_kind [of obj] dflt_other [of obj] by (cases "is_kind obj") (auto simp: create_iff)

end

text \<open>Tenants.\<close>

definition derived_namespace :: "Tenant \<Rightarrow> string" where
  "derived_namespace t =
     (if ts_NamespacePrefix (t_Spec t) = [] then ''tenant'' else ts_NamespacePrefix (t_Spec t)) @
     ''-'' @ om_Name (t_meta t)"

definition good_tenant :: "Tenant \<Rightarrow> bool" where
  "good_tenant t \<longleftrightarrow> length (derived_namespace t) \<le> 63 \<and>
     list_all (\<lambda>a. sub_Kind a = ''ServiceAccount'' \<longrightarrow> sub_Namespace a \<noteq> []) (ts_Admins (t_Spec t))"

definition good_env :: "Environment \<Rightarrow> bool" where
  "good_env e \<longleftrightarrow> tr_Name (es_TenantRef (e_Spec e)) \<noteq> [] \<and>
     (es_Type (e_Spec e) = EnvironmentTypeEphemeral \<longrightarrow> es_TTL (e_Spec e) \<noteq> None) \<and>
     (go_Provider (es_GitOps (e_Spec e)) \<noteq> GitOpsProviderNone \<longrightarrow>
        (\<exists>source. es_Source (e_Spec e) = Some source \<and> gs_RepoURL source \<noteq> []))"

definition good_intg :: "Integration \<Rightarrow> bool" where
  "good_intg i \<longleftrightarrow> tr_Name (is_TenantRef (i_Spec i)) \<noteq> [] \<and> \<not> only_space (is_Endpoint (i_Spec i)) \<and>
     (IsHTTPType (is_Type (i_Spec i)) \<longrightarrow>
        (\<exists>scheme host. url_parse (is_Endpoint (i_Spec i)) = Some (scheme, host) \<and>
           (scheme = ''http'' \<or> scheme = ''https'') \<and> host \<noteq> []))"

lemma admin_errors_Nil:
  "admin_errors i admins = [] \<longleftrightarrow>
     list_all (\<lambda>a. sub_Kind a = ''ServiceAccount'' \<longrightarrow> sub_Namespace a \<noteq> []) admins"
  by (induction i admins rule: admin_errors.induct) auto

lemma tenant_validateInto_Nil: "tenant_validateInto t errs = [] \<longleftrightarrow> errs = [] \<and> good_tenant t"
  by (auto simp: tenant_validateInto_def good_tenant_def derived_namespace_def admin_errors_Nil
      maxNamespaceNameLength_def Let_def)

lemma env_validateInto_Nil: "env_validateInto e errs = [] \<longleftrightarrow> errs = [] \<and> good_env e"
  by (auto simp: env_validateInto_def good_env_def Let_def split: option.splits)

lemma isHTTPType_mirror: "isHTTPType t = IsHTTPType t"
  by (simp add: isHTTPType_def IsHTTPType_def)

lemma intg_validateInto_Nil: "intg_validateInto i errs = [] \<longleftrightarrow> errs = [] \<and> good_intg i"
  by (auto simp: intg_validateInto_def good_intg_def isHTTPType_mirror Let_def split: option.splits)

lemma tenant_Default_defaulted:
  "ts_Tier (t_Spec t) \<noteq> [] \<Longrightarrow> ts_NamespacePrefix (t_Spec t) \<noteq> [] \<Longrightarrow>
   ts_NetworkIsolation (t_Spec t) \<noteq> [] \<Longrightarrow> lp_DeletionPolicy (ts_Lifecycle (t_Spec t)) \<noteq> [] \<Longrightarrow>
   tenant_Default (TenantObject t) = (None, TenantObject t)"
  by (simp add: tenant_Default_def)

lemma tenant_Default_fields:
  "\<exists>t'. tenant_Default (TenantObject t) = (None, TenantObject t') \<and> t_meta t' = t_meta t \<and>
     ts_Tier (t_Spec t') = (if ts_Tier (t_Spec t) = [] then TenantTierStandard else ts_Tier (t_Spec t)) \<and>
     ts_NamespacePrefix (t_Spec t') =
       (if ts_NamespacePrefix (t_Spec t) = [] then ''tenant'' else ts_NamespacePrefix (t_Spec t)) \<and>
     ts_NetworkIsolation (t_Spec t') =
       (if ts_NetworkIsolation (t_Spec t) = [] then NetworkIsolationBaseline else ts_NetworkIsolation (t_Spec t)) \<and>
     lp_DeletionPolicy (ts_Lifecycle (t_Spec t')) =
       (if lp_DeletionPolicy (ts_Lifecycle (t_Spec t)) = [] then DeletionPolicyDelete
        else lp_DeletionPolicy (ts_Lifecycle (t_Spec t)))"
  by (simp add: tenant_Default_def Let_def)

interpretation tenant_hook: admission
    "\<lambda>obj. \<exists>t. obj = TenantObject t"
    "\<lambda>obj. case obj of TenantObject t \<Rightarrow> good_tenant t | _ \<Rightarrow> False"
    "\<lambda>obj. case obj of TenantObject t \<Rightarrow> ts_NamespacePrefix (t_Spec t) | _ \<Rightarrow> []"
    tenant_Default tenant_ValidateCreate tenant_ValidateUpdate tenant_ValidateDelete
proof (unfold_locales, goal_cases)
  case (1 obj)
  then obtain t where "obj = TenantObject t" by blast
  with tenant_Default_fields [of t] show ?case
    by (auto simp: upo_consts intro!: tenant_Default_defaulted split: if_splits)
next
  case (4 obj obj')
  show ?case
    by (cases obj; cases obj') (auto simp: tenant_ValidateUpdate_def tenant_validateInto_Nil Let_def)
qed (auto simp: tenant_Default_def tenant_ValidateCreate_def tenant_validate_def tenant_ValidateDelete_def
    tenant_validateInto_Nil Let_def split: RuntimeObject.splits)

lemma env_Default_defaulted:
  "es_Profile (e_Spec e) \<noteq> [] \<Longrightarrow> go_Provider (es_GitOps (e_Spec e)) \<noteq> [] \<Longrightarrow>
   (\<And>s. es_Source (e_Spec e) = Some s \<Longrightarrow> gs_Revision s \<noteq> [] \<and> gs_Path s \<noteq> []) \<Longrightarrow>
   env_Default (EnvironmentObject e) = (None, EnvironmentObject e)"
  by (cases "es_Source (e_Spec e)") (simp_all add: env_Default_def Let_def, (cases e, cases "e_Spec e", simp)?)

lemma env_Default_fields:
  "\<exists>e'. env_Default (EnvironmentObject e) = (None, EnvironmentObject e') \<and> e_meta e' = e_meta e \<and>
     es_TenantRef (e_Spec e') = es_TenantRef (e_Spec e) \<and> es_Type (e_Spec e') = es_Type (e_Spec e) \<and>
     es_TTL (e_Spec e') = es_TTL (e_Spec e) \<and>
     es_Profile (e_Spec e') = (if es_Profile (e_Spec e) = [] then ResourceProfileMedium else es_Profile (e_Spec e)) \<and>
     go_Provider (es_GitOps (e_Spec e')) =
       (if go_Provider (es_GitOps (e_Spec e)) = [] then GitOpsProviderNone else go_Provider (es_GitOps (e_Spec e))) \<and>
     es_Source (e_Spec e') = map_option (\<lambda>s. \<lparr>gs_RepoURL = gs_RepoURL s,
       gs_Revision = (if gs_Revision s = [] then ''HEAD'' else gs_Revision s),
       gs_Path = (if gs_Path s = [] then ''.'' else gs_Path s)\<rparr>) (es_Source (e_Spec e))"
  by (cases "es_Source (e_Spec e)") (simp_all add: env_Default_def Let_def)

interpretation env_hook: admission
    "\<lambda>obj. \<exists>e. obj = EnvironmentObject e"
    "\<lambda>obj. case obj of EnvironmentObject e \<Rightarrow> good_env e | _ \<Rightarrow> False"
    "\<lambda>obj. case obj of EnvironmentObject e \<Rightarrow> (tr_Name (es_TenantRef (e_Spec e)), es_Type (e_Spec e)) | _ \<Rightarrow> ([], [])"
    env_Default env_ValidateCreate env_ValidateUpdate env_ValidateDelete
proof (unfold_locales, goal_cases)
  case (1 obj)
  then obtain e where "obj = EnvironmentObject e" by blast
  with env_Default_fields [of e] show ?case
    by (cases "es_Source (e_Spec e)")
      (auto simp: upo_consts intro!: env_Default_defaulted split: if_splits)
next
  case (4 obj obj')
  show ?case
    by (cases obj; cases obj') (auto simp: env_ValidateUpdate_def env_validateInto_Nil Let_def)
qed (auto simp: env_Default_def env_ValidateCreate_def env_ValidateDelete_def
    env_validateInto_Nil Let_def split: RuntimeObject.splits)

interpretation intg_hook: admission
    "\<lambda>obj. \<exists>i. obj = IntegrationObject i"
    "\<lambda>obj. case obj of IntegrationObject i \<Rightarrow> good_intg i | _ \<Rightarrow> False"
    "\<lambda>obj. case obj of IntegrationObject i \<Rightarrow> (tr_Name (is_TenantRef (i_Spec i)), is_Type (i_Spec i)) | _ \<Rightarrow> ([], [])"
    intg_Default intg_ValidateCreate intg_ValidateUpdate intg_ValidateDelete
proof (unfold_locales, goal_cases)
  case (1 obj)
  then show ?case by (auto simp: intg_Default_def Let_def upo_consts split: option.split)
next
  case (4 obj obj')
  show ?case
    by (cases obj; cases obj') (auto simp: intg_ValidateUpdate_def intg_validateInto_Nil Let_def)
qed (auto simp: intg_Default_def intg_ValidateCreate_def intg_ValidateDelete_def
    intg_validateInto_Nil Let_def split: RuntimeObject.splits)

section \<open>Properties\<close>

text \<open>C34: Whatever admitted updates follow the creation of a Tenant, its namespace prefix is the one
  it was created with, the namespace derived from it fits the limit of 63 characters, and every
  service account among the admins has a namespace.\<close>

theorem tenant_admission_invariant:
  assumes "history tenant_ValidateCreate tenant_ValidateUpdate (TenantObject first) (TenantObject t)"
  shows "ts_NamespacePrefix (t_Spec t) = ts_NamespacePrefix (t_Spec first) \<and>
    length (derived_namespace t) \<le> 63 \<and>
    list_all (\<lambda>a. sub_Kind a = ''ServiceAccount'' \<longrightarrow> sub_Namespace a \<noteq> []) (ts_Admins (t_Spec t))"
  using tenant_hook.history_invariant [OF assms] by (simp add: good_tenant_def)

definition some_tenant :: Tenant where
  "some_tenant =
     \<lparr>t_meta = new_meta [] ''acme'',
      t_Spec = \<lparr>ts_DisplayName = ''Acme'', ts_Tier = TenantTierStandard, ts_NamespacePrefix = ''tenant'',
        ts_Quota = None, ts_Limits = None, ts_NetworkIsolation = NetworkIsolationBaseline,
        ts_Admins = some_admins, ts_ExtraLabels = fmempty,
        ts_Lifecycle = \<lparr>lp_Suspended = False, lp_DeletionPolicy = DeletionPolicyDelete\<rparr>\<rparr>,
      t_Status = \<lparr>tst_Phase = [], tst_Conditions = [], tst_ObservedGeneration = 0, tst_Namespace = [],
        tst_EnvironmentCount = 0, tst_IntegrationCount = 0, tst_LastReconcileTime = None\<rparr>\<rparr>"

definition renamed_tenant :: Tenant where
  "renamed_tenant = some_tenant\<lparr>t_Spec := (t_Spec some_tenant)\<lparr>ts_DisplayName := ''Acme Corp''\<rparr>\<rparr>"

lemma tenant_admission_invariant_witness:
  "ts_NamespacePrefix (t_Spec renamed_tenant) = ts_NamespacePrefix (t_Spec some_tenant) \<and>
    length (derived_namespace renamed_tenant) \<le> 63 \<and>
    list_all (\<lambda>a. sub_Kind a = ''ServiceAccount'' \<longrightarrow> sub_Namespace a \<noteq> []) (ts_Admins (t_Spec renamed_tenant))"
proof (rule tenant_admission_invariant)
  show "history tenant_ValidateCreate tenant_ValidateUpdate (TenantObject some_tenant) (TenantObject renamed_tenant)"
    by (rule history.updated, rule history.created)
      (simp_all add: tenant_ValidateCreate_def tenant_validate_def tenant_ValidateUpdate_def
        tenant_validateInto_def renamed_tenant_def some_tenant_def some_admins_def new_meta_def
        maxNamespaceNameLength_def ServiceAccountKind_def)
qed

text \<open>Whatever admitted updates follow the creation of an Environment, it belongs to the tenant
  and has the type it was created with; an ephemeral one has a time to live, and one with a GitOps
  engine has a source repository.\<close>

lemma env_admission_invariant:
  assumes "history env_ValidateCreate env_ValidateUpdate (EnvironmentObject first) (EnvironmentObject e)"
  shows "tr_Name (es_TenantRef (e_Spec e)) = tr_Name (es_TenantRef (e_Spec first)) \<and>
    tr_Name (es_TenantRef (e_Spec e)) \<noteq> [] \<and> es_Type (e_Spec e) = es_Type (e_Spec first) \<and>
    (es_Type (e_Spec e) = EnvironmentTypeEphemeral \<longrightarrow> es_TTL (e_Spec e) \<noteq> None) \<and>
    (go_Provider (es_GitOps (e_Spec e)) \<noteq> GitOpsProviderNone \<longrightarrow>
       (\<exists>source. es_Source (e_Spec e) = Some source \<and> gs_RepoURL source \<noteq> []))"
  using env_hook.history_invariant [OF assms] by (auto simp: good_env_def)

definition flux_env :: Environment where
  "flux_env = argo_env\<lparr>e_Spec := (e_Spec argo_env)\<lparr>es_GitOps :=
     \<lparr>go_Provider = GitOpsProviderFlux, go_AutoSync = True, go_Prune = True\<rparr>\<rparr>\<rparr>"

lemma env_admission_invariant_witness:
  "tr_Name (es_TenantRef (e_Spec flux_env)) = tr_Name (es_TenantRef (e_Spec argo_env)) \<and>
    es_Type (e_Spec flux_env) = es_Type (e_Spec argo_env) \<and>
    go_Provider (es_GitOps (e_Spec flux_env)) \<noteq> GitOpsProviderNone \<and>
    (\<exists>source. es_Source (e_Spec flux_env) = Some source \<and> gs_RepoURL source \<noteq> [])"
proof -
  have "history env_ValidateCreate env_ValidateUpdate (EnvironmentObject argo_env) (EnvironmentObject flux_env)"
    by (rule history.updated, rule history.created)
      (simp_all add: env_ValidateCreate_def env_ValidateUpdate_def env_validateInto_def flux_env_def
        argo_env_def upo_consts)
  from env_admission_invariant [OF this] show ?thesis by (simp add: flux_env_def argo_env_def upo_consts)
qed


definition some_intg :: Integration where
  "some_intg =
     \<lparr>i_meta = new_meta ''team'' ''crm'',
      i_Spec = \<lparr>is_TenantRef = \<lparr>tr_Name = ''acme''\<rparr>, is_Type = IntegrationTypeRESTAPI,
        is_Endpoint = ''HTTPS://crm.example:8443/v1?x=1#top'', is_AuthSecretRef = None, is_Headers = fmempty,
        is_Events = [], is_RetryPolicy = None, is_RateLimit = None, is_HealthCheck = None, is_TLS = None,
        is_Suspend = False\<rparr>,
      i_Status = \<lparr>ist_Phase = [], ist_Conditions = [], ist_ObservedGeneration = 0,
        ist_ConnectionSecretName = [], ist_ObservedEndpoint = [], ist_Retries = 0, ist_DeliveredEvents = 0,
        ist_FailedEvents = 0, ist_LastEventTime = None, ist_LastProbeTime = None, ist_LastError = [],
        ist_LastReconcileTime = None\<rparr>\<rparr>"

lemma some_intg_parses:
  "url_parse ''HTTPS://crm.example:8443/v1?x=1#top'' = Some (''https'', ''crm.example:8443'') \<and>
   \<not> only_space ''HTTPS://crm.example:8443/v1?x=1#top''"
  by code_simp


text \<open>Defaulting is idempotent for the three kinds, so that the API server may run it on every
  write, and no defaulted Tenant has an empty tier, prefix, isolation level or deletion policy.\<close>

lemma defaulting_idempotent:
  "tenant_Default (snd (tenant_Default obj)) = tenant_Default obj \<and>
   env_Default (snd (env_Default obj)) = env_Default obj \<and>
   intg_Default (snd (intg_Default obj)) = intg_Default obj \<and>
   (\<exists>t'. tenant_Default (TenantObject t) = (None, TenantObject t') \<and>
      ts_Tier (t_Spec t') \<noteq> [] \<and> ts_NamespacePrefix (t_Spec t') \<noteq> [] \<and>
      ts_NetworkIsolation (t_Spec t') \<noteq> [] \<and> lp_DeletionPolicy (ts_Lifecycle (t_Spec t')) \<noteq> [])"
  using tenant_hook.dflt_twice env_hook.dflt_twice intg_hook.dflt_twice tenant_Default_fields [of t]
  by (auto simp: upo_consts)

text \<open>An Environment that leaves its GitOps provider unset and has no source is refused by the
  validator as it stands, but the defaulting webhook, which runs first, makes it acceptable
  whenever the rest is: it has a tenant and, when ephemeral, a time to live.\<close>

lemma env_default_then_create:
  "let bare = e\<lparr>e_Spec := (e_Spec e)\<lparr>es_GitOps := \<lparr>go_Provider = [], go_AutoSync = a, go_Prune = p\<rparr>,
       es_Source := None\<rparr>\<rparr>
   in env_ValidateCreate (EnvironmentObject bare) \<noteq> None \<and>
      (env_ValidateCreate (snd (env_Default (EnvironmentObject bare))) = None \<longleftrightarrow>
         tr_Name (es_TenantRef (e_Spec e)) \<noteq> [] \<and>
         \<not> (es_Type (e_Spec e) = EnvironmentTypeEphemeral \<and> es_TTL (e_Spec e) = None))"
proof -
  let ?bare = "e\<lparr>e_Spec := (e_Spec e)\<lparr>es_GitOps := \<lparr>go_Provider = [], go_AutoSync = a, go_Prune = p\<rparr>,
    es_Source := None\<rparr>\<rparr>"
  obtain e' where e': "env_Default (EnvironmentObject ?bare) = (None, EnvironmentObject e')"
    "es_TenantRef (e_Spec e') = es_TenantRef (e_Spec e)" "es_Type (e_Spec e') = es_Type (e_Spec e)"
    "es_TTL (e_Spec e') = es_TTL (e_Spec e)" "go_Provider (es_GitOps (e_Spec e')) = GitOpsProviderNone"
    using env_Default_fields [of ?bare] by auto
  then have "env_ValidateCreate (snd (env_Default (EnvironmentObject ?bare))) = None \<longleftrightarrow> good_env e'"
    using env_hook.dflt_then_create [of "EnvironmentObject ?bare"] by simp
  with e' show ?thesis
    using env_hook.create_iff [of "EnvironmentObject ?bare"] by (auto simp: good_env_def upo_consts)
qed

text \<open>No admitted object can get stuck behind its own webhook: writing it back with the same
  spec, as the controllers do when they add or remove a finalizer, is admitted, and so is deleting it.\<close>

lemma admitted_objects_rewritable:
  "(\<forall>first obj. history tenant_ValidateCreate tenant_ValidateUpdate first obj \<longrightarrow>
      tenant_ValidateUpdate obj obj = None \<and> tenant_ValidateDelete obj = None) \<and>
   (\<forall>first obj. history env_ValidateCreate env_ValidateUpdate first obj \<longrightarrow>
      env_ValidateUpdate obj obj = None \<and> env_ValidateDelete obj = None) \<and>
   (\<forall>first obj. history intg_ValidateCreate intg_ValidateUpdate first obj \<longrightarrow>
      intg_ValidateUpdate obj obj = None \<and> intg_ValidateDelete obj = None)"
  using tenant_hook.same_spec_update env_hook.same_spec_update intg_hook.same_spec_update
    tenant_hook.remove_allowed env_hook.remove_allowed intg_hook.remove_allowed by blast

lemma admitted_objects_rewritable_witness:
  "env_ValidateUpdate (EnvironmentObject argo_env) (EnvironmentObject argo_env) = None"
proof -
  have "env_ValidateCreate (EnvironmentObject argo_env) = None"
    by (simp add: env_ValidateCreate_def env_validateInto_def argo_env_def upo_consts)
  then have "history env_ValidateCreate env_ValidateUpdate (EnvironmentObject argo_env) (EnvironmentObject argo_env)"
    by (rule history.created)
  then show ?thesis using admitted_objects_rewritable by blast
qed

end
