(* ===== verification/Manager.thy ===== *)
theory Manager
  imports Webhooks TenantController
begin

text \<open>
  \<open>cmd/main.go\<close>, \<open>internal/telemetry/tracing.go\<close>, the \<open>SetupWithManager\<close> methods of the controllers and
  the registration of the webhooks: how the process comes up. What it calls of the libraries
  (controller-runtime's manager, builders and servers, the OpenTelemetry SDK, the process
  environment) are the fields of the record \<open>'w host\<close>. Log lines are left out.
\<close>

section \<open>The calls\<close>

text \<open>A builder chain \<open>NewControllerManagedBy(mgr).For(..).Owns(..).Watches(..)\<close> as data; kinds by name.\<close>

record controller_builder =
  cb_For :: string
  cb_Owns :: "string list"
  cb_Watches :: "(string \<times> (RuntimeObject \<Rightarrow> objkey list)) list"

text \<open>\<open>NewWebhookManagedBy(mgr).For(..).WithDefaulter(..).WithValidator(..)\<close>.\<close>

record webhook_builder =
  wb_For :: string
  wb_Default :: "RuntimeObject \<Rightarrow> AdmissionError option \<times> RuntimeObject"
  wb_ValidateCreate :: "RuntimeObject \<Rightarrow> AdmissionError option"
  wb_ValidateUpdate :: "RuntimeObject \<Rightarrow> RuntimeObject \<Rightarrow> AdmissionError option"
  wb_ValidateDelete :: "RuntimeObject \<Rightarrow> AdmissionError option"

text \<open>The part of \<open>tls.Config\<close> that the code sets, and the options of the servers and the manager.\<close>

record tls_config =
  tc_NextProtos :: "string list"

record webhook_options =
  wo_TLSOpts :: "(tls_config \<Rightarrow> tls_config) list"
  wo_CertDir :: string
  wo_CertName :: string
  wo_KeyName :: string

datatype filter_provider = WithAuthenticationAndAuthorization

record metrics_options =
  mo_BindAddress :: string
  mo_SecureServing :: bool
  mo_TLSOpts :: "(tls_config \<Rightarrow> tls_config) list"
  mo_FilterProvider :: "filter_provider option"

record manager_options =
  op_Metrics :: metrics_options
  op_WebhookServer :: webhook_options
  op_HealthProbeBindAddress :: string
  op_LeaderElection :: bool
  op_LeaderElectionID :: string
  op_LeaderElectionReleaseOnCancel :: bool

text \<open>A float64: not a number, an infinity, or m * 2^e.\<close>

datatype float64 = NaN | PosInf | NegInf | Fin int int

record manager_flags =
  metricsAddr :: string
  probeAddr :: string
  enableLeaderElection :: bool
  metricsSecure :: bool
  enableHTTP2 :: bool
  webhookCertPath :: string
  webhookCertName :: string
  webhookCertKey :: string

record 'w host =
  ParseFlags :: "manager_flags \<Rightarrow> ('w, manager_flags) state"
  Getenv :: "string \<Rightarrow> string"
  ParseFloat :: "string \<Rightarrow> go_err + float64"
  MergeResource :: "string \<Rightarrow> string \<Rightarrow> ('w, go_err option) state"
  SetTracerProvider :: "float64 \<Rightarrow> ('w, unit) state"
  ShutdownTracing :: "('w, unit) state"
  GetConfig :: "('w, go_err option) state"
  NewManager :: "manager_options \<Rightarrow> ('w, go_err option) state"
  Indexer :: "'w indexer"
  CompleteController :: "controller_builder \<Rightarrow> ('w, go_err option) state"
  CompleteWebhook :: "webhook_builder \<Rightarrow> ('w, go_err option) state"
  AddHealthzCheck :: "string \<Rightarrow> ('w, go_err option) state"
  AddReadyzCheck :: "string \<Rightarrow> ('w, go_err option) state"
  Start :: "('w, go_err option) state"

section \<open>Tracing (tracing.go)\<close>

fun float_negative :: "float64 \<Rightarrow> bool" where
  "float_negative NaN = False"
| "float_negative PosInf = False"
| "float_negative NegInf = True"
| "float_negative (Fin m e) = (m < 0)"

fun float_above_one :: "float64 \<Rightarrow> bool" where
  "float_above_one NaN = False"
| "float_above_one PosInf = True"
| "float_above_one NegInf = False"
| "float_above_one (Fin m e) = (if 0 \<le> e then 1 < m * 2 ^ nat e else 2 ^ nat (- e) < m)"

text \<open>The constant 0.1 of the source is the float64 nearest to it.\<close>

definition defaultRatio :: float64 where "defaultRatio = Fin 3602879701896397 (-55)"

definition samplingRatio :: "'w host \<Rightarrow> float64" where
  "samplingRatio H =
     (let v = Getenv H ''OTEL_TRACES_SAMPLER_ARG''
      in if v = [] then defaultRatio
         else (case ParseFloat H v of
                 Inl _ \<Rightarrow> defaultRatio
               | Inr f \<Rightarrow> if float_negative f \<or> float_above_one f then defaultRatio else f))"

definition telemetry_Setup :: "'w host \<Rightarrow> string \<Rightarrow> ('w, go_err option) state" where
  "telemetry_Setup H serviceVersion = do {
     err \<leftarrow> MergeResource H ''unified-platform-operator'' serviceVersion;
     (case err of
        Some e \<Rightarrow> State_Monad.return (Some e)
      | None \<Rightarrow> do {
          _ \<leftarrow> SetTracerProvider H (samplingRatio H);
          State_Monad.return None
        })
   }"

section \<open>Setting up the controllers and the webhooks\<close>

definition tenant_builder :: controller_builder where
  "tenant_builder =
     \<lparr>cb_For = ''Tenant'', cb_Owns = [''Namespace'', ''ResourceQuota'', ''LimitRange''],
      cb_Watches = [(''Environment'', mapToTenant), (''Integration'', mapToTenant)]\<rparr>"

definition tenant_SetupWithManager :: "'w host \<Rightarrow> index_vars \<Rightarrow> ('w, go_err option \<times> index_vars) state" where
  "tenant_SetupWithManager H g = do {
     (err, g) \<leftarrow> indexTenantRef (Indexer H) g;
     (case err of
        Some e \<Rightarrow> State_Monad.return (Some e, g)
      | None \<Rightarrow> do {
          err \<leftarrow> CompleteController H tenant_builder;
          State_Monad.return (err, g)
        })
   }"

definition env_builder :: controller_builder where
  "env_builder = \<lparr>cb_For = ''Environment'', cb_Owns = [], cb_Watches = []\<rparr>"

definition env_SetupWithManager :: "'w host \<Rightarrow> index_vars \<Rightarrow> ('w, go_err option \<times> index_vars) state" where
  "env_SetupWithManager H g = do {
     (err, g) \<leftarrow> indexTenantRef (Indexer H) g;
     (case err of
        Some e \<Rightarrow> State_Monad.return (Some e, g)
      | None \<Rightarrow> do {
          err \<leftarrow> CompleteController H env_builder;
          State_Monad.return (err, g)
        })
   }"

definition intg_builder :: controller_builder where
  "intg_builder = \<lparr>cb_For = ''Integration'', cb_Owns = [''Secret''], cb_Watches = []\<rparr>"

definition intg_SetupWithManager :: "'w host \<Rightarrow> index_vars \<Rightarrow> ('w, go_err option \<times> index_vars) state" where
  "intg_SetupWithManager H g = do {
     (err, g) \<leftarrow> indexTenantRef (Indexer H) g;
     (case err of
        Some e \<Rightarrow> State_Monad.return (Some e, g)
      | None \<Rightarrow> do {
          err \<leftarrow> CompleteController H intg_builder;
          State_Monad.return (err, g)
        })
   }"

definition SetupTenantWebhook :: "'w host \<Rightarrow> ('w, go_err option) state" where
  "SetupTenantWebhook H = CompleteWebhook H
     \<lparr>wb_For = ''Tenant'', wb_Default = tenant_Default, wb_ValidateCreate = tenant_ValidateCreate,
      wb_ValidateUpdate = tenant_ValidateUpdate, wb_ValidateDelete = tenant_ValidateDelete\<rparr>"

definition SetupEnvironmentWebhook :: "'w host \<Rightarrow> ('w, go_err option) state" where
  "SetupEnvironmentWebhook H = CompleteWebhook H
     \<lparr>wb_For = ''Environment'', wb_Default = env_Default, wb_ValidateCreate = env_ValidateCreate,
      wb_ValidateUpdate = env_ValidateUpdate, wb_ValidateDelete = env_ValidateDelete\<rparr>"

definition SetupIntegrationWebhook :: "'w host \<Rightarrow> ('w, go_err option) state" where
  "SetupIntegrationWebhook H = CompleteWebhook H
     \<lparr>wb_For = ''Integration'', wb_Default = intg_Default, wb_ValidateCreate = intg_ValidateCreate,
      wb_ValidateUpdate = intg_ValidateUpdate, wb_ValidateDelete = intg_ValidateDelete\<rparr>"

section \<open>main\<close>

definition default_flags :: manager_flags where
  "default_flags =
     \<lparr>metricsAddr = ''0'', probeAddr = '':8081'', enableLeaderElection = False, metricsSecure = True,
      enableHTTP2 = False, webhookCertPath = [], webhookCertName = ''tls.crt'', webhookCertKey = ''tls.key''\<rparr>"

definition tls_opts :: "manager_flags \<Rightarrow> (tls_config \<Rightarrow> tls_config) list" where
  "tls_opts f = (if \<not> enableHTTP2 f then [\<lambda>c. c\<lparr>tc_NextProtos := [''http/1.1'']\<rparr>] else [])"

definition webhook_server_options :: "manager_flags \<Rightarrow> webhook_options" where
  "webhook_server_options f =
     (let opts = \<lparr>wo_TLSOpts = tls_opts f, wo_CertDir = [], wo_CertName = [], wo_KeyName = []\<rparr>
      in if webhookCertPath f \<noteq> []
         then opts\<lparr>wo_CertDir := webhookCertPath f, wo_CertName := webhookCertName f, wo_KeyName := webhookCertKey f\<rparr>
         else opts)"

definition metrics_server_options :: "manager_flags \<Rightarrow> metrics_options" where
  "metrics_server_options f =
     (let opts = \<lparr>mo_BindAddress = metricsAddr f, mo_SecureServing = metricsSecure f, mo_TLSOpts = tls_opts f,
        mo_FilterProvider = None\<rparr>
      in if metricsSecure f then opts\<lparr>mo_FilterProvider := Some WithAuthenticationAndAuthorization\<rparr> else opts)"

definition main_options :: "manager_flags \<Rightarrow> manager_options" where
  "main_options f =
     \<lparr>op_Metrics = metrics_server_options f, op_WebhookServer = webhook_server_options f,
      op_HealthProbeBindAddress = probeAddr f, op_LeaderElection = enableLeaderElection f,
      op_LeaderElectionID = ''upo-controller.platform.upo.io'', op_LeaderElectionReleaseOnCancel = True\<rparr>"

text \<open>The process ends by \<open>os.Exit(n)\<close>, which skips the deferred calls, or by returning from \<open>main\<close>.\<close>

datatype outcome = Exit nat | Return

definition or_exit :: "('w, go_err option) state \<Rightarrow> ('w, outcome) state \<Rightarrow> ('w, outcome) state" where
  "or_exit step rest = do {
     err \<leftarrow> step;
     (case err of Some _ \<Rightarrow> State_Monad.return (Exit 1) | None \<Rightarrow> rest)
   }"

text \<open>\<open>main\<close> from the health checks on, where the deferred shutdown of the tracing runs at the return.\<close>

definition main_serve :: "'w host \<Rightarrow> ('w, outcome) state" where
  "main_serve H =
     or_exit (AddHealthzCheck H ''healthz'') (or_exit (AddReadyzCheck H ''readyz'') (or_exit (Start H) (do {
       _ \<leftarrow> ShutdownTracing H;
       State_Monad.return Return
     })))"

definition main_webhooks :: "'w host \<Rightarrow> ('w, outcome) state" where
  "main_webhooks H =
     (if Getenv H ''ENABLE_WEBHOOKS'' \<noteq> ''false'' then
        or_exit (SetupTenantWebhook H) (or_exit (SetupEnvironmentWebhook H) (or_exit (SetupIntegrationWebhook H)
          (main_serve H)))
      else main_serve H)"

definition main_controllers :: "'w host \<Rightarrow> index_vars \<Rightarrow> ('w, outcome) state" where
  "main_controllers H g = do {
     (err, g) \<leftarrow> tenant_SetupWithManager H g;
     (case err of Some _ \<Rightarrow> State_Monad.return (Exit 1) | None \<Rightarrow> do {
     (err, g) \<leftarrow> env_SetupWithManager H g;
     (case err of Some _ \<Rightarrow> State_Monad.return (Exit 1) | None \<Rightarrow> do {
     (err, g) \<leftarrow> intg_SetupWithManager H g;
     (case err of Some _ \<Rightarrow> State_Monad.return (Exit 1) | None \<Rightarrow> main_webhooks H) }) })
   }"

definition main :: "'w host \<Rightarrow> string \<Rightarrow> ('w, outcome) state" where
  "main H version = do {
     f \<leftarrow> ParseFlags H default_flags;
     or_exit (telemetry_Setup H version) (or_exit (GetConfig H) (or_exit (NewManager H (main_options f))
       (main_controllers H \<lparr>indexOnce = False, indexErr = None\<rparr>)))
   }"

section \<open>The startup as a list of steps\<close>

text \<open>Steps are run in order until the first one fails, which ends the process with code 1.\<close>

fun run_steps :: "('w, go_err option) state list \<Rightarrow> ('w, outcome) state \<Rightarrow> ('w, outcome) state" where
  "run_steps [] done' = done'"
| "run_steps (step # steps) done' = or_exit step (run_steps steps done')"

definition register_indexes :: "'w host \<Rightarrow> ('w, go_err option) state" where
  "register_indexes H = do {
     (err, _) \<leftarrow> indexTenantRef (Indexer H) \<lparr>indexOnce = False, indexErr = None\<rparr>;
     State_Monad.return err
   }"

definition startup_steps :: "'w host \<Rightarrow> string \<Rightarrow> manager_flags \<Rightarrow> ('w, go_err option) state list" where
  "startup_steps H version f =
     [telemetry_Setup H version, GetConfig H, NewManager H (main_options f), register_indexes H,
      CompleteController H tenant_builder, CompleteController H env_builder, CompleteController H intg_builder] @
     (if Getenv H ''ENABLE_WEBHOOKS'' \<noteq> ''false''
      then [SetupTenantWebhook H, SetupEnvironmentWebhook H, SetupIntegrationWebhook H] else []) @
     [AddHealthzCheck H ''healthz'', AddReadyzCheck H ''readyz'', Start H]"

lemma state_eqI: "(\<And>w. run_state m w = run_state n w) \<Longrightarrow> m = n"
  by (cases m; cases n) (auto simp: fun_eq_iff)

lemma indexTenantRef_fresh:
  "run_state (indexTenantRef I \<lparr>indexOnce = False, indexErr = None\<rparr>) w = ((err, g), w') \<Longrightarrow>
   indexTenantRef I g = State_Monad.return (err, g)"
  using wpD [OF indexTenantRef_once] by fastforce

lemma main_controllers_steps:
  "main_controllers H \<lparr>indexOnce = False, indexErr = None\<rparr> =
     run_steps [register_indexes H, CompleteController H tenant_builder, CompleteController H env_builder,
       CompleteController H intg_builder] (main_webhooks H)"
proof (rule state_eqI)
  fix w
  obtain err g w' where run: "run_state (indexTenantRef (Indexer H) \<lparr>indexOnce = False, indexErr = None\<rparr>) w = ((err, g), w')"
    by (metis prod.collapse)
  note again = indexTenantRef_fresh [OF run]
  show "run_state (main_controllers H \<lparr>indexOnce = False, indexErr = None\<rparr>) w =
      run_state (run_steps [register_indexes H, CompleteController H tenant_builder, CompleteController H env_builder,
        CompleteController H intg_builder] (main_webhooks H)) w"
    by (cases err)
      (simp_all add: main_controllers_def tenant_SetupWithManager_def env_SetupWithManager_def intg_SetupWithManager_def
        register_indexes_def or_exit_def State_Monad.bind_def run again split: prod.split option.split)
qed


text \<open>No server speaks HTTP/2 unless the flag says so, and secure metrics are authenticated. Whatever
  the other flags, the TLS options of the webhook server and of the metrics server restrict the
  protocols to HTTP/1.1 exactly when \<open>enable-http2\<close> is not set, secure serving of metrics comes with the
  authentication filter, and by default both protections are on.\<close>

lemma servers_hardened:
  "tc_NextProtos (fold (\<lambda>opt. opt) (wo_TLSOpts (op_WebhookServer (main_options f))) c) =
     (if enableHTTP2 f then tc_NextProtos c else [''http/1.1'']) \<and>
   tc_NextProtos (fold (\<lambda>opt. opt) (mo_TLSOpts (op_Metrics (main_options f))) c) =
     (if enableHTTP2 f then tc_NextProtos c else [''http/1.1'']) \<and>
   mo_SecureServing (op_Metrics (main_options f)) = (mo_FilterProvider (op_Metrics (main_options f)) \<noteq> None) \<and>
   \<not> enableHTTP2 default_flags \<and> mo_SecureServing (op_Metrics (main_options default_flags))"
  by (simp add: main_options_def webhook_server_options_def metrics_server_options_def tls_opts_def default_flags_def Let_def)

text \<open>The sampling ratio is a probability, whatever the environment says; only a NaN gets through.\<close>

lemma samplingRatio_range:
  "\<not> float_negative (samplingRatio H) \<and> \<not> float_above_one (samplingRatio H)"
  by (auto simp: samplingRatio_def defaultRatio_def Let_def split: sum.split)

lemma samplingRatio_NaN:
  "Getenv H ''OTEL_TRACES_SAMPLER_ARG'' = ''nan'' \<Longrightarrow> ParseFloat H ''nan'' = Inr NaN \<Longrightarrow> samplingRatio H = NaN"
  by (simp add: samplingRatio_def)

text \<open>C20: A change of a child refreshes the counts of its tenant. For an environment (and likewise an
  integration) that names a tenant, the tenant controller's watch enqueues that tenant, and if the
  tenant is live, a reconcile of what was enqueued that returns without error stores the number of
  environments and integrations that refer to it at that time.\<close>

theorem child_change_refreshes_counts:
  assumes "api_ok A V"
    and "ob_Environments (V w) k = Some e" and "ob_Integrations (V w) k' = Some i"
    and "tr_Name (es_TenantRef (e_Spec e)) = n" and "tr_Name (is_TenantRef (i_Spec i)) = n" and "n \<noteq> []"
    and "ob_Tenants (V w) ([], n) = Some t" and "om_DeletionTimestamp (t_meta t) = None"
    and "TenantFinalizer \<in> set (om_Finalizers (t_meta t))"
  shows "cb_Watches tenant_builder = [(''Environment'', mapToTenant), (''Integration'', mapToTenant)] \<and>
     mapToTenant (EnvironmentObject e) = [([], n)] \<and> mapToTenant (IntegrationObject i) = [([], n)] \<and>
     wp (tenant_Reconcile A ([], n)) (\<lambda>(res, err) w'. err = None \<longrightarrow>
       (\<exists>t'. ob_Tenants (V w') ([], n) = Some t' \<and>
          tst_EnvironmentCount (t_Status t') = of_nat (card (child_envs (V w') n)) \<and> k \<in> child_envs (V w') n \<and>
          tst_IntegrationCount (t_Status t') = of_nat (card (child_intgs (V w') n)) \<and> k' \<in> child_intgs (V w') n)) w"
proof (intro conjI)
  show "wp (tenant_Reconcile A ([], n)) (\<lambda>(res, err) w'. err = None \<longrightarrow>
       (\<exists>t'. ob_Tenants (V w') ([], n) = Some t' \<and>
          tst_EnvironmentCount (t_Status t') = of_nat (card (child_envs (V w') n)) \<and> k \<in> child_envs (V w') n \<and>
          tst_IntegrationCount (t_Status t') = of_nat (card (child_intgs (V w') n)) \<and> k' \<in> child_intgs (V w') n)) w"
  proof (rule tenants.Reconcile_rule [OF assms(1)], goal_cases)
    case (5 x u)
    then have x: "x = t" and key: "meta_key (t_meta t) = ([], n)" using assms(7) by auto
    from key have name: "om_Name (t_meta t) = n" by (simp add: meta_key_def)
    show ?case
      unfolding x
      by (rule tenant_reconcileTenant_rule [OF assms(1)])
        (use assms(2-5) 5(1) key name in \<open>auto simp: tenants.total_def tenant_reported_def Let_def child_envs_def
          child_intgs_def tenant_footprint_def tenant_ref_of_env_def tenant_ref_of_intg_def\<close>)
  qed (use assms in auto)
qed (use assms in \<open>simp_all add: tenant_builder_def mapToTenant_def\<close>)

definition child_env :: Environment where
  "child_env =
     \<lparr>e_meta = new_meta ''team'' ''dev'',
      e_Spec = \<lparr>es_TenantRef = \<lparr>tr_Name = ''acme''\<rparr>, es_Type = EnvironmentTypeDevelopment,
        es_Profile = ResourceProfileSmall, es_Source = None,
        es_GitOps = \<lparr>go_Provider = GitOpsProviderNone, go_AutoSync = False, go_Prune = False\<rparr>,
        es_TTL = None, es_Domain = [], es_Variables = fmempty, es_SecretRefs = [], es_Suspend = False\<rparr>,
      e_Status = \<lparr>est_Phase = [], est_Conditions = [], est_ObservedGeneration = 0,
        est_TargetNamespace = [], est_Sync = None, est_URL = [], est_ExpiresAt = None,
        est_LastReconcileTime = None\<rparr>\<rparr>"

definition family_world :: mworld where
  "family_world = tenant_world\<lparr>mw_Environments := [((''team'', ''dev''), child_env)],
     mw_Integrations := [((''team'', ''crm''), some_intg)]\<rparr>"

lemma child_change_refreshes_counts_witness:
  "wp (tenant_Reconcile mem_api ([], ''acme'')) (\<lambda>(res, err) w'. err = None \<longrightarrow>
     (\<exists>t'. ob_Tenants (m_obs w') ([], ''acme'') = Some t' \<and>
        tst_EnvironmentCount (t_Status t') = of_nat (card (child_envs (m_obs w') ''acme'')) \<and>
        (''team'', ''dev'') \<in> child_envs (m_obs w') ''acme'' \<and>
        tst_IntegrationCount (t_Status t') = of_nat (card (child_intgs (m_obs w') ''acme'')) \<and>
        (''team'', ''crm'') \<in> child_intgs (m_obs w') ''acme'')) family_world \<and>
   snd (fst (run_state (tenant_Reconcile mem_api ([], ''acme'')) family_world)) = None"
  (is "?wp \<and> ?ok")
proof
  have world: "ob_Environments (m_obs family_world) (''team'', ''dev'') = Some child_env"
    "ob_Integrations (m_obs family_world) (''team'', ''crm'') = Some some_intg"
    "ob_Tenants (m_obs family_world) ([], ''acme'') = Some live_tenant"
    by (simp_all add: m_obs_def family_world_def tenant_world_def)
  show ?wp
    using child_change_refreshes_counts [OF mem_api_ok world(1,2), of "''acme''" live_tenant] world(3)
    by (simp add: child_env_def some_intg_def live_tenant_def new_meta_def)
  show ?ok by code_simp
qed

end
