(* ===== verification/Registration.thy ===== *)
theory Registration
  imports Manager
begin

text \<open>
  The registration of the API types: \<open>groupversion_info.go\<close>, the \<open>init\<close> functions of the three files of
  types and of \<open>cmd/main.go\<close>. The scheme of apimachinery and the builder of controller-runtime are the
  fields of the record \<open>scheme_lib\<close>, over a type \<open>'s\<close> of schemes and a type \<open>'b\<close> of builders; a Go type is
  named by the kind under which it is registered.
\<close>

section \<open>The library\<close>

record GroupVersion =
  gv_Group :: string
  gv_Version :: string

record kind_id =
  kd_GroupVersion :: GroupVersion
  kd_Kind :: string

record ('s, 'b) scheme_lib =
  NewScheme :: 's
  Builder :: "GroupVersion \<Rightarrow> 'b"
  Register :: "string list \<Rightarrow> 'b \<Rightarrow> 'b"
  BuilderAddToScheme :: "'b \<Rightarrow> 's \<Rightarrow> go_err option \<times> 's"
  ClientgoAddToScheme :: "'s \<Rightarrow> go_err option \<times> 's"

text \<open>What the two libraries document: \<open>known s\<close> are the kinds that a scheme recognizes, \<open>pending b\<close> those
  that a builder adds, \<open>core\<close> the kinds of client-go. Adding to a scheme removes nothing.\<close>

definition scheme_ok :: "('s, 'b) scheme_lib \<Rightarrow> ('s \<Rightarrow> kind_id set) \<Rightarrow> ('b \<Rightarrow> GroupVersion \<times> string set) \<Rightarrow> kind_id set \<Rightarrow> bool" where
  "scheme_ok L known pending core \<longleftrightarrow>
     (\<forall>gv. pending (Builder L gv) = (gv, {})) \<and>
     (\<forall>ks b gv K. pending b = (gv, K) \<longrightarrow> pending (Register L ks b) = (gv, K \<union> set ks)) \<and>
     (\<forall>b s s' gv K. pending b = (gv, K) \<longrightarrow> BuilderAddToScheme L b s = (None, s') \<longrightarrow>
        known s \<union> {\<lparr>kd_GroupVersion = gv, kd_Kind = k\<rparr> | k. k \<in> K} \<subseteq> known s') \<and>
     (\<forall>s s'. ClientgoAddToScheme L s = (None, s') \<longrightarrow> known s \<union> core \<subseteq> known s')"

section \<open>The API group (groupversion_info.go and the types)\<close>

definition api_GroupVersion :: GroupVersion where
  "api_GroupVersion = \<lparr>gv_Group = ''platform.upo.io'', gv_Version = ''v1alpha1''\<rparr>"

definition tenant_types_init :: "('s, 'b) scheme_lib \<Rightarrow> 'b \<Rightarrow> 'b" where
  "tenant_types_init L = Register L [''Tenant'', ''TenantList'']"

definition environment_types_init :: "('s, 'b) scheme_lib \<Rightarrow> 'b \<Rightarrow> 'b" where
  "environment_types_init L = Register L [''Environment'', ''EnvironmentList'']"

definition integration_types_init :: "('s, 'b) scheme_lib \<Rightarrow> 'b \<Rightarrow> 'b" where
  "integration_types_init L = Register L [''Integration'', ''IntegrationList'']"

text \<open>\<open>SchemeBuilder\<close> once the package is initialised: the variables first, then the \<open>init\<close> functions in
  the order of the names of their files.\<close>

definition SchemeBuilder :: "('s, 'b) scheme_lib \<Rightarrow> 'b" where
  "SchemeBuilder L =
     (let b = Builder L api_GroupVersion;
          b = environment_types_init L b;
          b = integration_types_init L b
      in tenant_types_init L b)"

text \<open>The variable \<open>AddToScheme\<close> is bound to the pointer, so it sees what was registered after it.\<close>

definition AddToScheme :: "('s, 'b) scheme_lib \<Rightarrow> 's \<Rightarrow> go_err option \<times> 's" where
  "AddToScheme L = BuilderAddToScheme L (SchemeBuilder L)"

section \<open>The scheme of the manager (cmd/main.go)\<close>

text \<open>\<open>utilruntime.Must\<close> panics on an error: then there is no scheme, and \<open>main\<close> is not run.\<close>

definition main_init :: "('s, 'b) scheme_lib \<Rightarrow> 's option" where
  "main_init L =
     (case ClientgoAddToScheme L (NewScheme L) of
        (Some _, _) \<Rightarrow> None
      | (None, s) \<Rightarrow>
          (case AddToScheme L s of
             (Some _, _) \<Rightarrow> None
           | (None, s) \<Rightarrow> Some s))"

section \<open>What is registered\<close>

definition core_v1 :: GroupVersion where "core_v1 = \<lparr>gv_Group = [], gv_Version = ''v1''\<rparr>"

text \<open>The packages from which the source takes the types of the objects it hands to the client.\<close>

definition kind_of_type :: "string \<Rightarrow> kind_id" where
  "kind_of_type t =
     \<lparr>kd_GroupVersion =
        (if t \<in> {''Namespace'', ''ResourceQuota'', ''LimitRange'', ''ConfigMap'', ''Secret''} then core_v1
         else if t = ''NetworkPolicy'' then \<lparr>gv_Group = ''networking.k8s.io'', gv_Version = ''v1''\<rparr>
         else if t = ''RoleBinding'' then \<lparr>gv_Group = ''rbac.authorization.k8s.io'', gv_Version = ''v1''\<rparr>
         else api_GroupVersion),
      kd_Kind = t\<rparr>"

definition builder_kinds :: "controller_builder \<Rightarrow> string list" where
  "builder_kinds b = cb_For b # cb_Owns b @ map fst (cb_Watches b)"

text \<open>The types of client-go whose objects the provisioning primitives write.\<close>

definition written_kinds :: "string list" where
  "written_kinds = [''Namespace'', ''ResourceQuota'', ''LimitRange'', ''NetworkPolicy'', ''RoleBinding'', ''ConfigMap'', ''Secret'']"

definition api_kinds :: "string set" where
  "api_kinds = {''Tenant'', ''TenantList'', ''Environment'', ''EnvironmentList'', ''Integration'', ''IntegrationList''}"

text \<open>Unless the process panics before \<open>main\<close>, the scheme it hands to the manager knows every kind that a
  controller is built for, owns or watches, the lists that the cache reads, and every typed object
  that the operator writes, given that client-go knows its own.\<close>

lemma SchemeBuilder_pending:
  assumes "scheme_ok L known pending core"
  shows "pending (SchemeBuilder L) = (api_GroupVersion, api_kinds)"
proof -
  from assms have reg: "pending b = (gv, K) \<Longrightarrow> pending (Register L ks b) = (gv, K \<union> set ks)" for b gv K ks
    by (simp add: scheme_ok_def)
  from assms have "pending (Builder L api_GroupVersion) = (api_GroupVersion, {})" by (simp add: scheme_ok_def)
  from reg [OF reg [OF reg [OF this]]] show ?thesis
    by (auto simp: SchemeBuilder_def Let_def tenant_types_init_def environment_types_init_def integration_types_init_def
        api_kinds_def)
qed

lemma kind_of_api_type: "k \<in> api_kinds \<Longrightarrow> kind_of_type k = \<lparr>kd_GroupVersion = api_GroupVersion, kd_Kind = k\<rparr>"
  unfolding api_kinds_def by (elim insertE emptyE) (simp_all add: kind_of_type_def)

lemma used_kinds:
  "k \<in> set (builder_kinds tenant_builder @ builder_kinds env_builder @ builder_kinds intg_builder @
      [''TenantList'', ''EnvironmentList'', ''IntegrationList''] @ written_kinds) \<Longrightarrow>
   k \<in> set written_kinds \<or> k \<in> api_kinds"
  by (auto simp: builder_kinds_def tenant_builder_def env_builder_def intg_builder_def written_kinds_def api_kinds_def)

lemma scheme_knows_kinds:
  assumes ok: "scheme_ok L known pending core" and core: "kind_of_type ` set written_kinds \<subseteq> core"
    and init: "main_init L = Some s"
    and k: "k \<in> set (builder_kinds tenant_builder @ builder_kinds env_builder @ builder_kinds intg_builder @
              [''TenantList'', ''EnvironmentList'', ''IntegrationList''] @ written_kinds)"
  shows "kind_of_type k \<in> known s"
proof -
  from init obtain s0 where s0: "ClientgoAddToScheme L (NewScheme L) = (None, s0)"
      "BuilderAddToScheme L (SchemeBuilder L) s0 = (None, s)"
    by (auto simp: main_init_def AddToScheme_def split: prod.splits option.splits)
  from ok have lib: "\<forall>s s'. ClientgoAddToScheme L s = (None, s') \<longrightarrow> known s \<union> core \<subseteq> known s'"
    "\<forall>b s s' gv K. pending b = (gv, K) \<longrightarrow> BuilderAddToScheme L b s = (None, s') \<longrightarrow>
        known s \<union> {\<lparr>kd_GroupVersion = gv, kd_Kind = k\<rparr> | k. k \<in> K} \<subseteq> known s'"
    unfolding scheme_ok_def by (iprover elim: conjE)+
  note client = lib(1) [rule_format, OF s0(1)]
  note own = lib(2) [rule_format, OF SchemeBuilder_pending [OF ok] s0(2)]
  from used_kinds [OF k] show ?thesis
  proof
    assume "k \<in> set written_kinds"
    then have "kind_of_type k \<in> core" by (intro subsetD [OF core] imageI)
    with client own show ?thesis by blast
  next
    assume "k \<in> api_kinds"
    with own show ?thesis by (auto simp: kind_of_api_type)
  qed
qed

text \<open>A scheme that is the list of its kinds meets the contract, and the process gets past \<open>init\<close>.\<close>

definition list_scheme :: "kind_id list \<Rightarrow> (kind_id list, GroupVersion \<times> string list) scheme_lib" where
  "list_scheme core =
     \<lparr>NewScheme = [], Builder = (\<lambda>gv. (gv, [])), Register = (\<lambda>ks (gv, K). (gv, K @ ks)),
      BuilderAddToScheme = (\<lambda>(gv, K) s. (None, s @ map (\<lambda>k. \<lparr>kd_GroupVersion = gv, kd_Kind = k\<rparr>) K)),
      ClientgoAddToScheme = (\<lambda>s. (None, s @ core))\<rparr>"

lemma list_scheme_ok: "scheme_ok (list_scheme core) set (\<lambda>(gv, K). (gv, set K)) (set core)"
  by (auto simp: scheme_ok_def list_scheme_def)

lemma list_scheme_starts:
  "main_init (list_scheme (map kind_of_type written_kinds)) =
     Some (map kind_of_type (written_kinds @ [''Environment'', ''EnvironmentList'', ''Integration'', ''IntegrationList'',
       ''Tenant'', ''TenantList'']))"
  by code_simp

end
