(* ===== verification/GoHeap.thy ===== *)
theory GoHeap
  imports Prelude
begin

text \<open>
  Go values in memory. Elsewhere a value of the program is a value of HOL, which nothing can alias;
  this theory has the addresses, so that the functions of \<open>zz_generated.deepcopy.go\<close> (theory
  DeepCopy) can be seen to make that view sound. A heap is a list of cells that grows at its end; a
  pointer, a slice and a map are references to a cell, or nil. \<open>read\<close> follows the references of a
  value, guided by its type; \<open>clones\<close> is the contract of a deep copy.
\<close>

section \<open>Values, types and heaps\<close>

type_synonym addr = nat

datatype scalar = Str string | Num int | Flag bool

datatype gval = Scalar scalar | Struct "(string \<times> gval) list" | Ref "addr option"

datatype cell = Obj gval | Arr "gval list" | Tab "(string \<times> gval) list"

type_synonym heap = "cell list"

datatype gty = Scalar_t | Struct_t "(string \<times> gty) list" | Ptr_t gty | Slice_t gty | Map_t gty

definition deref :: "heap \<Rightarrow> addr \<Rightarrow> cell option" where
  "deref h a = (if a < length h then Some (h ! a) else None)"

text \<open>What is read through a value: the scalars, and the addresses on the way to them.\<close>

datatype 'a gtree =
    Leaf scalar
  | Node "(string \<times> 'a gtree) list"
  | Nil_ref
  | Target 'a "'a gtree"
  | Elems 'a "'a gtree list"
  | Entries 'a "(string \<times> 'a gtree) list"

fun read :: "gty \<Rightarrow> heap \<Rightarrow> gval \<Rightarrow> addr gtree option"
  and read_fields :: "(string \<times> gty) list \<Rightarrow> heap \<Rightarrow> (string \<times> gval) list \<Rightarrow> (string \<times> addr gtree) list option" where
  "read Scalar_t h v = (case v of Scalar s \<Rightarrow> Some (Leaf s) | _ \<Rightarrow> None)"
| "read (Struct_t fs) h v = (case v of Struct gs \<Rightarrow> map_option Node (read_fields fs h gs) | _ \<Rightarrow> None)"
| "read (Ptr_t t) h v =
     (case v of
        Ref None \<Rightarrow> Some Nil_ref
      | Ref (Some a) \<Rightarrow> (case deref h a of Some (Obj x) \<Rightarrow> map_option (Target a) (read t h x) | _ \<Rightarrow> None)
      | _ \<Rightarrow> None)"
| "read (Slice_t t) h v =
     (case v of
        Ref None \<Rightarrow> Some Nil_ref
      | Ref (Some a) \<Rightarrow>
          (case deref h a of Some (Arr xs) \<Rightarrow> map_option (Elems a) (those (map (read t h) xs)) | _ \<Rightarrow> None)
      | _ \<Rightarrow> None)"
| "read (Map_t t) h v =
     (case v of
        Ref None \<Rightarrow> Some Nil_ref
      | Ref (Some a) \<Rightarrow>
          (case deref h a of
             Some (Tab kvs) \<Rightarrow>
               map_option (Entries a) (those (map (\<lambda>kv. map_option (Pair (fst kv)) (read t h (snd kv))) kvs))
           | _ \<Rightarrow> None)
      | _ \<Rightarrow> None)"
| "read_fields [] h gs = (if gs = [] then Some [] else None)"
| "read_fields (nt # fs) h gs =
     (case gs of
        [] \<Rightarrow> None
      | g # gs' \<Rightarrow>
          (if fst g \<noteq> fst nt then None
           else case read (snd nt) h (snd g) of
             None \<Rightarrow> None
           | Some T \<Rightarrow> map_option (Cons (fst nt, T)) (read_fields fs h gs')))"

abbreviation addrs :: "addr gtree \<Rightarrow> addr set" where "addrs \<equiv> set_gtree"

definition contents :: "'a gtree \<Rightarrow> unit gtree" where "contents = map_gtree (\<lambda>_. ())"

lemma those_map_eq:
  "those (map f xs) = Some ys \<longleftrightarrow> length ys = length xs \<and> (\<forall>i < length xs. f (xs ! i) = Some (ys ! i))"
proof (induction xs arbitrary: ys)
  case (Cons x xs)
  then show ?case by (cases ys) (auto simp: All_less_Suc2 split: option.split)
qed auto

lemma read_fields_eq:
  "read_fields fs h gs = Some Ts \<longleftrightarrow> map fst gs = map fst fs \<and> map fst Ts = map fst fs \<and>
     (\<forall>i < length fs. read (snd (fs ! i)) h (snd (gs ! i)) = Some (snd (Ts ! i)))"
proof (induction fs arbitrary: gs Ts)
  case (Cons f fs)
  show ?case
  proof (cases gs)
    case gs: (Cons g gs')
    show ?thesis
    proof (cases Ts)
      case Ts: (Cons T Ts')
      show ?thesis
        using Cons.IH [of gs' Ts'] by (cases T) (auto simp: gs Ts All_less_Suc2 split: option.split)
    qed (auto simp: gs split: option.split)
  qed simp
qed auto

text \<open>What a successful read of a type consists of.\<close>

lemma read_cases:
  "read Scalar_t h v = Some T \<longleftrightarrow> (\<exists>s. v = Scalar s \<and> T = Leaf s)"
  "read (Struct_t fs) h v = Some T \<longleftrightarrow> (\<exists>gs Ts. v = Struct gs \<and> T = Node Ts \<and>
     map fst gs = map fst fs \<and> map fst Ts = map fst fs \<and>
     (\<forall>i < length fs. read (snd (fs ! i)) h (snd (gs ! i)) = Some (snd (Ts ! i))))"
  "read (Ptr_t t) h v = Some T \<longleftrightarrow> v = Ref None \<and> T = Nil_ref \<or>
     (\<exists>a x S. v = Ref (Some a) \<and> deref h a = Some (Obj x) \<and> read t h x = Some S \<and> T = Target a S)"
  "read (Slice_t t) h v = Some T \<longleftrightarrow> v = Ref None \<and> T = Nil_ref \<or>
     (\<exists>a xs Ss. v = Ref (Some a) \<and> deref h a = Some (Arr xs) \<and> T = Elems a Ss \<and> length Ss = length xs \<and>
        (\<forall>i < length xs. read t h (xs ! i) = Some (Ss ! i)))"
  "read (Map_t t) h v = Some T \<longleftrightarrow> v = Ref None \<and> T = Nil_ref \<or>
     (\<exists>a kvs Ss. v = Ref (Some a) \<and> deref h a = Some (Tab kvs) \<and> T = Entries a Ss \<and> map fst Ss = map fst kvs \<and>
        (\<forall>i < length kvs. read t h (snd (kvs ! i)) = Some (snd (Ss ! i))))"
proof -
  have "those (map (\<lambda>kv. map_option (Pair (fst kv)) (read t h (snd kv))) kvs) = Some Ss \<longleftrightarrow>
      map fst Ss = map fst kvs \<and> (\<forall>i < length kvs. read t h (snd (kvs ! i)) = Some (snd (Ss ! i)))" for kvs Ss
    unfolding those_map_eq list_eq_iff_nth_eq by (auto simp: prod_eq_iff)
  then show "read (Map_t t) h v = Some T \<longleftrightarrow> v = Ref None \<and> T = Nil_ref \<or>
     (\<exists>a kvs Ss. v = Ref (Some a) \<and> deref h a = Some (Tab kvs) \<and> T = Entries a Ss \<and> map fst Ss = map fst kvs \<and>
        (\<forall>i < length kvs. read t h (snd (kvs ! i)) = Some (snd (Ss ! i))))"
    by (auto split: gval.splits option.splits cell.splits)
qed (auto simp: those_map_eq read_fields_eq split: gval.splits option.splits cell.splits)

declare read.simps [simp del] read_fields.simps [simp del]

section \<open>Reading depends on the reachable cells only\<close>

lemma snds_snd [simp]: "Basic_BNFs.snds x = {snd x}"
  by (cases x) simp

lemma addrs_nth:
  "a \<in> addrs (snd (Ts ! i)) \<Longrightarrow> i < length Ts \<Longrightarrow> a \<in> addrs (Node Ts)"
  "a \<in> addrs (snd (Ts ! i)) \<Longrightarrow> i < length Ts \<Longrightarrow> a \<in> addrs (Entries b Ts)"
  "a \<in> addrs (Ss ! i) \<Longrightarrow> i < length Ss \<Longrightarrow> a \<in> addrs (Elems b Ss)"
  by (auto intro!: bexI [of _ "Ts ! i"] bexI [of _ "Ss ! i"])

lemma addrs_nthE:
  "a \<in> addrs (Node Ts) \<Longrightarrow> (\<And>i. i < length Ts \<Longrightarrow> a \<in> addrs (snd (Ts ! i)) \<Longrightarrow> P) \<Longrightarrow> P"
  "a \<in> addrs (Entries b Ts) \<Longrightarrow> (a = b \<Longrightarrow> P) \<Longrightarrow> (\<And>i. i < length Ts \<Longrightarrow> a \<in> addrs (snd (Ts ! i)) \<Longrightarrow> P) \<Longrightarrow> P"
  "a \<in> addrs (Elems b Ss) \<Longrightarrow> (a = b \<Longrightarrow> P) \<Longrightarrow> (\<And>i. i < length Ss \<Longrightarrow> a \<in> addrs (Ss ! i) \<Longrightarrow> P) \<Longrightarrow> P"
  by (auto simp: in_set_conv_nth)

lemma field_type: "i < length fs \<Longrightarrow> snd (fs ! i) \<in> Basic_BNFs.snds (fs ! i)" by simp

lemma read_cong:
  "read t h v = Some T \<Longrightarrow> \<forall>a \<in> addrs T. deref h' a = deref h a \<Longrightarrow> read t h' v = Some T"
proof (induction t arbitrary: v T)
  case (Struct_t fs)
  from Struct_t.prems(1) obtain gs Ts where T: "v = Struct gs" "T = Node Ts" "map fst gs = map fst fs"
    "map fst Ts = map fst fs" "\<And>i. i < length fs \<Longrightarrow> read (snd (fs ! i)) h (snd (gs ! i)) = Some (snd (Ts ! i))"
    by (auto simp: read_cases)
  have "read (snd (fs ! i)) h' (snd (gs ! i)) = Some (snd (Ts ! i))" if "i < length fs" for i
    using that Struct_t.prems(2) addrs_nth(1) [of _ Ts i] map_eq_imp_length_eq [OF T(4)]
    by (intro Struct_t.IH [OF nth_mem field_type T(5)]) (auto simp only: T(2))
  with T show ?case by (auto simp: read_cases)
next
  case (Slice_t t)
  from Slice_t.prems(1) show ?case
  proof (subst (asm) read_cases, elim disjE exE conjE)
    fix a xs Ss
    assume *: "v = Ref (Some a)" "deref h a = Some (Arr xs)" "T = Elems a Ss" "length Ss = length xs"
      "\<forall>i < length xs. read t h (xs ! i) = Some (Ss ! i)"
    have "read t h' (xs ! i) = Some (Ss ! i)" if "i < length xs" for i
      using that * Slice_t.prems(2) addrs_nth(3) [of _ Ss i a] by (intro Slice_t.IH) auto
    with * Slice_t.prems(2) show ?thesis by (auto simp: read_cases)
  qed (simp add: read_cases)
next
  case (Map_t t)
  from Map_t.prems(1) show ?case
  proof (subst (asm) read_cases, elim disjE exE conjE)
    fix a kvs Ss
    assume *: "v = Ref (Some a)" "deref h a = Some (Tab kvs)" "T = Entries a Ss" "map fst Ss = map fst kvs"
      "\<forall>i < length kvs. read t h (snd (kvs ! i)) = Some (snd (Ss ! i))"
    have "read t h' (snd (kvs ! i)) = Some (snd (Ss ! i))" if "i < length kvs" for i
      using that * Map_t.prems(2) addrs_nth(2) [of _ Ss i a] map_eq_imp_length_eq [OF *(4)] by (intro Map_t.IH) auto
    with * Map_t.prems(2) show ?thesis by (auto simp: read_cases)
  qed (simp add: read_cases)
qed (auto simp: read_cases)

lemma read_allocated: "read t h v = Some T \<Longrightarrow> a \<in> addrs T \<Longrightarrow> a < length h"
proof (induction t arbitrary: v T)
  case (Struct_t fs)
  from Struct_t.prems(1) obtain gs Ts where T: "T = Node Ts" "map fst Ts = map fst fs"
    and "v = Struct gs" and sub: "\<forall>i < length fs. read (snd (fs ! i)) h (snd (gs ! i)) = Some (snd (Ts ! i))"
    unfolding read_cases by blast
  from Struct_t.prems(2) obtain i where i: "i < length Ts" "a \<in> addrs (snd (Ts ! i))"
    unfolding T(1) by (rule addrs_nthE)
  with map_eq_imp_length_eq [OF T(2)] show ?case
    by (intro Struct_t.IH [OF nth_mem field_type sub [rule_format]]) auto
next
  case (Slice_t t)
  from Slice_t.prems show ?case
    by (auto simp: read_cases deref_def split: if_splits simp del: gtree.set(2,5,6) elim!: addrs_nthE intro: Slice_t.IH)
next
  case (Map_t t)
  from Map_t.prems show ?case
    by (auto simp: read_cases deref_def split: if_splits dest!: map_eq_imp_length_eq
        simp del: gtree.set(2,5,6) elim!: addrs_nthE intro: Map_t.IH)
qed (auto simp: read_cases deref_def split: if_splits)

text \<open>A heap grows when old cells keep what they hold.\<close>

definition grows :: "heap \<Rightarrow> heap \<Rightarrow> bool" where
  "grows h h' \<longleftrightarrow> length h \<le> length h' \<and> (\<forall>a < length h. h' ! a = h ! a)"

lemma grows_refl [simp, intro]: "grows h h" by (simp add: grows_def)

lemma grows_trans [trans]: "grows h h' \<Longrightarrow> grows h' h'' \<Longrightarrow> grows h h''" by (simp add: grows_def)

lemma grows_append [simp]: "grows h (h @ c)" by (simp add: grows_def nth_append)

lemma grows_length: "grows h h' \<Longrightarrow> length h \<le> length h'" by (simp add: grows_def)

lemma grows_deref: "grows h h' \<Longrightarrow> a < length h \<Longrightarrow> deref h' a = deref h a"
  by (simp add: grows_def deref_def)

lemma grows_read: "grows h h' \<Longrightarrow> read t h v = Some T \<Longrightarrow> read t h' v = Some T"
  by (rule read_cong) (auto dest: read_allocated grows_deref)

section \<open>Copying\<close>

definition fetch :: "addr \<Rightarrow> (heap, cell option) state" where
  "fetch a = State (\<lambda>h. (deref h a, h))"

definition alloc :: "cell \<Rightarrow> (heap, gval) state" where
  "alloc c = State (\<lambda>h. (Ref (Some (length h)), h @ [c]))"

fun mapM :: "('a \<Rightarrow> ('w, 'b) state) \<Rightarrow> 'a list \<Rightarrow> ('w, 'b list) state" where
  "mapM f [] = State_Monad.return []"
| "mapM f (x # xs) = do { y \<leftarrow> f x; ys \<leftarrow> mapM f xs; State_Monad.return (y # ys) }"

text \<open>The four patterns of the generated code. \<open>struct_copy\<close> is the assignment of the whole struct
  followed by one statement per listed field; the others allocate unless the reference is nil.\<close>

fun get_field :: "string \<Rightarrow> gval \<Rightarrow> gval" where
  "get_field n (Struct gs) = (case map_of gs n of Some x \<Rightarrow> x | None \<Rightarrow> Ref None)"
| "get_field n v = Ref None"

fun set_field :: "string \<Rightarrow> gval \<Rightarrow> gval \<Rightarrow> gval" where
  "set_field n x (Struct gs) = Struct (map (\<lambda>g. if fst g = n then (n, x) else g) gs)"
| "set_field n x v = v"

fun copy_fields :: "(string \<times> (gval \<Rightarrow> (heap, gval) state)) list \<Rightarrow> gval \<Rightarrow> gval \<Rightarrow> (heap, gval) state" where
  "copy_fields [] inn out = State_Monad.return out"
| "copy_fields ((n, f) # steps) inn out = do {
     x \<leftarrow> f (get_field n inn);
     copy_fields steps inn (set_field n x out)
   }"

definition struct_copy :: "(string \<times> (gval \<Rightarrow> (heap, gval) state)) list \<Rightarrow> gval \<Rightarrow> (heap, gval) state" where
  "struct_copy steps inn = copy_fields steps inn inn"

definition ptr_copy :: "(gval \<Rightarrow> (heap, gval) state) \<Rightarrow> gval \<Rightarrow> (heap, gval) state" where
  "ptr_copy f p =
     (case p of
        Ref (Some a) \<Rightarrow> do {
          c \<leftarrow> fetch a;
          (case c of
             Some (Obj x) \<Rightarrow> do { y \<leftarrow> f x; alloc (Obj y) }
           | _ \<Rightarrow> State_Monad.return p)
        }
      | _ \<Rightarrow> State_Monad.return p)"

definition slice_copy :: "(gval \<Rightarrow> (heap, gval) state) \<Rightarrow> gval \<Rightarrow> (heap, gval) state" where
  "slice_copy f p =
     (case p of
        Ref (Some a) \<Rightarrow> do {
          c \<leftarrow> fetch a;
          (case c of
             Some (Arr xs) \<Rightarrow> do { ys \<leftarrow> mapM f xs; alloc (Arr ys) }
           | _ \<Rightarrow> State_Monad.return p)
        }
      | _ \<Rightarrow> State_Monad.return p)"

definition map_copy :: "(gval \<Rightarrow> (heap, gval) state) \<Rightarrow> gval \<Rightarrow> (heap, gval) state" where
  "map_copy f p =
     (case p of
        Ref (Some a) \<Rightarrow> do {
          c \<leftarrow> fetch a;
          (case c of
             Some (Tab kvs) \<Rightarrow> do {
               kvs' \<leftarrow> mapM (\<lambda>kv. do { y \<leftarrow> f (snd kv); State_Monad.return (fst kv, y) }) kvs;
               alloc (Tab kvs')
             }
           | _ \<Rightarrow> State_Monad.return p)
        }
      | _ \<Rightarrow> State_Monad.return p)"

section \<open>The contract of a copy\<close>

text \<open>\<open>v'\<close> in the heap \<open>h'\<close> is a copy of \<open>v\<close> in \<open>h\<close>: it has the same contents and reaches only cells
  that \<open>h\<close> does not have.\<close>

definition cloned :: "heap \<Rightarrow> heap \<Rightarrow> gty \<Rightarrow> gval \<Rightarrow> gval \<Rightarrow> bool" where
  "cloned h h' t v v' \<longleftrightarrow>
     (\<exists>T T'. read t h v = Some T \<and> read t h' v' = Some T' \<and> contents T' = contents T \<and> (\<forall>a \<in> addrs T'. length h \<le> a))"

definition clones :: "gty \<Rightarrow> (gval \<Rightarrow> (heap, gval) state) \<Rightarrow> bool" where
  "clones t f \<longleftrightarrow> (\<forall>h v. read t h v \<noteq> None \<longrightarrow> wp (f v) (\<lambda>v' h'. grows h h' \<and> cloned h h' t v v') h)"

lemma cloned_grows: "cloned h h' t v v' \<Longrightarrow> grows h' h'' \<Longrightarrow> cloned h h'' t v v'"
  unfolding cloned_def by (blast intro: grows_read)

lemma cloned_older:
  "cloned h1 h' t v v' \<Longrightarrow> grows h h1 \<Longrightarrow> read t h v \<noteq> None \<Longrightarrow> cloned h h' t v v'"
proof -
  assume *: "cloned h1 h' t v v'" "grows h h1" "read t h v \<noteq> None"
  from *(3) obtain T where T: "read t h v = Some T" by blast
  from *(1) obtain T1 T' where T': "read t h1 v = Some T1" "read t h' v' = Some T'" "contents T' = contents T1"
    "\<forall>a \<in> addrs T'. length h1 \<le> a"
    unfolding cloned_def by blast
  from grows_read [OF *(2) T] T'(1) have "T1 = T" by simp
  moreover have "\<forall>a \<in> addrs T'. length h \<le> a" using T'(4) grows_length [OF *(2)] by (meson le_trans)
  ultimately show ?thesis unfolding cloned_def using T T'(2,3) by blast
qed

lemma clonesD:
  assumes "clones t f" and "grows h h1" and "read t h v \<noteq> None"
  shows "wp (f v) (\<lambda>v' h'. grows h1 h' \<and> cloned h h' t v v') h1"
proof -
  from assms(3) obtain T where "read t h v = Some T" by blast
  from grows_read [OF assms(2) this] have "read t h1 v \<noteq> None" by simp
  with assms(1) have "wp (f v) (\<lambda>v' h'. grows h1 h' \<and> cloned h1 h' t v v') h1" by (simp add: clones_def)
  then show ?thesis by (rule wp_mono) (simp add: cloned_older [OF _ assms(2,3)])
qed

lemma clones_rule:
  assumes "clones t f" "grows h h1" "read t h v \<noteq> None"
    and "\<And>v' h'. grows h1 h' \<Longrightarrow> cloned h h' t v v' \<Longrightarrow> Q v' h'"
  shows "wp (f v) Q h1"
  by (rule wp_mono [OF clonesD [OF assms(1-3)]]) (blast intro: assms(4))

lemma wp_fetch [simp]: "wp (fetch a) Q h = Q (deref h a) h"
  by (simp add: wp_def fetch_def)

lemma wp_alloc [simp]: "wp (alloc c) Q h = Q (Ref (Some (length h))) (h @ [c])"
  by (simp add: wp_def alloc_def)

lemma deref_last [simp]: "deref (h @ [c]) (length h) = Some c"
  by (simp add: deref_def)

lemma wp_mapM:
  assumes "\<And>x h1. x \<in> set xs \<Longrightarrow> grows h h1 \<Longrightarrow> wp (f x) (\<lambda>y h'. grows h1 h' \<and> R h' x y) h1"
    and "\<And>h' h'' x y. R h' x y \<Longrightarrow> grows h' h'' \<Longrightarrow> R h'' x y"
  shows "grows h h1 \<Longrightarrow> wp (mapM f xs) (\<lambda>ys h'. grows h1 h' \<and> list_all2 (R h') xs ys) h1"
  using assms(1)
proof (induction xs arbitrary: h1)
  case (Cons x xs)
  have tail: "wp (mapM f xs) (\<lambda>ys h'. grows h2 h' \<and> list_all2 (R h') xs ys) h2" if "grows h h2" for h2
    by (rule Cons.IH [OF that]) (simp add: Cons.prems(2))
  show ?case
    unfolding mapM.simps wp_simps
  proof (rule wp_mono [OF Cons.prems(2) [OF _ Cons.prems(1)]])
    fix y h2
    assume *: "grows h1 h2 \<and> R h2 x y"
    with Cons.prems(1) have "grows h h2" by (blast intro: grows_trans)
    from tail [OF this] show "wp (mapM f xs) (\<lambda>ys h'. grows h1 h' \<and> list_all2 (R h') (x # xs) (y # ys)) h2"
      by (rule wp_mono) (use * in \<open>auto intro: grows_trans assms(2)\<close>)
  qed simp
qed simp

section \<open>The patterns meet the contract\<close>

lemma contents_simps [simp]:
  "contents (Leaf s) = Leaf s" "contents Nil_ref = Nil_ref"
  "contents (Node Ts) = Node (map (\<lambda>x. (fst x, contents (snd x))) Ts)"
  "contents (Target a T) = Target () (contents T)" "contents (Elems a Ss) = Elems () (map contents Ss)"
  "contents (Entries a Ts) = Entries () (map (\<lambda>x. (fst x, contents (snd x))) Ts)"
  by (auto simp: contents_def map_prod_def split_beta)

lemma cloned_ptr:
  assumes "cloned h h' t x y" "deref h a = Some (Obj x)" "grows h h'"
  shows "cloned h (h' @ [Obj y]) (Ptr_t t) (Ref (Some a)) (Ref (Some (length h')))"
proof -
  from assms(1) obtain T T' where T: "read t h x = Some T" "read t h' y = Some T'" "contents T' = contents T"
    "\<forall>a \<in> addrs T'. length h \<le> a"
    by (auto simp: cloned_def)
  have "read (Ptr_t t) h (Ref (Some a)) = Some (Target a T)"
    "read (Ptr_t t) (h' @ [Obj y]) (Ref (Some (length h'))) = Some (Target (length h') T')"
    using assms(2) T grows_read [OF grows_append T(2)] by (auto simp: read_cases)
  with T grows_length [OF assms(3)] show ?thesis by (auto simp: cloned_def)
qed

lemma clones_ptr:
  assumes "clones t f"
  shows "clones (Ptr_t t) (ptr_copy f)"
  unfolding clones_def
proof (intro allI impI)
  fix h v
  assume "read (Ptr_t t) h v \<noteq> None"
  then obtain T where "read (Ptr_t t) h v = Some T" by blast
  then show "wp (ptr_copy f v) (\<lambda>v' h'. grows h h' \<and> cloned h h' (Ptr_t t) v v') h"
  proof (subst (asm) read_cases, elim disjE exE conjE)
    fix a x S
    assume *: "v = Ref (Some a)" "deref h a = Some (Obj x)" "read t h x = Some S"
    then have "read t h x \<noteq> None" by simp
    from clonesD [OF assms grows_refl this] have "wp (f x) (\<lambda>v' h'. grows h h' \<and> cloned h h' t x v') h" .
    then have "wp (f x \<bind> (\<lambda>y. alloc (Obj y))) (\<lambda>v' h'. grows h h' \<and> cloned h h' (Ptr_t t) v v') h"
      unfolding wp_bind wp_alloc
      by (rule wp_mono) (auto simp: *(1) intro: cloned_ptr *(2) grows_trans)
    then show ?thesis by (simp add: ptr_copy_def * del: wp_alloc)
  qed (simp add: ptr_copy_def cloned_def read_cases)
qed

lemma cloned_the:
  "cloned h h' t x y \<longleftrightarrow> read t h x = Some (the (read t h x)) \<and> read t h' y = Some (the (read t h' y)) \<and>
     contents (the (read t h' y)) = contents (the (read t h x)) \<and> (\<forall>a \<in> addrs (the (read t h' y)). length h \<le> a)"
  by (auto simp: cloned_def)

lemma cloned_slice:
  assumes "list_all2 (cloned h h' t) xs ys" "deref h a = Some (Arr xs)" "grows h h'"
  shows "cloned h (h' @ [Arr ys]) (Slice_t t) (Ref (Some a)) (Ref (Some (length h')))"
proof -
  let ?h = "h' @ [Arr ys]"
  let ?S = "map (\<lambda>x. the (read t h x)) xs" and ?S' = "map (\<lambda>y. the (read t ?h y)) ys"
  from assms(1) have len: "length ys = length xs" by (simp add: list_all2_lengthD)
  have el: "cloned h ?h t (xs ! i) (ys ! i)" if "i < length xs" for i
    using assms(1) that by (auto dest: list_all2_nthD intro: cloned_grows)
  note el' = el [unfolded cloned_the]
  have "read (Slice_t t) h (Ref (Some a)) = Some (Elems a ?S)" using assms(2) el' by (auto simp: read_cases)
  moreover have "read (Slice_t t) ?h (Ref (Some (length h'))) = Some (Elems (length h') ?S')"
    using el' len by (auto simp: read_cases)
  moreover have "map contents ?S' = map contents ?S" using el' len by (auto simp: list_eq_iff_nth_eq)
  moreover have "\<forall>b \<in> addrs (Elems (length h') ?S'). length h \<le> b"
    using el' len grows_length [OF assms(3)] by (auto simp: in_set_conv_nth)
  ultimately show ?thesis by (auto simp: cloned_def)
qed

lemma cloned_map:
  assumes "list_all2 (\<lambda>kv kv'. fst kv' = fst kv \<and> cloned h h' t (snd kv) (snd kv')) xs ys"
    "deref h a = Some (Tab xs)" "grows h h'"
  shows "cloned h (h' @ [Tab ys]) (Map_t t) (Ref (Some a)) (Ref (Some (length h')))"
proof -
  let ?h = "h' @ [Tab ys]"
  let ?S = "map (\<lambda>x. (fst x, the (read t h (snd x)))) xs" and ?S' = "map (\<lambda>y. (fst y, the (read t ?h (snd y)))) ys"
  from assms(1) have len: "length ys = length xs" by (simp add: list_all2_lengthD)
  have el: "fst (ys ! i) = fst (xs ! i)" "cloned h ?h t (snd (xs ! i)) (snd (ys ! i))" if "i < length xs" for i
    using assms(1) that by (auto dest: list_all2_nthD intro: cloned_grows)
  note el' = el(2) [unfolded cloned_the]
  have "read (Map_t t) h (Ref (Some a)) = Some (Entries a ?S)" using assms(2) el' by (auto simp: read_cases)
  moreover have "read (Map_t t) ?h (Ref (Some (length h'))) = Some (Entries (length h') ?S')"
    using el' len by (auto simp: read_cases)
  moreover have "contents (Entries (length h') ?S') = contents (Entries a ?S)"
    using el' el(1) len by (auto simp: list_eq_iff_nth_eq)
  moreover have "\<forall>b \<in> addrs (Entries (length h') ?S'). length h \<le> b"
    using el' len grows_length [OF assms(3)] by (auto simp: in_set_conv_nth)
  ultimately show ?thesis by (auto simp: cloned_def)
qed

lemma clones_slice:
  assumes "clones t f"
  shows "clones (Slice_t t) (slice_copy f)"
  unfolding clones_def
proof (intro allI impI)
  fix h v
  assume "read (Slice_t t) h v \<noteq> None"
  then obtain T where "read (Slice_t t) h v = Some T" by blast
  then show "wp (slice_copy f v) (\<lambda>v' h'. grows h h' \<and> cloned h h' (Slice_t t) v v') h"
  proof (subst (asm) read_cases, elim disjE exE conjE)
    fix a xs Ss
    assume *: "v = Ref (Some a)" "deref h a = Some (Arr xs)" "\<forall>i < length xs. read t h (xs ! i) = Some (Ss ! i)"
    have "wp (mapM f xs) (\<lambda>ys h'. grows h h' \<and> list_all2 (\<lambda>x y. cloned h h' t x y) xs ys) h"
      by (rule wp_mapM [OF clonesD [OF assms] cloned_grows grows_refl]) (use *(3) in \<open>auto simp: in_set_conv_nth\<close>)
    then have "wp (mapM f xs \<bind> (\<lambda>ys. alloc (Arr ys))) (\<lambda>v' h'. grows h h' \<and> cloned h h' (Slice_t t) v v') h"
      unfolding wp_bind wp_alloc
      by (rule wp_mono) (auto simp: *(1) intro: cloned_slice *(2) grows_trans)
    then show ?thesis by (simp add: slice_copy_def *(1,2) del: wp_alloc)
  qed (simp add: slice_copy_def cloned_def read_cases)
qed

lemma clones_map:
  assumes "clones t f"
  shows "clones (Map_t t) (map_copy f)"
  unfolding clones_def
proof (intro allI impI)
  fix h v
  assume "read (Map_t t) h v \<noteq> None"
  then obtain T where "read (Map_t t) h v = Some T" by blast
  then show "wp (map_copy f v) (\<lambda>v' h'. grows h h' \<and> cloned h h' (Map_t t) v v') h"
  proof (subst (asm) read_cases, elim disjE exE conjE)
    fix a xs Ss
    assume *: "v = Ref (Some a)" "deref h a = Some (Tab xs)"
      "\<forall>i < length xs. read t h (snd (xs ! i)) = Some (snd (Ss ! i))"
    let ?f = "\<lambda>kv. do { y \<leftarrow> f (snd kv); State_Monad.return (fst kv, y) }"
    have "wp (mapM ?f xs) (\<lambda>ys h'. grows h h' \<and>
        list_all2 (\<lambda>x y. fst y = fst x \<and> cloned h h' t (snd x) (snd y)) xs ys) h"
    proof (rule wp_mapM [OF _ _ grows_refl], goal_cases)
      case (1 x h1)
      then show ?case
        using *(3) by (auto simp: in_set_conv_nth intro!: clones_rule [OF assms 1(2)])
    qed (auto intro: cloned_grows)
    then have "wp (mapM ?f xs \<bind> (\<lambda>ys. alloc (Tab ys))) (\<lambda>v' h'. grows h h' \<and> cloned h h' (Map_t t) v v') h"
      unfolding wp_bind [of "mapM ?f xs"] wp_alloc
      by (rule wp_mono) (auto simp: *(1) intro: cloned_map *(2) grows_trans)
    then show ?thesis by (simp add: map_copy_def *(1,2) del: wp_alloc)
  qed (simp add: map_copy_def cloned_def read_cases)
qed

section \<open>Structs\<close>

text \<open>A type without references: its values are copied by assignment.\<close>

fun plain :: "gty \<Rightarrow> bool" where
  "plain Scalar_t = True"
| "plain (Struct_t fs) = list_all (\<lambda>f. plain (snd f)) fs"
| "plain _ = False"

lemma plain_addrs: "plain t \<Longrightarrow> read t h v = Some T \<Longrightarrow> addrs T = {}"
proof (induction t arbitrary: v T)
  case (Struct_t fs)
  from Struct_t.prems(2) obtain gs Ts where T: "T = Node Ts" "map fst Ts = map fst fs"
    and "v = Struct gs" and sub: "\<forall>i < length fs. read (snd (fs ! i)) h (snd (gs ! i)) = Some (snd (Ts ! i))"
    unfolding read_cases by blast
  have "addrs (snd (Ts ! i)) = {}" if "i < length fs" for i
    using that Struct_t.prems(1) sub by (intro Struct_t.IH [OF nth_mem field_type]) (auto simp: list_all_length)
  with map_eq_imp_length_eq [OF T(2)] show ?case unfolding T(1) by (auto simp del: gtree.set elim!: addrs_nthE)
qed (auto simp: read_cases)

lemma plain_cloned: "plain t \<Longrightarrow> read t h v \<noteq> None \<Longrightarrow> cloned h h t v v"
  by (auto simp: cloned_def plain_addrs)

lemma clones_plain: "plain t \<Longrightarrow> clones t State_Monad.return"
  by (simp add: clones_def plain_cloned)

lemma get_field_nth:
  "distinct (map fst gs) \<Longrightarrow> i < length gs \<Longrightarrow> get_field (fst (gs ! i)) (Struct gs) = snd (gs ! i)"
proof -
  assume *: "distinct (map fst gs)" "i < length gs"
  from *(2) have "(fst (gs ! i), snd (gs ! i)) \<in> set gs" by simp
  from map_of_is_SomeI [OF *(1) this] show ?thesis by simp
qed

text \<open>What remains to be copied is listed in \<open>steps\<close>; every other field of \<open>out\<close> is a copy already.\<close>

lemma wp_copy_fields:
  assumes fs: "distinct (map fst fs)" and gs: "map fst gs = map fst fs"
    and sub: "\<And>i. i < length fs \<Longrightarrow> read (snd (fs ! i)) h (snd (gs ! i)) \<noteq> None"
  shows "list_all (\<lambda>(n, f). \<exists>t. map_of fs n = Some t \<and> clones t f) steps \<Longrightarrow> grows h h1 \<Longrightarrow> map fst os = map fst fs \<Longrightarrow>
     (\<And>i. i < length fs \<Longrightarrow> fst (fs ! i) \<notin> fst ` set steps \<Longrightarrow> cloned h h1 (snd (fs ! i)) (snd (gs ! i)) (snd (os ! i))) \<Longrightarrow>
     wp (copy_fields steps (Struct gs) (Struct os)) (\<lambda>out' h'. grows h1 h' \<and> (\<exists>os'. out' = Struct os' \<and>
        map fst os' = map fst fs \<and>
        (\<forall>i < length fs. cloned h h' (snd (fs ! i)) (snd (gs ! i)) (snd (os' ! i))))) h1"
proof (induction steps arbitrary: h1 os)
  case (Cons s steps)
  obtain n f where s: "s = (n, f)" by (cases s)
  from Cons.prems(1) obtain t where t: "map_of fs n = Some t" "clones t f" by (auto simp: s)
  from t(1) fs obtain k where k: "k < length fs" "fst (fs ! k) = n" "snd (fs ! k) = t"
    by (force simp: map_of_eq_Some_iff in_set_conv_nth)
  note len = map_eq_imp_length_eq [OF gs] map_eq_imp_length_eq [OF Cons.prems(3)]
  have name: "fst (gs ! i) = fst (fs ! i)" "fst (os ! i) = fst (fs ! i)" if "i < length fs" for i
    using that gs Cons.prems(3) len by (metis nth_map)+
  have val: "get_field n (Struct gs) = snd (gs ! k)"
    using get_field_nth [of gs k] k fs gs len name by metis
  have "read t h (get_field n (Struct gs)) \<noteq> None" using sub [OF k(1)] k(3) val by simp
  from clonesD [OF t(2) Cons.prems(2) this] show ?case
    unfolding s copy_fields.simps wp_simps
  proof (rule wp_mono, goal_cases)
    case (1 x h2)
    let ?os = "map (\<lambda>g. if fst g = n then (n, x) else g) os"
    have names: "map fst ?os = map fst fs" using Cons.prems(3) by (auto simp: o_def list_eq_iff_nth_eq)
    have "cloned h h2 (snd (fs ! i)) (snd (gs ! i)) (snd (?os ! i))"
      if "i < length fs" "fst (fs ! i) \<notin> fst ` set steps" for i
    proof (cases "fst (fs ! i) = n")
      case True
      with k that(1) fs have "i = k" by (metis length_map nth_eq_iff_index_eq nth_map)
      with 1 val k that(1) len name show ?thesis by simp
    next
      case False
      with that Cons.prems(4) [of i] 1 len name show ?thesis by (auto simp: s intro: cloned_grows)
    qed
    moreover from 1 Cons.prems(2) have "grows h h2" by (blast intro: grows_trans)
    ultimately have "wp (copy_fields steps (Struct gs) (Struct ?os)) (\<lambda>out' h'. grows h2 h' \<and>
        (\<exists>os'. out' = Struct os' \<and> map fst os' = map fst fs \<and>
          (\<forall>i < length fs. cloned h h' (snd (fs ! i)) (snd (gs ! i)) (snd (os' ! i))))) h2"
      using Cons.prems(1) names by (intro Cons.IH) auto
    then show ?case
      unfolding set_field.simps by (rule wp_mono) (use 1 in \<open>blast intro: grows_trans\<close>)
  qed
qed auto

lemma map_fst_map2: "length xs = length ys \<Longrightarrow> map fst (map2 (\<lambda>x y. (fst x, g x y)) xs ys) = map fst xs"
  by (rule nth_equalityI) auto

lemma cloned_struct:
  assumes gs: "map fst gs = map fst fs" and os: "map fst os = map fst fs"
    and sub: "\<forall>i < length fs. cloned h h' (snd (fs ! i)) (snd (gs ! i)) (snd (os ! i))"
  shows "cloned h h' (Struct_t fs) (Struct gs) (Struct os)"
proof -
  let ?S = "map2 (\<lambda>f g. (fst f, the (read (snd f) h (snd g)))) fs gs"
    and ?S' = "map2 (\<lambda>f g. (fst f, the (read (snd f) h' (snd g)))) fs os"
  note len = map_eq_imp_length_eq [OF gs] map_eq_imp_length_eq [OF os]
  note sub = sub [unfolded cloned_the]
  have "read (Struct_t fs) h (Struct gs) = Some (Node ?S)" "read (Struct_t fs) h' (Struct os) = Some (Node ?S')"
    using gs os len sub by (auto simp: read_cases map_fst_map2 simp del: map_map)
  moreover have "contents (Node ?S') = contents (Node ?S)"
    using len sub by (auto intro!: nth_equalityI)
  moreover have "\<forall>a \<in> addrs (Node ?S'). length h \<le> a"
    using len sub by (auto simp: in_set_conv_nth)
  ultimately show ?thesis by (auto simp: cloned_def)
qed

lemma clones_struct:
  assumes fs: "distinct (map fst fs)"
    and steps: "list_all (\<lambda>(n, f). \<exists>t. map_of fs n = Some t \<and> clones t f) steps"
    and rest: "list_all (\<lambda>(n, t). n \<in> fst ` set steps \<or> plain t) fs"
  shows "clones (Struct_t fs) (struct_copy steps)"
  unfolding clones_def
proof (intro allI impI)
  fix h v
  assume "read (Struct_t fs) h v \<noteq> None"
  then obtain gs where v: "v = Struct gs" and gs: "map fst gs = map fst fs"
    and sub: "\<And>i. i < length fs \<Longrightarrow> read (snd (fs ! i)) h (snd (gs ! i)) \<noteq> None"
    by (auto simp: read_cases)
  have "cloned h h (snd (fs ! i)) (snd (gs ! i)) (snd (gs ! i))"
    if "i < length fs" "fst (fs ! i) \<notin> fst ` set steps" for i
    using that rest sub [OF that(1)] by (intro plain_cloned) (auto simp: list_all_length split_beta)
  from wp_copy_fields [OF fs gs sub steps grows_refl gs this]
  show "wp (struct_copy steps v) (\<lambda>v' h'. grows h h' \<and> cloned h h' (Struct_t fs) v v') h"
    unfolding v struct_copy_def by (rule wp_mono) (auto intro: cloned_struct gs)
qed

text \<open>The deep copy that a type alone determines.\<close>

fun deep_copy :: "gty \<Rightarrow> gval \<Rightarrow> (heap, gval) state" where
  "deep_copy Scalar_t = State_Monad.return"
| "deep_copy (Struct_t fs) = struct_copy (map (\<lambda>f. (fst f, deep_copy (snd f))) fs)"
| "deep_copy (Ptr_t t) = ptr_copy (deep_copy t)"
| "deep_copy (Slice_t t) = slice_copy (deep_copy t)"
| "deep_copy (Map_t t) = map_copy (deep_copy t)"

fun proper :: "gty \<Rightarrow> bool" where
  "proper Scalar_t = True"
| "proper (Struct_t fs) = (distinct (map fst fs) \<and> list_all (\<lambda>f. proper (snd f)) fs)"
| "proper (Ptr_t t) = proper t"
| "proper (Slice_t t) = proper t"
| "proper (Map_t t) = proper t"

lemma clones_deep_copy: "proper t \<Longrightarrow> clones t (deep_copy t)"
proof (induction t)
  case (Struct_t fs)
  then show ?case by (force simp: list_all_iff image_image intro!: clones_struct)
qed (auto intro: clones_plain clones_ptr clones_slice clones_map)

section \<open>Copies do not interfere\<close>

text \<open>What a write to the cells of the one cannot do to the other: the original reads the same
  whatever happens to the cells that came after it, and the copy whatever happens to those before.\<close>

definition isolated :: "heap \<Rightarrow> heap \<Rightarrow> gty \<Rightarrow> gval \<Rightarrow> gval \<Rightarrow> bool" where
  "isolated h h' t v v' \<longleftrightarrow>
     (\<forall>g. grows h g \<longrightarrow> read t g v = read t h v) \<and>
     (\<forall>g. length h' \<le> length g \<longrightarrow> (\<forall>a. length h \<le> a \<longrightarrow> a < length h' \<longrightarrow> g ! a = h' ! a) \<longrightarrow>
        read t g v' = read t h' v')"

lemma cloned_isolated:
  assumes "cloned h h' t v v'"
  shows "isolated h h' t v v'"
proof -
  from assms obtain T T' where T: "read t h v = Some T" "read t h' v' = Some T'" "\<forall>a \<in> addrs T'. length h \<le> a"
    by (auto simp: cloned_def)
  have "read t g v' = Some T'"
    if "length h' \<le> length g" "\<forall>a. length h \<le> a \<longrightarrow> a < length h' \<longrightarrow> g ! a = h' ! a" for g
    by (rule read_cong [OF T(2)]) (use that T(3) read_allocated [OF T(2)] in \<open>force simp: deref_def dest: less_le_trans\<close>)
  with T(1,2) show ?thesis by (simp add: isolated_def grows_read)
qed

end
