(* ===== verification/DeepCopy.thy ===== *)
theory DeepCopy
  imports GoHeap
begin

text \<open>
  \<open>api/v1alpha1/zz_generated.deepcopy.go\<close>, which its header says was written by hand to stand for the
  output of controller-gen: the types of the API with their references, and the three functions of each
  type. A \<open>DeepCopyInto\<close> is the value it leaves in \<open>out\<close>. The functions of apimachinery that it calls
  are the fields of \<open>extern\<close>; \<open>extern_ok\<close> is what they promise.
\<close>

named_theorems go_types \<open>the types of the API\<close>
named_theorems clones_intros \<open>what copies what\<close>
named_theorems deepcopy_defs \<open>the functions of the generated file\<close>

section \<open>The library\<close>

record extern =
  ObjectMeta_t :: gty
  ListMeta_t :: gty
  Condition_t :: gty
  Time_t :: gty
  Quantity_t :: gty
  ObjectMeta_DeepCopyInto :: "gval \<Rightarrow> (heap, gval) state"
  ListMeta_DeepCopyInto :: "gval \<Rightarrow> (heap, gval) state"
  Condition_DeepCopyInto :: "gval \<Rightarrow> (heap, gval) state"
  Time_DeepCopy :: "gval \<Rightarrow> (heap, gval) state"
  Quantity_DeepCopy :: "gval \<Rightarrow> (heap, gval) state"

definition extern_ok :: "extern \<Rightarrow> bool" where
  "extern_ok E \<longleftrightarrow>
     clones (ObjectMeta_t E) (ObjectMeta_DeepCopyInto E) \<and> clones (ListMeta_t E) (ListMeta_DeepCopyInto E) \<and>
     clones (Condition_t E) (Condition_DeepCopyInto E) \<and> clones (Ptr_t (Time_t E)) (Time_DeepCopy E) \<and>
     clones (Quantity_t E) (Quantity_DeepCopy E)"

section \<open>The types of the API\<close>

definition go_TypeMeta :: gty where [go_types]:
  "go_TypeMeta = Struct_t [(''Kind'', Scalar_t), (''APIVersion'', Scalar_t)]"

definition go_TenantReference :: gty where [go_types]:
  "go_TenantReference = Struct_t [
     (''Name'', Scalar_t)]"

definition go_SecretReference :: gty where [go_types]:
  "go_SecretReference = Struct_t [
     (''Name'', Scalar_t)]"

definition go_SecretKeySelector :: gty where [go_types]:
  "go_SecretKeySelector = Struct_t [
     (''Name'', Scalar_t), (''Key'', Scalar_t), (''Optional'', Scalar_t)]"

definition go_SubjectReference :: gty where [go_types]:
  "go_SubjectReference = Struct_t [
     (''Kind'', Scalar_t), (''Name'', Scalar_t), (''Namespace'', Scalar_t)]"

definition go_TenantQuota :: "extern \<Rightarrow> gty" where [go_types]:
  "go_TenantQuota E = Struct_t [
     (''Hard'', Map_t (Quantity_t E))]"

definition go_TenantLimits :: "extern \<Rightarrow> gty" where [go_types]:
  "go_TenantLimits E = Struct_t [
     (''Default'', Map_t (Quantity_t E)), (''DefaultRequest'', Map_t (Quantity_t E)),
     (''Max'', Map_t (Quantity_t E))]"

definition go_LifecyclePolicy :: gty where [go_types]:
  "go_LifecyclePolicy = Struct_t [
     (''Suspended'', Scalar_t), (''DeletionPolicy'', Scalar_t)]"

definition go_TenantSpec :: "extern \<Rightarrow> gty" where [go_types]:
  "go_TenantSpec E = Struct_t [
     (''DisplayName'', Scalar_t), (''Tier'', Scalar_t), (''NamespacePrefix'', Scalar_t),
     (''Quota'', Ptr_t (go_TenantQuota E)), (''Limits'', Ptr_t (go_TenantLimits E)),
     (''NetworkIsolation'', Scalar_t), (''Admins'', Slice_t go_SubjectReference),
     (''ExtraLabels'', Map_t Scalar_t), (''Lifecycle'', go_LifecyclePolicy)]"

definition go_TenantStatus :: "extern \<Rightarrow> gty" where [go_types]:
  "go_TenantStatus E = Struct_t [
     (''Phase'', Scalar_t), (''Conditions'', Slice_t (Condition_t E)), (''ObservedGeneration'', Scalar_t),
     (''Namespace'', Scalar_t), (''EnvironmentCount'', Scalar_t), (''IntegrationCount'', Scalar_t),
     (''LastReconcileTime'', Ptr_t (Time_t E))]"

definition go_Tenant :: "extern \<Rightarrow> gty" where [go_types]:
  "go_Tenant E = Struct_t [
     (''TypeMeta'', go_TypeMeta), (''ObjectMeta'', ObjectMeta_t E), (''Spec'', go_TenantSpec E),
     (''Status'', go_TenantStatus E)]"

definition go_TenantList :: "extern \<Rightarrow> gty" where [go_types]:
  "go_TenantList E = Struct_t [
     (''TypeMeta'', go_TypeMeta), (''ListMeta'', ListMeta_t E), (''Items'', Slice_t (go_Tenant E))]"

definition go_GitSource :: gty where [go_types]:
  "go_GitSource = Struct_t [
     (''RepoURL'', Scalar_t), (''Revision'', Scalar_t), (''Path'', Scalar_t)]"

definition go_GitOpsConfig :: gty where [go_types]:
  "go_GitOpsConfig = Struct_t [
     (''Provider'', Scalar_t), (''AutoSync'', Scalar_t), (''Prune'', Scalar_t)]"

definition go_EnvironmentSpec :: gty where [go_types]:
  "go_EnvironmentSpec = Struct_t [
     (''TenantRef'', go_TenantReference), (''Type'', Scalar_t), (''Profile'', Scalar_t),
     (''Source'', Ptr_t go_GitSource), (''GitOps'', go_GitOpsConfig), (''TTL'', Ptr_t Scalar_t),
     (''Domain'', Scalar_t), (''Variables'', Map_t Scalar_t), (''SecretRefs'', Slice_t go_SecretKeySelector),
     (''Suspend'', Scalar_t)]"

definition go_SyncStatus :: "extern \<Rightarrow> gty" where [go_types]:
  "go_SyncStatus E = Struct_t [
     (''Revision'', Scalar_t), (''Phase'', Scalar_t), (''LastSyncTime'', Ptr_t (Time_t E)),
     (''Message'', Scalar_t)]"

definition go_EnvironmentStatus :: "extern \<Rightarrow> gty" where [go_types]:
  "go_EnvironmentStatus E = Struct_t [
     (''Phase'', Scalar_t), (''Conditions'', Slice_t (Condition_t E)), (''ObservedGeneration'', Scalar_t),
     (''TargetNamespace'', Scalar_t), (''Sync'', Ptr_t (go_SyncStatus E)), (''URL'', Scalar_t),
     (''ExpiresAt'', Ptr_t (Time_t E)), (''LastReconcileTime'', Ptr_t (Time_t E))]"

definition go_Environment :: "extern \<Rightarrow> gty" where [go_types]:
  "go_Environment E = Struct_t [
     (''TypeMeta'', go_TypeMeta), (''ObjectMeta'', ObjectMeta_t E), (''Spec'', go_EnvironmentSpec),
     (''Status'', go_EnvironmentStatus E)]"

definition go_EnvironmentList :: "extern \<Rightarrow> gty" where [go_types]:
  "go_EnvironmentList E = Struct_t [
     (''TypeMeta'', go_TypeMeta), (''ListMeta'', ListMeta_t E), (''Items'', Slice_t (go_Environment E))]"

definition go_RetryPolicy :: gty where [go_types]:
  "go_RetryPolicy = Struct_t [
     (''MaxRetries'', Scalar_t), (''Backoff'', Scalar_t), (''InitialDelay'', Ptr_t Scalar_t),
     (''MaxDelay'', Ptr_t Scalar_t)]"

definition go_RateLimit :: gty where [go_types]:
  "go_RateLimit = Struct_t [
     (''RequestsPerSecond'', Scalar_t), (''Burst'', Scalar_t)]"

definition go_HealthCheck :: gty where [go_types]:
  "go_HealthCheck = Struct_t [
     (''Path'', Scalar_t), (''IntervalSeconds'', Scalar_t), (''TimeoutSeconds'', Scalar_t)]"

definition go_TLSConfig :: gty where [go_types]:
  "go_TLSConfig = Struct_t [
     (''InsecureSkipVerify'', Scalar_t), (''CASecretRef'', Ptr_t go_SecretReference)]"

definition go_IntegrationSpec :: gty where [go_types]:
  "go_IntegrationSpec = Struct_t [
     (''TenantRef'', go_TenantReference), (''Type'', Scalar_t), (''Endpoint'', Scalar_t),
     (''AuthSecretRef'', Ptr_t go_SecretReference), (''Headers'', Map_t Scalar_t),
     (''Events'', Slice_t Scalar_t), (''RetryPolicy'', Ptr_t go_RetryPolicy),
     (''RateLimit'', Ptr_t go_RateLimit), (''HealthCheck'', Ptr_t go_HealthCheck),
     (''TLS'', Ptr_t go_TLSConfig), (''Suspend'', Scalar_t)]"

definition go_IntegrationStatus :: "extern \<Rightarrow> gty" where [go_types]:
  "go_IntegrationStatus E = Struct_t [
     (''Phase'', Scalar_t), (''Conditions'', Slice_t (Condition_t E)), (''ObservedGeneration'', Scalar_t),
     (''ConnectionSecretName'', Scalar_t), (''ObservedEndpoint'', Scalar_t), (''Retries'', Scalar_t),
     (''DeliveredEvents'', Scalar_t), (''FailedEvents'', Scalar_t), (''LastEventTime'', Ptr_t (Time_t E)),
     (''LastProbeTime'', Ptr_t (Time_t E)), (''LastError'', Scalar_t), (''LastReconcileTime'', Ptr_t (Time_t E))]"

definition go_Integration :: "extern \<Rightarrow> gty" where [go_types]:
  "go_Integration E = Struct_t [
     (''TypeMeta'', go_TypeMeta), (''ObjectMeta'', ObjectMeta_t E), (''Spec'', go_IntegrationSpec),
     (''Status'', go_IntegrationStatus E)]"

definition go_IntegrationList :: "extern \<Rightarrow> gty" where [go_types]:
  "go_IntegrationList E = Struct_t [
     (''TypeMeta'', go_TypeMeta), (''ListMeta'', ListMeta_t E), (''Items'', Slice_t (go_Integration E))]"

section \<open>The generated functions\<close>

definition assign :: "gval \<Rightarrow> (heap, gval) state" where
  "assign = State_Monad.return"

definition unless_nil :: "(gval \<Rightarrow> (heap, gval) state) \<Rightarrow> gval \<Rightarrow> (heap, gval) state" where
  "unless_nil f p = (if p = Ref None then State_Monad.return p else f p)"

definition TenantReference_DeepCopyInto :: "gval \<Rightarrow> (heap, gval) state" where [deepcopy_defs]:
  "TenantReference_DeepCopyInto = struct_copy []"

definition TenantReference_DeepCopy :: "gval \<Rightarrow> (heap, gval) state" where [deepcopy_defs]:
  "TenantReference_DeepCopy = ptr_copy TenantReference_DeepCopyInto"

definition SecretReference_DeepCopyInto :: "gval \<Rightarrow> (heap, gval) state" where [deepcopy_defs]:
  "SecretReference_DeepCopyInto = struct_copy []"

definition SecretReference_DeepCopy :: "gval \<Rightarrow> (heap, gval) state" where [deepcopy_defs]:
  "SecretReference_DeepCopy = ptr_copy SecretReference_DeepCopyInto"

definition SecretKeySelector_DeepCopyInto :: "gval \<Rightarrow> (heap, gval) state" where [deepcopy_defs]:
  "SecretKeySelector_DeepCopyInto = struct_copy []"

definition SecretKeySelector_DeepCopy :: "gval \<Rightarrow> (heap, gval) state" where [deepcopy_defs]:
  "SecretKeySelector_DeepCopy = ptr_copy SecretKeySelector_DeepCopyInto"

definition SubjectReference_DeepCopyInto :: "gval \<Rightarrow> (heap, gval) state" where [deepcopy_defs]:
  "SubjectReference_DeepCopyInto = struct_copy []"

definition SubjectReference_DeepCopy :: "gval \<Rightarrow> (heap, gval) state" where [deepcopy_defs]:
  "SubjectReference_DeepCopy = ptr_copy SubjectReference_DeepCopyInto"

definition TenantQuota_DeepCopyInto :: "extern \<Rightarrow> gval \<Rightarrow> (heap, gval) state" where [deepcopy_defs]:
  "TenantQuota_DeepCopyInto E = struct_copy [
     (''Hard'', map_copy (Quantity_DeepCopy E))]"

definition TenantQuota_DeepCopy :: "extern \<Rightarrow> gval \<Rightarrow> (heap, gval) state" where [deepcopy_defs]:
  "TenantQuota_DeepCopy E = ptr_copy (TenantQuota_DeepCopyInto E)"

definition TenantLimits_DeepCopyInto :: "extern \<Rightarrow> gval \<Rightarrow> (heap, gval) state" where [deepcopy_defs]:
  "TenantLimits_DeepCopyInto E = struct_copy [
     (''Default'', map_copy (Quantity_DeepCopy E)), (''DefaultRequest'', map_copy (Quantity_DeepCopy E)),
     (''Max'', map_copy (Quantity_DeepCopy E))]"

definition TenantLimits_DeepCopy :: "extern \<Rightarrow> gval \<Rightarrow> (heap, gval) state" where [deepcopy_defs]:
  "TenantLimits_DeepCopy E = ptr_copy (TenantLimits_DeepCopyInto E)"

definition LifecyclePolicy_DeepCopyInto :: "gval \<Rightarrow> (heap, gval) state" where [deepcopy_defs]:
  "LifecyclePolicy_DeepCopyInto = struct_copy []"

definition LifecyclePolicy_DeepCopy :: "gval \<Rightarrow> (heap, gval) state" where [deepcopy_defs]:
  "LifecyclePolicy_DeepCopy = ptr_copy LifecyclePolicy_DeepCopyInto"

definition TenantSpec_DeepCopyInto :: "extern \<Rightarrow> gval \<Rightarrow> (heap, gval) state" where [deepcopy_defs]:
  "TenantSpec_DeepCopyInto E = struct_copy [
     (''Quota'', ptr_copy (TenantQuota_DeepCopyInto E)), (''Limits'', ptr_copy (TenantLimits_DeepCopyInto E)),
     (''Admins'', slice_copy assign), (''ExtraLabels'', map_copy assign), (''Lifecycle'', assign)]"

definition TenantSpec_DeepCopy :: "extern \<Rightarrow> gval \<Rightarrow> (heap, gval) state" where [deepcopy_defs]:
  "TenantSpec_DeepCopy E = ptr_copy (TenantSpec_DeepCopyInto E)"

definition TenantStatus_DeepCopyInto :: "extern \<Rightarrow> gval \<Rightarrow> (heap, gval) state" where [deepcopy_defs]:
  "TenantStatus_DeepCopyInto E = struct_copy [
     (''Conditions'', slice_copy (Condition_DeepCopyInto E)),
     (''LastReconcileTime'', unless_nil (Time_DeepCopy E))]"

definition TenantStatus_DeepCopy :: "extern \<Rightarrow> gval \<Rightarrow> (heap, gval) state" where [deepcopy_defs]:
  "TenantStatus_DeepCopy E = ptr_copy (TenantStatus_DeepCopyInto E)"

definition Tenant_DeepCopyInto :: "extern \<Rightarrow> gval \<Rightarrow> (heap, gval) state" where [deepcopy_defs]:
  "Tenant_DeepCopyInto E = struct_copy [
     (''TypeMeta'', assign), (''ObjectMeta'', ObjectMeta_DeepCopyInto E),
     (''Spec'', TenantSpec_DeepCopyInto E), (''Status'', TenantStatus_DeepCopyInto E)]"

definition Tenant_DeepCopy :: "extern \<Rightarrow> gval \<Rightarrow> (heap, gval) state" where [deepcopy_defs]:
  "Tenant_DeepCopy E = ptr_copy (Tenant_DeepCopyInto E)"

definition Tenant_DeepCopyObject :: "extern \<Rightarrow> gval \<Rightarrow> (heap, gval option) state" where [deepcopy_defs]:
  "Tenant_DeepCopyObject E p = do {
     c \<leftarrow> Tenant_DeepCopy E p;
     State_Monad.return (if c \<noteq> Ref None then Some c else None)
   }"

definition TenantList_DeepCopyInto :: "extern \<Rightarrow> gval \<Rightarrow> (heap, gval) state" where [deepcopy_defs]:
  "TenantList_DeepCopyInto E = struct_copy [
     (''TypeMeta'', assign), (''ListMeta'', ListMeta_DeepCopyInto E),
     (''Items'', slice_copy (Tenant_DeepCopyInto E))]"

definition TenantList_DeepCopy :: "extern \<Rightarrow> gval \<Rightarrow> (heap, gval) state" where [deepcopy_defs]:
  "TenantList_DeepCopy E = ptr_copy (TenantList_DeepCopyInto E)"

definition TenantList_DeepCopyObject :: "extern \<Rightarrow> gval \<Rightarrow> (heap, gval option) state" where [deepcopy_defs]:
  "TenantList_DeepCopyObject E p = do {
     c \<leftarrow> TenantList_DeepCopy E p;
     State_Monad.return (if c \<noteq> Ref None then Some c else None)
   }"

definition GitSource_DeepCopyInto :: "gval \<Rightarrow> (heap, gval) state" where [deepcopy_defs]:
  "GitSource_DeepCopyInto = struct_copy []"

definition GitSource_DeepCopy :: "gval \<Rightarrow> (heap, gval) state" where [deepcopy_defs]:
  "GitSource_DeepCopy = ptr_copy GitSource_DeepCopyInto"

definition GitOpsConfig_DeepCopyInto :: "gval \<Rightarrow> (heap, gval) state" where [deepcopy_defs]:
  "GitOpsConfig_DeepCopyInto = struct_copy []"

definition GitOpsConfig_DeepCopy :: "gval \<Rightarrow> (heap, gval) state" where [deepcopy_defs]:
  "GitOpsConfig_DeepCopy = ptr_copy GitOpsConfig_DeepCopyInto"

definition EnvironmentSpec_DeepCopyInto :: "gval \<Rightarrow> (heap, gval) state" where [deepcopy_defs]:
  "EnvironmentSpec_DeepCopyInto = struct_copy [
     (''TenantRef'', assign), (''Source'', ptr_copy assign), (''GitOps'', assign), (''TTL'', ptr_copy assign),
     (''Variables'', map_copy assign), (''SecretRefs'', slice_copy assign)]"

definition EnvironmentSpec_DeepCopy :: "gval \<Rightarrow> (heap, gval) state" where [deepcopy_defs]:
  "EnvironmentSpec_DeepCopy = ptr_copy EnvironmentSpec_DeepCopyInto"

definition SyncStatus_DeepCopyInto :: "extern \<Rightarrow> gval \<Rightarrow> (heap, gval) state" where [deepcopy_defs]:
  "SyncStatus_DeepCopyInto E = struct_copy [
     (''LastSyncTime'', unless_nil (Time_DeepCopy E))]"

definition SyncStatus_DeepCopy :: "extern \<Rightarrow> gval \<Rightarrow> (heap, gval) state" where [deepcopy_defs]:
  "SyncStatus_DeepCopy E = ptr_copy (SyncStatus_DeepCopyInto E)"

definition EnvironmentStatus_DeepCopyInto :: "extern \<Rightarrow> gval \<Rightarrow> (heap, gval) state" where [deepcopy_defs]:
  "EnvironmentStatus_DeepCopyInto E = struct_copy [
     (''Conditions'', slice_copy (Condition_DeepCopyInto E)), (''Sync'', ptr_copy (SyncStatus_DeepCopyInto E)),
     (''ExpiresAt'', unless_nil (Time_DeepCopy E)), (''LastReconcileTime'', unless_nil (Time_DeepCopy E))]"

definition EnvironmentStatus_DeepCopy :: "extern \<Rightarrow> gval \<Rightarrow> (heap, gval) state" where [deepcopy_defs]:
  "EnvironmentStatus_DeepCopy E = ptr_copy (EnvironmentStatus_DeepCopyInto E)"

definition Environment_DeepCopyInto :: "extern \<Rightarrow> gval \<Rightarrow> (heap, gval) state" where [deepcopy_defs]:
  "Environment_DeepCopyInto E = struct_copy [
     (''TypeMeta'', assign), (''ObjectMeta'', ObjectMeta_DeepCopyInto E),
     (''Spec'', EnvironmentSpec_DeepCopyInto), (''Status'', EnvironmentStatus_DeepCopyInto E)]"

definition Environment_DeepCopy :: "extern \<Rightarrow> gval \<Rightarrow> (heap, gval) state" where [deepcopy_defs]:
  "Environment_DeepCopy E = ptr_copy (Environment_DeepCopyInto E)"

definition Environment_DeepCopyObject :: "extern \<Rightarrow> gval \<Rightarrow> (heap, gval option) state" where [deepcopy_defs]:
  "Environment_DeepCopyObject E p = do {
     c \<leftarrow> Environment_DeepCopy E p;
     State_Monad.return (if c \<noteq> Ref None then Some c else None)
   }"

definition EnvironmentList_DeepCopyInto :: "extern \<Rightarrow> gval \<Rightarrow> (heap, gval) state" where [deepcopy_defs]:
  "EnvironmentList_DeepCopyInto E = struct_copy [
     (''TypeMeta'', assign), (''ListMeta'', ListMeta_DeepCopyInto E),
     (''Items'', slice_copy (Environment_DeepCopyInto E))]"

definition EnvironmentList_DeepCopy :: "extern \<Rightarrow> gval \<Rightarrow> (heap, gval) state" where [deepcopy_defs]:
  "EnvironmentList_DeepCopy E = ptr_copy (EnvironmentList_DeepCopyInto E)"

definition EnvironmentList_DeepCopyObject :: "extern \<Rightarrow> gval \<Rightarrow> (heap, gval option) state" where [deepcopy_defs]:
  "EnvironmentList_DeepCopyObject E p = do {
     c \<leftarrow> EnvironmentList_DeepCopy E p;
     State_Monad.return (if c \<noteq> Ref None then Some c else None)
   }"

definition RetryPolicy_DeepCopyInto :: "gval \<Rightarrow> (heap, gval) state" where [deepcopy_defs]:
  "RetryPolicy_DeepCopyInto = struct_copy [
     (''InitialDelay'', ptr_copy assign), (''MaxDelay'', ptr_copy assign)]"

definition RetryPolicy_DeepCopy :: "gval \<Rightarrow> (heap, gval) state" where [deepcopy_defs]:
  "RetryPolicy_DeepCopy = ptr_copy RetryPolicy_DeepCopyInto"

definition RateLimit_DeepCopyInto :: "gval \<Rightarrow> (heap, gval) state" where [deepcopy_defs]:
  "RateLimit_DeepCopyInto = struct_copy []"

definition RateLimit_DeepCopy :: "gval \<Rightarrow> (heap, gval) state" where [deepcopy_defs]:
  "RateLimit_DeepCopy = ptr_copy RateLimit_DeepCopyInto"

definition HealthCheck_DeepCopyInto :: "gval \<Rightarrow> (heap, gval) state" where [deepcopy_defs]:
  "HealthCheck_DeepCopyInto = struct_copy []"

definition HealthCheck_DeepCopy :: "gval \<Rightarrow> (heap, gval) state" where [deepcopy_defs]:
  "HealthCheck_DeepCopy = ptr_copy HealthCheck_DeepCopyInto"

definition TLSConfig_DeepCopyInto :: "gval \<Rightarrow> (heap, gval) state" where [deepcopy_defs]:
  "TLSConfig_DeepCopyInto = struct_copy [
     (''CASecretRef'', ptr_copy assign)]"

definition TLSConfig_DeepCopy :: "gval \<Rightarrow> (heap, gval) state" where [deepcopy_defs]:
  "TLSConfig_DeepCopy = ptr_copy TLSConfig_DeepCopyInto"

definition IntegrationSpec_DeepCopyInto :: "gval \<Rightarrow> (heap, gval) state" where [deepcopy_defs]:
  "IntegrationSpec_DeepCopyInto = struct_copy [
     (''TenantRef'', assign), (''AuthSecretRef'', ptr_copy assign), (''Headers'', map_copy assign),
     (''Events'', slice_copy assign), (''RetryPolicy'', ptr_copy RetryPolicy_DeepCopyInto),
     (''RateLimit'', ptr_copy assign), (''HealthCheck'', ptr_copy assign),
     (''TLS'', ptr_copy TLSConfig_DeepCopyInto)]"

definition IntegrationSpec_DeepCopy :: "gval \<Rightarrow> (heap, gval) state" where [deepcopy_defs]:
  "IntegrationSpec_DeepCopy = ptr_copy IntegrationSpec_DeepCopyInto"

definition IntegrationStatus_DeepCopyInto :: "extern \<Rightarrow> gval \<Rightarrow> (heap, gval) state" where [deepcopy_defs]:
  "IntegrationStatus_DeepCopyInto E = struct_copy [
     (''Conditions'', slice_copy (Condition_DeepCopyInto E)),
     (''LastEventTime'', unless_nil (Time_DeepCopy E)), (''LastProbeTime'', unless_nil (Time_DeepCopy E)),
     (''LastReconcileTime'', unless_nil (Time_DeepCopy E))]"

definition IntegrationStatus_DeepCopy :: "extern \<Rightarrow> gval \<Rightarrow> (heap, gval) state" where [deepcopy_defs]:
  "IntegrationStatus_DeepCopy E = ptr_copy (IntegrationStatus_DeepCopyInto E)"

definition Integration_DeepCopyInto :: "extern \<Rightarrow> gval \<Rightarrow> (heap, gval) state" where [deepcopy_defs]:
  "Integration_DeepCopyInto E = struct_copy [
     (''TypeMeta'', assign), (''ObjectMeta'', ObjectMeta_DeepCopyInto E),
     (''Spec'', IntegrationSpec_DeepCopyInto), (''Status'', IntegrationStatus_DeepCopyInto E)]"

definition Integration_DeepCopy :: "extern \<Rightarrow> gval \<Rightarrow> (heap, gval) state" where [deepcopy_defs]:
  "Integration_DeepCopy E = ptr_copy (Integration_DeepCopyInto E)"

definition Integration_DeepCopyObject :: "extern \<Rightarrow> gval \<Rightarrow> (heap, gval option) state" where [deepcopy_defs]:
  "Integration_DeepCopyObject E p = do {
     c \<leftarrow> Integration_DeepCopy E p;
     State_Monad.return (if c \<noteq> Ref None then Some c else None)
   }"

definition IntegrationList_DeepCopyInto :: "extern \<Rightarrow> gval \<Rightarrow> (heap, gval) state" where [deepcopy_defs]:
  "IntegrationList_DeepCopyInto E = struct_copy [
     (''TypeMeta'', assign), (''ListMeta'', ListMeta_DeepCopyInto E),
     (''Items'', slice_copy (Integration_DeepCopyInto E))]"

definition IntegrationList_DeepCopy :: "extern \<Rightarrow> gval \<Rightarrow> (heap, gval) state" where [deepcopy_defs]:
  "IntegrationList_DeepCopy E = ptr_copy (IntegrationList_DeepCopyInto E)"

definition IntegrationList_DeepCopyObject :: "extern \<Rightarrow> gval \<Rightarrow> (heap, gval option) state" where [deepcopy_defs]:
  "IntegrationList_DeepCopyObject E p = do {
     c \<leftarrow> IntegrationList_DeepCopy E p;
     State_Monad.return (if c \<noteq> Ref None then Some c else None)
   }"

section \<open>What they promise\<close>

lemma clones_assign: "plain t \<Longrightarrow> clones t assign"
  by (simp add: assign_def clones_plain)

lemma cloned_nil: "cloned h h (Ptr_t t) (Ref None) (Ref None)"
  by (simp add: cloned_def read_cases)

lemma clones_unless_nil:
  assumes "clones (Ptr_t t) f"
  shows "clones (Ptr_t t) (unless_nil f)"
  using assms by (auto simp: clones_def unless_nil_def cloned_nil)

lemma extern_okD [clones_intros]:
  "extern_ok E \<Longrightarrow> clones (ObjectMeta_t E) (ObjectMeta_DeepCopyInto E)"
  "extern_ok E \<Longrightarrow> clones (ListMeta_t E) (ListMeta_DeepCopyInto E)"
  "extern_ok E \<Longrightarrow> clones (Condition_t E) (Condition_DeepCopyInto E)"
  "extern_ok E \<Longrightarrow> clones (Ptr_t (Time_t E)) (Time_DeepCopy E)"
  "extern_ok E \<Longrightarrow> clones (Quantity_t E) (Quantity_DeepCopy E)"
  by (simp_all add: extern_ok_def)

declare clones_struct [clones_intros] clones_ptr [clones_intros] clones_slice [clones_intros]
  clones_map [clones_intros] clones_assign [clones_intros] clones_unless_nil [clones_intros]

text \<open>From the types without references up to the lists.\<close>

lemma plain_types [simp]:
  "plain go_TenantReference" "plain go_SecretReference" "plain go_SecretKeySelector"
  "plain go_SubjectReference" "plain go_LifecyclePolicy" "plain go_GitSource" "plain go_GitOpsConfig"
  "plain go_RateLimit" "plain go_HealthCheck" "plain go_TypeMeta"
  by (simp_all add: go_types)

lemma clones_scalars [clones_intros]:
  "clones go_TenantReference TenantReference_DeepCopyInto"
  "clones go_SecretReference SecretReference_DeepCopyInto"
  "clones go_SecretKeySelector SecretKeySelector_DeepCopyInto"
  "clones go_SubjectReference SubjectReference_DeepCopyInto"
  "clones go_LifecyclePolicy LifecyclePolicy_DeepCopyInto"
  "clones go_GitSource GitSource_DeepCopyInto"
  "clones go_GitOpsConfig GitOpsConfig_DeepCopyInto"
  "clones go_RateLimit RateLimit_DeepCopyInto"
  "clones go_HealthCheck HealthCheck_DeepCopyInto"
  by (auto simp:
      go_TenantReference_def TenantReference_DeepCopyInto_def go_SecretReference_def
      SecretReference_DeepCopyInto_def go_SecretKeySelector_def SecretKeySelector_DeepCopyInto_def
      go_SubjectReference_def SubjectReference_DeepCopyInto_def go_LifecyclePolicy_def
      LifecyclePolicy_DeepCopyInto_def go_GitSource_def GitSource_DeepCopyInto_def go_GitOpsConfig_def
      GitOpsConfig_DeepCopyInto_def go_RateLimit_def RateLimit_DeepCopyInto_def go_HealthCheck_def
      HealthCheck_DeepCopyInto_def
      intro!: clones_intros)

lemma clones_leaves [clones_intros]:
  "extern_ok E \<Longrightarrow> clones (go_TenantQuota E) (TenantQuota_DeepCopyInto E)"
  "extern_ok E \<Longrightarrow> clones (go_TenantLimits E) (TenantLimits_DeepCopyInto E)"
  "extern_ok E \<Longrightarrow> clones (go_TenantStatus E) (TenantStatus_DeepCopyInto E)"
  "extern_ok E \<Longrightarrow> clones (go_SyncStatus E) (SyncStatus_DeepCopyInto E)"
  "clones go_RetryPolicy RetryPolicy_DeepCopyInto"
  "extern_ok E \<Longrightarrow> clones (go_IntegrationStatus E) (IntegrationStatus_DeepCopyInto E)"
  by (auto simp:
      go_TenantQuota_def TenantQuota_DeepCopyInto_def go_TenantLimits_def TenantLimits_DeepCopyInto_def
      go_TenantStatus_def TenantStatus_DeepCopyInto_def go_SyncStatus_def SyncStatus_DeepCopyInto_def
      go_RetryPolicy_def RetryPolicy_DeepCopyInto_def go_IntegrationStatus_def
      IntegrationStatus_DeepCopyInto_def
      intro!: clones_intros)

lemma clones_specs [clones_intros]:
  "extern_ok E \<Longrightarrow> clones (go_TenantSpec E) (TenantSpec_DeepCopyInto E)"
  "clones go_EnvironmentSpec EnvironmentSpec_DeepCopyInto"
  "extern_ok E \<Longrightarrow> clones (go_EnvironmentStatus E) (EnvironmentStatus_DeepCopyInto E)"
  "clones go_TLSConfig TLSConfig_DeepCopyInto"
  by (auto simp:
      go_TenantSpec_def TenantSpec_DeepCopyInto_def go_EnvironmentSpec_def EnvironmentSpec_DeepCopyInto_def
      go_EnvironmentStatus_def EnvironmentStatus_DeepCopyInto_def go_TLSConfig_def TLSConfig_DeepCopyInto_def
      intro!: clones_intros)

lemma clones_objects [clones_intros]:
  "extern_ok E \<Longrightarrow> clones (go_Tenant E) (Tenant_DeepCopyInto E)"
  "extern_ok E \<Longrightarrow> clones (go_Environment E) (Environment_DeepCopyInto E)"
  "clones go_IntegrationSpec IntegrationSpec_DeepCopyInto"
  by (auto simp:
      go_Tenant_def Tenant_DeepCopyInto_def go_Environment_def Environment_DeepCopyInto_def
      go_IntegrationSpec_def IntegrationSpec_DeepCopyInto_def
      intro!: clones_intros)

lemma clones_lists [clones_intros]:
  "extern_ok E \<Longrightarrow> clones (go_TenantList E) (TenantList_DeepCopyInto E)"
  "extern_ok E \<Longrightarrow> clones (go_EnvironmentList E) (EnvironmentList_DeepCopyInto E)"
  "extern_ok E \<Longrightarrow> clones (go_Integration E) (Integration_DeepCopyInto E)"
  by (auto simp:
      go_TenantList_def TenantList_DeepCopyInto_def go_EnvironmentList_def EnvironmentList_DeepCopyInto_def
      go_Integration_def Integration_DeepCopyInto_def
      intro!: clones_intros)

lemma clones_last [clones_intros]:
  "extern_ok E \<Longrightarrow> clones (go_IntegrationList E) (IntegrationList_DeepCopyInto E)"
  by (auto simp:
      go_IntegrationList_def IntegrationList_DeepCopyInto_def
      intro!: clones_intros)

definition deepcopies :: "extern \<Rightarrow> (gty \<times> (gval \<Rightarrow> (heap, gval) state) \<times> (gval \<Rightarrow> (heap, gval) state)) list" where
  "deepcopies E = [
     (go_TenantReference, TenantReference_DeepCopyInto, TenantReference_DeepCopy),
     (go_SecretReference, SecretReference_DeepCopyInto, SecretReference_DeepCopy),
     (go_SecretKeySelector, SecretKeySelector_DeepCopyInto, SecretKeySelector_DeepCopy),
     (go_SubjectReference, SubjectReference_DeepCopyInto, SubjectReference_DeepCopy),
     (go_TenantQuota E, TenantQuota_DeepCopyInto E, TenantQuota_DeepCopy E),
     (go_TenantLimits E, TenantLimits_DeepCopyInto E, TenantLimits_DeepCopy E),
     (go_LifecyclePolicy, LifecyclePolicy_DeepCopyInto, LifecyclePolicy_DeepCopy),
     (go_TenantSpec E, TenantSpec_DeepCopyInto E, TenantSpec_DeepCopy E),
     (go_TenantStatus E, TenantStatus_DeepCopyInto E, TenantStatus_DeepCopy E),
     (go_Tenant E, Tenant_DeepCopyInto E, Tenant_DeepCopy E),
     (go_TenantList E, TenantList_DeepCopyInto E, TenantList_DeepCopy E),
     (go_GitSource, GitSource_DeepCopyInto, GitSource_DeepCopy),
     (go_GitOpsConfig, GitOpsConfig_DeepCopyInto, GitOpsConfig_DeepCopy),
     (go_EnvironmentSpec, EnvironmentSpec_DeepCopyInto, EnvironmentSpec_DeepCopy),
     (go_SyncStatus E, SyncStatus_DeepCopyInto E, SyncStatus_DeepCopy E),
     (go_EnvironmentStatus E, EnvironmentStatus_DeepCopyInto E, EnvironmentStatus_DeepCopy E),
     (go_Environment E, Environment_DeepCopyInto E, Environment_DeepCopy E),
     (go_EnvironmentList E, EnvironmentList_DeepCopyInto E, EnvironmentList_DeepCopy E),
     (go_RetryPolicy, RetryPolicy_DeepCopyInto, RetryPolicy_DeepCopy),
     (go_RateLimit, RateLimit_DeepCopyInto, RateLimit_DeepCopy),
     (go_HealthCheck, HealthCheck_DeepCopyInto, HealthCheck_DeepCopy),
     (go_TLSConfig, TLSConfig_DeepCopyInto, TLSConfig_DeepCopy),
     (go_IntegrationSpec, IntegrationSpec_DeepCopyInto, IntegrationSpec_DeepCopy),
     (go_IntegrationStatus E, IntegrationStatus_DeepCopyInto E, IntegrationStatus_DeepCopy E),
     (go_Integration E, Integration_DeepCopyInto E, Integration_DeepCopy E),
     (go_IntegrationList E, IntegrationList_DeepCopyInto E, IntegrationList_DeepCopy E)]"

lemma deepcopies_clone:
  assumes "extern_ok E" and "(t, into, copy) \<in> set (deepcopies E)"
  shows "clones t into" "copy = ptr_copy into"
proof -
  from assms(1) have "list_all (\<lambda>(t, into, copy). clones t into) (deepcopies E)"
    unfolding deepcopies_def list.pred_inject prod.case by (auto intro: clones_intros)
  with assms(2) show "clones t into" by (auto simp: list_all_iff)
  have "list_all (\<lambda>(t, into, copy). copy = ptr_copy into) (deepcopies E)"
    by (simp add: deepcopies_def deepcopy_defs)
  with assms(2) show "copy = ptr_copy into" by (auto simp: list_all_iff)
qed

text \<open>C29: Deep copies are deep. For every type of the API, a value copied by \<open>DeepCopyInto\<close>, and a pointer
  copied by \<open>DeepCopy\<close>, has the contents of the original and shares no cell with it that either can
  reach: no existing cell is written, whatever is written later to the cells of the one leaves the
  other as it was, and nothing but new cells is reachable from the copy.\<close>

theorem deepcopy_isolates:
  assumes "extern_ok E" and "(t, into, copy) \<in> set (deepcopies E)"
  shows "(read t h v \<noteq> None \<longrightarrow>
      wp (into v) (\<lambda>v' h'. grows h h' \<and> cloned h h' t v v' \<and> isolated h h' t v v') h) \<and>
    (read (Ptr_t t) h p \<noteq> None \<longrightarrow>
      wp (copy p) (\<lambda>p' h'. grows h h' \<and> cloned h h' (Ptr_t t) p p' \<and> isolated h h' (Ptr_t t) p p') h)"
proof (intro conjI impI)
  note clone = deepcopies_clone [OF assms]
  show "wp (into v) (\<lambda>v' h'. grows h h' \<and> cloned h h' t v v' \<and> isolated h h' t v v') h" if "read t h v \<noteq> None"
    by (rule clones_rule [OF clone(1) grows_refl that]) (simp add: cloned_isolated)
  show "wp (copy p) (\<lambda>p' h'. grows h h' \<and> cloned h h' (Ptr_t t) p p' \<and> isolated h h' (Ptr_t t) p p') h"
    if "read (Ptr_t t) h p \<noteq> None"
    unfolding clone(2) by (rule clones_rule [OF clones_ptr [OF clone(1)] grows_refl that]) (simp add: cloned_isolated)
qed

section \<open>Runtime objects\<close>

text \<open>What a client that holds its objects as \<open>runtime.Object\<close>, such as the cache of the manager, relies
  on: the interface is nil only for a nil pointer, and a copy otherwise.\<close>

locale runtime_object =
  fixes ok :: "'e \<Rightarrow> bool"
    and type :: "'e \<Rightarrow> gty"
    and into :: "'e \<Rightarrow> gval \<Rightarrow> (heap, gval) state"
    and object :: "'e \<Rightarrow> gval \<Rightarrow> (heap, gval option) state"
  assumes into_clones: "ok E \<Longrightarrow> clones (type E) (into E)"
    and object_eq: "object E p = do {
      c \<leftarrow> ptr_copy (into E) p;
      State_Monad.return (if c \<noteq> Ref None then Some c else None)
    }"
begin

lemma object_copies:
  assumes "ok E" and "read (Ptr_t (type E)) h p \<noteq> None"
  shows "wp (object E p) (\<lambda>r h'. grows h h' \<and>
    (case r of
       None \<Rightarrow> p = Ref None
     | Some q \<Rightarrow> p \<noteq> Ref None \<and> cloned h h' (Ptr_t (type E)) p q \<and> isolated h h' (Ptr_t (type E)) p q)) h"
  unfolding object_eq wp_simps
proof (rule clones_rule [OF clones_ptr [OF into_clones [OF assms(1)]] grows_refl assms(2)])
  fix q h'
  assume *: "grows h h'" "cloned h h' (Ptr_t (type E)) p q"
  then have "q = Ref None \<longleftrightarrow> p = Ref None" by (auto simp: cloned_def read_cases)
  with * cloned_isolated [OF *(2)]
  show "grows h h' \<and>
    (case if q \<noteq> Ref None then Some q else None of
       None \<Rightarrow> p = Ref None
     | Some q \<Rightarrow> p \<noteq> Ref None \<and> cloned h h' (Ptr_t (type E)) p q \<and> isolated h h' (Ptr_t (type E)) p q)"
    by simp
qed

end

interpretation tenant_object: runtime_object extern_ok go_Tenant Tenant_DeepCopyInto Tenant_DeepCopyObject
  by unfold_locales (simp_all add: clones_objects Tenant_DeepCopyObject_def Tenant_DeepCopy_def)

interpretation tenant_list_object: runtime_object extern_ok go_TenantList TenantList_DeepCopyInto TenantList_DeepCopyObject
  by unfold_locales (simp_all add: clones_lists TenantList_DeepCopyObject_def TenantList_DeepCopy_def)

interpretation environment_object: runtime_object extern_ok go_Environment Environment_DeepCopyInto Environment_DeepCopyObject
  by unfold_locales (simp_all add: clones_objects Environment_DeepCopyObject_def Environment_DeepCopy_def)

interpretation environment_list_object: runtime_object extern_ok go_EnvironmentList EnvironmentList_DeepCopyInto EnvironmentList_DeepCopyObject
  by unfold_locales (simp_all add: clones_lists EnvironmentList_DeepCopyObject_def EnvironmentList_DeepCopy_def)

interpretation integration_object: runtime_object extern_ok go_Integration Integration_DeepCopyInto Integration_DeepCopyObject
  by unfold_locales (simp_all add: clones_lists Integration_DeepCopyObject_def Integration_DeepCopy_def)

interpretation integration_list_object: runtime_object extern_ok go_IntegrationList IntegrationList_DeepCopyInto IntegrationList_DeepCopyObject
  by unfold_locales (simp_all add: clones_last IntegrationList_DeepCopyObject_def IntegrationList_DeepCopy_def)

definition runtime_objects :: "extern \<Rightarrow> (gty \<times> (gval \<Rightarrow> (heap, gval option) state)) list" where
  "runtime_objects E = [
     (go_Tenant E, Tenant_DeepCopyObject E),
     (go_TenantList E, TenantList_DeepCopyObject E),
     (go_Environment E, Environment_DeepCopyObject E),
     (go_EnvironmentList E, EnvironmentList_DeepCopyObject E),
     (go_Integration E, Integration_DeepCopyObject E),
     (go_IntegrationList E, IntegrationList_DeepCopyObject E)]"

text \<open>The objects of the API are copied as runtime objects: \<open>DeepCopyObject\<close> of a nil pointer is the nil
  interface, and of any other pointer it is a pointer to a copy that shares nothing with the original.\<close>

lemma DeepCopyObject_isolates:
  assumes "extern_ok E" and "(t, object) \<in> set (runtime_objects E)" and "read (Ptr_t t) h p \<noteq> None"
  shows "wp (object p) (\<lambda>r h'. grows h h' \<and>
    (case r of
       None \<Rightarrow> p = Ref None
     | Some q \<Rightarrow> p \<noteq> Ref None \<and> cloned h h' (Ptr_t t) p q \<and> isolated h h' (Ptr_t t) p q)) h"
  using assms(2,3) unfolding runtime_objects_def
  by (auto intro: tenant_object.object_copies [OF assms(1)]
    tenant_list_object.object_copies [OF assms(1)]
    environment_object.object_copies [OF assms(1)]
    environment_list_object.object_copies [OF assms(1)]
    integration_object.object_copies [OF assms(1)]
    integration_list_object.object_copies [OF assms(1)])

section \<open>A tenant in memory\<close>

text \<open>Library types with references of their own, copied as their types say.\<close>

definition lib :: extern where
  "lib =
     (let om = Struct_t [(''Name'', Scalar_t), (''Labels'', Map_t Scalar_t), (''Finalizers'', Slice_t Scalar_t),
            (''DeletionTimestamp'', Ptr_t Scalar_t)];
          lm = Struct_t [(''ResourceVersion'', Scalar_t)];
          cond = Struct_t [(''Type'', Scalar_t), (''Status'', Scalar_t), (''LastTransitionTime'', Scalar_t)];
          q = Struct_t [(''i'', Scalar_t), (''d'', Ptr_t Scalar_t)]
      in \<lparr>ObjectMeta_t = om, ListMeta_t = lm, Condition_t = cond, Time_t = Scalar_t, Quantity_t = q,
          ObjectMeta_DeepCopyInto = deep_copy om, ListMeta_DeepCopyInto = deep_copy lm,
          Condition_DeepCopyInto = deep_copy cond, Time_DeepCopy = deep_copy (Ptr_t Scalar_t),
          Quantity_DeepCopy = deep_copy q\<rparr>)"

lemma lib_ok: "extern_ok lib"
  unfolding extern_ok_def lib_def Let_def extern.select_convs
  by (intro conjI clones_deep_copy) simp_all

definition acme_heap :: heap where
  "acme_heap =
     [Tab [(''cpu'', Struct [(''i'', Scalar (Num 4)), (''d'', Ref None)])],
      Obj (Struct [(''Hard'', Ref (Some 0))]),
      Arr [Struct [(''Kind'', Scalar (Str ''User'')), (''Name'', Scalar (Str ''ada'')), (''Namespace'', Scalar (Str []))]],
      Tab [(''team'', Scalar (Str ''billing''))],
      Arr [Scalar (Str ''platform.upo.io/tenant-protection'')],
      Obj (Struct [
        (''TypeMeta'', Struct [(''Kind'', Scalar (Str ''Tenant'')), (''APIVersion'', Scalar (Str ''platform.upo.io/v1alpha1''))]),
        (''ObjectMeta'', Struct [(''Name'', Scalar (Str ''acme'')), (''Labels'', Ref None), (''Finalizers'', Ref (Some 4)),
           (''DeletionTimestamp'', Ref None)]),
        (''Spec'', Struct [(''DisplayName'', Scalar (Str [])), (''Tier'', Scalar (Str ''standard'')),
           (''NamespacePrefix'', Scalar (Str [])), (''Quota'', Ref (Some 1)), (''Limits'', Ref None),
           (''NetworkIsolation'', Scalar (Str ''Baseline'')), (''Admins'', Ref (Some 2)), (''ExtraLabels'', Ref (Some 3)),
           (''Lifecycle'', Struct [(''Suspended'', Scalar (Flag False)), (''DeletionPolicy'', Scalar (Str ''Delete''))])]),
        (''Status'', Struct [(''Phase'', Scalar (Str ''Active'')), (''Conditions'', Ref None),
           (''ObservedGeneration'', Scalar (Num 1)), (''Namespace'', Scalar (Str ''tenant-acme'')),
           (''EnvironmentCount'', Scalar (Num 0)), (''IntegrationCount'', Scalar (Num 0)), (''LastReconcileTime'', Ref None)])])]"

lemma acme_heap_reads: "read (Ptr_t (go_Tenant lib)) acme_heap (Ref (Some 5)) \<noteq> None"
  by code_simp

text \<open>The extra labels, the administrators, the finalizers and the two levels of the quota are new cells.\<close>

lemma deepcopy_isolates_witness:
  "wp (Tenant_DeepCopy lib (Ref (Some 5))) (\<lambda>p' h'. grows acme_heap h' \<and>
      cloned acme_heap h' (Ptr_t (go_Tenant lib)) (Ref (Some 5)) p' \<and>
      isolated acme_heap h' (Ptr_t (go_Tenant lib)) (Ref (Some 5)) p') acme_heap \<and>
   fst (run_state (Tenant_DeepCopy lib (Ref (Some 5))) acme_heap) = Ref (Some 11) \<and>
   drop 6 (take 11 (snd (run_state (Tenant_DeepCopy lib (Ref (Some 5))) acme_heap))) =
     [Arr [Scalar (Str ''platform.upo.io/tenant-protection'')],
      Tab [(''cpu'', Struct [(''i'', Scalar (Num 4)), (''d'', Ref None)])],
      Obj (Struct [(''Hard'', Ref (Some 7))]),
      Arr [Struct [(''Kind'', Scalar (Str ''User'')), (''Name'', Scalar (Str ''ada'')), (''Namespace'', Scalar (Str []))]],
      Tab [(''team'', Scalar (Str ''billing''))]]"
proof (intro conjI)
  have "(go_Tenant lib, Tenant_DeepCopyInto lib, Tenant_DeepCopy lib) \<in> set (deepcopies lib)"
    by (simp add: deepcopies_def)
  from deepcopy_isolates [OF lib_ok this, THEN conjunct2] acme_heap_reads
  show "wp (Tenant_DeepCopy lib (Ref (Some 5))) (\<lambda>p' h'. grows acme_heap h' \<and>
      cloned acme_heap h' (Ptr_t (go_Tenant lib)) (Ref (Some 5)) p' \<and>
      isolated acme_heap h' (Ptr_t (go_Tenant lib)) (Ref (Some 5)) p') acme_heap" by blast
qed code_simp+

lemma DeepCopyObject_isolates_witness:
  "wp (Tenant_DeepCopyObject lib (Ref (Some 5))) (\<lambda>r h'. grows acme_heap h' \<and>
    (case r of
       None \<Rightarrow> Ref (Some 5) = Ref None
     | Some q \<Rightarrow> Ref (Some 5) \<noteq> Ref None \<and> cloned acme_heap h' (Ptr_t (go_Tenant lib)) (Ref (Some 5)) q \<and>
         isolated acme_heap h' (Ptr_t (go_Tenant lib)) (Ref (Some 5)) q)) acme_heap \<and>
   fst (run_state (Tenant_DeepCopyObject lib (Ref (Some 5))) acme_heap) = Some (Ref (Some 11)) \<and>
   fst (run_state (Tenant_DeepCopyObject lib (Ref None)) acme_heap) = None"
proof (intro conjI)
  show "wp (Tenant_DeepCopyObject lib (Ref (Some 5))) (\<lambda>r h'. grows acme_heap h' \<and>
    (case r of
       None \<Rightarrow> Ref (Some 5) = Ref None
     | Some q \<Rightarrow> Ref (Some 5) \<noteq> Ref None \<and> cloned acme_heap h' (Ptr_t (go_Tenant lib)) (Ref (Some 5)) q \<and>
         isolated acme_heap h' (Ptr_t (go_Tenant lib)) (Ref (Some 5)) q)) acme_heap"
    by (rule DeepCopyObject_isolates [OF lib_ok _ acme_heap_reads]) (simp add: runtime_objects_def)
qed code_simp+

end
