(* ===== verification/Cluster.thy ===== *)
theory Cluster
  imports Interleaving Webhooks
begin

text \<open>
  The cluster as users, the admission webhooks and the operator make it: a step is a request of a user
  that the webhooks admit, a reconcile of one of the controllers, or anything that concerns no custom
  resource. The locale \<open>guarded\<close> is what the webhooks of one kind guarantee of such steps.
\<close>

section \<open>Requests of users\<close>

text \<open>\<open>m\<close> and the result are the stored objects of one kind. A delete removes an object or marks it for
  deletion, as its finalizers demand.\<close>

inductive user_step ::
  "('x \<Rightarrow> 'o) \<Rightarrow> ('x \<Rightarrow> ObjectMeta) \<Rightarrow> (ObjectMeta \<Rightarrow> 'x \<Rightarrow> 'x) \<Rightarrow> ('o \<Rightarrow> 'e option) \<Rightarrow> ('o \<Rightarrow> 'o \<Rightarrow> 'e option) \<Rightarrow> ('o \<Rightarrow> 'e option) \<Rightarrow>
   (objkey \<rightharpoonup> 'x) \<Rightarrow> (objkey \<rightharpoonup> 'x) \<Rightarrow> bool"
  for wrap mt set_mt create update remove m where
  created: "m (meta_key (mt x)) = None \<Longrightarrow> create (wrap x) = None \<Longrightarrow>
    user_step wrap mt set_mt create update remove m (m(meta_key (mt x) \<mapsto> x))"
| updated: "m (meta_key (mt x)) = Some s \<Longrightarrow> update (wrap s) (wrap x) = None \<Longrightarrow>
    user_step wrap mt set_mt create update remove m (m(meta_key (mt x) \<mapsto> x))"
| deleted: "m k = Some s \<Longrightarrow> remove (wrap s) = None \<Longrightarrow> om_Finalizers (mt s) = [] \<Longrightarrow>
    user_step wrap mt set_mt create update remove m (m(k := None))"
| marked: "m k = Some s \<Longrightarrow> remove (wrap s) = None \<Longrightarrow> om_Finalizers (mt s) \<noteq> [] \<Longrightarrow>
    user_step wrap mt set_mt create update remove m (m(k \<mapsto> set_mt ((mt s)\<lparr>om_DeletionTimestamp := Some now\<rparr>) s))"

text \<open>What holds of every stored object, and what a step keeps of an object that stays stored.\<close>

definition lawful :: "('x \<Rightarrow> ObjectMeta) \<Rightarrow> ('x \<Rightarrow> bool) \<Rightarrow> (objkey \<rightharpoonup> 'x) \<Rightarrow> bool" where
  "lawful mt good m \<longleftrightarrow> (\<forall>k x. m k = Some x \<longrightarrow> meta_key (mt x) = k \<and> good x)"

lemma lawfulD: "lawful mt good m \<Longrightarrow> m k = Some x \<Longrightarrow> meta_key (mt x) = k \<and> good x"
  unfolding lawful_def by blast

definition frozen_in :: "('x \<Rightarrow> 'i) \<Rightarrow> (objkey \<rightharpoonup> 'x) \<Rightarrow> (objkey \<rightharpoonup> 'x) \<Rightarrow> bool" where
  "frozen_in fixed m m' \<longleftrightarrow> (\<forall>k x y. m k = Some x \<longrightarrow> m' k = Some y \<longrightarrow> fixed y = fixed x)"

lemma frozen_in_refl [simp]: "frozen_in fixed m m"
  by (simp add: frozen_in_def)

locale guarded = admission is_kind good frozen dflt create update remove
  for is_kind :: "'o \<Rightarrow> bool" and good and frozen :: "'o \<Rightarrow> 'i" and dflt and create :: "'o \<Rightarrow> 'e option"
    and update and remove +
  fixes wrap :: "'x \<Rightarrow> 'o"
    and mt :: "'x \<Rightarrow> ObjectMeta"
    and set_mt :: "ObjectMeta \<Rightarrow> 'x \<Rightarrow> 'x"
    and spec :: "'x \<Rightarrow> 's"
  assumes kind: "is_kind (wrap x)"
    and meta: "mt (set_mt m x) = m" "spec (set_mt m x) = spec x"
    and good_cong: "spec y = spec x \<Longrightarrow> meta_key (mt y) = meta_key (mt x) \<Longrightarrow> good (wrap y) = good (wrap x)"
    and frozen_cong: "spec y = spec x \<Longrightarrow> frozen (wrap y) = frozen (wrap x)"
begin

lemma user_step_lawful:
  assumes "user_step wrap mt set_mt create update remove m m'" and "lawful mt (good \<circ> wrap) m"
  shows "lawful mt (good \<circ> wrap) m' \<and> frozen_in (frozen \<circ> wrap) m m'"
  using assms
proof cases
  case (created x)
  with assms(2) show ?thesis by (auto simp: lawful_def frozen_in_def create_iff)
next
  case (updated x s)
  with assms(2) show ?thesis by (auto simp: lawful_def frozen_in_def update_iff)
next
  case (deleted k s)
  with assms(2) show ?thesis by (auto simp: lawful_def frozen_in_def)
next
  case (marked k s now)
  let ?y = "set_mt ((mt s)\<lparr>om_DeletionTimestamp := Some now\<rparr>) s"
  have "good (wrap ?y) = good (wrap s)" by (rule good_cong) (simp_all add: meta)
  moreover have "frozen (wrap ?y) = frozen (wrap s)" by (rule frozen_cong) (simp add: meta)
  ultimately show ?thesis using marked assms(2) by (auto simp: lawful_def frozen_in_def meta)
qed

lemma operator_step_lawful:
  assumes "persists own mt spec overdue m m'" and "lawful mt (good \<circ> wrap) m"
  shows "lawful mt (good \<circ> wrap) m' \<and> frozen_in (frozen \<circ> wrap) m m'"
proof -
  have "meta_key (mt y) = k \<and> good (wrap y) \<and> (\<exists>x. m k = Some x \<and> frozen (wrap y) = frozen (wrap x))" if "m' k = Some y" for k y
  proof -
    from persistsD [OF assms(1) that] obtain x where x: "m k = Some x" "passed own mt spec overdue x y" by blast
    from lawfulD [OF assms(2) x(1)] x good_cong [of y x] frozen_cong [of y x] show ?thesis by (simp add: passed_def)
  qed
  then show ?thesis by (fastforce simp: lawful_def frozen_in_def)
qed

end

section \<open>The steps of the cluster\<close>

abbreviation tenant_request :: "(objkey \<rightharpoonup> Tenant) \<Rightarrow> (objkey \<rightharpoonup> Tenant) \<Rightarrow> bool" where
  "tenant_request \<equiv> user_step TenantObject t_meta (\<lambda>m t. t\<lparr>t_meta := m\<rparr>) tenant_ValidateCreate tenant_ValidateUpdate
     tenant_ValidateDelete"

abbreviation env_request :: "(objkey \<rightharpoonup> Environment) \<Rightarrow> (objkey \<rightharpoonup> Environment) \<Rightarrow> bool" where
  "env_request \<equiv> user_step EnvironmentObject e_meta (\<lambda>m e. e\<lparr>e_meta := m\<rparr>) env_ValidateCreate env_ValidateUpdate
     env_ValidateDelete"

abbreviation intg_request :: "(objkey \<rightharpoonup> Integration) \<Rightarrow> (objkey \<rightharpoonup> Integration) \<Rightarrow> bool" where
  "intg_request \<equiv> user_step IntegrationObject i_meta (\<lambda>m i. i\<lparr>i_meta := m\<rparr>) intg_ValidateCreate intg_ValidateUpdate
     intg_ValidateDelete"

inductive cluster_step :: "'w api \<Rightarrow> ('w \<Rightarrow> obs) \<Rightarrow> obs \<Rightarrow> obs \<Rightarrow> bool" for A V where
  tenant_user: "tenant_request (ob_Tenants v) m \<Longrightarrow> cluster_step A V v (v\<lparr>ob_Tenants := m\<rparr>)"
| env_user: "env_request (ob_Environments v) m \<Longrightarrow> cluster_step A V v (v\<lparr>ob_Environments := m\<rparr>)"
| intg_user: "intg_request (ob_Integrations v) m \<Longrightarrow> cluster_step A V v (v\<lparr>ob_Integrations := m\<rparr>)"
| reconcile: "run_state (run_work A x) w = (r, w') \<Longrightarrow> cluster_step A V (V w) (V w')"
| elsewhere: "ob_Tenants v' = ob_Tenants v \<Longrightarrow> ob_Environments v' = ob_Environments v \<Longrightarrow>
    ob_Integrations v' = ob_Integrations v \<Longrightarrow> cluster_step A V v v'"

text \<open>A cluster starts without custom resources.\<close>

inductive reachable :: "'w api \<Rightarrow> ('w \<Rightarrow> obs) \<Rightarrow> obs \<Rightarrow> bool" for A V where
  start: "ob_Tenants v = Map.empty \<Longrightarrow> ob_Environments v = Map.empty \<Longrightarrow> ob_Integrations v = Map.empty \<Longrightarrow> reachable A V v"
| step: "reachable A V v \<Longrightarrow> cluster_step A V v v' \<Longrightarrow> reachable A V v'"

definition all_lawful :: "obs \<Rightarrow> bool" where
  "all_lawful v \<longleftrightarrow> lawful t_meta good_tenant (ob_Tenants v) \<and> lawful e_meta good_env (ob_Environments v) \<and>
     lawful i_meta good_intg (ob_Integrations v)"

text \<open>The namespace prefix of a tenant, and the tenant and the type of an environment or integration.\<close>

definition identities_kept :: "obs \<Rightarrow> obs \<Rightarrow> bool" where
  "identities_kept v v' \<longleftrightarrow>
     frozen_in (\<lambda>t. ts_NamespacePrefix (t_Spec t)) (ob_Tenants v) (ob_Tenants v') \<and>
     frozen_in (\<lambda>e. (tr_Name (es_TenantRef (e_Spec e)), es_Type (e_Spec e))) (ob_Environments v) (ob_Environments v') \<and>
     frozen_in (\<lambda>i. (tr_Name (is_TenantRef (i_Spec i)), is_Type (i_Spec i))) (ob_Integrations v) (ob_Integrations v')"

interpretation tenant_guard: guarded
    "\<lambda>obj. \<exists>t. obj = TenantObject t"
    "\<lambda>obj. case obj of TenantObject t \<Rightarrow> good_tenant t | _ \<Rightarrow> False"
    "\<lambda>obj. case obj of TenantObject t \<Rightarrow> ts_NamespacePrefix (t_Spec t) | _ \<Rightarrow> []"
    tenant_Default tenant_ValidateCreate tenant_ValidateUpdate tenant_ValidateDelete
    TenantObject t_meta "\<lambda>m t. t\<lparr>t_meta := m\<rparr>" t_Spec
  by unfold_locales (auto simp: good_tenant_def derived_namespace_def meta_key_def)

interpretation env_guard: guarded
    "\<lambda>obj. \<exists>e. obj = EnvironmentObject e"
    "\<lambda>obj. case obj of EnvironmentObject e \<Rightarrow> good_env e | _ \<Rightarrow> False"
    "\<lambda>obj. case obj of EnvironmentObject e \<Rightarrow> (tr_Name (es_TenantRef (e_Spec e)), es_Type (e_Spec e)) | _ \<Rightarrow> ([], [])"
    env_Default env_ValidateCreate env_ValidateUpdate env_ValidateDelete
    EnvironmentObject e_meta "\<lambda>m e. e\<lparr>e_meta := m\<rparr>" e_Spec
  by unfold_locales (auto simp: good_env_def)

interpretation intg_guard: guarded
    "\<lambda>obj. \<exists>i. obj = IntegrationObject i"
    "\<lambda>obj. case obj of IntegrationObject i \<Rightarrow> good_intg i | _ \<Rightarrow> False"
    "\<lambda>obj. case obj of IntegrationObject i \<Rightarrow> (tr_Name (is_TenantRef (i_Spec i)), is_Type (i_Spec i)) | _ \<Rightarrow> ([], [])"
    intg_Default intg_ValidateCreate intg_ValidateUpdate intg_ValidateDelete
    IntegrationObject i_meta "\<lambda>m i. i\<lparr>i_meta := m\<rparr>" i_Spec
  by unfold_locales (auto simp: good_intg_def)

lemmas user_steps_lawful =
  tenant_guard.user_step_lawful [unfolded comp_def RuntimeObject.case]
  env_guard.user_step_lawful [unfolded comp_def RuntimeObject.case]
  intg_guard.user_step_lawful [unfolded comp_def RuntimeObject.case]

lemmas operator_steps_lawful =
  tenant_guard.operator_step_lawful [unfolded comp_def RuntimeObject.case]
  env_guard.operator_step_lawful [unfolded comp_def RuntimeObject.case]
  intg_guard.operator_step_lawful [unfolded comp_def RuntimeObject.case]

lemma cluster_step_lawful:
  assumes ok: "api_ok A V" and law: "deletes_gracefully A V"
    and step: "cluster_step A V v v'" and lawful: "all_lawful v"
  shows "all_lawful v' \<and> identities_kept v v'"
  using step
proof cases
  case (tenant_user m)
  with lawful user_steps_lawful(1) show ?thesis by (auto simp: all_lawful_def identities_kept_def)
next
  case (env_user m)
  with lawful user_steps_lawful(2) show ?thesis by (auto simp: all_lawful_def identities_kept_def)
next
  case (intg_user m)
  with lawful user_steps_lawful(3) show ?thesis by (auto simp: all_lawful_def identities_kept_def)
next
  case (reconcile x w r w')
  have "wp (run_work A x) (\<lambda>_ w'. operator_keeps (\<lambda>_. True) (V w) (V w')) w"
    by (rule holdsD [OF run_work_kept [OF ok clock_any law]]) simp_all
  from wpD [OF this reconcile(3)] have keeps: "operator_keeps (\<lambda>_. True) v v'" by (simp add: reconcile)
  with lawful operator_steps_lawful show ?thesis
    unfolding all_lawful_def identities_kept_def operator_keeps_def by meson
next
  case elsewhere
  with lawful show ?thesis by (simp add: all_lawful_def identities_kept_def)
qed

lemma reachable_lawful:
  assumes "reachable A V v" and "api_ok A V" and "deletes_gracefully A V"
  shows "all_lawful v"
  using assms(1)
proof induction
  case (start v)
  then show ?case by (simp add: all_lawful_def lawful_def)
next
  case (step v v')
  with cluster_step_lawful [OF assms(2,3)] show ?case by blast
qed

lemma reachable_works: "holds V (reachable A V) (run_works A xs) (\<lambda>_. True)"
proof (induction xs)
  case (Cons x xs)
  have "holds V (reachable A V) (run_work A x) (\<lambda>_. True)"
    by (rule holdsI, rule wp_runI) (auto intro: reachable.step cluster_step.reconcile)
  with Cons show ?case by (auto intro!: holds_then holds_return_any)
qed (simp add: holds_return_any)

text \<open>C8: Users, webhooks and controllers together. Along any interleaving of requests that the webhooks
  admit with reconciles of the three controllers, every stored tenant, environment and integration is
  one that the webhooks would admit, under its own name; and no step changes the namespace prefix of a
  tenant, or the tenant or type of an environment or integration, while the object stays stored.\<close>

theorem cluster_stays_admitted:
  assumes "api_ok A V" and "deletes_gracefully A V" and "reachable A V v"
  shows "all_lawful v \<and> (\<forall>v'. cluster_step A V v v' \<longrightarrow> all_lawful v' \<and> identities_kept v v')"
  using reachable_lawful [OF assms(3,1,2)] cluster_step_lawful [OF assms(1,2)] by blast

text \<open>A user creates a tenant, the controller adopts and provisions it.\<close>

definition first_world :: mworld where
  "first_world = mw_empty\<lparr>mw_Tenants := [(([], ''acme''), some_tenant)]\<rparr>"

definition provisioned_world :: mworld where
  "provisioned_world = snd (run_state (run_works mem_api [TenantWork ([], ''acme''), TenantWork ([], ''acme'')]) first_world)"

lemma provisioned_reachable: "reachable mem_api m_obs (m_obs provisioned_world)"
proof -
  have "reachable mem_api m_obs (m_obs mw_empty)" by (rule reachable.start) (simp_all add: m_obs_def mw_empty_def)
  moreover have "m_obs first_world = (m_obs mw_empty)\<lparr>ob_Tenants := (ob_Tenants (m_obs mw_empty))(meta_key (t_meta some_tenant) \<mapsto> some_tenant)\<rparr>"
    by (simp add: m_obs_def first_world_def mw_empty_def some_tenant_def new_meta_def meta_key_def fun_eq_iff)
  moreover have "tenant_request (ob_Tenants (m_obs mw_empty))
      ((ob_Tenants (m_obs mw_empty))(meta_key (t_meta some_tenant) \<mapsto> some_tenant))"
    by (rule user_step.created) (simp add: m_obs_def mw_empty_def, code_simp)
  ultimately have "reachable mem_api m_obs (m_obs first_world)"
    by (metis reachable.step cluster_step.tenant_user)
  then have "wp (run_works mem_api [TenantWork ([], ''acme''), TenantWork ([], ''acme'')])
      (\<lambda>_ w'. reachable mem_api m_obs (m_obs w')) first_world"
    by (rule holdsD [OF reachable_works])
  then show ?thesis by (simp add: provisioned_world_def wp_def split: prod.splits)
qed

lemma cluster_stays_admitted_witness:
  "all_lawful (m_obs provisioned_world) \<and>
   map_option (\<lambda>t. (om_Finalizers (t_meta t), tst_Phase (t_Status t), tst_Namespace (t_Status t)))
     (ob_Tenants (m_obs provisioned_world) ([], ''acme'')) =
     Some ([TenantFinalizer], TenantPhaseActive, ''tenant-acme'')"
proof
  show "all_lawful (m_obs provisioned_world)"
    using cluster_stays_admitted [OF mem_api_ok mem_deletes_gracefully provisioned_reachable] by blast
qed code_simp

end
