(* ===== verification/Spec2Isabelle.thy ===== *)
theory Spec2Isabelle
  imports Together Registration DeepCopy Cluster
begin

text \<open>
  The Unified Platform Operator, a Kubernetes operator in Go. Three controllers of
  \<open>internal/controller\<close> converge the custom resources Tenant, Environment and Integration of
  \<open>api/v1alpha1\<close>: a Tenant becomes a namespace with quota, limits, network policy and admin binding;
  an Environment becomes a workload namespace of its tenant, delivered to by Argo CD or Flux; an
  Integration becomes a connection secret and a health state kept by an HTTP probe with retries. They
  share the primitives of \<open>internal/platform\<close>, the conditions of \<open>pkg/conditions\<close>, the metrics of
  \<open>internal/metrics\<close>, and the admission webhooks of \<open>internal/webhook/v1alpha1\<close> guard what they see.

  How the code is modelled. A method is a value of the state monad over a type \<open>'w\<close> of worlds that the
  code never inspects; everything outside \<open>src/\<close> that it calls (the Kubernetes client,
  controllerutil, the meta helpers, the Prometheus vectors, the event recorder, the clock, the HTTP
  transport) is a field of the record \<open>'w api\<close>, an argument of the definitions. A pointer to an object
  that methods share is an argument and a result; an error is an option or the left of a sum; an
  int32 or int64 is a word and a duration a 64-bit word, with the wrap-around of Go. Theorems about
  effects are weakest preconditions over what an observer sees of the world, \<open>V w\<close>, under the
  documented laws \<open>api_ok\<close> of the API; since the model is total they are total-correctness facts. The
  laws are met by the in-memory API server of theory MemApi, on which the witnesses run the code.

  The theories:
  \<^item> Prelude: strings, maps, errors, \<open>fmt\<close> verbs, durations, weakest preconditions.
  \<^item> Labels, ApiTypes, KubeTypes: \<open>labels.go\<close>, the API types of \<open>api/v1alpha1\<close>, the Kubernetes objects.
  \<^item> ClusterApi, ApiLaws, ApiRules: the calls out of the program, their laws, and the proof rules the
    laws give. MemApi: a cluster that meets the laws, with faults to inject.
  \<^item> Converge: the contract of create-or-update with a mutate closure (locales \<open>provisioner\<close>, \<open>converging\<close>), interpreted by
    every provisioning primitive. Provision: \<open>namespace.go\<close>, \<open>quota.go\<close>, \<open>networkpolicy.go\<close>, \<open>rbac.go\<close>,
    \<open>config.go\<close>, \<open>util.go\<close>. Connector: \<open>profiles.go\<close> and \<open>connector.go\<close>. GitOps: \<open>gitops.go\<close>.
  \<^item> Conditions (locale \<open>status_conditions\<close>) and Metrics (locale \<open>phase_exporter\<close>): the two packages.
  \<^item> GoUrl, Webhooks: the part of \<open>url.Parse\<close> the webhooks use, and the three pairs of webhooks (locale
    \<open>admission\<close>).
  \<^item> ControllerBase: \<open>index.go\<close>, the accounting of a reconcile, and the frame of a \<open>Reconcile\<close> method
    (locale \<open>controller\<close>). Reporting: \<open>setPhase\<close>, \<open>updateStatus\<close>, \<open>fail\<close> and the end of \<open>finalize\<close> (locales
    \<open>reporter\<close>, \<open>releaser\<close>).
  \<^item> TenantController, EnvironmentController, IntegrationController: the methods of the three controllers
    with the prefixes \<open>tenant_\<close>, \<open>env_\<close> and \<open>intg_\<close>, their rules, and the interpretation of the locales.
    Backoff: \<open>computeBackoff\<close>. IntegrationRuns: repeated reconciles of an integration and the retry
    machine they implement.
  \<^item> Calm: when the calls and the primitives return no error: the laws \<open>calm\<close> of a cluster that refuses
    nothing. Progress: what the three controllers then achieve within one or two reconciles.
  \<^item> Manager: \<open>cmd/main.go\<close>, \<open>tracing.go\<close>, the \<open>SetupWithManager\<close> methods and the registration of the
    webhooks, over a record \<open>'w host\<close> of the library calls of the startup.
  \<^item> Registration: \<open>groupversion_info.go\<close> and the \<open>init\<close> functions, which fill the scheme of the manager, over
    a record of the library calls.
  \<^item> GoHeap, DeepCopy: memory with the pointers, slices and maps of Go, and on it the functions of
    \<open>zz_generated.deepcopy.go\<close> for every type of the API (locale \<open>runtime_object\<close>).
  \<^item> Interleaving: what no sequence of reconciles of the three controllers does to a custom resource
    (locales \<open>custodian\<close>, \<open>steward\<close>, \<open>keeper\<close>). Cluster: requests of users, webhooks and reconciles in any
    order, as a step relation (locale \<open>guarded\<close>).
  \<^item> Together: in a calm cluster, a new tenant and a new environment of it come up.
  \<^item> This theory: the properties that span a tenant and its environments, and all controllers.

  What is shown. For each controller: a reconcile without error leaves the cluster as the spec says
  and reports it; it writes no other object; an error is reported; the finalizer is given up only
  after the teardown; every call is counted once; and in a calm cluster it does return without error,
  so a new tenant is up after two reconciles, an environment or integration is answered in one, and a
  deleted object is gone after one. For the primitives: what the object written looks like,
  idempotence, and what is removed. For the webhooks: what is admitted stays well formed along any
  history, and the namespace derived from a tenant stays valid and in place. For all of them together:
  whatever is reconciled in whatever order, the operator creates no custom resource, changes no spec
  and lets go only of what users asked to delete or what has expired, and every stored resource stays
  as the webhooks admit it. For the integrations: the status follows a retry machine, and the backoff
  on wrapping integers is the exponential one within stated bounds. For the startup: it is a list of
  steps, ended by the first that fails, with the field index registered once; and a change of a child
  enqueues its tenant, whose counts are then refreshed. For the packages: conditions read back as they
  were marked, and the metrics calls fit the collectors. For the types: the deep copies share no
  memory with their originals, which is what lets the rest of the development treat an object that the
  code copies as a value, and the scheme knows every kind in use. Some theorems record what the code
  does against its documentation: they are named in the findings of the manifest.

  Bounds. There is no fuel: the loops are over lists and finite maps. Times are unbounded numbers of
  nanoseconds; \<open>time.Duration\<close> and the retry count have their width, and the theorems state the range
  they need (initial delays below 2^47 ns, fewer than 2^31 consecutive failures).

  Not modelled. Logging and spans, which have no effect on what the operator does to the cluster, with
  the flags of the logger; the work queue and the watches themselves, which are the library's (the
  builders are data here, and the map function of the tenant's watches a definition). Reconciles and
  requests are interleaved as wholes: the laws describe a cluster with no other writer during a
  reconcile, so write conflicts appear only as errors that a call may return. A stored
  \<open>metav1.Time\<close> keeps its nanoseconds here, while the API server truncates it to seconds.
\<close>

section \<open>The three controllers\<close>



text \<open>C37: The finalizer comes first. When a controller meets an object that is not being deleted and does
  not carry its finalizer, it adds the finalizer and does nothing else: no resource is provisioned for
  an object whose teardown is not yet guaranteed. Without an error the finalizer is stored and the
  spec unchanged.\<close>

theorem finalizer_comes_first:
  assumes "api_ok A V"
    and "ob_Tenants (V w) treq = Some t" "om_DeletionTimestamp (t_meta t) = None"
      "TenantFinalizer \<notin> set (om_Finalizers (t_meta t))"
    and "ob_Environments (V w) ereq = Some e" "om_DeletionTimestamp (e_meta e) = None"
      "EnvironmentFinalizer \<notin> set (om_Finalizers (e_meta e))"
    and "ob_Integrations (V w) ireq = Some i" "om_DeletionTimestamp (i_meta i) = None"
      "IntegrationFinalizer \<notin> set (om_Finalizers (i_meta i))"
  shows "wp (tenant_Reconcile A treq) (\<lambda>(res, err) w'. res = no_requeue \<and>
       (\<exists>m n. V w' = (ob_Tenants_update (\<lambda>s. s(treq := m)) (V w))\<lparr>ob_ReconcileTotal := n\<rparr>) \<and>
       (err = None \<longrightarrow> (\<exists>x. ob_Tenants (V w') treq = Some x \<and> TenantFinalizer \<in> set (om_Finalizers (t_meta x)) \<and>
          t_Spec x = t_Spec t))) w \<and>
     wp (env_Reconcile A ereq) (\<lambda>(res, err) w'. res = no_requeue \<and>
       (\<exists>m n. V w' = (ob_Environments_update (\<lambda>s. s(ereq := m)) (V w))\<lparr>ob_ReconcileTotal := n\<rparr>) \<and>
       (err = None \<longrightarrow> (\<exists>x. ob_Environments (V w') ereq = Some x \<and>
          EnvironmentFinalizer \<in> set (om_Finalizers (e_meta x)) \<and> e_Spec x = e_Spec e))) w \<and>
     wp (intg_Reconcile A None ireq) (\<lambda>(res, err) w'. res = no_requeue \<and>
       (\<exists>m n. V w' = (ob_Integrations_update (\<lambda>s. s(ireq := m)) (V w))\<lparr>ob_ReconcileTotal := n\<rparr>) \<and>
       (err = None \<longrightarrow> (\<exists>x. ob_Integrations (V w') ireq = Some x \<and>
          IntegrationFinalizer \<in> set (om_Finalizers (i_meta x)) \<and> i_Spec x = i_Spec i))) w"
proof (intro conjI, goal_cases)
  case 1
  show ?case by (rule wp_mono [OF tenants.adopts_first [OF assms(1-4)]]) auto
next
  case 2
  show ?case by (rule wp_mono [OF environments.adopts_first [OF assms(1,5-7)]]) auto
next
  case 3
  show ?case by (rule wp_mono [OF integrations.adopts_first [OF assms(1,8-10)]]) auto
qed

text \<open>A cluster in which each controller finds a new object.\<close>

definition new_intg :: Integration where
  "new_intg = billing\<lparr>i_meta := (i_meta billing)\<lparr>om_Finalizers := []\<rparr>\<rparr>"

definition fresh_world :: mworld where
  "fresh_world = mw_empty\<lparr>mw_Tenants := [(([], ''acme''), new_tenant)],
     mw_Environments := [((''team'', ''dev''), new_env)], mw_Integrations := [((''team'', ''billing''), new_intg)]\<rparr>"

lemma finalizer_comes_first_witness:
  "wp (env_Reconcile mem_api (''team'', ''dev'')) (\<lambda>(res, err) w'. res = no_requeue \<and>
       (\<exists>m n. m_obs w' = (ob_Environments_update (\<lambda>s. s((''team'', ''dev'') := m)) (m_obs fresh_world))\<lparr>ob_ReconcileTotal := n\<rparr>) \<and>
       (err = None \<longrightarrow> (\<exists>x. ob_Environments (m_obs w') (''team'', ''dev'') = Some x \<and>
          EnvironmentFinalizer \<in> set (om_Finalizers (e_meta x)) \<and> e_Spec x = e_Spec new_env))) fresh_world"
  by (rule finalizer_comes_first [OF mem_api_ok, where treq = "([], ''acme'')" and t = new_tenant and
        ireq = "(''team'', ''billing'')" and i = new_intg, THEN conjunct2, THEN conjunct1])
    (simp_all add: m_obs_def fresh_world_def new_tenant_def live_tenant_def new_env_def live_env_def argo_env_def
      new_intg_def billing_def new_meta_def)

section \<open>A tenant and its environment\<close>

text \<open>Reconciling a tenant and then one of its environments.\<close>

definition tenant_then_env :: "'w api \<Rightarrow> Tenant \<Rightarrow> Environment \<Rightarrow> ('w, (Result \<times> go_err option) \<times> Result \<times> go_err option) state" where
  "tenant_then_env A t e = do {
     r \<leftarrow> tenant_reconcileTenant A t;
     s \<leftarrow> env_reconcileEnvironment A e;
     State_Monad.return (r, s)
   }"

text \<open>C4: The controllers compose. Reconcile a tenant and then one of its environments that is neither
  suspended nor has a time to live; if both return without error, the environment has found its
  tenant's namespace: its workload namespace is the tenant's namespace, a dash and its own name, it is
  provisioned and reported as Ready, and everything provisioned for the tenant is still as it was.\<close>

theorem tenant_then_env_converges:
  assumes "api_ok A V" and "om_Namespace (t_meta t) = []" and "tr_Name (es_TenantRef (e_Spec e)) = om_Name (t_meta t)"
    and "\<not> es_Suspend (e_Spec e)" and "env_expiry e = None"
  shows "wp (tenant_then_env A t e) (\<lambda>(r, s) w'. snd r = None \<longrightarrow> snd s = None \<longrightarrow>
     tenant_provisioned A t (V w') \<and>
     (\<exists>t' sync. ob_Tenants (V w') ([], om_Name (t_meta t)) = Some t' \<and>
        env_target t' e = tenant_namespace t @ ''-'' @ om_Name (e_meta e) \<and>
        (\<exists>secs. env_provisioned A t' e secs sync (V w')) \<and> env_reported A t' e sync (V w'))) w"
  unfolding tenant_then_env_def wp_simps
proof (rule tenant_reconcileTenant_rule [OF assms(1)], goal_cases)
  case (1 w1)
  from 1(3) obtain t' where t': "ob_Tenants (V w1) ([], om_Name (t_meta t)) = Some t'"
    "tst_Namespace (t_Status t') = tenant_namespace t"
    using assms(2) by (auto simp: tenant_reported_def Let_def meta_key_def)
  have tgt: "env_target t' e = tenant_namespace t @ ''-'' @ om_Name (e_meta e)" by (simp add: env_target_def t'(2))
  have ready: "owner_ready (V w1) e t'"
    using t' assms(3) by (simp add: owner_ready_def tenant_namespace_def Let_def)
  have one: "x = t'" if "owner_ready (V w1) e x" for x using that ready by (simp add: owner_ready_def)
  show ?case
  proof (rule env_reconcileEnvironment_rule [OF assms(1) clock_any], goal_cases)
    case (6 x s now w2)
    with one have x: "x = t'" by blast
    with 6(4) tgt have foot: "env_footprint e (tenant_namespace t @ ''-'' @ om_Name (e_meta e)) (V w1) (V w2)" by simp
    from env_footprint_spares_tenant [OF foot refl 1(2)] have "tenant_provisioned A t (V w2)" .
    moreover have "ob_Tenants (V w2) = ob_Tenants (V w1)" using foot by (simp add: env_footprint_def)
    ultimately show ?case using 6(5,6) t'(1) tgt x by auto
  next
    case 4 with ready show ?case by blast
  qed (use assms(4,5) in simp_all)
qed (simp_all add: wp_any)

lemma tenant_then_env_converges_witness:
  "wp (tenant_then_env mem_api live_tenant live_env) (\<lambda>(r, s) w'. snd r = None \<longrightarrow> snd s = None \<longrightarrow>
     tenant_provisioned mem_api live_tenant (m_obs w') \<and>
     (\<exists>t' sync. ob_Tenants (m_obs w') ([], om_Name (t_meta live_tenant)) = Some t' \<and>
        env_target t' live_env = tenant_namespace live_tenant @ ''-'' @ om_Name (e_meta live_env) \<and>
        (\<exists>secs. env_provisioned mem_api t' live_env secs sync (m_obs w')) \<and>
        env_reported mem_api t' live_env sync (m_obs w')))
     (tenant_world\<lparr>mw_Environments := [((''team'', ''dev''), live_env)]\<rparr>)"
  by (rule tenant_then_env_converges [OF mem_api_ok])
    (simp_all add: live_tenant_def live_env_def argo_env_def new_meta_def env_expiry_def upo_consts)

section \<open>Admission and the controllers\<close>

text \<open>The webhook and the controller derive the same namespace, although each has its own code for it.\<close>

lemma derived_namespace_agrees: "derived_namespace t = tenant_namespace t"
  by (simp add: derived_namespace_def tenant_namespace_def Let_def)

text \<open>C36: Admission keeps the tenant's namespace valid and in its place. Along any history of admitted
  updates, as long as the object keeps its name, the controller derives the same namespace from every
  version, and its name has at most 63 characters, the limit of Kubernetes.\<close>

theorem admitted_namespace_stable:
  assumes "history tenant_ValidateCreate tenant_ValidateUpdate (TenantObject t0) (TenantObject t)"
    and "om_Name (t_meta t) = om_Name (t_meta t0)"
  shows "tenant_namespace t = tenant_namespace t0 \<and> length (tenant_namespace t) \<le> 63"
  using tenant_hook.history_invariant [OF assms(1)] assms(2)
  by (simp add: good_tenant_def derived_namespace_agrees) (simp add: tenant_namespace_def)

lemma admitted_namespace_stable_witness:
  "tenant_namespace (live_tenant\<lparr>t_Status := t_Status owning_tenant\<rparr>) = tenant_namespace live_tenant \<and>
   length (tenant_namespace (live_tenant\<lparr>t_Status := t_Status owning_tenant\<rparr>)) \<le> 63"
proof (rule admitted_namespace_stable)
  have "tenant_ValidateCreate (TenantObject live_tenant) = None" by code_simp
  moreover have "tenant_ValidateUpdate (TenantObject live_tenant)
      (TenantObject (live_tenant\<lparr>t_Status := t_Status owning_tenant\<rparr>)) = None" by code_simp
  ultimately show "history tenant_ValidateCreate tenant_ValidateUpdate (TenantObject live_tenant)
      (TenantObject (live_tenant\<lparr>t_Status := t_Status owning_tenant\<rparr>))"
    by (blast intro: history.intros)
qed simp


definition other_tenant :: Tenant where
  "other_tenant = live_tenant\<lparr>t_meta := (t_meta live_tenant)\<lparr>om_Name := ''acme-dev''\<rparr>\<rparr>"


end
